(* ===== verification/Prelude.thy ===== *)
theory Prelude
  imports Main "HOL-Library.State_Monad"
begin

text \<open>
  Shared infrastructure of the development: the state monad in which every
  handler of the operator is written, Go panics as a value of their own, the
  range loop with an early return, and a small calculus of weakest
  preconditions in which the proofs about handlers are done.

  A Go function that returns \<open>(T, error)\<close> is a HOL function whose result
  is \<open>go_error + 'a\<close>, or a pair of a result and an optional error where Go
  returns both.  A function that can panic returns an \<open>outcome\<close>.
\<close>

named_theorems wp_rules \<open>equations that push a weakest precondition through a handler\<close>

abbreviation ret :: "'a \<Rightarrow> ('s, 'a) state" where
  "ret \<equiv> State_Monad.return"

section \<open>Lists\<close>

lemma find_app: "List.find P (xs @ ys) = (case List.find P xs of Some x \<Rightarrow> Some x | None \<Rightarrow> List.find P ys)"
  by (induction xs) auto

lemma find_in: "List.find P xs = Some x \<Longrightarrow> x \<in> set xs \<and> P x"
  by (induction xs) (auto split: if_splits)

section \<open>Panics\<close>

text \<open>
  A panic is not an error value: it skips the rest of the caller.  \<open>Ret\<close> is a
  normal return, \<open>Panic\<close> carries the run-time error of Go.
\<close>

datatype 'a outcome = Ret 'a | Panic string

definition obind :: "('s, 'a outcome) state \<Rightarrow> ('a \<Rightarrow> ('s, 'b outcome) state) \<Rightarrow> ('s, 'b outcome) state" where
  "obind m f = do { r \<leftarrow> m; case r of Panic p \<Rightarrow> ret (Panic p) | Ret a \<Rightarrow> f a }"

definition lift :: "('s, 'a) state \<Rightarrow> ('s, 'a outcome) state" where
  "lift m = do { a \<leftarrow> m; ret (Ret a) }"

section \<open>The range loop with an early return\<close>

text \<open>
  \<open>for _, x := range xs { ... return r ... }\<close>: the body gives \<open>Some r\<close> to
  return from the enclosing function and \<open>None\<close> to go on.
\<close>

fun for_each :: "('a \<Rightarrow> ('s, 'r option) state) \<Rightarrow> 'a list \<Rightarrow> ('s, 'r option) state" where
  "for_each f [] = ret None"
| "for_each f (x # xs) =
     do { r \<leftarrow> f x; case r of Some e \<Rightarrow> ret (Some e) | None \<Rightarrow> for_each f xs }"

section \<open>Weakest preconditions\<close>

definition wp :: "('s, 'a) state \<Rightarrow> ('a \<Rightarrow> 's \<Rightarrow> bool) \<Rightarrow> 's \<Rightarrow> bool" where
  "wp m Q s = (case run_state m s of (a, t) \<Rightarrow> Q a t)"

lemma wp_ret [simp, wp_rules]: "wp (ret a) Q = Q a"
  by (simp add: wp_def fun_eq_iff)

lemma wp_bind [simp, wp_rules]: "wp (State_Monad.bind m f) Q s = wp m (\<lambda>a. wp (f a) Q) s"
  by (simp add: wp_def split: prod.split)

lemma wp_if [simp, wp_rules]:
  "wp (if b then m else n) Q s = (if b then wp m Q s else wp n Q s)"
  by simp

lemma wp_case_sum [simp, wp_rules]:
  "wp (case x of Inl e \<Rightarrow> f e | Inr a \<Rightarrow> g a) Q s
     = (case x of Inl e \<Rightarrow> wp (f e) Q s | Inr a \<Rightarrow> wp (g a) Q s)"
  by (cases x) auto

lemma wp_case_option [simp, wp_rules]:
  "wp (case x of None \<Rightarrow> m | Some a \<Rightarrow> g a) Q s
     = (case x of None \<Rightarrow> wp m Q s | Some a \<Rightarrow> wp (g a) Q s)"
  by (cases x) auto

lemma wp_case_outcome [simp, wp_rules]:
  "wp (case x of Ret a \<Rightarrow> f a | Panic p \<Rightarrow> g p) Q s
     = (case x of Ret a \<Rightarrow> wp (f a) Q s | Panic p \<Rightarrow> wp (g p) Q s)"
  by (cases x) auto

lemma wp_case_list [simp, wp_rules]:
  "wp (case x of [] \<Rightarrow> m | a # as \<Rightarrow> g a as) Q s
     = (case x of [] \<Rightarrow> wp m Q s | a # as \<Rightarrow> wp (g a as) Q s)"
  by (cases x) auto

lemma wp_case_prod [simp, wp_rules]:
  "wp (case x of (a, b) \<Rightarrow> f a b) Q s = (case x of (a, b) \<Rightarrow> wp (f a b) Q s)"
  by (cases x) auto

lemma wp_Let [wp_rules]: "wp (let x = v in f x) Q s = wp (f v) Q s"
  by (simp add: Let_def)

lemma wp_obind [simp, wp_rules]:
  "wp (obind m f) Q s
     = wp m (\<lambda>r. case r of Panic p \<Rightarrow> Q (Panic p) | Ret a \<Rightarrow> wp (f a) Q) s"
  by (auto simp: obind_def wp_def split: prod.splits outcome.splits)

lemma wp_lift [simp, wp_rules]: "wp (lift m) Q s = wp m (\<lambda>a. Q (Ret a)) s"
  by (simp add: lift_def)

lemma wp_mono: "wp m Q s \<Longrightarrow> (\<And>a t. Q a t \<Longrightarrow> R a t) \<Longrightarrow> wp m R s"
  by (auto simp: wp_def split: prod.splits)

lemma wp_conj: "wp m (\<lambda>a t. Q a t \<and> R a t) s \<longleftrightarrow> wp m Q s \<and> wp m R s"
  by (auto simp: wp_def split: prod.splits)

lemma wp_True [simp]: "wp m (\<lambda>_ _. True) s"
  by (simp add: wp_def split: prod.splits)

text \<open>
  The rule for the loop: an invariant over the state that every pass keeps, with
  the postcondition for an early return and the one for running to the end.
\<close>

lemma wp_for_each:
  assumes start: "I s"
    and body: "\<And>x t. x \<in> set xs \<Longrightarrow> I t \<Longrightarrow>
      wp (f x) (\<lambda>r u. case r of None \<Rightarrow> I u | Some e \<Rightarrow> Q (Some e) u) t"
    and fin: "\<And>t. I t \<Longrightarrow> Q None t"
  shows "wp (for_each f xs) Q s"
  using start body
proof (induction xs arbitrary: s)
  case Nil
  then show ?case by (simp add: fin)
next
  case (Cons x xs)
  have "wp (f x) (\<lambda>r u. case r of None \<Rightarrow> I u | Some e \<Rightarrow> Q (Some e) u) s"
    using Cons.prems by simp
  moreover have "wp (for_each f xs) Q u" if "I u" for u
    using Cons.IH [OF that] Cons.prems(2) by simp
  ultimately show ?case
    by (auto elim!: wp_mono split: option.splits)
qed

end
