(* ===== verification/Go_Lib.thy ===== *)
theory Go_Lib
  imports Prelude
begin

text \<open>
  The part of the Go language and standard library that the operator uses: the
  \<open>strings\<close> package on byte strings, \<open>strconv.ParseBool\<close>, \<open>cmp.Or\<close>, base64,
  the \<open>{{index . "key"}}\<close> actions of \<open>text/template\<close>, string maps (nil or
  not) and error values.

  A Go string or byte slice is a \<open>string\<close>, one \<open>char\<close> per byte.  \<open>EqualFold\<close>
  and \<open>ToLower\<close> fold ASCII letters only; the operator applies them to provider
  types, which are ASCII.
\<close>

section \<open>Package strings\<close>

definition has_prefix :: "string \<Rightarrow> string \<Rightarrow> bool" where
  "has_prefix s p = (take (length p) s = p)"

definition has_suffix :: "string \<Rightarrow> string \<Rightarrow> bool" where
  "has_suffix s p = (length p \<le> length s \<and> drop (length s - length p) s = p)"

definition trim_suffix :: "string \<Rightarrow> string \<Rightarrow> string" where
  "trim_suffix s p = (if has_suffix s p then take (length s - length p) s else s)"

definition cut_prefix :: "string \<Rightarrow> string \<Rightarrow> string" where
  "cut_prefix s p = (if has_prefix s p then drop (length p) s else s)"

text \<open>The first occurrence of \<open>p\<close>: what stands before it and after it.\<close>

fun cut_at :: "string \<Rightarrow> string \<Rightarrow> (string \<times> string) option" where
  "cut_at p [] = (if p = [] then Some ([], []) else None)"
| "cut_at p (c # cs) =
     (if has_prefix (c # cs) p then Some ([], drop (length p) (c # cs))
      else map_option (\<lambda>(a, b). (c # a, b)) (cut_at p cs))"

definition contains :: "string \<Rightarrow> string \<Rightarrow> bool" where
  "contains s p = (cut_at p s \<noteq> None)"

lemma has_prefix_append [simp]: "has_prefix (p @ s) p"
  by (simp add: has_prefix_def)

lemma has_prefix_conv: "has_prefix s p \<longleftrightarrow> (\<exists>t. s = p @ t)"
  by (metis append_take_drop_id has_prefix_append has_prefix_def)

lemma has_suffix_append [simp]: "has_suffix (s @ p) p"
  by (simp add: has_suffix_def)

lemma has_suffix_conv: "has_suffix s p \<longleftrightarrow> (\<exists>t. s = t @ p)"
  by (metis append_take_drop_id has_suffix_append has_suffix_def)

lemma trim_suffix_append [simp]: "trim_suffix (s @ p) p = s"
  by (simp add: trim_suffix_def)

lemma trim_suffix_cases:
  obtains (trimmed) t where "s = t @ p" "trim_suffix s p = t"
  | (kept) "\<not> has_suffix s p" "trim_suffix s p = s"
  by (metis has_suffix_conv trim_suffix_append trim_suffix_def)

lemma cut_Some: "cut_at p s = Some (a, b) \<Longrightarrow> s = a @ p @ b"
proof (induction s arbitrary: a)
  case Nil
  then show ?case by (simp split: if_splits)
next
  case (Cons c cs)
  show ?case
  proof (cases "has_prefix (c # cs) p")
    case True
    with Cons.prems show ?thesis
      by (metis append_Nil append_take_drop_id cut_at.simps(2) has_prefix_def option.inject prod.inject)
  next
    case False
    with Cons.prems Cons.IH show ?thesis by auto
  qed
qed

lemma cut_None_drop: "cut_at p (a @ p @ b) \<noteq> None"
proof (induction a)
  case Nil
  then show ?case by (cases "p @ b") (auto, metis append_Nil2 has_prefix_append)
next
  case (Cons c a)
  then show ?case by (auto simp: option.map_disc_iff)
qed

lemma contains_conv: "contains s p \<longleftrightarrow> (\<exists>a b. s = a @ p @ b)"
  by (metis contains_def cut_None_drop cut_Some option.exhaust surj_pair)

lemma cut_length: "cut_at p s = Some (a, b) \<Longrightarrow> p \<noteq> [] \<Longrightarrow> length b < length s"
  by (drule cut_Some) simp

text \<open>\<open>strings.ReplaceAll\<close> for a non-empty pattern.\<close>

function replace_all :: "string \<Rightarrow> string \<Rightarrow> string \<Rightarrow> string" where
  "replace_all s old new =
     (if old = [] then s
      else case cut_at old s of
        None \<Rightarrow> s
      | Some (a, b) \<Rightarrow> a @ new @ replace_all b old new)"
  by pat_completeness auto
termination
  by (relation "measure (\<lambda>(s, old, new). length s)") (auto dest: cut_length)

declare replace_all.simps [simp del]

lemma replace_all_absent: "\<not> contains s old \<Longrightarrow> replace_all s old new = s"
  by (subst replace_all.simps) (simp add: contains_def split: option.split)

lemma replace_all_cut:
  "old \<noteq> [] \<Longrightarrow> cut_at old s = Some (a, b) \<Longrightarrow>
   replace_all s old new = a @ new @ replace_all b old new"
  by (subst replace_all.simps) simp

text \<open>\<open>strings.Split\<close> at a one-byte separator, \<open>strings.Join\<close>, \<open>SplitN(s, sep, 2)\<close>.\<close>

fun split_char :: "char \<Rightarrow> string \<Rightarrow> string list" where
  "split_char sep [] = [[]]"
| "split_char sep (c # cs) =
     (if c = sep then [] # split_char sep cs
      else (case split_char sep cs of
              [] \<Rightarrow> [[c]]
            | w # ws \<Rightarrow> (c # w) # ws))"

fun join :: "string \<Rightarrow> string list \<Rightarrow> string" where
  "join sep [] = []"
| "join sep [w] = w"
| "join sep (w # ws) = w @ sep @ join sep ws"

definition split_two :: "string \<Rightarrow> string \<Rightarrow> string list" where
  "split_two sep s = (case cut_at sep s of None \<Rightarrow> [s] | Some (a, b) \<Rightarrow> [a, b])"

lemma split_char_ne [simp]: "split_char sep s \<noteq> []"
  by (cases s) (auto split: list.splits)

lemma join_Cons: "ws \<noteq> [] \<Longrightarrow> join sep (w # ws) = w @ sep @ join sep ws"
  by (cases ws) auto

lemma join_split_char: "join [sep] (split_char sep s) = s"
proof (induction s)
  case Nil
  then show ?case by simp
next
  case (Cons c cs)
  obtain w ws where w: "split_char sep cs = w # ws"
    by (meson list.exhaust split_char_ne)
  with Cons show ?case by (cases ws) auto
qed

lemma split_char_no_sep: "w \<in> set (split_char sep s) \<Longrightarrow> sep \<notin> set w"
  by (induction s arbitrary: w) (auto split: if_splits list.splits)

lemma split_char_append:
  "sep \<notin> set a \<Longrightarrow> split_char sep (a @ sep # b) = a # split_char sep b"
  by (induction a) auto

lemma split_char_id: "sep \<notin> set a \<Longrightarrow> split_char sep a = [a]"
  by (induction a) auto

section \<open>Case folding, booleans, cmp.Or\<close>

definition lower_char :: "char \<Rightarrow> char" where
  "lower_char c =
     (if 65 \<le> (of_char c :: nat) \<and> (of_char c :: nat) \<le> 90 then char_of ((of_char c :: nat) + 32) else c)"

definition to_lower :: "string \<Rightarrow> string" where
  "to_lower s = map lower_char s"

definition equal_fold :: "string \<Rightarrow> string \<Rightarrow> bool" where
  "equal_fold a b = (to_lower a = to_lower b)"

definition cmp_or :: "string \<Rightarrow> string \<Rightarrow> string" where
  "cmp_or a b = (if a = [] then b else a)"

text \<open>\<open>strconv.ParseBool\<close>: the error carries no more than that parsing failed.\<close>

definition parse_bool :: "string \<Rightarrow> bool option" where
  "parse_bool s =
     (if s \<in> {''1'', ''t'', ''T'', ''TRUE'', ''true'', ''True''} then Some True
      else if s \<in> {''0'', ''f'', ''F'', ''FALSE'', ''false'', ''False''} then Some False
      else None)"

definition format_bool :: "bool \<Rightarrow> string" where
  "format_bool b = (if b then ''true'' else ''false'')"

lemma parse_format_bool [simp]: "parse_bool (format_bool b) = Some b"
  by (simp add: parse_bool_def format_bool_def)

section \<open>String maps\<close>

text \<open>
  \<open>map[string]string\<close>: \<open>None\<close> is the nil map.  Reading a nil map gives the zero
  value; writing to it panics, so the code either allocates first (\<open>mset\<close>) or the
  model has a panic there.
\<close>

type_synonym smap = "(string \<rightharpoonup> string) option"

definition mget :: "smap \<Rightarrow> string \<Rightarrow> string option" where
  "mget m k = (case m of None \<Rightarrow> None | Some f \<Rightarrow> f k)"

definition mread :: "smap \<Rightarrow> string \<Rightarrow> string" where
  "mread m k = (case mget m k of None \<Rightarrow> [] | Some v \<Rightarrow> v)"

definition alloc :: "smap \<Rightarrow> (string \<rightharpoonup> string)" where
  "alloc m = (case m of None \<Rightarrow> Map.empty | Some f \<Rightarrow> f)"

definition mset :: "smap \<Rightarrow> string \<Rightarrow> string \<Rightarrow> smap" where
  "mset m k v = Some ((alloc m)(k \<mapsto> v))"

definition mdelete :: "smap \<Rightarrow> string \<Rightarrow> smap" where
  "mdelete m k = map_option (\<lambda>f. f(k := None)) m"

lemma mget_mset [simp]: "mget (mset m k v) j = (if j = k then Some v else mget m j)"
  by (auto simp: mget_def mset_def alloc_def split: option.splits)

lemma mget_mdelete [simp]: "mget (mdelete m k) j = (if j = k then None else mget m j)"
  by (auto simp: mget_def mdelete_def split: option.splits)

lemma mget_Some [simp]: "mget (Some f) k = f k"
  by (simp add: mget_def)

lemma mget_None [simp]: "mget None k = None"
  by (simp add: mget_def)

lemma alloc_Some [simp]: "alloc (Some f) = f"
  by (simp add: alloc_def)

lemma alloc_None [simp]: "alloc None = Map.empty"
  by (simp add: alloc_def)

lemma alloc_mget: "alloc m k = mget m k"
  by (cases m) auto

lemma mset_mset [simp]: "mset (mset m k v) k w = mset m k w"
  by (simp add: mset_def)

section \<open>Errors\<close>

text \<open>
  \<open>EApi r\<close> is an API status error with reason \<open>r\<close>, \<open>EMsg\<close> a plain error,
  \<open>EWrap m e\<close> is \<open>fmt.Errorf("m: %w", e)\<close>, \<open>EAggregate\<close> a list of errors.
\<close>

datatype go_error =
    EApi string
  | EMsg string
  | EWrap string go_error
  | EAggregate "go_error list"

end
