(* ===== verification/Go_Encoding.thy ===== *)
theory Go_Encoding
  imports Go_Lib
begin

text \<open>
  The two encoders of the standard library that the credential mapping uses:
  \<open>base64.StdEncoding.EncodeToString\<close>, with a decoder as its specification, and
  the execution of a \<open>text/template\<close> whose actions are all \<open>{{index . "key"}}\<close>
  over a string map.
\<close>

section \<open>Base64\<close>

definition b64_alphabet :: string where
  "b64_alphabet = ''ABCDEFGHIJKLMNOPQRSTUVWXYZabcdefghijklmnopqrstuvwxyz0123456789+/''"

definition b64_char :: "nat \<Rightarrow> char" where
  "b64_char n = b64_alphabet ! n"

abbreviation byte :: "char \<Rightarrow> nat" where
  "byte c \<equiv> of_char c"

fun base64 :: "string \<Rightarrow> string" where
  "base64 [] = []"
| "base64 [a] =
     [b64_char (byte a div 4), b64_char (byte a mod 4 * 16), CHR ''='', CHR ''='']"
| "base64 [a, b] =
     [b64_char (byte a div 4), b64_char (byte a mod 4 * 16 + byte b div 16),
      b64_char (byte b mod 16 * 4), CHR ''='']"
| "base64 (a # b # c # r) =
     b64_char (byte a div 4) # b64_char (byte a mod 4 * 16 + byte b div 16)
     # b64_char (byte b mod 16 * 4 + byte c div 64) # b64_char (byte c mod 64) # base64 r"

text \<open>The decoder, as the specification of the encoding.\<close>

fun index_of :: "char \<Rightarrow> string \<Rightarrow> nat" where
  "index_of c [] = 0"
| "index_of c (x # xs) = (if c = x then 0 else Suc (index_of c xs))"

definition b64_index :: "char \<Rightarrow> nat" where
  "b64_index c = index_of c b64_alphabet"

fun unbase64 :: "string \<Rightarrow> string" where
  "unbase64 (p # q # r # s # rest) =
     (if r = CHR ''='' then [char_of (b64_index p * 4 + b64_index q div 16)]
      else if s = CHR ''='' then
        [char_of (b64_index p * 4 + b64_index q div 16),
         char_of (b64_index q mod 16 * 16 + b64_index r div 4)]
      else
        char_of (b64_index p * 4 + b64_index q div 16)
        # char_of (b64_index q mod 16 * 16 + b64_index r div 4)
        # char_of (b64_index r mod 4 * 64 + b64_index s)
        # unbase64 rest)"
| "unbase64 _ = []"

lemma b64_table:
  "list_all (\<lambda>n. b64_index (b64_char n) = n \<and> b64_char n \<noteq> CHR ''='') [0..<64]"
  by code_simp

lemma b64_index_char [simp]: "n < 64 \<Longrightarrow> b64_index (b64_char n) = n"
  using b64_table by (simp add: list_all_iff)

lemma b64_char_pad [simp]: "n < 64 \<Longrightarrow> b64_char n \<noteq> CHR ''=''"
  using b64_table by (simp add: list_all_iff)

lemma byte_less [simp]: "byte c < 256"
  by (rule nat_of_char_less_256)

lemma byte_small [simp]:
  "byte c div 4 < 64" "byte c div 16 < 16" "byte c div 64 < 4"
  using byte_less [of c] by (simp_all add: less_mult_imp_div_less)

lemma byte_over [simp]:
  "byte c div 16 div 16 = 0" "byte c div 64 div 4 = 0"
  "byte c div 16 mod 16 = byte c div 16" "byte c div 64 mod 4 = byte c div 64"
  by simp_all

lemma sextet [simp]:
  "byte a mod 4 * 16 + byte b div 16 < 64" "byte b mod 16 * 4 + byte c div 64 < 64"
  "byte a mod 4 * 16 < 64" "byte b mod 16 * 4 < 64" "byte c mod 64 < 64"
proof -
  have "byte a mod 4 < 4" "byte b mod 16 < 16" by simp_all
  moreover have "byte b div 16 < 16" "byte c div 64 < 4" by (rule byte_small)+
  ultimately show
    "byte a mod 4 * 16 + byte b div 16 < 64" "byte b mod 16 * 4 + byte c div 64 < 64"
    "byte a mod 4 * 16 < 64" "byte b mod 16 * 4 < 64" "byte c mod 64 < 64"
    by linarith+
qed

lemma unbase64_base64: "unbase64 (base64 s) = s"
  by (induction s rule: base64.induct) simp_all

lemma base64_inj: "base64 s = base64 t \<Longrightarrow> s = t"
  by (metis unbase64_base64)

section \<open>Templates\<close>

abbreviation dquote :: char where
  "dquote \<equiv> CHR 0x22"

definition index_key :: "string \<Rightarrow> string option" where
  "index_key act =
     (if has_prefix act (''index . '' @ [dquote]) \<and> has_suffix act [dquote] \<and> 9 < length act
      then (let k = butlast (drop 9 act) in
            if dquote \<in> set k \<or> CHR 0x5C \<in> set k then None else Some k)
      else None)"

text \<open>
  \<open>None\<close> is a template outside the supported form; the package's own error text
  for it is a parameter of the code that renders.
\<close>

function render :: "string \<Rightarrow> smap \<Rightarrow> string option" where
  "render t data =
     (case cut_at ''{{'' t of
        None \<Rightarrow> Some t
      | Some (lit, rest) \<Rightarrow>
          (case cut_at ''}}'' rest of
             None \<Rightarrow> None
           | Some (act, tail) \<Rightarrow>
               (case index_key act of
                  None \<Rightarrow> None
                | Some k \<Rightarrow> map_option (\<lambda>r. lit @ mread data k @ r) (render tail data))))"
  by pat_completeness auto
termination
  by (relation "measure (\<lambda>(t, data). length t)") (auto dest!: cut_length)

declare render.simps [simp del]

end
