(* ===== verification/Objects.thy ===== *)
theory Objects
  imports Go_Lib
begin

text \<open>
  The objects the operator reads and writes: the metadata every Kubernetes object
  has, the API types declared under src/api/, and of the types of other modules
  (CAPI Cluster, Secret, Namespace, ...) the fields the code touches.

  \<open>kobj\<close> is the disjoint union of them, the type of what travels to and from the
  API server; a codec says how one Go type sits in it.  The time stamps of
  conditions are not modelled.
\<close>

section \<open>Metadata\<close>

record owner_ref =
  or_api_version :: string
  or_kind :: string
  or_name :: string
  or_uid :: string
  or_controller :: bool
  or_block_deletion :: bool

text \<open>
  \<open>metav1.ObjectMeta\<close>.  A nil \<open>DeletionTimestamp\<close> is \<open>None\<close>; \<open>Some 0\<close> is the zero
  time, for which \<open>IsZero\<close> holds as well.
\<close>

record object_meta =
  m_name :: string
  m_namespace :: string
  m_generate_name :: string
  m_labels :: smap
  m_annotations :: smap
  m_finalizers :: "string list"
  m_deletion :: "nat option"
  m_uid :: string
  m_resource_version :: string
  m_owners :: "owner_ref list"

definition empty_meta :: object_meta where
  "empty_meta = \<lparr>m_name = [], m_namespace = [], m_generate_name = [], m_labels = None,
     m_annotations = None, m_finalizers = [], m_deletion = None, m_uid = [],
     m_resource_version = [], m_owners = []\<rparr>"

definition deletion_is_zero :: "object_meta \<Rightarrow> bool" where
  "deletion_is_zero m = (case m_deletion m of None \<Rightarrow> True | Some t \<Rightarrow> t = 0)"

record key =
  k_namespace :: string
  k_name :: string

definition key_of :: "object_meta \<Rightarrow> key" where
  "key_of m = \<lparr>k_namespace = m_namespace m, k_name = m_name m\<rparr>"

section \<open>Conditions\<close>

datatype cond_status = CondTrue | CondFalse | CondUnknown

record condition =
  c_type :: string
  c_status :: cond_status
  c_reason :: string
  c_message :: string

section \<open>Cluster types\<close>

text \<open>\<open>clusterv1.Cluster\<close>: metadata and conditions.\<close>

record capi_cluster =
  cc_meta :: object_meta
  cc_conditions :: "condition list"

text \<open>src/api/rancher/management/v3.\<close>

record cluster_spec =
  display_name :: string
  description :: string
  fleet_workspace_name :: string

record rancher_cluster =
  rc_meta :: object_meta
  rc_spec :: cluster_spec
  rc_conditions :: "condition list"

record registration_token =
  rt_meta :: object_meta
  rt_cluster_name :: string
  rt_manifest_url :: string
  rt_token_secret_name :: string

record setting =
  set_meta :: object_meta
  set_value :: string
  set_default :: string
  set_customized :: bool
  set_source :: string

text \<open>src/api/rancher/provisioning/v1.\<close>

record prov_cluster =
  pc_meta :: object_meta
  pc_infrastructure_ref :: "string option"
  pc_cluster_name :: string
  pc_agent_deployed :: bool
  pc_ready :: bool
  pc_conditions :: "condition list"

section \<open>CAPIProvider\<close>

text \<open>src/api/v1alpha1; \<open>provider_spec\<close> and \<open>provider_status\<close> are the embedded
  structs of the CAPI operator, with the fields the code uses.\<close>

record object_ref =
  ref_name :: string
  ref_namespace :: string

record provider_spec =
  ps_version :: string
  ps_config_secret :: "object_ref option"
  ps_additional_manifests :: "object_ref option"

record features =
  f_machine_pool :: bool
  f_cluster_resource_set :: bool
  f_cluster_topology :: bool

record credentials =
  cr_cloud_credential :: string
  cr_namespace_name :: string

record capi_provider_spec =
  cps_provider :: provider_spec
  cps_name :: string
  cps_type :: string
  cps_credentials :: "credentials option"
  cps_features :: "features option"
  cps_variables :: smap
  cps_auto_update :: bool

record provider_status =
  pst_conditions :: "condition list"
  pst_installed_version :: "string option"

record capi_provider_status =
  cpst_provider :: provider_status
  cpst_phase :: string
  cpst_variables :: smap
  cpst_name :: string

record capi_provider =
  cp_meta :: object_meta
  cp_spec :: capi_provider_spec
  cp_status :: capi_provider_status

section \<open>ClusterctlConfig\<close>

record provider_entry =
  pe_name :: string
  pe_url :: string
  pe_type :: string

record image_entry =
  ie_repository :: string
  ie_tag :: string
  ie_name :: string

text \<open>The clusterctl configuration itself: src/internal/controllers/clusterctl/config.go.\<close>

record config_image =
  ci_repository :: string
  ci_tag :: string

record config_repository =
  cfgr_providers :: "provider_entry list"
  cfgr_images :: "(string \<rightharpoonup> config_image) option"

record clusterctl_config =
  cfg_meta :: object_meta
  cfg_images :: "image_entry list"
  cfg_providers :: "provider_entry list"

section \<open>Core and unstructured objects\<close>

record secret =
  sec_meta :: object_meta
  sec_data :: smap
  sec_string_data :: smap

record ns_object =
  ns_meta :: object_meta

record config_map =
  cm_meta :: object_meta
  cm_data :: smap

record job =
  job_meta :: object_meta

record service_object =
  svc_meta :: object_meta

record deployment =
  dep_meta :: object_meta
  dep_template_annotations :: smap

record cluster_role =
  role_meta :: object_meta

text \<open>
  The values of an unstructured object.  \<open>JStrs\<close> is a Go \<open>[]string\<close> put there by the
  code, which is not equal to the \<open>[]any\<close> that decoding gives.
\<close>

datatype json =
    JNull
  | JBool bool
  | JStr string
  | JStrs "string list"
  | JList "json list"
  | JObj "(string \<times> json) list"

text \<open>\<open>unstructured.Unstructured\<close>: the kind, the metadata and the other fields.\<close>

record gvk =
  gvk_group :: string
  gvk_version :: string
  gvk_kind :: string

record unstructured =
  un_gvk :: gvk
  un_meta :: object_meta
  un_fields :: "string \<rightharpoonup> json"

datatype kobj =
    OCluster capi_cluster
  | ORancher rancher_cluster
  | OToken registration_token
  | OSetting setting
  | OProvider capi_provider
  | OConfig clusterctl_config
  | OSecret secret
  | ONamespace ns_object
  | OConfigMap config_map
  | OJob job
  | OService service_object
  | ODeployment deployment
  | ORole cluster_role
  | OUnstr unstructured

datatype kind =
    KCluster | KRancher | KToken | KSetting | KProvider | KConfig | KSecret | KNamespace
  | KConfigMap | KJob | KService | KDeployment | KRole | KUnstr gvk

section \<open>Codecs: one Go type among the objects of the API\<close>

record 'a codec =
  ckind :: kind
  decode :: "kobj \<Rightarrow> 'a option"
  encode :: "'a \<Rightarrow> kobj"

text \<open>What a codec promises: the two directions are inverse to each other.\<close>

locale codec_laws =
  fixes c :: "'a codec"
  assumes decode_encode: "decode c (encode c x) = Some x"
    and encode_decode: "decode c k = Some x \<Longrightarrow> encode c x = k"
begin

lemma encode_inj: "encode c x = encode c y \<Longrightarrow> x = y"
  by (metis decode_encode option.inject)

lemma decode_image: "decode c k \<noteq> None \<longleftrightarrow> k \<in> range (encode c)"
proof
  assume "decode c k \<noteq> None"
  then obtain x where "decode c k = Some x" by blast
  then have "k = encode c x" by (simp add: encode_decode)
  then show "k \<in> range (encode c)" by simp
next
  assume "k \<in> range (encode c)"
  then show "decode c k \<noteq> None" by (auto simp: decode_encode)
qed

end

definition cluster_codec :: "capi_cluster codec" where
  "cluster_codec = \<lparr>ckind = KCluster,
     decode = (\<lambda>k. case k of OCluster x \<Rightarrow> Some x | _ \<Rightarrow> None), encode = OCluster\<rparr>"

definition rancher_codec :: "rancher_cluster codec" where
  "rancher_codec = \<lparr>ckind = KRancher,
     decode = (\<lambda>k. case k of ORancher x \<Rightarrow> Some x | _ \<Rightarrow> None), encode = ORancher\<rparr>"

definition token_codec :: "registration_token codec" where
  "token_codec = \<lparr>ckind = KToken,
     decode = (\<lambda>k. case k of OToken x \<Rightarrow> Some x | _ \<Rightarrow> None), encode = OToken\<rparr>"

definition setting_codec :: "setting codec" where
  "setting_codec = \<lparr>ckind = KSetting,
     decode = (\<lambda>k. case k of OSetting x \<Rightarrow> Some x | _ \<Rightarrow> None), encode = OSetting\<rparr>"

definition provider_codec :: "capi_provider codec" where
  "provider_codec = \<lparr>ckind = KProvider,
     decode = (\<lambda>k. case k of OProvider x \<Rightarrow> Some x | _ \<Rightarrow> None), encode = OProvider\<rparr>"

definition config_codec :: "clusterctl_config codec" where
  "config_codec = \<lparr>ckind = KConfig,
     decode = (\<lambda>k. case k of OConfig x \<Rightarrow> Some x | _ \<Rightarrow> None), encode = OConfig\<rparr>"

definition secret_codec :: "secret codec" where
  "secret_codec = \<lparr>ckind = KSecret,
     decode = (\<lambda>k. case k of OSecret x \<Rightarrow> Some x | _ \<Rightarrow> None), encode = OSecret\<rparr>"

definition namespace_codec :: "ns_object codec" where
  "namespace_codec = \<lparr>ckind = KNamespace,
     decode = (\<lambda>k. case k of ONamespace x \<Rightarrow> Some x | _ \<Rightarrow> None), encode = ONamespace\<rparr>"

definition config_map_codec :: "config_map codec" where
  "config_map_codec = \<lparr>ckind = KConfigMap,
     decode = (\<lambda>k. case k of OConfigMap x \<Rightarrow> Some x | _ \<Rightarrow> None), encode = OConfigMap\<rparr>"

definition job_codec :: "job codec" where
  "job_codec = \<lparr>ckind = KJob,
     decode = (\<lambda>k. case k of OJob x \<Rightarrow> Some x | _ \<Rightarrow> None), encode = OJob\<rparr>"

definition service_codec :: "service_object codec" where
  "service_codec = \<lparr>ckind = KService,
     decode = (\<lambda>k. case k of OService x \<Rightarrow> Some x | _ \<Rightarrow> None), encode = OService\<rparr>"

definition deployment_codec :: "deployment codec" where
  "deployment_codec = \<lparr>ckind = KDeployment,
     decode = (\<lambda>k. case k of ODeployment x \<Rightarrow> Some x | _ \<Rightarrow> None), encode = ODeployment\<rparr>"

definition role_codec :: "cluster_role codec" where
  "role_codec = \<lparr>ckind = KRole,
     decode = (\<lambda>k. case k of ORole x \<Rightarrow> Some x | _ \<Rightarrow> None), encode = ORole\<rparr>"

text \<open>An unstructured object is read under the kind it was given.\<close>

definition unstr_codec :: "gvk \<Rightarrow> unstructured codec" where
  "unstr_codec g = \<lparr>ckind = KUnstr g,
     decode = (\<lambda>k. case k of OUnstr x \<Rightarrow> Some x | _ \<Rightarrow> None), encode = OUnstr\<rparr>"

lemmas codec_defs =
  cluster_codec_def rancher_codec_def token_codec_def setting_codec_def provider_codec_def
  config_codec_def secret_codec_def namespace_codec_def config_map_codec_def job_codec_def
  service_codec_def deployment_codec_def role_codec_def unstr_codec_def

text \<open>The kind and the constructor of each codec, and what each decodes.\<close>

lemma ckind_simps [simp]:
  "ckind cluster_codec = KCluster"
  "ckind rancher_codec = KRancher"
  "ckind token_codec = KToken"
  "ckind setting_codec = KSetting"
  "ckind provider_codec = KProvider"
  "ckind config_codec = KConfig"
  "ckind secret_codec = KSecret"
  "ckind namespace_codec = KNamespace"
  "ckind config_map_codec = KConfigMap"
  "ckind job_codec = KJob"
  "ckind service_codec = KService"
  "ckind deployment_codec = KDeployment"
  "ckind role_codec = KRole"
  "ckind (unstr_codec g) = KUnstr g"
  by (simp_all add: codec_defs)

lemma encode_simps [simp]:
  "encode cluster_codec = OCluster"
  "encode rancher_codec = ORancher"
  "encode token_codec = OToken"
  "encode setting_codec = OSetting"
  "encode provider_codec = OProvider"
  "encode config_codec = OConfig"
  "encode secret_codec = OSecret"
  "encode namespace_codec = ONamespace"
  "encode config_map_codec = OConfigMap"
  "encode job_codec = OJob"
  "encode service_codec = OService"
  "encode deployment_codec = ODeployment"
  "encode role_codec = ORole"
  "encode (unstr_codec g) = OUnstr"
  by (simp_all add: codec_defs)

lemma decode_Some [simp]:
  "decode cluster_codec k = Some x0 \<longleftrightarrow> k = OCluster x0"
  "decode rancher_codec k = Some x1 \<longleftrightarrow> k = ORancher x1"
  "decode token_codec k = Some x2 \<longleftrightarrow> k = OToken x2"
  "decode setting_codec k = Some x3 \<longleftrightarrow> k = OSetting x3"
  "decode provider_codec k = Some x4 \<longleftrightarrow> k = OProvider x4"
  "decode config_codec k = Some x5 \<longleftrightarrow> k = OConfig x5"
  "decode secret_codec k = Some x6 \<longleftrightarrow> k = OSecret x6"
  "decode namespace_codec k = Some x7 \<longleftrightarrow> k = ONamespace x7"
  "decode config_map_codec k = Some x8 \<longleftrightarrow> k = OConfigMap x8"
  "decode job_codec k = Some x9 \<longleftrightarrow> k = OJob x9"
  "decode service_codec k = Some x10 \<longleftrightarrow> k = OService x10"
  "decode deployment_codec k = Some x11 \<longleftrightarrow> k = ODeployment x11"
  "decode role_codec k = Some x12 \<longleftrightarrow> k = ORole x12"
  "decode (unstr_codec g) k = Some u0 \<longleftrightarrow> k = OUnstr u0"
  by (auto simp: codec_defs split: kobj.splits)

lemma decode_constructor [simp]:
  "decode cluster_codec (OCluster x0) = Some x0"
  "decode rancher_codec (ORancher x1) = Some x1"
  "decode token_codec (OToken x2) = Some x2"
  "decode setting_codec (OSetting x3) = Some x3"
  "decode provider_codec (OProvider x4) = Some x4"
  "decode config_codec (OConfig x5) = Some x5"
  "decode secret_codec (OSecret x6) = Some x6"
  "decode namespace_codec (ONamespace x7) = Some x7"
  "decode config_map_codec (OConfigMap x8) = Some x8"
  "decode job_codec (OJob x9) = Some x9"
  "decode service_codec (OService x10) = Some x10"
  "decode deployment_codec (ODeployment x11) = Some x11"
  "decode role_codec (ORole x12) = Some x12"
  "decode (unstr_codec g) (OUnstr u0) = Some u0"
  by simp_all

interpretation cluster_codec: codec_laws cluster_codec
  by unfold_locales (auto simp: cluster_codec_def split: kobj.splits)

interpretation rancher_codec: codec_laws rancher_codec
  by unfold_locales (auto simp: rancher_codec_def split: kobj.splits)

interpretation token_codec: codec_laws token_codec
  by unfold_locales (auto simp: token_codec_def split: kobj.splits)

interpretation setting_codec: codec_laws setting_codec
  by unfold_locales (auto simp: setting_codec_def split: kobj.splits)

interpretation provider_codec: codec_laws provider_codec
  by unfold_locales (auto simp: provider_codec_def split: kobj.splits)

interpretation secret_codec: codec_laws secret_codec
  by unfold_locales (auto simp: secret_codec_def split: kobj.splits)

interpretation unstr_codec: codec_laws "unstr_codec g" for g
  by unfold_locales (auto simp: unstr_codec_def split: kobj.splits)

section \<open>The metav1.Object interface\<close>

text \<open>
  Every object gives access to its metadata.  Code written against
  \<open>metav1.Object\<close> or \<open>client.Object\<close> relies on no more than these laws.
\<close>

locale meta_object =
  fixes meta :: "'o \<Rightarrow> object_meta"
    and upd :: "(object_meta \<Rightarrow> object_meta) \<Rightarrow> 'o \<Rightarrow> 'o"
  assumes meta_upd [simp]: "meta (upd f x) = f (meta x)"
    and upd_upd [simp]: "upd f (upd g x) = upd (f \<circ> g) x"
    and upd_id: "upd (\<lambda>m. m) x = x"
begin

lemma set_annotation_get:
  "mget (m_annotations (meta (upd (m_annotations_update (\<lambda>a. mset a k v)) x))) j
     = (if j = k then Some v else mget (m_annotations (meta x)) j)"
  by simp

lemma set_annotation_frame:
  "m_labels (meta (upd (m_annotations_update f) x)) = m_labels (meta x)"
  "m_finalizers (meta (upd (m_annotations_update f) x)) = m_finalizers (meta x)"
  "key_of (meta (upd (m_annotations_update f) x)) = key_of (meta x)"
  by (simp_all add: key_of_def)

lemma set_finalizers_frame:
  "m_labels (meta (upd (m_finalizers_update f) x)) = m_labels (meta x)"
  "m_annotations (meta (upd (m_finalizers_update f) x)) = m_annotations (meta x)"
  "key_of (meta (upd (m_finalizers_update f) x)) = key_of (meta x)"
  by (simp_all add: key_of_def)

end

interpretation cluster_obj: meta_object cc_meta cc_meta_update
  by unfold_locales (auto simp: comp_def)

interpretation rancher_obj: meta_object rc_meta rc_meta_update
  by unfold_locales (auto simp: comp_def)

interpretation secret_obj: meta_object sec_meta sec_meta_update
  by unfold_locales (auto simp: comp_def)

interpretation provider_obj: meta_object cp_meta cp_meta_update
  by unfold_locales (auto simp: comp_def)

interpretation namespace_obj: meta_object ns_meta ns_meta_update
  by unfold_locales (auto simp: comp_def)

interpretation unstr_obj: meta_object un_meta un_meta_update
  by unfold_locales (auto simp: comp_def)

section \<open>The conditions Getter and Setter interfaces\<close>

text \<open>
  src/api/rancher/management/v3/cluster.go, src/api/rancher/provisioning/v1/cluster.go
  and src/api/v1alpha1/capiprovider_wrapper.go.
\<close>

definition rc_GetConditions :: "rancher_cluster \<Rightarrow> condition list" where
  "rc_GetConditions c = rc_conditions c"

definition rc_SetConditions :: "rancher_cluster \<Rightarrow> condition list \<Rightarrow> rancher_cluster" where
  "rc_SetConditions c cs = c\<lparr>rc_conditions := cs\<rparr>"

definition pc_GetConditions :: "prov_cluster \<Rightarrow> condition list" where
  "pc_GetConditions c = pc_conditions c"

definition pc_SetConditions :: "prov_cluster \<Rightarrow> condition list \<Rightarrow> prov_cluster" where
  "pc_SetConditions c cs = c\<lparr>pc_conditions := cs\<rparr>"

definition cp_GetConditions :: "capi_provider \<Rightarrow> condition list" where
  "cp_GetConditions b = pst_conditions (cpst_provider (cp_status b))"

definition cp_SetConditions :: "capi_provider \<Rightarrow> condition list \<Rightarrow> capi_provider" where
  "cp_SetConditions b cs =
     b\<lparr>cp_status := (cp_status b)\<lparr>cpst_provider :=
         (cpst_provider (cp_status b))\<lparr>pst_conditions := cs\<rparr>\<rparr>\<rparr>"

locale conditions_object =
  fixes get_conditions :: "'o \<Rightarrow> condition list"
    and set_conditions :: "'o \<Rightarrow> condition list \<Rightarrow> 'o"
  assumes get_set: "get_conditions (set_conditions x cs) = cs"
    and set_get: "set_conditions x (get_conditions x) = x"
    and set_set: "set_conditions (set_conditions x cs) ds = set_conditions x ds"
begin

lemma set_inj: "set_conditions x cs = set_conditions x ds \<Longrightarrow> cs = ds"
  by (metis get_set)

end

interpretation rancher_conds: conditions_object rc_GetConditions rc_SetConditions
  by unfold_locales (auto simp: rc_GetConditions_def rc_SetConditions_def)

interpretation prov_conds: conditions_object pc_GetConditions pc_SetConditions
  by unfold_locales (auto simp: pc_GetConditions_def pc_SetConditions_def)

interpretation provider_conds: conditions_object cp_GetConditions cp_SetConditions
  by unfold_locales (auto simp: cp_GetConditions_def cp_SetConditions_def)

end
