(* ===== verification/Feature.thy ===== *)
theory Feature
  imports Prelude
begin

text \<open>
  The feature gates of src/feature/feature.go and their defaults.  The gate values
  of a running operator come from the command line, so the handlers read them from
  the environment; the defaults are the starting point of that environment.
\<close>

datatype feature =
    AgentTLSMode
  | UIPlugin
  | NoCertManager
  | UseRancherDefaultRegistry
  | UseCAAPF
  | RancherCCTranslation

datatype prerelease = Alpha | Beta

record feature_spec =
  fs_default :: bool
  fs_prerelease :: prerelease

primrec feature_name :: "feature \<Rightarrow> string" where
  "feature_name AgentTLSMode = ''agent-tls-mode''"
| "feature_name UIPlugin = ''ui-plugin''"
| "feature_name NoCertManager = ''no-cert-manager''"
| "feature_name UseRancherDefaultRegistry = ''use-rancher-default-registry''"
| "feature_name UseCAAPF = ''use-caapf''"
| "feature_name RancherCCTranslation = ''rancher-credential-translation''"

primrec DefaultGates :: "feature \<Rightarrow> feature_spec" where
  "DefaultGates AgentTLSMode = \<lparr>fs_default = True, fs_prerelease = Beta\<rparr>"
| "DefaultGates UIPlugin = \<lparr>fs_default = False, fs_prerelease = Alpha\<rparr>"
| "DefaultGates NoCertManager = \<lparr>fs_default = True, fs_prerelease = Beta\<rparr>"
| "DefaultGates UseRancherDefaultRegistry = \<lparr>fs_default = True, fs_prerelease = Beta\<rparr>"
| "DefaultGates UseCAAPF = \<lparr>fs_default = False, fs_prerelease = Alpha\<rparr>"
| "DefaultGates RancherCCTranslation = \<lparr>fs_default = False, fs_prerelease = Alpha\<rparr>"

text \<open>No two gates share a flag name, so each flag sets one gate.\<close>

lemma feature_name_inj: "feature_name f = feature_name g \<Longrightarrow> f = g"
  by (cases f; cases g) simp_all

text \<open>A gate is on by default exactly when it has left alpha.\<close>

lemma default_iff_beta: "fs_default (DefaultGates f) \<longleftrightarrow> fs_prerelease (DefaultGates f) = Beta"
  by (cases f) simp_all

end
