(* ===== verification/Client.thy ===== *)
theory Client
  imports Objects Feature
begin

text \<open>
  Everything outside the repository, as parameters.  A handler talks to the API
  servers, the file system, HTTP and the clock by \<open>call\<close>, which hands a request to
  the environment's server function and records it, with the response, in the
  trace.  The server is an arbitrary function on an arbitrary world, so a theorem
  about traces holds whatever the cluster does.

  The functions of the Go modules the operator imports (finalizers, conditions,
  error classification, semver, YAML) are fields of the environment too; what the
  code relies on is stated by the \<open>_laws\<close> predicates, which the theorems that need
  them name as hypotheses.
\<close>

section \<open>Requests and responses\<close>

text \<open>\<open>Remote\<close> is the client of the workload cluster being imported.\<close>

datatype target = Cached | Uncached | Remote

datatype selector =
    InNamespace string
  | MatchingLabels "(string \<times> string) list"
  | MatchingFields "(string \<times> string) list"
  | LabelIn string "string list"

datatype patch_kind = MergeFrom | MergeFromLock | HelperPatch

datatype request =
    RGet target kind key
  | RList target kind "selector list"
  | RCreate target kobj
  | RUpdate target kobj
  | RPatch target patch_kind kobj kobj
  | RApply target kobj string
  | RDelete target kobj
  | RDeleteAllOf target kind "selector list"
  | RRemoteClient string key
  | RHttpGet string "string option" bool
  | RReadBody string
  | RReadFile string
  | RNow
  | RManager string "string list"

datatype response =
    RObj kobj
  | RObjs "kobj list"
  | ROk
  | RErr go_error
  | RData string

type_synonym event = "request \<times> response"

record 'w st =
  world :: 'w
  trace :: "event list"

section \<open>The environment\<close>

datatype semver = Semver nat nat nat string

record 'w env =
  srv :: "request \<Rightarrow> 'w \<Rightarrow> response \<times> 'w"
  gate :: "feature \<Rightarrow> bool"
  pod_namespace :: string
  is_not_found :: "go_error \<Rightarrow> bool"
  is_already_exists :: "go_error \<Rightarrow> bool"
  is_conflict :: "go_error \<Rightarrow> bool"
  is_no_match :: "go_error \<Rightarrow> bool"
  is_not_exist :: "go_error \<Rightarrow> bool"
  ignore_not_found :: "go_error option \<Rightarrow> go_error option"
  aggregate :: "go_error option list \<Rightarrow> go_error option"
  contains_finalizer :: "string list \<Rightarrow> string \<Rightarrow> bool"
  add_finalizer :: "string list \<Rightarrow> string \<Rightarrow> string list \<times> bool"
  remove_finalizer :: "string list \<Rightarrow> string \<Rightarrow> string list \<times> bool"
  cond_is_true :: "condition list \<Rightarrow> string \<Rightarrow> bool"
  cond_is_false :: "condition list \<Rightarrow> string \<Rightarrow> bool"
  cond_get :: "condition list \<Rightarrow> string \<Rightarrow> condition option"
  cond_put :: "condition list \<Rightarrow> condition \<Rightarrow> condition list"
  cond_delete :: "condition list \<Rightarrow> string \<Rightarrow> condition list"
  retry_on_conflict ::
    "(capi_cluster \<Rightarrow> ('w st, capi_cluster \<times> go_error option) state)
      \<Rightarrow> capi_cluster \<Rightarrow> ('w st, capi_cluster \<times> go_error option) state"
  create_or_update ::
    "kobj \<Rightarrow> (kobj \<Rightarrow> go_error + kobj) \<Rightarrow> ('w st, go_error option) state"
  semver_parse :: "string \<Rightarrow> go_error + semver"
  semver_lte :: "semver \<Rightarrow> semver \<Rightarrow> bool"
  title_case :: "string \<Rightarrow> string"
  embedded_config :: config_map
  unmarshal_config :: "string \<Rightarrow> go_error + config_repository"
  marshal_config :: "config_repository \<Rightarrow> go_error + string"
  yaml_documents :: "string \<Rightarrow> (go_error + string) list"
  to_unstructured :: "string \<Rightarrow> go_error + unstructured list"
  nested_string :: "unstructured \<Rightarrow> string list \<Rightarrow> go_error + string option"
  mutating_webhooks :: "unstructured \<Rightarrow> go_error + (string \<times> string) option list"
  validating_webhooks :: "unstructured \<Rightarrow> go_error + (string \<times> string) option list"
  append_certs :: "string \<Rightarrow> bool"
  template_error :: "string \<Rightarrow> string"
  set_owner_reference :: "cluster_role \<Rightarrow> unstructured \<Rightarrow> go_error + unstructured"
  object_kinds_error :: "kobj \<Rightarrow> go_error option"
  new_requirement_error :: "string \<Rightarrow> string list \<Rightarrow> go_error option"
  patch_helper_error :: "kobj \<Rightarrow> go_error option"
  error_text :: "go_error \<Rightarrow> string"
  capi_ready_condition :: string
  operator_finalizer :: string
  preflight_condition :: string
  installed_condition :: string

definition call :: "'w env \<Rightarrow> request \<Rightarrow> ('w st, response) state" where
  "call E r = State (\<lambda>s. case srv E r (world s) of
     (a, w) \<Rightarrow> (a, s\<lparr>world := w, trace := trace s @ [(r, a)]\<rparr>))"

section \<open>Typed client operations\<close>

text \<open>A response of the wrong shape or kind is a decoding error of the client.\<close>

definition decode_error :: go_error where
  "decode_error = EMsg ''cannot decode response''"

definition reply_obj :: "'a codec \<Rightarrow> response \<Rightarrow> go_error + 'a" where
  "reply_obj c r =
     (case r of
        RObj k \<Rightarrow> (case decode c k of Some x \<Rightarrow> Inr x | None \<Rightarrow> Inl decode_error)
      | RErr e \<Rightarrow> Inl e
      | _ \<Rightarrow> Inl decode_error)"

lemma reply_obj_Inr:
  "reply_obj c r = Inr x \<longleftrightarrow> (\<exists>k. r = RObj k \<and> decode c k = Some x)"
  by (auto simp: reply_obj_def split: response.splits option.splits)

definition reply_list :: "'a codec \<Rightarrow> response \<Rightarrow> go_error + 'a list" where
  "reply_list c r =
     (case r of
        RObjs ks \<Rightarrow> (case those (map (decode c) ks) of Some xs \<Rightarrow> Inr xs | None \<Rightarrow> Inl decode_error)
      | RErr e \<Rightarrow> Inl e
      | _ \<Rightarrow> Inl decode_error)"

definition reply_unit :: "response \<Rightarrow> go_error option" where
  "reply_unit r = (case r of RErr e \<Rightarrow> Some e | _ \<Rightarrow> None)"

definition reply_data :: "response \<Rightarrow> go_error + string" where
  "reply_data r = (case r of RData d \<Rightarrow> Inr d | RErr e \<Rightarrow> Inl e | _ \<Rightarrow> Inl decode_error)"

definition get_obj :: "'w env \<Rightarrow> 'a codec \<Rightarrow> target \<Rightarrow> key \<Rightarrow> ('w st, go_error + 'a) state" where
  "get_obj E c t k = do { r \<leftarrow> call E (RGet t (ckind c) k); ret (reply_obj c r) }"

definition list_obj ::
  "'w env \<Rightarrow> 'a codec \<Rightarrow> target \<Rightarrow> selector list \<Rightarrow> ('w st, go_error + 'a list) state" where
  "list_obj E c t sel = do { r \<leftarrow> call E (RList t (ckind c) sel); ret (reply_list c r) }"

definition create_obj :: "'w env \<Rightarrow> 'a codec \<Rightarrow> target \<Rightarrow> 'a \<Rightarrow> ('w st, go_error + 'a) state" where
  "create_obj E c t x = do { r \<leftarrow> call E (RCreate t (encode c x)); ret (reply_obj c r) }"

definition update_obj :: "'w env \<Rightarrow> 'a codec \<Rightarrow> target \<Rightarrow> 'a \<Rightarrow> ('w st, go_error + 'a) state" where
  "update_obj E c t x = do { r \<leftarrow> call E (RUpdate t (encode c x)); ret (reply_obj c r) }"

definition patch_obj ::
  "'w env \<Rightarrow> 'a codec \<Rightarrow> patch_kind \<Rightarrow> 'a \<Rightarrow> 'a \<Rightarrow> ('w st, go_error + 'a) state" where
  "patch_obj E c pk base x =
     do { r \<leftarrow> call E (RPatch Cached pk (encode c base) (encode c x)); ret (reply_obj c r) }"

definition delete_obj :: "'w env \<Rightarrow> 'a codec \<Rightarrow> target \<Rightarrow> 'a \<Rightarrow> ('w st, go_error option) state" where
  "delete_obj E c t x = do { r \<leftarrow> call E (RDelete t (encode c x)); ret (reply_unit r) }"

definition delete_all_of ::
  "'w env \<Rightarrow> 'a codec \<Rightarrow> selector list \<Rightarrow> ('w st, go_error option) state" where
  "delete_all_of E c sel =
     do { r \<leftarrow> call E (RDeleteAllOf Cached (ckind c) sel); ret (reply_unit r) }"

definition apply_obj :: "'w env \<Rightarrow> 'a codec \<Rightarrow> 'a \<Rightarrow> string \<Rightarrow> ('w st, go_error option) state" where
  "apply_obj E c x owner =
     do { r \<leftarrow> call E (RApply Cached (encode c x) owner); ret (reply_unit r) }"

lemmas client_defs =
  get_obj_def list_obj_def create_obj_def update_obj_def patch_obj_def delete_obj_def
  delete_all_of_def apply_obj_def

text \<open>\<open>ctrl.Result\<close>: \<open>RequeueAfter\<close> in seconds, 0 for none.\<close>

record ctrl_result =
  requeue_after :: nat

abbreviation no_requeue :: ctrl_result where
  "no_requeue \<equiv> \<lparr>requeue_after = 0\<rparr>"

abbreviation requeue :: "nat \<Rightarrow> ctrl_result" where
  "requeue n \<equiv> \<lparr>requeue_after = n\<rparr>"

section \<open>Reasoning over traces\<close>

text \<open>
  \<open>twp m Q t\<close>: whatever the world and the server, running \<open>m\<close> after the trace \<open>t\<close>
  ends with a result and a trace that satisfy \<open>Q\<close>.
\<close>

definition twp :: "('w st, 'a) state \<Rightarrow> ('a \<Rightarrow> event list \<Rightarrow> bool) \<Rightarrow> event list \<Rightarrow> bool" where
  "twp m Q t = (\<forall>w. wp m (\<lambda>a s. Q a (trace s)) \<lparr>world = w, trace = t\<rparr>)"

named_theorems trace_rules \<open>introduction rules of the trace calculus\<close>

lemma twpD: "twp m Q (trace s) \<Longrightarrow> wp m (\<lambda>a s. Q a (trace s)) s"
  unfolding twp_def by (cases s) auto

lemma twp_ret [simp]: "twp (ret a) Q = Q a"
  by (simp add: twp_def fun_eq_iff)

lemma twp_bind [trace_rules]:
  assumes "twp m (\<lambda>a. twp (f a) Q) t"
  shows "twp (State_Monad.bind m f) Q t"
  unfolding twp_def
proof
  fix w
  have "wp m (\<lambda>a s. twp (f a) Q (trace s)) \<lparr>world = w, trace = t\<rparr>"
    using assms by (simp add: twp_def [of m])
  then show "wp (State_Monad.bind m f) (\<lambda>a s. Q a (trace s)) \<lparr>world = w, trace = t\<rparr>"
    by (auto elim!: wp_mono dest: twpD)
qed

lemma twp_obind [trace_rules]:
  assumes "twp m (\<lambda>r. case r of Panic p \<Rightarrow> Q (Panic p) | Ret a \<Rightarrow> twp (f a) Q) t"
  shows "twp (obind m f) Q t"
  unfolding obind_def
proof (rule twp_bind)
  have "twp m (\<lambda>r. twp (case r of Ret a \<Rightarrow> f a | Panic p \<Rightarrow> ret (Panic p)) Q) t =
    twp m (\<lambda>r. case r of Panic p \<Rightarrow> Q (Panic p) | Ret a \<Rightarrow> twp (f a) Q) t"
    by (rule arg_cong [where f = "\<lambda>R. twp m R t"]) (auto simp: fun_eq_iff split: outcome.splits)
  with assms show "twp m (\<lambda>r. twp (case r of Ret a \<Rightarrow> f a | Panic p \<Rightarrow> ret (Panic p)) Q) t"
    by simp
qed

lemma twp_lift [trace_rules]: "twp m (\<lambda>a. Q (Ret a)) t \<Longrightarrow> twp (lift m) Q t"
  unfolding lift_def by (rule twp_bind) simp

lemma twp_call [trace_rules]:
  "(\<And>a. Q a (t @ [(r, a)])) \<Longrightarrow> twp (call E r) Q t"
  by (auto simp: twp_def wp_def call_def split: prod.splits)

lemma twp_if [trace_rules]:
  "(b \<Longrightarrow> twp m Q t) \<Longrightarrow> (\<not> b \<Longrightarrow> twp n Q t) \<Longrightarrow> twp (if b then m else n) Q t"
  by simp

lemma twp_case_sum [trace_rules]:
  "(\<And>e. x = Inl e \<Longrightarrow> twp (f e) Q t) \<Longrightarrow> (\<And>a. x = Inr a \<Longrightarrow> twp (g a) Q t) \<Longrightarrow>
   twp (case x of Inl e \<Rightarrow> f e | Inr a \<Rightarrow> g a) Q t"
  by (cases x) auto

lemma twp_case_option [trace_rules]:
  "(x = None \<Longrightarrow> twp m Q t) \<Longrightarrow> (\<And>a. x = Some a \<Longrightarrow> twp (g a) Q t) \<Longrightarrow>
   twp (case x of None \<Rightarrow> m | Some a \<Rightarrow> g a) Q t"
  by (cases x) auto

lemma twp_case_list [trace_rules]:
  "(x = [] \<Longrightarrow> twp m Q t) \<Longrightarrow> (\<And>a as. x = a # as \<Longrightarrow> twp (g a as) Q t) \<Longrightarrow>
   twp (case x of [] \<Rightarrow> m | a # as \<Rightarrow> g a as) Q t"
  by (cases x) auto

lemma twp_case_prod [trace_rules]:
  "(\<And>a b. x = (a, b) \<Longrightarrow> twp (f a b) Q t) \<Longrightarrow> twp (case x of (a, b) \<Rightarrow> f a b) Q t"
  by (cases x) auto

lemma twp_case_outcome [trace_rules]:
  "(\<And>a. x = Ret a \<Longrightarrow> twp (f a) Q t) \<Longrightarrow> (\<And>p. x = Panic p \<Longrightarrow> twp (g p) Q t) \<Longrightarrow>
   twp (case x of Ret a \<Rightarrow> f a | Panic p \<Rightarrow> g p) Q t"
  by (cases x) auto

lemma twp_Let [trace_rules]: "twp (f v) Q t \<Longrightarrow> twp (let x = v in f x) Q t"
  by (simp add: Let_def)

lemma twp_mono: "twp m Q t \<Longrightarrow> (\<And>a u. Q a u \<Longrightarrow> R a u) \<Longrightarrow> twp m R t"
  unfolding twp_def by (blast intro: wp_mono)

lemma twp_conj: "twp m Q t \<Longrightarrow> twp m R t \<Longrightarrow> twp m (\<lambda>a u. Q a u \<and> R a u) t"
  by (simp add: twp_def wp_conj)

lemma twp_True [simp]: "twp m (\<lambda>_ _. True) t"
  by (simp add: twp_def)

lemma twp_get [trace_rules]:
  "(\<And>r. Q (reply_obj c r) (t @ [(RGet g (ckind c) k, r)])) \<Longrightarrow> twp (get_obj E c g k) Q t"
  unfolding get_obj_def by (intro twp_bind twp_call) simp

lemma twp_list [trace_rules]:
  "(\<And>r. Q (reply_list c r) (t @ [(RList g (ckind c) sel, r)])) \<Longrightarrow> twp (list_obj E c g sel) Q t"
  unfolding list_obj_def by (intro twp_bind twp_call) simp

lemma twp_create [trace_rules]:
  "(\<And>r. Q (reply_obj c r) (t @ [(RCreate g (encode c x), r)])) \<Longrightarrow> twp (create_obj E c g x) Q t"
  unfolding create_obj_def by (intro twp_bind twp_call) simp

lemma twp_update [trace_rules]:
  "(\<And>r. Q (reply_obj c r) (t @ [(RUpdate g (encode c x), r)])) \<Longrightarrow> twp (update_obj E c g x) Q t"
  unfolding update_obj_def by (intro twp_bind twp_call) simp

lemma twp_patch [trace_rules]:
  "(\<And>r. Q (reply_obj c r) (t @ [(RPatch Cached pk (encode c b) (encode c x), r)])) \<Longrightarrow>
   twp (patch_obj E c pk b x) Q t"
  unfolding patch_obj_def by (intro twp_bind twp_call) simp

lemma twp_delete [trace_rules]:
  "(\<And>r. Q (reply_unit r) (t @ [(RDelete g (encode c x), r)])) \<Longrightarrow> twp (delete_obj E c g x) Q t"
  unfolding delete_obj_def by (intro twp_bind twp_call) simp

lemma twp_delete_all [trace_rules]:
  "(\<And>r. Q (reply_unit r) (t @ [(RDeleteAllOf Cached (ckind c) sel, r)])) \<Longrightarrow>
   twp (delete_all_of E c sel) Q t"
  unfolding delete_all_of_def by (intro twp_bind twp_call) simp

lemma twp_apply [trace_rules]:
  "(\<And>r. Q (reply_unit r) (t @ [(RApply Cached (encode c x) ow, r)])) \<Longrightarrow>
   twp (apply_obj E c x ow) Q t"
  unfolding apply_obj_def by (intro twp_bind twp_call) simp

text \<open>The loop: an invariant on the trace.\<close>

lemma twp_for_each:
  fixes f :: "'x \<Rightarrow> ('w st, 'r option) state"
  assumes "I t"
    and body: "\<And>x u. x \<in> set xs \<Longrightarrow> I u \<Longrightarrow>
      twp (f x) (\<lambda>r v. case r of None \<Rightarrow> I v | Some e \<Rightarrow> Q (Some e) v) u"
    and fin: "\<And>u. I u \<Longrightarrow> Q None u"
  shows "twp (for_each f xs) Q t"
  unfolding twp_def
proof
  fix w
  show "wp (for_each f xs) (\<lambda>a s. Q a (trace s)) \<lparr>world = w, trace = t\<rparr>"
  proof (rule wp_for_each [where I = "\<lambda>s. I (trace s)"])
    fix x and s :: "'w st"
    assume "x \<in> set xs" and "I (trace s)"
    then have "twp (f x) (\<lambda>r v. case r of None \<Rightarrow> I v | Some e \<Rightarrow> Q (Some e) v) (trace s)"
      by (rule body)
    then show "wp (f x) (\<lambda>r u. case r of None \<Rightarrow> I (trace u) | Some e \<Rightarrow> Q (Some e) (trace u)) s"
      by (auto dest!: twpD elim!: wp_mono split: option.splits)
  qed (use assms in simp_all)
qed

section \<open>Running a handler\<close>

definition exec :: "('w st, 'a) state \<Rightarrow> 'w \<Rightarrow> 'a \<times> event list" where
  "exec m w = (case run_state m \<lparr>world = w, trace = []\<rparr> of (a, s) \<Rightarrow> (a, trace s))"

abbreviation result_of :: "('w st, 'a) state \<Rightarrow> 'w \<Rightarrow> 'a" where
  "result_of m w \<equiv> fst (exec m w)"

abbreviation trace_of :: "('w st, 'a) state \<Rightarrow> 'w \<Rightarrow> event list" where
  "trace_of m w \<equiv> snd (exec m w)"

lemma exec_twp: "twp m Q [] \<Longrightarrow> Q (result_of m w) (trace_of m w)"
  by (auto simp: twp_def wp_def exec_def split: prod.splits dest!: spec [of _ w])

text \<open>
  \<open>justified P tr\<close>: every event \<open>e\<close> of the trace stands to the events \<open>us\<close> before it
  as \<open>P us e\<close> says.  \<open>guarded P Q tr\<close>: every event that \<open>Q\<close> holds of comes after one
  that \<open>P\<close> holds of.
\<close>

fun justified :: "(event list \<Rightarrow> event \<Rightarrow> bool) \<Rightarrow> event list \<Rightarrow> bool" where
  "justified P [] = True"
| "justified P (e # es) = (P [] e \<and> justified (\<lambda>us. P (e # us)) es)"

definition guarded :: "(event \<Rightarrow> bool) \<Rightarrow> (event \<Rightarrow> bool) \<Rightarrow> event list \<Rightarrow> bool" where
  "guarded P Q = justified (\<lambda>us e. Q e \<longrightarrow> (\<exists>d \<in> set us. P d))"

lemma justified_append [simp]:
  "justified P (es @ fs) = (justified P es \<and> justified (\<lambda>us. P (es @ us)) fs)"
  by (induction es arbitrary: P) auto

lemma justified_all: "(\<And>us e. e \<in> set es \<Longrightarrow> P us e) \<Longrightarrow> justified P es"
  by (induction es arbitrary: P) auto

lemma justified_mono:
  "justified P es \<Longrightarrow> (\<And>us e. e \<in> set es \<Longrightarrow> P us e \<Longrightarrow> Q us e) \<Longrightarrow> justified Q es"
proof (induction es arbitrary: P Q)
  case (Cons e es)
  have "justified (\<lambda>us. Q (e # us)) es"
    by (rule Cons.IH [where P = "\<lambda>us. P (e # us)"]) (use Cons.prems in auto)
  with Cons.prems show ?case by simp
qed simp

lemma justified_split:
  "justified P tr \<longleftrightarrow> (\<forall>us e vs. tr = us @ e # vs \<longrightarrow> P us e)"
proof
  assume "justified P tr"
  then show "\<forall>us e vs. tr = us @ e # vs \<longrightarrow> P us e" by auto
next
  assume "\<forall>us e vs. tr = us @ e # vs \<longrightarrow> P us e"
  then show "justified P tr"
  proof (induction tr arbitrary: P)
    case (Cons e tr)
    have "P [] e" using Cons.prems by blast
    moreover have "justified (\<lambda>us. P (e # us)) tr"
    proof (rule Cons.IH, intro allI impI)
      fix us d vs
      assume "tr = us @ d # vs"
      then have "e # tr = (e # us) @ d # vs" by simp
      with Cons.prems show "P (e # us) d" by blast
    qed
    ultimately show ?case by simp
  qed simp
qed

lemma guarded_split:
  "guarded P Q tr \<longleftrightarrow> (\<forall>us e vs. tr = us @ e # vs \<longrightarrow> Q e \<longrightarrow> (\<exists>d \<in> set us. P d))"
  by (simp add: guarded_def justified_split)

text \<open>
  \<open>runs m R\<close>: whatever happened before, a run of \<open>m\<close> adds events that stand to its
  result as \<open>R\<close> says.  The specification of a handler that callers use.
\<close>

definition runs :: "('w st, 'a) state \<Rightarrow> ('a \<Rightarrow> event list \<Rightarrow> bool) \<Rightarrow> bool" where
  "runs m R = (\<forall>t. twp m (\<lambda>a u. \<exists>es. u = t @ es \<and> R a es) t)"

lemma runsI: "(\<And>t. twp m (\<lambda>a u. \<exists>es. u = t @ es \<and> R a es) t) \<Longrightarrow> runs m R"
  by (simp add: runs_def)

lemma runs_use: "runs m R \<Longrightarrow> (\<And>a es. R a es \<Longrightarrow> Q a (t @ es)) \<Longrightarrow> twp m Q t"
  unfolding runs_def by (blast intro: twp_mono)

lemma runs_exec: "runs m R \<Longrightarrow> R (result_of m w) (trace_of m w)"
  by (rule exec_twp) (auto elim!: runs_use)

lemma runs_mono: "runs m R \<Longrightarrow> (\<And>a es. R a es \<Longrightarrow> S a es) \<Longrightarrow> runs m S"
  unfolding runs_def by (blast intro: twp_mono)

lemma runs_conj:
  assumes "runs m R" "runs m S"
  shows "runs m (\<lambda>a es. R a es \<and> S a es)"
  unfolding runs_def
proof
  fix t
  have "twp m (\<lambda>a u. (\<exists>es. u = t @ es \<and> R a es) \<and> (\<exists>es. u = t @ es \<and> S a es)) t"
    using assms by (intro twp_conj) (simp_all add: runs_def)
  then show "twp m (\<lambda>a u. \<exists>es. u = t @ es \<and> R a es \<and> S a es) t"
    by (rule twp_mono) auto
qed

lemma runs_bind:
  "runs m (\<lambda>a es. runs (f a) (\<lambda>b fs. R b (es @ fs))) \<Longrightarrow> runs (State_Monad.bind m f) R"
  by (rule runsI, rule twp_bind) (auto elim!: runs_use)

lemma runs_ret [simp]: "runs (ret a) R = R a []"
  by (auto simp: runs_def)

lemma runs_obind:
  assumes "runs m (\<lambda>r es. case r of Panic e \<Rightarrow> R (Panic e) es
    | Ret a \<Rightarrow> runs (f a) (\<lambda>b fs. R b (es @ fs)))"
  shows "runs (obind m f) R"
  unfolding obind_def
  by (rule runs_bind, rule runs_mono [OF assms]) (auto split: outcome.splits)

lemma runs_lift: "runs m (\<lambda>a es. R (Ret a) es) \<Longrightarrow> runs (lift m) R"
  unfolding lift_def by (rule runs_bind, erule runs_mono) simp

lemma runs_for_each:
  assumes body: "\<And>x. x \<in> set xs \<Longrightarrow> runs (f x) (\<lambda>r es. r = None \<longrightarrow> R x es)"
    and nil: "T [] []" and cons: "\<And>x xs es fs. R x es \<Longrightarrow> T xs fs \<Longrightarrow> T (x # xs) (es @ fs)"
  shows "runs (for_each f xs) (\<lambda>r es. r = None \<longrightarrow> T xs es)"
  using body
proof (induction xs)
  case Nil
  then show ?case by (simp add: nil)
next
  case (Cons x xs)
  have tail: "runs (for_each f xs) (\<lambda>r es. r = None \<longrightarrow> T xs es)"
    using Cons by simp
  show ?case
    by (simp, rule runs_bind, rule runs_mono [OF Cons.prems [of x]])
      (auto split: option.split intro!: runs_mono [OF tail] cons)
qed

text \<open>A loop over steps that stop with a result keeps what holds of every such result.\<close>

lemma runs_stopped:
  assumes "\<And>x. x \<in> set xs \<Longrightarrow> runs (f x) (\<lambda>r es. \<forall>d. r = Some d \<longrightarrow> P d)"
  shows "runs (for_each f xs) (\<lambda>r es. \<forall>d. r = Some d \<longrightarrow> P d)"
  using assms
proof (induction xs)
  case (Cons x xs)
  then have tail: "runs (for_each f xs) (\<lambda>r es. \<forall>d. r = Some d \<longrightarrow> P d)" by simp
  show ?case
    by (simp, rule runs_bind, rule runs_mono [OF Cons.prems [of x]])
      (auto split: option.split intro!: runs_mono [OF tail])
qed simp

text \<open>A trace all of whose requests satisfy \<open>R\<close>, as a frame condition of a handler.\<close>

definition only :: "(request \<Rightarrow> bool) \<Rightarrow> event list \<Rightarrow> bool" where
  "only R tr = (\<forall>e \<in> set tr. R (fst e))"

lemma only_Nil [simp]: "only R []"
  by (simp add: only_def)

lemma only_Cons [simp]: "only R (e # es) \<longleftrightarrow> R (fst e) \<and> only R es"
  by (simp add: only_def)

lemma only_append [simp]: "only R (es @ fs) \<longleftrightarrow> only R es \<and> only R fs"
  by (auto simp: only_def)

lemma only_mono: "only R es \<Longrightarrow> (\<And>r. R r \<Longrightarrow> S r) \<Longrightarrow> only S es"
  by (auto simp: only_def)

text \<open>\<open>emits R m\<close>: whatever happens, every request of \<open>m\<close> satisfies \<open>R\<close>.\<close>

definition emits :: "(request \<Rightarrow> bool) \<Rightarrow> ('w st, 'a) state \<Rightarrow> bool" where
  "emits R m = (\<forall>t. twp m (\<lambda>_ u. \<exists>es. u = t @ es \<and> only R es) t)"

named_theorems emits_rules \<open>introduction rules for the frame of a handler\<close>

lemma emits_use: "emits R m \<Longrightarrow> (\<And>a es. only R es \<Longrightarrow> Q a (t @ es)) \<Longrightarrow> twp m Q t"
  unfolding emits_def by (blast intro: twp_mono)

lemma emits_exec: "emits R m \<Longrightarrow> only R (trace_of m w)"
  by (rule exec_twp [where Q = "\<lambda>_. only R"]) (auto elim!: emits_use)

lemma emits_ret [emits_rules]: "emits R (ret a)"
  by (simp add: emits_def)

lemma emits_bind [emits_rules]:
  "emits R m \<Longrightarrow> (\<And>a. emits R (f a)) \<Longrightarrow> emits R (State_Monad.bind m f)"
  unfolding emits_def [of R "State_Monad.bind m f"]
  by (intro allI twp_bind, erule emits_use, rule emits_use, assumption) auto

lemma emits_case_outcome [emits_rules]:
  "(\<And>a. x = Ret a \<Longrightarrow> emits R (f a)) \<Longrightarrow> (\<And>p. x = Panic p \<Longrightarrow> emits R (g p)) \<Longrightarrow>
   emits R (case x of Ret a \<Rightarrow> f a | Panic p \<Rightarrow> g p)"
  by (cases x) auto

lemma emits_obind [emits_rules]:
  "emits R m \<Longrightarrow> (\<And>a. emits R (f a)) \<Longrightarrow> emits R (obind m f)"
  unfolding obind_def by (intro emits_bind emits_case_outcome emits_ret)

lemma emits_lift [emits_rules]: "emits R m \<Longrightarrow> emits R (lift m)"
  unfolding lift_def by (intro emits_bind emits_ret)

lemma emits_call [emits_rules]: "R r \<Longrightarrow> emits R (call E r)"
  unfolding emits_def by (auto intro!: twp_call)

lemma emits_if [emits_rules]:
  "(b \<Longrightarrow> emits R m) \<Longrightarrow> (\<not> b \<Longrightarrow> emits R n) \<Longrightarrow> emits R (if b then m else n)"
  by simp

lemma emits_case_sum [emits_rules]:
  "(\<And>e. x = Inl e \<Longrightarrow> emits R (f e)) \<Longrightarrow> (\<And>a. x = Inr a \<Longrightarrow> emits R (g a)) \<Longrightarrow>
   emits R (case x of Inl e \<Rightarrow> f e | Inr a \<Rightarrow> g a)"
  by (cases x) auto

lemma emits_case_option [emits_rules]:
  "(x = None \<Longrightarrow> emits R m) \<Longrightarrow> (\<And>a. x = Some a \<Longrightarrow> emits R (g a)) \<Longrightarrow>
   emits R (case x of None \<Rightarrow> m | Some a \<Rightarrow> g a)"
  by (cases x) auto

lemma emits_case_list [emits_rules]:
  "(x = [] \<Longrightarrow> emits R m) \<Longrightarrow> (\<And>a as. x = a # as \<Longrightarrow> emits R (g a as)) \<Longrightarrow>
   emits R (case x of [] \<Rightarrow> m | a # as \<Rightarrow> g a as)"
  by (cases x) auto

lemma emits_case_prod [emits_rules]:
  "(\<And>a b. x = (a, b) \<Longrightarrow> emits R (f a b)) \<Longrightarrow> emits R (case x of (a, b) \<Rightarrow> f a b)"
  by (cases x) auto

lemma emits_Let [emits_rules]: "emits R (f v) \<Longrightarrow> emits R (let x = v in f x)"
  by (simp add: Let_def)

lemma emits_for_each [emits_rules]:
  "(\<And>x. x \<in> set xs \<Longrightarrow> emits R (f x)) \<Longrightarrow> emits R (for_each f xs)"
  by (induction xs) (auto intro!: emits_rules)

lemma emits_client [emits_rules]:
  "R (RGet g (ckind c) k) \<Longrightarrow> emits R (get_obj E c g k)"
  "R (RList g (ckind c) sel) \<Longrightarrow> emits R (list_obj E c g sel)"
  "R (RCreate g (encode c x)) \<Longrightarrow> emits R (create_obj E c g x)"
  "R (RUpdate g (encode c x)) \<Longrightarrow> emits R (update_obj E c g x)"
  "R (RPatch Cached pk (encode c b) (encode c x)) \<Longrightarrow> emits R (patch_obj E c pk b x)"
  "R (RDelete g (encode c x)) \<Longrightarrow> emits R (delete_obj E c g x)"
  "R (RDeleteAllOf Cached (ckind c) sel) \<Longrightarrow> emits R (delete_all_of E c sel)"
  "R (RApply Cached (encode c x) ow) \<Longrightarrow> emits R (apply_obj E c x ow)"
  unfolding client_defs by (intro emits_bind emits_call emits_ret; assumption)+

lemma emits_mono: "emits R m \<Longrightarrow> (\<And>r. R r \<Longrightarrow> S r) \<Longrightarrow> emits S m"
  unfolding emits_def by (blast intro: twp_mono only_mono)

section \<open>Compliance\<close>

text \<open>
  \<open>complies P m\<close>: each event of a run of \<open>m\<close> stands to everything before it, the
  caller's events too, as \<open>P\<close> says.  It composes along the syntax of a handler; a
  step that depends on what a check before it has seen uses \<open>complies_checked\<close>.
\<close>

definition complies :: "(event list \<Rightarrow> event \<Rightarrow> bool) \<Rightarrow> ('w st, 'a) state \<Rightarrow> bool" where
  "complies P m = runs m (\<lambda>_ es. \<forall>us. justified (\<lambda>vs. P (us @ vs)) es)"

named_theorems complies_rules \<open>introduction rules for compliance\<close>

lemma complies_exec: "complies P m \<Longrightarrow> justified P (trace_of m w)"
  unfolding complies_def
  by (drule runs_exec [where w = w], drule spec [of _ "[]"]) simp

lemma complies_ret [complies_rules]: "complies P (ret a)"
  by (simp add: complies_def)

lemma complies_checked:
  assumes "runs m (\<lambda>a es. (\<forall>us. justified (\<lambda>vs. P (us @ vs)) es) \<and>
    complies (\<lambda>vs e. \<forall>us. P (us @ es @ vs) e) (f a))"
  shows "complies P (State_Monad.bind m f)"
  unfolding complies_def
proof (rule runs_bind, rule runs_mono [OF assms])
  fix a es
  assume run: "(\<forall>us. justified (\<lambda>vs. P (us @ vs)) es) \<and>
    complies (\<lambda>vs e. \<forall>us. P (us @ es @ vs) e) (f a)"
  then have "runs (f a) (\<lambda>b fs. \<forall>us. justified (\<lambda>vs e. \<forall>ws. P (ws @ es @ us @ vs) e) fs)"
    by (simp add: complies_def)
  then show "runs (f a) (\<lambda>b fs. \<forall>us. justified (\<lambda>vs. P (us @ vs)) (es @ fs))"
  proof (rule runs_mono)
    fix b fs
    assume all: "\<forall>us. justified (\<lambda>vs e. \<forall>ws. P (ws @ es @ us @ vs) e) fs"
    have "justified (\<lambda>vs. P (us @ es @ vs)) fs" for us
      by (rule justified_mono [OF all [THEN spec, of "[]"]]) simp
    with run show "\<forall>us. justified (\<lambda>vs. P (us @ vs)) (es @ fs)" by simp
  qed
qed

lemma complies_bind [complies_rules]:
  assumes "complies P m" "\<And>a. complies P (f a)"
  shows "complies P (State_Monad.bind m f)"
  unfolding complies_def
proof (rule runs_bind, rule runs_mono [OF assms(1) [unfolded complies_def]])
  fix a es
  assume es: "\<forall>us. justified (\<lambda>vs. P (us @ vs)) es"
  show "runs (f a) (\<lambda>b fs. \<forall>us. justified (\<lambda>vs. P (us @ vs)) (es @ fs))"
  proof (rule runs_mono [OF assms(2) [of a, unfolded complies_def]])
    fix b fs
    assume "\<forall>us. justified (\<lambda>vs. P (us @ vs)) fs"
    then have "justified (\<lambda>vs. P ((us @ es) @ vs)) fs" for us by blast
    with es show "\<forall>us. justified (\<lambda>vs. P (us @ vs)) (es @ fs)" by simp
  qed
qed

text \<open>What the first step's run shows about its result may be used for the second.\<close>

lemma complies_then:
  assumes "complies P m" and "runs m (\<lambda>a es. complies P (f a))"
  shows "complies P (State_Monad.bind m f)"
  unfolding complies_def
proof (rule runs_bind, rule runs_mono [OF runs_conj [OF assms(1) [unfolded complies_def] assms(2)]])
  fix a es
  assume both: "(\<forall>us. justified (\<lambda>vs. P (us @ vs)) es) \<and> complies P (f a)"
  show "runs (f a) (\<lambda>b fs. \<forall>us. justified (\<lambda>vs. P (us @ vs)) (es @ fs))"
  proof (rule runs_mono [OF both [THEN conjunct2, unfolded complies_def]])
    fix b fs
    assume "\<forall>us. justified (\<lambda>vs. P (us @ vs)) fs"
    then have "justified (\<lambda>vs. P ((us @ es) @ vs)) fs" for us by blast
    with both show "\<forall>us. justified (\<lambda>vs. P (us @ vs)) (es @ fs)" by simp
  qed
qed

lemma complies_emits:
  assumes "emits R m" and "\<And>us r a. R r \<Longrightarrow> P us (r, a)"
  shows "complies P m"
  unfolding complies_def
  by (rule runsI, rule emits_use [OF assms(1)]) (auto intro!: justified_all assms(2) simp: only_def)

lemma complies_case_sum [complies_rules]:
  "(\<And>e. x = Inl e \<Longrightarrow> complies P (f e)) \<Longrightarrow> (\<And>a. x = Inr a \<Longrightarrow> complies P (g a)) \<Longrightarrow>
   complies P (case x of Inl e \<Rightarrow> f e | Inr a \<Rightarrow> g a)"
  by (cases x) auto

lemma complies_case_option [complies_rules]:
  "(x = None \<Longrightarrow> complies P m) \<Longrightarrow> (\<And>a. x = Some a \<Longrightarrow> complies P (g a)) \<Longrightarrow>
   complies P (case x of None \<Rightarrow> m | Some a \<Rightarrow> g a)"
  by (cases x) auto

lemma complies_case_prod [complies_rules]:
  "(\<And>a b. x = (a, b) \<Longrightarrow> complies P (f a b)) \<Longrightarrow> complies P (case x of (a, b) \<Rightarrow> f a b)"
  by (cases x) auto

lemma complies_case_outcome [complies_rules]:
  "(\<And>a. x = Ret a \<Longrightarrow> complies P (f a)) \<Longrightarrow> (\<And>p. x = Panic p \<Longrightarrow> complies P (g p)) \<Longrightarrow>
   complies P (case x of Ret a \<Rightarrow> f a | Panic p \<Rightarrow> g p)"
  by (cases x) auto

lemma complies_if [complies_rules]:
  "(b \<Longrightarrow> complies P m) \<Longrightarrow> (\<not> b \<Longrightarrow> complies P n) \<Longrightarrow> complies P (if b then m else n)"
  by simp

lemma complies_Let [complies_rules]: "complies P (f v) \<Longrightarrow> complies P (let x = v in f x)"
  by (simp add: Let_def)

lemma complies_obind [complies_rules]:
  "complies P m \<Longrightarrow> (\<And>a. complies P (f a)) \<Longrightarrow> complies P (obind m f)"
  unfolding obind_def by (intro complies_rules)

lemma complies_lift [complies_rules]: "complies P m \<Longrightarrow> complies P (lift m)"
  unfolding lift_def by (intro complies_rules)

lemma complies_for_each [complies_rules]:
  "(\<And>x. x \<in> set xs \<Longrightarrow> complies P (f x)) \<Longrightarrow> complies P (for_each f xs)"
  by (induction xs) (auto intro!: complies_rules)

lemma complies_call [complies_rules]: "(\<And>us a. P us (r, a)) \<Longrightarrow> complies P (call E r)"
  by (rule complies_emits [OF emits_call [where R = "\<lambda>q. q = r"]]) auto

lemma complies_client [complies_rules]:
  "(\<And>us a. P us (RGet g (ckind c) k, a)) \<Longrightarrow> complies P (get_obj E c g k)"
  "(\<And>us a. P us (RList g (ckind c) sel, a)) \<Longrightarrow> complies P (list_obj E c g sel)"
  "(\<And>us a. P us (RCreate g (encode c x), a)) \<Longrightarrow> complies P (create_obj E c g x)"
  "(\<And>us a. P us (RUpdate g (encode c x), a)) \<Longrightarrow> complies P (update_obj E c g x)"
  "(\<And>us a. P us (RPatch Cached pk (encode c b) (encode c x), a)) \<Longrightarrow> complies P (patch_obj E c pk b x)"
  "(\<And>us a. P us (RDelete g (encode c x), a)) \<Longrightarrow> complies P (delete_obj E c g x)"
  "(\<And>us a. P us (RDeleteAllOf Cached (ckind c) sel, a)) \<Longrightarrow> complies P (delete_all_of E c sel)"
  "(\<And>us a. P us (RApply Cached (encode c x) ow, a)) \<Longrightarrow> complies P (apply_obj E c x ow)"
  unfolding client_defs by (intro complies_bind complies_call complies_ret; assumption)+

end
