(* ===== verification/Env_Laws.thy ===== *)
theory Env_Laws
  imports Client "HOL-Library.Product_Lexorder" "HOL-Library.List_Lexorder" "HOL-Library.Char_ord"
begin

text \<open>
  What the imported Go modules are documented to do, as predicates on the
  environment, and an environment that satisfies all of them.  \<open>script_env\<close> answers
  requests from a list of responses, so that a closed theorem can play any
  conversation with the API server.
\<close>

section \<open>Documented behaviour\<close>

text \<open>\<open>k8s.io/apimachinery/pkg/api/errors\<close> and \<open>client.IgnoreNotFound\<close>.\<close>

definition error_laws :: "'w env \<Rightarrow> bool" where
  "error_laws E \<longleftrightarrow>
     (\<forall>m e. is_not_found E (EWrap m e) = is_not_found E e) \<and>
     (\<forall>m e. is_conflict E (EWrap m e) = is_conflict E e) \<and>
     ignore_not_found E None = None \<and>
     (\<forall>e. ignore_not_found E (Some e) = (if is_not_found E e then None else Some e))"

text \<open>\<open>errors.NewAggregate\<close>: nil exactly if every error of the list is nil.\<close>

definition aggregate_law :: "'w env \<Rightarrow> bool" where
  "aggregate_law E \<longleftrightarrow> (\<forall>es. aggregate E es = None \<longleftrightarrow> (\<forall>e \<in> set es. e = None))"

text \<open>\<open>controllerutil\<close>: finalizers as sets, with a flag that says whether they changed.\<close>

definition finalizer_laws :: "'w env \<Rightarrow> bool" where
  "finalizer_laws E \<longleftrightarrow>
     (\<forall>fs f. contains_finalizer E fs f = (f \<in> set fs)) \<and>
     (\<forall>fs f. set (fst (add_finalizer E fs f)) = insert f (set fs)) \<and>
     (\<forall>fs f. snd (add_finalizer E fs f) = (f \<notin> set fs)) \<and>
     (\<forall>fs f. f \<in> set fs \<longrightarrow> fst (add_finalizer E fs f) = fs) \<and>
     (\<forall>fs f. f \<notin> set fs \<longrightarrow> fst (remove_finalizer E fs f) = fs) \<and>
     (\<forall>fs f. set (fst (remove_finalizer E fs f)) = set fs - {f}) \<and>
     (\<forall>fs f. snd (remove_finalizer E fs f) = (f \<in> set fs))"

text \<open>\<open>sigs.k8s.io/cluster-api/util/conditions\<close>: at most one condition of a type.\<close>

definition condition_laws :: "'w env \<Rightarrow> bool" where
  "condition_laws E \<longleftrightarrow>
     (\<forall>cs c t. cond_get E (cond_put E cs c) t = (if t = c_type c then Some c else cond_get E cs t)) \<and>
     (\<forall>cs d t. cond_get E (cond_delete E cs d) t = (if t = d then None else cond_get E cs t)) \<and>
     (\<forall>cs t. cond_is_true E cs t = (\<exists>c. cond_get E cs t = Some c \<and> c_status c = CondTrue)) \<and>
     (\<forall>cs t. cond_is_false E cs t = (\<exists>c. cond_get E cs t = Some c \<and> c_status c = CondFalse))"

text \<open>
  \<open>retry.RetryOnConflict\<close>: the function runs again while it fails with a conflict,
  some fixed number of times at most.
\<close>

fun attempts ::
  "(go_error \<Rightarrow> bool) \<Rightarrow> nat \<Rightarrow> ('c \<Rightarrow> ('s, 'c \<times> go_error option) state)
     \<Rightarrow> 'c \<Rightarrow> ('s, 'c \<times> go_error option) state" where
  "attempts p 0 f c = f c"
| "attempts p (Suc n) f c =
     do { r \<leftarrow> f c;
          case r of (d, er) \<Rightarrow>
            (case er of
               None \<Rightarrow> ret (d, None)
             | Some e \<Rightarrow> if p e then attempts p n f d else ret (d, Some e)) }"

definition retry_law :: "'w env \<Rightarrow> bool" where
  "retry_law E \<longleftrightarrow> (\<exists>n. retry_on_conflict E = attempts (is_conflict E) n)"

text \<open>
  \<open>controllerutil.CreateOrUpdate\<close>: fetch the object; if it does not exist, mutate the
  template and create it; if it does, mutate what was fetched and update it when that
  changed something.
\<close>

fun kobj_meta :: "kobj \<Rightarrow> object_meta" where
  "kobj_meta (OCluster x) = cc_meta x"
| "kobj_meta (ORancher x) = rc_meta x"
| "kobj_meta (OToken x) = rt_meta x"
| "kobj_meta (OSetting x) = set_meta x"
| "kobj_meta (OProvider x) = cp_meta x"
| "kobj_meta (OConfig x) = cfg_meta x"
| "kobj_meta (OSecret x) = sec_meta x"
| "kobj_meta (ONamespace x) = ns_meta x"
| "kobj_meta (OConfigMap x) = cm_meta x"
| "kobj_meta (OJob x) = job_meta x"
| "kobj_meta (OService x) = svc_meta x"
| "kobj_meta (ODeployment x) = dep_meta x"
| "kobj_meta (ORole x) = role_meta x"
| "kobj_meta (OUnstr x) = un_meta x"

fun kobj_kind :: "kobj \<Rightarrow> kind" where
  "kobj_kind (OCluster x) = KCluster"
| "kobj_kind (ORancher x) = KRancher"
| "kobj_kind (OToken x) = KToken"
| "kobj_kind (OSetting x) = KSetting"
| "kobj_kind (OProvider x) = KProvider"
| "kobj_kind (OConfig x) = KConfig"
| "kobj_kind (OSecret x) = KSecret"
| "kobj_kind (ONamespace x) = KNamespace"
| "kobj_kind (OConfigMap x) = KConfigMap"
| "kobj_kind (OJob x) = KJob"
| "kobj_kind (OService x) = KService"
| "kobj_kind (ODeployment x) = KDeployment"
| "kobj_kind (ORole x) = KRole"
| "kobj_kind (OUnstr x) = KUnstr (un_gvk x)"

definition documented_create_or_update ::
  "'w env \<Rightarrow> kobj \<Rightarrow> (kobj \<Rightarrow> go_error + kobj) \<Rightarrow> ('w st, go_error option) state" where
  "documented_create_or_update E ob f =
     do { r \<leftarrow> call E (RGet Cached (kobj_kind ob) (key_of (kobj_meta ob)));
          case r of
            RErr e \<Rightarrow>
              if is_not_found E e then
                (case f ob of
                   Inl err \<Rightarrow> ret (Some err)
                 | Inr new \<Rightarrow> do { a \<leftarrow> call E (RCreate Cached new); ret (reply_unit a) })
              else ret (Some e)
          | RObj old \<Rightarrow>
              if kobj_kind old = kobj_kind ob then
                (case f old of
                   Inl err \<Rightarrow> ret (Some err)
                 | Inr new \<Rightarrow>
                     if new = old then ret None
                     else do { a \<leftarrow> call E (RUpdate Cached new); ret (reply_unit a) })
              else ret (Some decode_error)
          | _ \<Rightarrow> ret (Some decode_error) }"

definition create_or_update_law :: "'w env \<Rightarrow> bool" where
  "create_or_update_law E \<longleftrightarrow> create_or_update E = documented_create_or_update E"

text \<open>\<open>semver.Version.LTE\<close> is a total preorder.\<close>

definition semver_laws :: "'w env \<Rightarrow> bool" where
  "semver_laws E \<longleftrightarrow>
     (\<forall>a. semver_lte E a a) \<and>
     (\<forall>a b c. semver_lte E a b \<longrightarrow> semver_lte E b c \<longrightarrow> semver_lte E a c) \<and>
     (\<forall>a b. semver_lte E a b \<or> semver_lte E b a)"

section \<open>An order on versions\<close>

fun semver_key :: "semver \<Rightarrow> nat \<times> nat \<times> nat \<times> bool \<times> string" where
  "semver_key (Semver a b c pre) = (a, b, c, pre = [], pre)"

lemma semver_key_inj: "semver_key v = semver_key w \<Longrightarrow> v = w"
  by (cases v; cases w) simp

instantiation semver :: linorder
begin

definition less_eq_semver :: "semver \<Rightarrow> semver \<Rightarrow> bool" where
  "less_eq_semver v w \<longleftrightarrow> semver_key v \<le> semver_key w"

definition less_semver :: "semver \<Rightarrow> semver \<Rightarrow> bool" where
  "less_semver v w \<longleftrightarrow> semver_key v < semver_key w"

instance
proof
  fix u v w :: semver
  show "v < w \<longleftrightarrow> v \<le> w \<and> \<not> w \<le> v"
    unfolding less_eq_semver_def less_semver_def by (rule less_le_not_le)
  show "v \<le> v"
    unfolding less_eq_semver_def by (rule order_refl)
  show "u \<le> v \<Longrightarrow> v \<le> w \<Longrightarrow> u \<le> w"
    unfolding less_eq_semver_def by (rule order_trans)
  show "v \<le> w \<Longrightarrow> w \<le> v \<Longrightarrow> v = w"
    unfolding less_eq_semver_def by (blast intro: semver_key_inj order_antisym)
  show "v \<le> w \<or> w \<le> v"
    unfolding less_eq_semver_def by (rule linear)
qed

end

section \<open>The scripted environment\<close>

fun root_cause :: "go_error \<Rightarrow> go_error" where
  "root_cause (EWrap m e) = root_cause e"
| "root_cause e = e"

fun script_srv :: "request \<Rightarrow> response list \<Rightarrow> response \<times> response list" where
  "script_srv r [] = (RErr (EMsg ''no response''), [])"
| "script_srv r (a # as) = (a, as)"

definition script_cond_get :: "condition list \<Rightarrow> string \<Rightarrow> condition option" where
  "script_cond_get cs t = find (\<lambda>c. c_type c = t) cs"

definition script_cond_put :: "condition list \<Rightarrow> condition \<Rightarrow> condition list" where
  "script_cond_put cs c = c # filter (\<lambda>d. c_type d \<noteq> c_type c) cs"

definition script_aggregate :: "go_error option list \<Rightarrow> go_error option" where
  "script_aggregate es =
     (case List.map_filter (\<lambda>e. e) es of [] \<Rightarrow> None | xs \<Rightarrow> Some (EAggregate xs))"

text \<open>A parser for \<open>a.b.c\<close> with one digit each, enough for the closed examples.\<close>

fun script_semver :: "string \<Rightarrow> go_error + semver" where
  "script_semver [a, d, b, e, c] =
     Inr (Semver (of_char a - 48) (of_char b - 48) (of_char c - 48) [])"
| "script_semver _ = Inl (EMsg ''invalid version'')"

definition script_object :: "string \<Rightarrow> unstructured" where
  "script_object s = \<lparr>un_gvk = \<lparr>gvk_group = ''apps'', gvk_version = ''v1'', gvk_kind = ''Deployment''\<rparr>,
     un_meta = empty_meta\<lparr>m_name := s\<rparr>, un_fields = Map.empty\<rparr>"

definition base_env :: "response list env" where
  "base_env = \<lparr>srv = script_srv, gate = (\<lambda>f. fs_default (DefaultGates f)),
     pod_namespace = [],
     is_not_found = (\<lambda>e. root_cause e = EApi ''NotFound''),
     is_already_exists = (\<lambda>e. root_cause e = EApi ''AlreadyExists''),
     is_conflict = (\<lambda>e. root_cause e = EApi ''Conflict''),
     is_no_match = (\<lambda>e. root_cause e = EMsg ''no match''),
     is_not_exist = (\<lambda>e. root_cause e = EMsg ''no such file''),
     ignore_not_found = (\<lambda>e. case e of None \<Rightarrow> None
       | Some x \<Rightarrow> if root_cause x = EApi ''NotFound'' then None else Some x),
     aggregate = script_aggregate,
     contains_finalizer = (\<lambda>fs f. f \<in> set fs),
     add_finalizer = (\<lambda>fs f. if f \<in> set fs then (fs, False) else (fs @ [f], True)),
     remove_finalizer = (\<lambda>fs f. (filter (\<lambda>x. x \<noteq> f) fs, f \<in> set fs)),
     cond_is_true = (\<lambda>cs t. map_option c_status (script_cond_get cs t) = Some CondTrue),
     cond_is_false = (\<lambda>cs t. map_option c_status (script_cond_get cs t) = Some CondFalse),
     cond_get = script_cond_get,
     cond_put = script_cond_put,
     cond_delete = (\<lambda>cs t. filter (\<lambda>c. c_type c \<noteq> t) cs),
     retry_on_conflict = attempts (\<lambda>e. root_cause e = EApi ''Conflict'') 4,
     create_or_update = (\<lambda>ob f. ret None),
     semver_parse = script_semver, semver_lte = (\<le>),
     title_case = (\<lambda>s. s),
     embedded_config = \<lparr>cm_meta = empty_meta\<lparr>m_name := ''clusterctl-config'',
        m_annotations := Some Map.empty\<rparr>, cm_data = Some Map.empty\<rparr>,
     unmarshal_config = (\<lambda>s. Inr \<lparr>cfgr_providers = [], cfgr_images = None\<rparr>),
     marshal_config = (\<lambda>c. Inr ''config''),
     yaml_documents = (\<lambda>s. [Inr s]),
     to_unstructured = (\<lambda>s. Inr [script_object s]),
     nested_string = (\<lambda>u p. Inr None),
     mutating_webhooks = (\<lambda>u. Inr []), validating_webhooks = (\<lambda>u. Inr []),
     append_certs = (\<lambda>s. s \<noteq> []), template_error = (\<lambda>s. s),
     set_owner_reference = (\<lambda>r u. Inr u), object_kinds_error = (\<lambda>k. None),
     new_requirement_error = (\<lambda>k vs. None), patch_helper_error = (\<lambda>k. None),
     error_text = (\<lambda>e. ''error''), capi_ready_condition = ''Ready'',
     operator_finalizer = ''provider.cluster.x-k8s.io'',
     preflight_condition = ''PreflightCheckPassed'', installed_condition = ''ProviderInstalled''\<rparr>"

definition script_env :: "response list env" where
  "script_env = base_env\<lparr>create_or_update := documented_create_or_update base_env\<rparr>"

text \<open>The fields the closed examples read.\<close>

lemma script_fields [simp]:
  "srv script_env = script_srv"
  "gate script_env f = fs_default (DefaultGates f)"
  "pod_namespace script_env = []"
  "is_not_found script_env e = (root_cause e = EApi ''NotFound'')"
  "is_already_exists script_env e = (root_cause e = EApi ''AlreadyExists'')"
  "is_conflict script_env e = (root_cause e = EApi ''Conflict'')"
  "is_no_match script_env e = (root_cause e = EMsg ''no match'')"
  "is_not_exist script_env e = (root_cause e = EMsg ''no such file'')"
  "ignore_not_found script_env None = None"
  "ignore_not_found script_env (Some e) = (if root_cause e = EApi ''NotFound'' then None else Some e)"
  "aggregate script_env = script_aggregate"
  "contains_finalizer script_env fs x = (x \<in> set fs)"
  "add_finalizer script_env fs x = (if x \<in> set fs then (fs, False) else (fs @ [x], True))"
  "remove_finalizer script_env fs x = (filter (\<lambda>y. y \<noteq> x) fs, x \<in> set fs)"
  "cond_is_true script_env cs t = (map_option c_status (script_cond_get cs t) = Some CondTrue)"
  "cond_is_false script_env cs t = (map_option c_status (script_cond_get cs t) = Some CondFalse)"
  "cond_get script_env = script_cond_get"
  "cond_put script_env = script_cond_put"
  "cond_delete script_env cs t = filter (\<lambda>c. c_type c \<noteq> t) cs"
  "retry_on_conflict script_env = attempts (\<lambda>e. root_cause e = EApi ''Conflict'') 4"
  by (simp_all add: script_env_def base_env_def)

lemma script_fields2 [simp]:
  "semver_parse script_env = script_semver"
  "semver_lte script_env = (\<le>)"
  "title_case script_env s = s"
  "embedded_config script_env = \<lparr>cm_meta = empty_meta\<lparr>m_name := ''clusterctl-config'',
     m_annotations := Some Map.empty\<rparr>, cm_data = Some Map.empty\<rparr>"
  "unmarshal_config script_env s = Inr \<lparr>cfgr_providers = [], cfgr_images = None\<rparr>"
  "marshal_config script_env c = Inr ''config''"
  "yaml_documents script_env s = [Inr s]"
  "to_unstructured script_env s = Inr [script_object s]"
  "nested_string script_env u p = Inr None"
  "mutating_webhooks script_env u = Inr []"
  "validating_webhooks script_env u = Inr []"
  "append_certs script_env s = (s \<noteq> [])"
  "template_error script_env s = s"
  "set_owner_reference script_env r u = Inr u"
  "object_kinds_error script_env ob = None"
  "new_requirement_error script_env k vs = None"
  "patch_helper_error script_env ob = None"
  "error_text script_env e = ''error''"
  "capi_ready_condition script_env = ''Ready''"
  "operator_finalizer script_env = ''provider.cluster.x-k8s.io''"
  "preflight_condition script_env = ''PreflightCheckPassed''"
  "installed_condition script_env = ''ProviderInstalled''"
  by (simp_all add: script_env_def base_env_def)

lemma script_call: "call base_env r = call script_env r"
  by (simp add: call_def script_env_def)

lemma script_create_or_update:
  "create_or_update script_env = documented_create_or_update script_env"
proof -
  have same: "call base_env = call script_env" "is_not_found base_env = is_not_found script_env"
    by (simp_all add: fun_eq_iff script_call) (simp add: base_env_def)
  have "create_or_update script_env = documented_create_or_update base_env"
    by (simp add: script_env_def)
  also have "\<dots> = documented_create_or_update script_env"
    by (intro ext) (simp only: documented_create_or_update_def same)
  finally show ?thesis .
qed

lemma script_is_conflict:
  "is_conflict script_env = (\<lambda>e. root_cause e = EApi ''Conflict'')"
  by (simp add: fun_eq_iff)

lemma find_filter_other:
  "find (\<lambda>c. c_type c = t) (filter (\<lambda>d. c_type d \<noteq> u) cs)
     = (if t = u then None else find (\<lambda>c. c_type c = t) cs)"
  by (induction cs) auto

lemma map_filter_id_Nil: "List.map_filter (\<lambda>e. e) es = [] \<longleftrightarrow> (\<forall>e \<in> set es. e = None)"
  by (induction es) (auto simp: List.map_filter_simps split: option.splits)

lemma script_error_laws: "error_laws script_env"
  by (simp add: error_laws_def)

lemma script_aggregate_law: "aggregate_law script_env"
  by (simp add: aggregate_law_def script_aggregate_def map_filter_id_Nil [symmetric]
      split: list.splits)

lemma script_finalizer_laws: "finalizer_laws script_env"
  by (auto simp: finalizer_laws_def intro: filter_True)

lemma script_condition_laws: "condition_laws script_env"
  by (auto simp: condition_laws_def script_cond_get_def
      script_cond_put_def find_filter_other)

lemma script_retry_law: "retry_law script_env"
  unfolding retry_law_def by (rule exI [of _ 4]) (simp only: script_is_conflict script_fields)

lemma script_create_or_update_law: "create_or_update_law script_env"
  by (simp add: create_or_update_law_def script_create_or_update)

lemma script_semver_laws: "semver_laws script_env"
  by (auto simp: semver_laws_def)

lemmas script_laws =
  script_error_laws script_aggregate_law script_finalizer_laws script_condition_laws
  script_retry_law script_create_or_update_law script_semver_laws

text \<open>Running a scripted conversation, one request at a time.\<close>

lemma run_ret: "run_state (ret a) s = (a, s)"
  by simp

lemma run_bind: "run_state (State_Monad.bind m f) s = (case run_state m s of (a, t) \<Rightarrow> run_state (f a) t)"
  by (simp split: prod.split)

lemma run_obind:
  "run_state (obind m f) s =
     (case run_state m s of (r, t) \<Rightarrow> (case r of Ret a \<Rightarrow> run_state (f a) t | Panic p \<Rightarrow> (Panic p, t)))"
  by (simp add: obind_def split: prod.split outcome.split)

lemma run_lift: "run_state (lift m) s = (case run_state m s of (a, t) \<Rightarrow> (Ret a, t))"
  by (simp add: lift_def split: prod.split)

lemma run_call:
  "run_state (call E r) \<lparr>world = w, trace = t\<rparr> =
     (case srv E r w of (a, v) \<Rightarrow> (a, \<lparr>world = v, trace = t @ [(r, a)]\<rparr>))"
  by (simp add: call_def split: prod.split)

lemmas run_simps = Let_def exec_def run_ret run_bind run_obind run_lift run_call client_defs

lemma reply_obj_RObj [simp]: "decode c k = Some x \<Longrightarrow> reply_obj c (RObj k) = Inr x"
  by (simp add: reply_obj_def)

lemma reply_RErr [simp]:
  "reply_obj c (RErr e) = Inl e" "reply_list c (RErr e) = Inl e"
  "reply_unit (RErr e) = Some e" "reply_data (RErr e) = Inl e"
  "reply_unit ROk = None" "reply_data (RData d) = Inr d" "reply_list c (RObjs []) = Inr []"
  by (simp_all add: reply_obj_def reply_list_def reply_unit_def reply_data_def)

section \<open>Which objects a request writes\<close>

fun written_kind :: "request \<Rightarrow> kind option" where
  "written_kind (RCreate t ob) = Some (kobj_kind ob)"
| "written_kind (RUpdate t ob) = Some (kobj_kind ob)"
| "written_kind (RPatch t pk base ob) = Some (kobj_kind ob)"
| "written_kind (RApply t ob owner) = Some (kobj_kind ob)"
| "written_kind (RDelete t ob) = Some (kobj_kind ob)"
| "written_kind (RDeleteAllOf t k sel) = Some k"
| "written_kind _ = None"

text \<open>A request that writes no object of the management cluster's two cluster kinds.\<close>

definition spares_clusters :: "request \<Rightarrow> bool" where
  "spares_clusters r \<longleftrightarrow> written_kind r \<noteq> Some KCluster \<and> written_kind r \<noteq> Some KRancher"

definition read_only :: "request \<Rightarrow> bool" where
  "read_only r \<longleftrightarrow> written_kind r = None"

lemma read_only_spares: "read_only r \<Longrightarrow> spares_clusters r"
  by (simp add: read_only_def spares_clusters_def)

end
