(* ===== verification/Util.thy ===== *)
theory Util
  imports Env_Laws
begin

text \<open>
  src/util: the import label (util.go), annotations (annotations/helpers.go), the
  conversion of cluster names (naming/name_converter.go) and the event predicates
  (predicates/).  A predicate is a function of the watch event, so that each of the
  four handlers of \<open>predicate.Funcs\<close> is one equation.
\<close>

section \<open>Annotations\<close>

definition ClusterImportedAnnotation :: string where
  "ClusterImportedAnnotation = ''imported''"

definition NoCreatorRBACAnnotation :: string where
  "NoCreatorRBACAnnotation = ''field.cattle.io/no-creator-rbac''"

definition ExternalFleetAnnotation :: string where
  "ExternalFleetAnnotation = ''provisioning.cattle.io/externally-managed''"

definition ClusterDescriptionAnnotation :: string where
  "ClusterDescriptionAnnotation = ''cluster-api.cattle.io/cluster-description''"

definition ImportedClusterVersionManagementAnnotation :: string where
  "ImportedClusterVersionManagementAnnotation = ''rancher.io/imported-cluster-version-management''"

definition CAPIIdentityRefAnnotation :: string where
  "CAPIIdentityRefAnnotation = ''cluster-api.cattle.io/capi-static-identity-ref''"

lemmas annotation_keys =
  ClusterImportedAnnotation_def NoCreatorRBACAnnotation_def ExternalFleetAnnotation_def
  ClusterDescriptionAnnotation_def ImportedClusterVersionManagementAnnotation_def
  CAPIIdentityRefAnnotation_def

definition HasAnnotation :: "object_meta \<Rightarrow> string \<Rightarrow> bool" where
  "HasAnnotation m annotation =
     (case m_annotations m of
        None \<Rightarrow> False
      | Some annotations \<Rightarrow> annotations annotation \<noteq> None)"

definition HasClusterImportAnnotation :: "object_meta \<Rightarrow> bool" where
  "HasClusterImportAnnotation m = HasAnnotation m ClusterImportedAnnotation"

lemma HasAnnotation_mget: "HasAnnotation m a \<longleftrightarrow> mget (m_annotations m) a \<noteq> None"
  by (simp add: HasAnnotation_def mget_def split: option.splits)

section \<open>The import label\<close>

definition ShouldImport :: "object_meta \<Rightarrow> string \<Rightarrow> bool \<times> bool" where
  "ShouldImport m label =
     (case mget (m_labels m) label of
        None \<Rightarrow> (False, False)
      | Some labelVal \<Rightarrow>
          (case parse_bool labelVal of
             None \<Rightarrow> (True, False)
           | Some autoImport \<Rightarrow> (True, autoImport)))"

definition ShouldAutoImport ::
  "'w env \<Rightarrow> capi_cluster \<Rightarrow> string \<Rightarrow> ('w st, go_error + bool) state" where
  "ShouldAutoImport E capiCluster label =
     (let (hasLabel, autoImport) = ShouldImport (cc_meta capiCluster) label in
      if hasLabel \<and> autoImport \<and> \<not> HasClusterImportAnnotation (cc_meta capiCluster) then ret (Inr True)
      else if hasLabel \<and> \<not> autoImport then ret (Inr False)
      else do {
        r \<leftarrow> get_obj E namespace_codec Cached
               \<lparr>k_namespace = [], k_name = m_namespace (cc_meta capiCluster)\<rparr>;
        case r of
          Inl err \<Rightarrow> ret (Inl err)
        | Inr ns \<Rightarrow> ret (Inr (snd (ShouldImport (ns_meta ns) label)))
      })"

text \<open>
  The decision as a function of the cluster and of the namespace's label value:
  what the operation promises, without the lookup.
\<close>

datatype import_choice = Import | Skip | AskNamespace

definition cluster_choice :: "capi_cluster \<Rightarrow> string \<Rightarrow> import_choice" where
  "cluster_choice c label =
     (case mget (m_labels (cc_meta c)) label of
        None \<Rightarrow> AskNamespace
      | Some v \<Rightarrow>
          if parse_bool v \<noteq> Some True then Skip
          else if HasClusterImportAnnotation (cc_meta c) then AskNamespace else Import)"

definition namespace_key :: "capi_cluster \<Rightarrow> key" where
  "namespace_key c = \<lparr>k_namespace = [], k_name = m_namespace (cc_meta c)\<rparr>"

definition namespace_choice :: "string \<Rightarrow> go_error + ns_object \<Rightarrow> go_error + bool" where
  "namespace_choice label r =
     (case r of Inl err \<Rightarrow> Inl err | Inr ns \<Rightarrow> Inr (snd (ShouldImport (ns_meta ns) label)))"

lemma cluster_choice_ShouldImport:
  "cluster_choice c label =
     (let (hasLabel, autoImport) = ShouldImport (cc_meta c) label in
      if hasLabel \<and> autoImport \<and> \<not> HasClusterImportAnnotation (cc_meta c) then Import
      else if hasLabel \<and> \<not> autoImport then Skip else AskNamespace)"
  by (auto simp: cluster_choice_def ShouldImport_def split: option.splits)

lemma ret_namespace_choice:
  "ret (namespace_choice label r) =
     (case r of Inl err \<Rightarrow> ret (Inl err)
      | Inr ns \<Rightarrow> ret (Inr (snd (ShouldImport (ns_meta ns) label))))"
  by (simp add: namespace_choice_def split: sum.split)

lemma ShouldAutoImport_choice:
  "ShouldAutoImport E c label =
     (case cluster_choice c label of
        Import \<Rightarrow> ret (Inr True)
      | Skip \<Rightarrow> ret (Inr False)
      | AskNamespace \<Rightarrow> do {
          r \<leftarrow> get_obj E namespace_codec Cached (namespace_key c);
          ret (namespace_choice label r) })"
  by (simp add: ShouldAutoImport_def cluster_choice_ShouldImport namespace_key_def
      ret_namespace_choice split: prod.split)

text \<open>What a run of it can look like: the result and the requests it makes.\<close>

definition auto_import_run :: "capi_cluster \<Rightarrow> string \<Rightarrow> go_error + bool \<Rightarrow> event list \<Rightarrow> bool" where
  "auto_import_run c label r es =
     (case cluster_choice c label of
        Import \<Rightarrow> r = Inr True \<and> es = []
      | Skip \<Rightarrow> r = Inr False \<and> es = []
      | AskNamespace \<Rightarrow>
          (\<exists>a. es = [(RGet Cached KNamespace (namespace_key c), a)] \<and>
               r = namespace_choice label (reply_obj namespace_codec a)))"

lemma twp_ShouldAutoImport [trace_rules]:
  assumes "\<And>r es. auto_import_run c label r es \<Longrightarrow> Q r (t @ es)"
  shows "twp (ShouldAutoImport E c label) Q t"
proof (cases "cluster_choice c label")
  case AskNamespace
  have "Q (namespace_choice label (reply_obj namespace_codec a))
          (t @ [(RGet Cached KNamespace (namespace_key c), a)])" for a
    by (rule assms) (simp add: auto_import_run_def AskNamespace)
  then show ?thesis
    by (simp add: ShouldAutoImport_choice AskNamespace)
      (auto intro!: twp_bind twp_get simp: namespace_codec_def)
qed (use assms [of _ "[]"] in \<open>simp_all add: ShouldAutoImport_choice auto_import_run_def\<close>)

lemma emits_ShouldAutoImport [emits_rules]:
  assumes "R (RGet Cached KNamespace (namespace_key c))"
  shows "emits R (ShouldAutoImport E c label)"
  using assms unfolding ShouldAutoImport_def Let_def
  by (auto intro!: emits_rules simp: namespace_codec_def namespace_key_def)

section \<open>Cluster names\<close>

definition rancherCAPISuffix :: string where
  "rancherCAPISuffix = ''-capi''"

definition ToCapiName :: "string \<Rightarrow> string" where
  "ToCapiName n = trim_suffix n rancherCAPISuffix"

definition ToRancherName :: "string \<Rightarrow> string" where
  "ToRancherName n = ToCapiName n @ rancherCAPISuffix"

lemma ToCapiName_append [simp]: "ToCapiName (n @ rancherCAPISuffix) = n"
  by (simp add: ToCapiName_def)

section \<open>Event predicates\<close>

datatype watch_event =
    CreateEvent kobj
  | UpdateEvent kobj kobj \<comment> \<open>the old and the new object\<close>
  | DeleteEvent kobj
  | GenericEvent kobj

type_synonym 'w event_predicate = "watch_event \<Rightarrow> ('w st, bool) state"

definition processIfClusterNotImported :: "kobj \<Rightarrow> bool" where
  "processIfClusterNotImported obj =
     (if HasAnnotation (kobj_meta obj) ClusterImportedAnnotation then False else True)"

fun ClusterWithoutImportedAnnotation :: "'w event_predicate" where
  "ClusterWithoutImportedAnnotation (UpdateEvent old new) = ret (processIfClusterNotImported new)"
| "ClusterWithoutImportedAnnotation (CreateEvent obj) = ret (processIfClusterNotImported obj)"
| "ClusterWithoutImportedAnnotation (DeleteEvent obj) = ret (processIfClusterNotImported obj)"
| "ClusterWithoutImportedAnnotation (GenericEvent obj) = ret (processIfClusterNotImported obj)"

definition ClusterControlPlaneAvailableCondition :: string where
  "ClusterControlPlaneAvailableCondition = ''ControlPlaneAvailable''"

definition processIfClusterReadyControlPlane :: "'w env \<Rightarrow> kobj \<Rightarrow> bool" where
  "processIfClusterReadyControlPlane E obj =
     (case obj of
        OCluster cluster \<Rightarrow>
          (if cond_is_true E (cc_conditions cluster) ClusterControlPlaneAvailableCondition
           then True else False)
      | _ \<Rightarrow> False)"

fun ClusterWithReadyControlPlane :: "'w env \<Rightarrow> 'w event_predicate" where
  "ClusterWithReadyControlPlane E (UpdateEvent old new) = ret (processIfClusterReadyControlPlane E new)"
| "ClusterWithReadyControlPlane E (CreateEvent obj) = ret (processIfClusterReadyControlPlane E obj)"
| "ClusterWithReadyControlPlane E (DeleteEvent obj) = ret (processIfClusterReadyControlPlane E obj)"
| "ClusterWithReadyControlPlane E (GenericEvent obj) = ret (processIfClusterReadyControlPlane E obj)"

definition processIfClusterOrNamespaceWithImportLabel ::
  "'w env \<Rightarrow> kobj \<Rightarrow> string \<Rightarrow> ('w st, bool) state" where
  "processIfClusterOrNamespaceWithImportLabel E obj label =
     (case obj of
        OCluster cluster \<Rightarrow> do {
          r \<leftarrow> ShouldAutoImport E cluster label;
          case r of
            Inl err \<Rightarrow> ret False
          | Inr shouldImport \<Rightarrow> ret shouldImport }
      | _ \<Rightarrow> ret False)"

fun ClusterOrNamespaceWithImportLabel :: "'w env \<Rightarrow> string \<Rightarrow> 'w event_predicate" where
  "ClusterOrNamespaceWithImportLabel E label (UpdateEvent old new) =
     processIfClusterOrNamespaceWithImportLabel E new label"
| "ClusterOrNamespaceWithImportLabel E label (CreateEvent obj) =
     processIfClusterOrNamespaceWithImportLabel E obj label"
| "ClusterOrNamespaceWithImportLabel E label (DeleteEvent obj) =
     processIfClusterOrNamespaceWithImportLabel E obj label"
| "ClusterOrNamespaceWithImportLabel E label (GenericEvent obj) =
     processIfClusterOrNamespaceWithImportLabel E obj label"

definition processIfNameHasSuffix :: "kobj \<Rightarrow> string \<Rightarrow> bool" where
  "processIfNameHasSuffix obj suffix =
     (if has_suffix (m_name (kobj_meta obj)) suffix then True else False)"

fun NameHasSuffix :: "string \<Rightarrow> 'w event_predicate" where
  "NameHasSuffix suffix (UpdateEvent old new) = ret (processIfNameHasSuffix new suffix)"
| "NameHasSuffix suffix (CreateEvent obj) = ret (processIfNameHasSuffix obj suffix)"
| "NameHasSuffix suffix (DeleteEvent obj) = ret (processIfNameHasSuffix obj suffix)"
| "NameHasSuffix suffix (GenericEvent obj) = ret (processIfNameHasSuffix obj suffix)"

definition provisioning_group_version :: string where
  "provisioning_group_version = ''provisioning.cattle.io/v1''"

fun owned_by_v2prov :: "owner_ref list \<Rightarrow> bool" where
  "owned_by_v2prov [] = False"
| "owned_by_v2prov (ref # refs) =
     (if or_api_version ref = provisioning_group_version then
        (if or_kind ref = ''Cluster'' then True else owned_by_v2prov refs)
      else owned_by_v2prov refs)"

definition processIfV2ProvOwned :: "kobj \<Rightarrow> bool" where
  "processIfV2ProvOwned obj = owned_by_v2prov (m_owners (kobj_meta obj))"

fun V2ProvClusterOwned :: "'w event_predicate" where
  "V2ProvClusterOwned (UpdateEvent old new) = ret (processIfV2ProvOwned new)"
| "V2ProvClusterOwned (CreateEvent obj) = ret (processIfV2ProvOwned obj)"
| "V2ProvClusterOwned (DeleteEvent obj) = ret False"
| "V2ProvClusterOwned (GenericEvent obj) = ret False"

lemma owned_by_v2prov_iff:
  "owned_by_v2prov refs \<longleftrightarrow>
     (\<exists>ref \<in> set refs. or_api_version ref = provisioning_group_version \<and> or_kind ref = ''Cluster'')"
  by (induction refs) auto

text \<open>The object an event is about; every predicate looks at that one only.\<close>

fun event_object :: "watch_event \<Rightarrow> kobj" where
  "event_object (UpdateEvent old new) = new"
| "event_object (CreateEvent obj) = obj"
| "event_object (DeleteEvent obj) = obj"
| "event_object (GenericEvent obj) = obj"

lemma predicate_event_object:
  "ClusterWithoutImportedAnnotation ev = ret (processIfClusterNotImported (event_object ev))"
  "ClusterWithReadyControlPlane E ev = ret (processIfClusterReadyControlPlane E (event_object ev))"
  "ClusterOrNamespaceWithImportLabel E l ev =
     processIfClusterOrNamespaceWithImportLabel E (event_object ev) l"
  "NameHasSuffix s ev = ret (processIfNameHasSuffix (event_object ev) s)"
  by (cases ev; simp)+

end
