(* ===== verification/Helpers.thy ===== *)
theory Helpers
  imports Util
begin

text \<open>
  src/internal/controllers/helpers.go: the registration manifest, the namespace
  watch, the import manifest on the workload cluster, the CA certificate and the
  ownership of translated credentials.  Log lines are left out.
\<close>

section \<open>Constants\<close>

definition importLabelName :: string where
  "importLabelName = ''cluster-api.cattle.io/rancher-auto-import''"

definition ownedLabelName :: string where
  "ownedLabelName = ''cluster-api.cattle.io/owned''"

definition capiClusterOwner :: string where
  "capiClusterOwner = ''cluster-api.cattle.io/capi-cluster-owner''"

definition capiClusterOwnerNamespace :: string where
  "capiClusterOwnerNamespace = ''cluster-api.cattle.io/capi-cluster-owner-ns''"

definition fleetNamespaceMigrated :: string where
  "fleetNamespaceMigrated = ''cluster-api.cattle.io/fleet-namespace-migrated''"

definition fleetDisabledLabel :: string where
  "fleetDisabledLabel = ''cluster-api.cattle.io/disable-fleet-auto-import''"

definition rancherCredentialsNamespace :: string where
  "rancherCredentialsNamespace = ''cattle-global-data''"

definition driverNameAnnotation :: string where
  "driverNameAnnotation = ''provisioning.cattle.io/driver''"

definition cloudCredentialSecretAnnotation :: string where
  "cloudCredentialSecretAnnotation = ''cluster-api.cattle.io/source-id''"

definition defaultRequeueDuration :: nat where
  "defaultRequeueDuration = 60"

definition trueValue :: string where
  "trueValue = ''true''"

definition tokenPlaceholder :: string where
  "tokenPlaceholder = ''{token}''"

lemmas helper_keys =
  importLabelName_def ownedLabelName_def capiClusterOwner_def capiClusterOwnerNamespace_def
  fleetNamespaceMigrated_def fleetDisabledLabel_def rancherCredentialsNamespace_def
  driverNameAnnotation_def cloudCredentialSecretAnnotation_def trueValue_def

section \<open>The registration manifest\<close>

definition resolveManifestURL ::
  "'w env \<Rightarrow> registration_token \<Rightarrow> ('w st, go_error + string) state" where
  "resolveManifestURL E token =
     (let manifestURL = rt_manifest_url token;
          ns = m_namespace (rt_meta token) in
      if \<not> contains manifestURL tokenPlaceholder then ret (Inr manifestURL)
      else if rt_token_secret_name token = [] then ret (Inr [])
      else do {
        r \<leftarrow> get_obj E secret_codec Cached
               \<lparr>k_namespace = ns, k_name = rt_token_secret_name token\<rparr>;
        case r of
          Inl err \<Rightarrow>
            if is_not_found E err then ret (Inr [])
            else ret (Inl (EWrap (''error getting registration token secret '' @ ns @ ''/''
                                  @ rt_token_secret_name token) err))
        | Inr tokenSecret \<Rightarrow>
            (let tokenValue = mread (sec_data tokenSecret) ''token'' in
             if tokenValue = []
             then ret (Inl (EMsg (''token not found in secret '' @ ns @ ''/''
                                  @ rt_token_secret_name token)))
             else ret (Inr (replace_all manifestURL tokenPlaceholder tokenValue)))
      })"

definition downloadManifest ::
  "'w env \<Rightarrow> string \<Rightarrow> string option \<Rightarrow> bool \<Rightarrow> ('w st, go_error + string) state" where
  "downloadManifest E url caCert insecureSkipVerify =
     (if (case caCert of None \<Rightarrow> False | Some pem \<Rightarrow> \<not> append_certs E pem)
      then ret (Inl (EMsg ''failed to append CA certificate''))
      else do {
        resp \<leftarrow> call E (RHttpGet url caCert insecureSkipVerify);
        case reply_unit resp of
          Some err \<Rightarrow> ret (Inl (EWrap ''downloading manifest'' err))
        | None \<Rightarrow> do {
            body \<leftarrow> call E (RReadBody url);
            case reply_data body of
              Inl err \<Rightarrow> ret (Inl (EWrap ''reading manifest'' err))
            | Inr data \<Rightarrow> ret (Inr data)
          }
      })"

definition new_token :: "string \<Rightarrow> string \<Rightarrow> registration_token" where
  "new_token clusterName namespace =
     \<lparr>rt_meta = empty_meta\<lparr>m_name := clusterName, m_namespace := namespace\<rparr>,
      rt_cluster_name = clusterName, rt_manifest_url = [], rt_token_secret_name = []\<rparr>"

definition manifest_of_token ::
  "'w env \<Rightarrow> registration_token \<Rightarrow> string option \<Rightarrow> bool \<Rightarrow> ('w st, go_error + string) state" where
  "manifest_of_token E token caCert insecureSkipVerify =
     (if rt_manifest_url token = [] then ret (Inr [])
      else do {
        u \<leftarrow> resolveManifestURL E token;
        case u of
          Inl err \<Rightarrow> ret (Inl err)
        | Inr manifestURL \<Rightarrow>
            if manifestURL = [] then ret (Inr [])
            else downloadManifest E manifestURL caCert insecureSkipVerify
      })"

definition getClusterRegistrationManifest ::
  "'w env \<Rightarrow> string \<Rightarrow> string \<Rightarrow> string option \<Rightarrow> bool \<Rightarrow> ('w st, go_error + string) state" where
  "getClusterRegistrationManifest E clusterName namespace caCert insecureSkipVerify =
     (let token = new_token clusterName namespace in do {
        r \<leftarrow> get_obj E token_codec Cached (key_of (rt_meta token));
        case r of
          Inr found \<Rightarrow> manifest_of_token E found caCert insecureSkipVerify
        | Inl err \<Rightarrow>
            if ignore_not_found E (Some err) \<noteq> None
            then ret (Inl (EWrap (''error getting registration token for cluster '' @ clusterName) err))
            else do {
              c \<leftarrow> create_obj E token_codec Cached token;
              case c of
                Inl cerr \<Rightarrow>
                  ret (Inl (EWrap (''failed to create cluster registration token for cluster ''
                                   @ clusterName) cerr))
              | Inr created \<Rightarrow> manifest_of_token E created caCert insecureSkipVerify
            }
      })"

section \<open>The namespace watch\<close>

text \<open>
  \<open>clusterPredicate\<close> is the \<open>Generic\<close> handler of the predicate the watch is set up
  with.  A namespace is listed under the namespace field of its own metadata, as the
  code does.
\<close>

fun collect_requests ::
  "(capi_cluster \<Rightarrow> ('w st, bool) state) \<Rightarrow> capi_cluster list \<Rightarrow> ('w st, key list) state" where
  "collect_requests clusterPredicate [] = ret []"
| "collect_requests clusterPredicate (cluster # rest) = do {
     ok \<leftarrow> clusterPredicate cluster;
     reqs \<leftarrow> collect_requests clusterPredicate rest;
     ret (if ok then key_of (cc_meta cluster) # reqs else reqs) }"

definition namespaceToCapiClusters ::
  "'w env \<Rightarrow> (capi_cluster \<Rightarrow> ('w st, bool) state) \<Rightarrow> kobj \<Rightarrow> ('w st, key list) state" where
  "namespaceToCapiClusters E clusterPredicate ob =
     (case ob of
        ONamespace ns \<Rightarrow>
          (if \<not> snd (ShouldImport (ns_meta ns) importLabelName) then ret []
           else do {
             r \<leftarrow> list_obj E cluster_codec Cached [InNamespace (m_namespace (ns_meta ns))];
             case r of
               Inl err \<Rightarrow> ret []
             | Inr capiClusters \<Rightarrow>
                 if capiClusters = [] then ret []
                 else collect_requests clusterPredicate capiClusters
           })
      | _ \<Rightarrow> ret [])"

section \<open>The Fleet namespace of the workload cluster\<close>

definition namespace_template :: "string \<Rightarrow> ns_object" where
  "namespace_template name = \<lparr>ns_meta = empty_meta\<lparr>m_name := name\<rparr>\<rparr>"

definition check_fleet_migration ::
  "'w env \<Rightarrow> ns_object \<Rightarrow> rancher_cluster
     \<Rightarrow> ('w st, (rancher_cluster \<times> bool \<times> go_error option) outcome) state" where
  "check_fleet_migration E ns cluster = do {
     r \<leftarrow> get_obj E namespace_codec Remote (key_of (ns_meta ns));
     case r of
       Inl err \<Rightarrow>
         if is_not_found E err then do {
           r2 \<leftarrow> get_obj E namespace_codec Remote
                   (key_of (ns_meta (namespace_template ''cattle-fleet-system'')));
           case r2 of
             Inl err2 \<Rightarrow>
               ret (Ret (cluster, True,
                 Some (EWrap ''cattle-fleet-system namespace is not present yet'' err2)))
           | Inr fleet \<Rightarrow>
               (case m_annotations (rc_meta cluster) of
                  None \<Rightarrow> ret (Panic ''assignment to entry in nil map'')
                | Some annotations \<Rightarrow>
                    ret (Ret (rc_meta_update (m_annotations_update (\<lambda>_.
                            Some (annotations(fleetNamespaceMigrated \<mapsto> m_name (ns_meta fleet))))) cluster,
                          False, None)))
         }
         else ret (Ret (cluster, True, None))
     | Inr _ \<Rightarrow> ret (Ret (cluster, True, None)) }"

definition removeFleetNamespace ::
  "'w env \<Rightarrow> rancher_cluster
     \<Rightarrow> ('w st, (rancher_cluster \<times> bool \<times> go_error option) outcome) state" where
  "removeFleetNamespace E cluster =
     (let ns = namespace_template ''fleet-addon-agent'' in do {
        r \<leftarrow> get_obj E namespace_codec Remote (key_of (ns_meta ns));
        case r of
          Inl err \<Rightarrow>
            if ignore_not_found E (Some err) \<noteq> None
            then ret (Ret (cluster, True,
                   Some (EWrap ''unable to check fleet agent namespace on downstream cluster'' err)))
            else check_fleet_migration E ns cluster
        | Inr found \<Rightarrow> do {
            d \<leftarrow> delete_obj E namespace_codec Remote found;
            case d of
              Some err \<Rightarrow>
                ret (Ret (cluster, True,
                  Some (EWrap ''unable to remove old fleet agent namespace on downstream cluster'' err)))
            | None \<Rightarrow> check_fleet_migration E found cluster }
      })"

section \<open>The import manifest on the workload cluster\<close>

definition createObject :: "'w env \<Rightarrow> unstructured \<Rightarrow> ('w st, go_error option) state" where
  "createObject E obj = do {
     r \<leftarrow> create_obj E (unstr_codec (un_gvk obj)) Remote obj;
     case r of
       Inl err \<Rightarrow>
         if is_already_exists E err then ret None
         else ret (Some (EWrap ''creating object in remote cluster'' err))
     | Inr _ \<Rightarrow> ret None }"

definition createRawManifest :: "'w env \<Rightarrow> string \<Rightarrow> ('w st, go_error option) state" where
  "createRawManifest E bytes =
     (case to_unstructured E bytes of
        Inl err \<Rightarrow> ret (Some (EWrap ''error unmarshalling bytes or empty object passed'' err))
      | Inr items \<Rightarrow> for_each (createObject E) items)"

definition createImportManifest :: "'w env \<Rightarrow> string \<Rightarrow> ('w st, go_error option) state" where
  "createImportManifest E manifest =
     for_each (\<lambda>read. case read of Inl err \<Rightarrow> ret (Some err) | Inr raw \<Rightarrow> createRawManifest E raw)
       (yaml_documents E manifest)"

text \<open>
  The loops that return \<open>(requeue, err)\<close> early: \<open>None\<close> goes on with the loop.
\<close>

definition stop_or_go :: "bool \<times> go_error option \<Rightarrow> (bool \<times> go_error option) option" where
  "stop_or_go r = (if snd r \<noteq> None \<or> fst r then Some r else None)"

definition checkDeletion :: "'w env \<Rightarrow> unstructured \<Rightarrow> ('w st, bool \<times> go_error option) state" where
  "checkDeletion E obj = do {
     r \<leftarrow> get_obj E (unstr_codec (un_gvk obj)) Remote (key_of (un_meta obj));
     case r of
       Inl err \<Rightarrow>
         if is_not_found E err then ret (False, None)
         else ret (False, Some (EWrap ''checking object in remote cluster'' err))
     | Inr found \<Rightarrow> ret (m_deletion (un_meta found) \<noteq> None, None) }"

definition verifyRawManifest :: "'w env \<Rightarrow> string \<Rightarrow> ('w st, bool \<times> go_error option) state" where
  "verifyRawManifest E bytes =
     (case to_unstructured E bytes of
        Inl err \<Rightarrow> ret (False, Some (EWrap ''error unmarshalling bytes or empty object passed'' err))
      | Inr items \<Rightarrow> do {
          r \<leftarrow> for_each (\<lambda>obj. do { d \<leftarrow> checkDeletion E obj; ret (stop_or_go d) }) items;
          ret (case r of Some d \<Rightarrow> d | None \<Rightarrow> (False, None)) })"

definition validateImportReadiness :: "'w env \<Rightarrow> string \<Rightarrow> ('w st, bool \<times> go_error option) state" where
  "validateImportReadiness E manifest = do {
     jobs \<leftarrow> list_obj E job_codec Remote [MatchingLabels [(''cattle.io/creator'', ''norman'')]];
     case jobs of
       Inl err \<Rightarrow> ret (False, Some (EWrap ''error looking for cleanup job'' err))
     | Inr items \<Rightarrow>
         if \<exists>j \<in> set items. m_generate_name (job_meta j) = ''cattle-cleanup-''
         then ret (True, None)
         else do {
           r \<leftarrow> for_each (\<lambda>read. case read of
                   Inl err \<Rightarrow> ret (Some (False, Some err))
                 | Inr raw \<Rightarrow> do { d \<leftarrow> verifyRawManifest E raw; ret (stop_or_go d) })
                 (yaml_documents E manifest);
           ret (case r of Some d \<Rightarrow> d | None \<Rightarrow> (False, None)) } }"

section \<open>The CA certificate\<close>

definition setting_key :: "string \<Rightarrow> key" where
  "setting_key name = \<lparr>k_namespace = [], k_name = name\<rparr>"

definition getTrustedCAcert :: "'w env \<Rightarrow> bool \<Rightarrow> ('w st, go_error + string option) state" where
  "getTrustedCAcert E agentTLSModeFeatureEnabled =
     (if \<not> agentTLSModeFeatureEnabled then ret (Inr None)
      else do {
        r \<leftarrow> get_obj E setting_codec Cached (setting_key ''agent-tls-mode'');
        case r of
          Inl err \<Rightarrow> ret (Inl (EWrap ''error getting agent-tls-mode setting'' err))
        | Inr agentTLSModeSetting \<Rightarrow>
            (let agentTLSModeValue =
                   (if set_value agentTLSModeSetting = [] then set_default agentTLSModeSetting
                    else set_value agentTLSModeSetting) in
             if agentTLSModeValue = ''system-store'' then ret (Inr None)
             else if agentTLSModeValue = ''strict'' then do {
               c \<leftarrow> get_obj E setting_codec Cached (setting_key ''cacerts'');
               case c of
                 Inl err \<Rightarrow> ret (Inl (EWrap ''error getting ca-certs setting'' err))
               | Inr caCertsSetting \<Rightarrow>
                   if set_value caCertsSetting = []
                   then ret (Inl (EMsg ''ca-certs setting value is empty''))
                   else ret (Inr (Some (set_value caCertsSetting))) }
             else ret (Inl (EMsg (''invalid agent-tls-mode setting value: '' @ agentTLSModeValue))))
      })"

section \<open>Ownership of translated credentials\<close>

text \<open>The object's kind is only used in the error text.\<close>

definition verifySecretOwnership ::
  "string \<Rightarrow> object_meta \<Rightarrow> secret \<Rightarrow> go_error + object_meta" where
  "verifySecretOwnership knd obj sourceSecret =
     (if m_resource_version obj \<noteq> [] \<and>
         (m_annotations obj = None \<or>
          mread (m_annotations obj) cloudCredentialSecretAnnotation \<noteq> m_uid (sec_meta sourceSecret))
      then Inl (EMsg (''security collision detected: target '' @ knd @ '' '' @ m_namespace obj @ ''/''
             @ m_name obj @ '' already exists and is not related to the cloud credential''))
      else Inr (obj\<lparr>m_annotations :=
             mset (m_annotations obj) cloudCredentialSecretAnnotation (m_uid (sec_meta sourceSecret))\<rparr>))"

definition isObjectOwnedBySecret :: "object_meta \<Rightarrow> secret \<Rightarrow> bool" where
  "isObjectOwnedBySecret obj sourceSecret =
     (m_annotations obj \<noteq> None \<and>
      mread (m_annotations obj) cloudCredentialSecretAnnotation = m_uid (sec_meta sourceSecret))"

section \<open>What the helpers leave alone\<close>

lemma emits_resolveManifestURL [emits_rules]:
  "(\<And>r. read_only r \<Longrightarrow> R r) \<Longrightarrow> emits R (resolveManifestURL E token)"
  unfolding resolveManifestURL_def Let_def
  by (auto intro!: emits_rules simp: read_only_def)

lemma emits_downloadManifest [emits_rules]:
  "(\<And>r. read_only r \<Longrightarrow> R r) \<Longrightarrow> emits R (downloadManifest E url ca skip)"
  unfolding downloadManifest_def
  by (auto intro!: emits_rules simp: read_only_def)

lemma emits_getTrustedCAcert [emits_rules]:
  "(\<And>r. read_only r \<Longrightarrow> R r) \<Longrightarrow> emits R (getTrustedCAcert E on)"
  unfolding getTrustedCAcert_def Let_def
  by (auto intro!: emits_rules simp: read_only_def)

lemma emits_getClusterRegistrationManifest [emits_rules]:
  "(\<And>r. spares_clusters r \<Longrightarrow> R r) \<Longrightarrow>
   emits R (getClusterRegistrationManifest E name ns ca skip)"
  unfolding getClusterRegistrationManifest_def manifest_of_token_def Let_def
  by (auto intro!: emits_rules simp: read_only_def spares_clusters_def token_codec_def)

lemma emits_removeFleetNamespace [emits_rules]:
  "(\<And>r. spares_clusters r \<Longrightarrow> R r) \<Longrightarrow> emits R (removeFleetNamespace E cluster)"
  unfolding removeFleetNamespace_def check_fleet_migration_def Let_def
  by (auto intro!: emits_rules simp: spares_clusters_def namespace_codec_def)

lemma emits_checkDeletion [emits_rules]:
  "(\<And>r. read_only r \<Longrightarrow> R r) \<Longrightarrow> emits R (checkDeletion E obj)"
  unfolding checkDeletion_def by (auto intro!: emits_rules simp: read_only_def)

lemma emits_validateImportReadiness [emits_rules]:
  "(\<And>r. read_only r \<Longrightarrow> R r) \<Longrightarrow> emits R (validateImportReadiness E manifest)"
  unfolding validateImportReadiness_def verifyRawManifest_def
  by (auto intro!: emits_rules simp: read_only_def)

lemma emits_createImportManifest [emits_rules]:
  assumes "\<And>obj. R (RCreate Remote (OUnstr obj))"
  shows "emits R (createImportManifest E manifest)"
  unfolding createImportManifest_def createRawManifest_def createObject_def
  by (auto intro!: emits_rules simp: assms unstr_codec_def)

end
