(* ===== verification/Import.thy ===== *)
theory Import
  imports Helpers
begin

text \<open>
  src/internal/controllers/import_controller.go: the reconciler that imports a CAPI
  cluster into Rancher.  The receiver's \<open>InsecureSkipVerify\<close> field is the argument
  \<open>skip\<close>; its clients are the targets of the requests.

  Go mutates the two cluster objects in place; the model returns them.  Where a
  method defers a patch, the patch follows the call it guards.
\<close>

definition CapiClusterFinalizer :: string where
  "CapiClusterFinalizer = ''capicluster.turtles.cattle.io''"

definition FleetAddonFinalizer :: string where
  "FleetAddonFinalizer = ''fleet.addons.cluster.x-k8s.io''"

definition ClusterConditionReady :: string where
  "ClusterConditionReady = ''Ready''"

section \<open>Preparing the Rancher cluster\<close>

definition optOutOfClusterOwner :: "rancher_cluster \<Rightarrow> rancher_cluster" where
  "optOutOfClusterOwner rancherCluster =
     (let annotations = m_annotations (rc_meta rancherCluster) in
      if mget annotations NoCreatorRBACAnnotation = None
      then rc_meta_update (m_annotations_update
             (\<lambda>_. mset annotations NoCreatorRBACAnnotation trueValue)) rancherCluster
      else rancherCluster)"

definition propagated :: "string \<Rightarrow> bool" where
  "propagated k \<longleftrightarrow> \<not> contains k ''cattle.io'' \<and> \<not> contains k ''x-k8s.io''"

text \<open>
  The loop over the label map, as one function: each key is visited once, in any
  order, and writes only itself.
\<close>

definition propagateLabels :: "rancher_cluster \<Rightarrow> capi_cluster \<Rightarrow> rancher_cluster" where
  "propagateLabels rancherCluster capiCluster =
     (let labels = alloc (m_labels (rc_meta rancherCluster));
          source = alloc (m_labels (cc_meta capiCluster)) in
      rc_meta_update (m_labels_update (\<lambda>_. Some (\<lambda>k.
        case source k of
          None \<Rightarrow> labels k
        | Some v \<Rightarrow> if propagated k then Some v else labels k))) rancherCluster)"

definition addFleetAnnotation :: "smap \<Rightarrow> rancher_cluster \<Rightarrow> rancher_cluster" where
  "addFleetAnnotation annotations rancherCluster =
     (if mget annotations ExternalFleetAnnotation = None
      then rc_meta_update (m_annotations_update
             (\<lambda>_. mset annotations ExternalFleetAnnotation trueValue)) rancherCluster
      else rancherCluster)"

definition removeFleetAnnotation :: "smap \<Rightarrow> rancher_cluster \<Rightarrow> rancher_cluster" where
  "removeFleetAnnotation annotations rancherCluster =
     (if mget annotations ExternalFleetAnnotation \<noteq> None
      then rc_meta_update (m_annotations_update
             (\<lambda>_. mdelete annotations ExternalFleetAnnotation)) rancherCluster
      else rancherCluster)"

definition reconcileExternalFleetManagement ::
  "'w env \<Rightarrow> rancher_cluster \<Rightarrow> capi_cluster \<Rightarrow> rancher_cluster \<times> capi_cluster" where
  "reconcileExternalFleetManagement E rancherCluster capiCluster =
     (let annotations = m_annotations (rc_meta rancherCluster) in
      if gate E UseCAAPF then (addFleetAnnotation annotations rancherCluster, capiCluster)
      else (removeFleetAnnotation annotations rancherCluster,
            cc_meta_update (m_finalizers_update
              (\<lambda>fs. fst (remove_finalizer E fs FleetAddonFinalizer))) capiCluster))"

definition cluster_description :: "capi_cluster \<Rightarrow> string" where
  "cluster_description capiCluster =
     (let annotation = mread (m_annotations (cc_meta capiCluster)) ClusterDescriptionAnnotation in
      if annotation = [] then ''CAPI cluster imported to Rancher'' else annotation)"

definition new_rancher_cluster :: "capi_cluster \<Rightarrow> rancher_cluster" where
  "new_rancher_cluster capiCluster =
     \<lparr>rc_meta = empty_meta\<lparr>
        m_namespace := m_namespace (cc_meta capiCluster),
        m_generate_name := ''c-'',
        m_labels := Some [
          capiClusterOwner \<mapsto> m_name (cc_meta capiCluster),
          capiClusterOwnerNamespace \<mapsto> m_namespace (cc_meta capiCluster),
          ownedLabelName \<mapsto> []],
        m_annotations := Some [
          fleetNamespaceMigrated \<mapsto> ''cattle-fleet-system'',
          ImportedClusterVersionManagementAnnotation \<mapsto> ''false''],
        m_finalizers := [CapiClusterFinalizer]\<rparr>,
      rc_spec = \<lparr>display_name = m_name (cc_meta capiCluster),
                 description = cluster_description capiCluster, fleet_workspace_name = []\<rparr>,
      rc_conditions = []\<rparr>"

definition prepare_rancher_cluster ::
  "'w env \<Rightarrow> capi_cluster \<Rightarrow> rancher_cluster option \<Rightarrow> rancher_cluster \<times> capi_cluster" where
  "prepare_rancher_cluster E capiCluster rancherCluster =
     (let rc = (case rancherCluster of Some c \<Rightarrow> c | None \<Rightarrow> new_rancher_cluster capiCluster);
          rc = optOutOfClusterOwner rc;
          rc = propagateLabels rc capiCluster;
          (rc, capi) = reconcileExternalFleetManagement E rc capiCluster;
          rc = rc_meta_update (m_finalizers_update
                 (\<lambda>fs. fst (add_finalizer E fs CapiClusterFinalizer))) rc
      in (rc, capi))"

section \<open>The import of a cluster that is not being deleted\<close>

definition shouldAutoImportUncached ::
  "'w env \<Rightarrow> capi_cluster \<Rightarrow> ('w st, capi_cluster \<times> (go_error option \<times> bool)) state" where
  "shouldAutoImportUncached E capiCluster = do {
     r \<leftarrow> get_obj E cluster_codec Uncached (key_of (cc_meta capiCluster));
     case r of
       Inl err \<Rightarrow> ret (capiCluster, ignore_not_found E (Some err), False)
     | Inr fresh \<Rightarrow> do {
         s \<leftarrow> ShouldAutoImport E fresh importLabelName;
         case s of
           Inl err \<Rightarrow> ret (fresh, Some err, False)
         | Inr shouldImport \<Rightarrow>
             if \<not> shouldImport then ret (fresh, None, False) else ret (fresh, None, True) } }"

text \<open>
  A result of \<open>reconcileNormal\<close>: the CAPI cluster, the Rancher cluster it worked on,
  the \<open>ctrl.Result\<close> and the error.
\<close>

type_synonym normal_result = "capi_cluster \<times> rancher_cluster \<times> ctrl_result \<times> go_error option"

definition create_missing_cluster ::
  "'w env \<Rightarrow> capi_cluster \<Rightarrow> rancher_cluster \<Rightarrow> ('w st, normal_result outcome) state" where
  "create_missing_cluster E capiCluster rancherCluster = do {
     a \<leftarrow> shouldAutoImportUncached E capiCluster;
     case a of (capi, err, autoImport) \<Rightarrow>
       if err \<noteq> None \<or> \<not> autoImport then ret (Ret (capi, rancherCluster, no_requeue, err))
       else do {
         c \<leftarrow> create_obj E rancher_codec Cached rancherCluster;
         case c of
           Inl cerr \<Rightarrow>
             ret (Ret (capi, rancherCluster, no_requeue, Some (EWrap ''error creating rancher cluster'' cerr)))
         | Inr created \<Rightarrow> ret (Ret (capi, created, requeue defaultRequeueDuration, None)) } }"

text \<open>\<open>remoteClientGetter\<close>: a request that gives a client of the workload cluster.\<close>

definition remote_client :: "'w env \<Rightarrow> capi_cluster \<Rightarrow> ('w st, go_error option) state" where
  "remote_client E capiCluster = do {
     r \<leftarrow> call E (RRemoteClient (m_name (cc_meta capiCluster)) (key_of (cc_meta capiCluster)));
     ret (map_option (EWrap ''getting remote cluster client'') (reply_unit r)) }"

definition migrate_fleet ::
  "'w env \<Rightarrow> capi_cluster \<Rightarrow> rancher_cluster \<Rightarrow> ('w st, normal_result outcome) state" where
  "migrate_fleet E capiCluster rancherCluster = do {
     g \<leftarrow> remote_client E capiCluster;
     case g of
       Some err \<Rightarrow> ret (Ret (capiCluster, rancherCluster, no_requeue, Some err))
     | None \<Rightarrow>
         obind (removeFleetNamespace E rancherCluster) (\<lambda>r. case r of (rc, rq, err) \<Rightarrow>
           (case err of
              Some e \<Rightarrow>
                ret (Ret (capiCluster, rc, no_requeue, Some (EWrap ''cleaning up fleet namespace'' e)))
            | None \<Rightarrow>
                if rq then ret (Ret (capiCluster, rc, requeue defaultRequeueDuration, None))
                else ret (Ret (capiCluster, rc, no_requeue, None)))) }"

definition apply_manifest ::
  "'w env \<Rightarrow> capi_cluster \<Rightarrow> string \<Rightarrow> ('w st, ctrl_result \<times> go_error option) state" where
  "apply_manifest E capiCluster manifest = do {
     g \<leftarrow> remote_client E capiCluster;
     case g of
       Some err \<Rightarrow> ret (no_requeue, Some err)
     | None \<Rightarrow> do {
         v \<leftarrow> validateImportReadiness E manifest;
         case v of (rq, err) \<Rightarrow>
           (case err of
              Some e \<Rightarrow> ret (no_requeue, Some (EWrap ''verifying import manifest'' e))
            | None \<Rightarrow>
                if rq then ret (requeue defaultRequeueDuration, None)
                else do {
                  c \<leftarrow> createImportManifest E manifest;
                  case c of
                    Some e \<Rightarrow> ret (no_requeue, Some (EWrap ''creating import manifest'' e))
                  | None \<Rightarrow> ret (no_requeue, None) }) } }"

definition import_agent ::
  "'w env \<Rightarrow> bool \<Rightarrow> capi_cluster \<Rightarrow> rancher_cluster \<Rightarrow> ('w st, ctrl_result \<times> go_error option) state" where
  "import_agent E skip capiCluster rancherCluster = do {
     ca \<leftarrow> getTrustedCAcert E (gate E AgentTLSMode);
     case ca of
       Inl err \<Rightarrow> ret (no_requeue, Some (EWrap ''error getting CA cert'' err))
     | Inr caCert \<Rightarrow> do {
         m \<leftarrow> getClusterRegistrationManifest E (m_name (rc_meta rancherCluster))
                (m_name (rc_meta rancherCluster)) caCert skip;
         case m of
           Inl err \<Rightarrow> ret (no_requeue, Some err)
         | Inr manifest \<Rightarrow>
             if manifest = [] then ret (requeue defaultRequeueDuration, None)
             else apply_manifest E capiCluster manifest } }"

definition fleet_migrated :: "capi_cluster \<Rightarrow> rancher_cluster \<Rightarrow> bool" where
  "fleet_migrated capiCluster rancherCluster \<longleftrightarrow>
     mread (m_annotations (rc_meta rancherCluster)) fleetNamespaceMigrated = ''cattle-fleet-system'' \<or>
     mget (m_labels (cc_meta capiCluster)) fleetDisabledLabel \<noteq> None"

definition reconcileNormal ::
  "'w env \<Rightarrow> bool \<Rightarrow> capi_cluster \<Rightarrow> rancher_cluster option \<Rightarrow> ('w st, normal_result outcome) state" where
  "reconcileNormal E skip capiCluster rancherCluster =
     (case prepare_rancher_cluster E capiCluster rancherCluster of (rc, capi) \<Rightarrow>
        if rancherCluster = None then create_missing_cluster E capi rc
        else if cond_is_true E (rc_conditions rc) ClusterConditionReady \<and> fleet_migrated capi rc
        then ret (Ret (capi, rc, no_requeue, None))
        else if cond_is_true E (rc_conditions rc) ClusterConditionReady
        then migrate_fleet E capi rc
        else do {
          r \<leftarrow> import_agent E skip capi rc;
          ret (Ret (capi, rc, fst r, snd r)) })"

section \<open>Deletion\<close>

definition imported_and_released :: "'w env \<Rightarrow> capi_cluster \<Rightarrow> capi_cluster" where
  "imported_and_released E capiCluster =
     cc_meta_update (\<lambda>m. m\<lparr>
       m_annotations := mset (m_annotations m) ClusterImportedAnnotation trueValue,
       m_finalizers := fst (remove_finalizer E (m_finalizers m) CapiClusterFinalizer)\<rparr>) capiCluster"

definition import_reconcileDelete ::
  "'w env \<Rightarrow> capi_cluster \<Rightarrow> ('w st, capi_cluster \<times> go_error option) state" where
  "import_reconcileDelete E capiCluster =
     (let changed = imported_and_released E capiCluster in do {
        r \<leftarrow> patch_obj E cluster_codec MergeFromLock capiCluster changed;
        case r of
          Inl err \<Rightarrow> ret (changed, Some (EWrap ''error removing finalizer'' err))
        | Inr patched \<Rightarrow> ret (patched, None) })"

definition owner_labels :: "capi_cluster \<Rightarrow> (string \<times> string) list" where
  "owner_labels capiCluster =
     [(capiClusterOwner, m_name (cc_meta capiCluster)),
      (capiClusterOwnerNamespace, m_namespace (cc_meta capiCluster)),
      (ownedLabelName, [])]"

definition deleteDependentRancherCluster ::
  "'w env \<Rightarrow> capi_cluster \<Rightarrow> ('w st, go_error option) state" where
  "deleteDependentRancherCluster E capiCluster = do {
     r \<leftarrow> delete_all_of E rancher_codec [MatchingLabels (owner_labels capiCluster)];
     ret (ignore_not_found E r) }"

definition release_rancher_cluster ::
  "'w env \<Rightarrow> rancher_cluster \<Rightarrow> ('w st, go_error option) state" where
  "release_rancher_cluster E rancherCluster =
     (case remove_finalizer E (m_finalizers (rc_meta rancherCluster)) CapiClusterFinalizer of
        (fs, removed) \<Rightarrow>
          if removed then do {
            u \<leftarrow> update_obj E rancher_codec Cached
                   (rc_meta_update (m_finalizers_update (\<lambda>_. fs)) rancherCluster);
            ret (case u of
                   Inl err \<Rightarrow> Some (EWrap ''error removing rancher cluster finalizer'' err)
                 | Inr _ \<Rightarrow> None) }
          else ret None)"

definition release_capi_cluster ::
  "'w env \<Rightarrow> capi_cluster \<Rightarrow> ('w st, capi_cluster \<times> go_error option) state" where
  "release_capi_cluster E capiCluster =
     (case remove_finalizer E (m_finalizers (cc_meta capiCluster)) CapiClusterFinalizer of
        (fs, removed) \<Rightarrow>
          (let changed = cc_meta_update (m_finalizers_update (\<lambda>_. fs)) capiCluster in
           if removed then do {
             u \<leftarrow> update_obj E cluster_codec Cached changed;
             ret (case u of
                    Inl err \<Rightarrow> (changed, Some (EWrap ''error removing finalizer from CAPI Cluster'' err))
                  | Inr updated \<Rightarrow> (updated, None)) }
           else ret (changed, None)))"

section \<open>The reconciler\<close>

type_synonym reconcile_result = "capi_cluster \<times> ctrl_result \<times> go_error option"

text \<open>The two deletion blocks of \<open>reconcile\<close>.\<close>

definition reconcile_rancher_deletion ::
  "'w env \<Rightarrow> capi_cluster \<Rightarrow> rancher_cluster \<Rightarrow> ('w st, reconcile_result) state" where
  "reconcile_rancher_deletion E capiCluster rancherCluster = do {
     d \<leftarrow> import_reconcileDelete E capiCluster;
     case d of (capi, err) \<Rightarrow>
       (case err of
          Some e \<Rightarrow> ret (capi, no_requeue, Some e)
        | None \<Rightarrow> do {
            u \<leftarrow> release_rancher_cluster E rancherCluster;
            ret (capi, no_requeue, u) }) }"

definition reconcile_capi_deletion ::
  "'w env \<Rightarrow> capi_cluster \<Rightarrow> ('w st, reconcile_result) state" where
  "reconcile_capi_deletion E capiCluster = do {
     d \<leftarrow> deleteDependentRancherCluster E capiCluster;
     case d of
       Some e \<Rightarrow>
         ret (capiCluster, no_requeue,
           Some (EWrap ''error deleting associated managementv3.Cluster resources'' e))
     | None \<Rightarrow> do {
         u \<leftarrow> release_capi_cluster E capiCluster;
         ret (fst u, no_requeue, snd u) } }"

text \<open>The deferred patch of an existing Rancher cluster, after \<open>reconcileNormal\<close>.\<close>

definition reconcile_import ::
  "'w env \<Rightarrow> bool \<Rightarrow> capi_cluster \<Rightarrow> rancher_cluster option
     \<Rightarrow> ('w st, reconcile_result outcome) state" where
  "reconcile_import E skip capiCluster rancherCluster =
     obind (reconcileNormal E skip capiCluster rancherCluster) (\<lambda>r.
       case r of (capi, rc, res, err) \<Rightarrow>
         (case rancherCluster of
            None \<Rightarrow> ret (Ret (capi, res, err))
          | Some base \<Rightarrow>
              if err \<noteq> None then ret (Ret (capi, res, err))
              else do {
                p \<leftarrow> patch_obj E rancher_codec MergeFromLock base rc;
                ret (Ret (capi, res,
                  (case p of
                     Inl perr \<Rightarrow> Some (EWrap ''failed to patch Rancher cluster'' perr)
                   | Inr _ \<Rightarrow> None))) }))"

text \<open>
  When the list of Rancher clusters cannot be fetched, the log line in that branch
  takes the key of \<open>rancherCluster\<close>, which is still nil there.
\<close>

definition import_reconcile ::
  "'w env \<Rightarrow> bool \<Rightarrow> capi_cluster \<Rightarrow> ('w st, reconcile_result outcome) state" where
  "import_reconcile E skip capiCluster = do {
     l \<leftarrow> list_obj E rancher_codec Cached [MatchingLabels (owner_labels capiCluster)];
     case (case l of Inl err \<Rightarrow> ignore_not_found E (Some err) | Inr _ \<Rightarrow> None) of
       Some err \<Rightarrow> ret (Panic ''nil pointer dereference'')
     | None \<Rightarrow>
         (let items = (case l of Inl _ \<Rightarrow> [] | Inr xs \<Rightarrow> xs);
              rancherCluster = (case items of [] \<Rightarrow> None | c # _ \<Rightarrow> Some c) in
          case rancherCluster of
            Some c \<Rightarrow>
              if \<not> deletion_is_zero (rc_meta c)
              then lift (reconcile_rancher_deletion E capiCluster c)
              else if \<not> deletion_is_zero (cc_meta capiCluster)
              then lift (reconcile_capi_deletion E capiCluster)
              else reconcile_import E skip capiCluster (Some c)
          | None \<Rightarrow>
              if \<not> deletion_is_zero (cc_meta capiCluster)
              then lift (reconcile_capi_deletion E capiCluster)
              else reconcile_import E skip capiCluster None) }"

definition add_import_finalizer ::
  "'w env \<Rightarrow> capi_cluster \<Rightarrow> ('w st, capi_cluster \<times> go_error option) state" where
  "add_import_finalizer E capiCluster =
     retry_on_conflict E (\<lambda>cluster. do {
       r \<leftarrow> get_obj E cluster_codec Cached (key_of (cc_meta cluster));
       case r of
         Inl err \<Rightarrow> ret (cluster, Some err)
       | Inr fresh \<Rightarrow>
           (let changed = cc_meta_update (m_finalizers_update
                  (\<lambda>fs. fst (add_finalizer E fs CapiClusterFinalizer))) fresh in do {
              u \<leftarrow> update_obj E cluster_codec Cached changed;
              case u of
                Inl err \<Rightarrow> ret (changed, Some err)
              | Inr updated \<Rightarrow> ret (updated, None) }) }) capiCluster"

definition import_after_finalizer ::
  "'w env \<Rightarrow> bool \<Rightarrow> capi_cluster \<Rightarrow> ('w st, (ctrl_result \<times> go_error option) outcome) state" where
  "import_after_finalizer E skip capiCluster =
     (if \<not> cond_is_true E (cc_conditions capiCluster) ClusterControlPlaneAvailableCondition
      then ret (Ret (requeue defaultRequeueDuration, None))
      else if HasClusterImportAnnotation (cc_meta capiCluster)
      then ret (Ret (no_requeue, None))
      else obind (import_reconcile E skip capiCluster) (\<lambda>r. case r of (capi, result, err) \<Rightarrow>
        (let errs = (case err of Some e \<Rightarrow> [Some (EWrap ''error reconciling cluster'' e)] | None \<Rightarrow> []) in do {
           p \<leftarrow> patch_obj E cluster_codec MergeFromLock capiCluster capi;
           (let errs = errs @ (case p of
                  Inl perr \<Rightarrow> [Some (EWrap ''failed to patch cluster'' perr)] | Inr _ \<Rightarrow> []) in
            if errs \<noteq> [] then ret (Ret (no_requeue, aggregate E errs))
            else ret (Ret (result, None))) })))"

definition import_Reconcile ::
  "'w env \<Rightarrow> bool \<Rightarrow> key \<Rightarrow> ('w st, (ctrl_result \<times> go_error option) outcome) state" where
  "import_Reconcile E skip req = do {
     r \<leftarrow> get_obj E cluster_codec Cached req;
     case r of
       Inl err \<Rightarrow>
         if is_not_found E err then ret (Ret (requeue defaultRequeueDuration, None))
         else ret (Ret (requeue defaultRequeueDuration, Some err))
     | Inr capiCluster \<Rightarrow>
         if deletion_is_zero (cc_meta capiCluster) \<and>
            \<not> HasClusterImportAnnotation (cc_meta capiCluster) \<and>
            \<not> contains_finalizer E (m_finalizers (cc_meta capiCluster)) CapiClusterFinalizer
         then do {
           f \<leftarrow> add_import_finalizer E capiCluster;
           case f of (capi, err) \<Rightarrow>
             (case err of
                Some e \<Rightarrow> ret (Ret (no_requeue, Some (EWrap ''error adding finalizer'' e)))
              | None \<Rightarrow> import_after_finalizer E skip capi) }
         else import_after_finalizer E skip capiCluster }"

section \<open>The watch on Rancher clusters\<close>

definition rancherV3ClusterToCapiCluster ::
  "'w env \<Rightarrow> (capi_cluster \<Rightarrow> ('w st, bool) state) \<Rightarrow> kobj \<Rightarrow> ('w st, key list) state" where
  "rancherV3ClusterToCapiCluster E clusterPredicate cluster =
     (let labels = m_labels (kobj_meta cluster) in
      if mget labels ownedLabelName = None then ret []
      else if mget labels capiClusterOwner = None then ret []
      else if mget labels capiClusterOwnerNamespace = None then ret []
      else do {
        r \<leftarrow> get_obj E cluster_codec Cached
               \<lparr>k_namespace = mread labels capiClusterOwnerNamespace,
                k_name = mread labels capiClusterOwner\<rparr>;
        case r of
          Inl err \<Rightarrow> ret []
        | Inr capiCluster \<Rightarrow> do {
            ok \<leftarrow> clusterPredicate capiCluster;
            if \<not> ok then ret [] else ret [key_of (cc_meta capiCluster)] } })"

end
