(* ===== verification/Import_Safety.thy ===== *)
theory Import_Safety
  imports Import
begin

text \<open>
  What the import reconciler promises, over every conversation with the API servers:
  the event predicates, the traces of the parts of the reconciler (\<open>emits_\<close> and
  \<open>twp_\<close> rules), and the properties.
\<close>

section \<open>Events\<close>

text \<open>A successful patch that marks the CAPI cluster as imported and releases it.\<close>

fun marks_imported :: "event \<Rightarrow> bool" where
  "marks_imported (RPatch t pk (OCluster b) (OCluster c), RObj (OCluster d)) =
     (mget (m_annotations (cc_meta c)) ClusterImportedAnnotation = Some trueValue \<and>
      CapiClusterFinalizer \<notin> set (m_finalizers (cc_meta c)))"
| "marks_imported _ = False"

text \<open>An answer to the list of Rancher clusters that has no item.\<close>

definition no_items :: "'w env \<Rightarrow> response \<Rightarrow> bool" where
  "no_items E a =
     (case reply_list rancher_codec a of
        Inl e \<Rightarrow> ignore_not_found E (Some e) = None
      | Inr xs \<Rightarrow> xs = [])"

text \<open>The answers of the server that permit the import of the cluster under a key.\<close>

definition permits_import :: "key \<Rightarrow> event list \<Rightarrow> bool" where
  "permits_import k es \<longleftrightarrow>
     (\<exists>fresh. (RGet Uncached KCluster k, RObj (OCluster fresh)) \<in> set es \<and>
        (cluster_choice fresh importLabelName = Import \<or>
         cluster_choice fresh importLabelName = AskNamespace \<and>
         (\<exists>ns. (RGet Cached KNamespace (namespace_key fresh), RObj (ONamespace ns)) \<in> set es \<and>
               snd (ShouldImport (ns_meta ns) importLabelName))))"

definition labelled_for :: "capi_cluster \<Rightarrow> rancher_cluster \<Rightarrow> bool" where
  "labelled_for c rc \<longleftrightarrow>
     (\<forall>(l, v) \<in> set (owner_labels c). mget (m_labels (rc_meta rc)) l = Some v)"

text \<open>
  What stands before the events that matter: the creation of a Rancher cluster for
  \<open>c\<close>, an update of a Rancher cluster, an update that takes the import finalizer
  off a CAPI cluster.
\<close>

definition creation_ok :: "'w env \<Rightarrow> capi_cluster \<Rightarrow> event list \<Rightarrow> event \<Rightarrow> bool" where
  "creation_ok E c us e =
     (case e of
        (RCreate t ob, a) \<Rightarrow>
          (case ob of
             ORancher rc \<Rightarrow>
               labelled_for c rc \<and> permits_import (key_of (cc_meta c)) us \<and>
               (\<exists>l. (RList Cached KRancher [MatchingLabels (owner_labels c)], l) \<in> set us \<and>
                    no_items E l)
           | _ \<Rightarrow> True)
      | _ \<Rightarrow> True)"

definition rancher_update_ok :: "event list \<Rightarrow> event \<Rightarrow> bool" where
  "rancher_update_ok us e =
     (case e of
        (RUpdate t ob, a) \<Rightarrow> kobj_kind ob = KRancher \<longrightarrow> (\<exists>d \<in> set us. marks_imported d)
      | _ \<Rightarrow> True)"

definition release_ok :: "'w env \<Rightarrow> capi_cluster \<Rightarrow> event list \<Rightarrow> event \<Rightarrow> bool" where
  "release_ok E c us e =
     (case e of
        (RUpdate t ob, a) \<Rightarrow>
          (case ob of
             OCluster d \<Rightarrow>
               CapiClusterFinalizer \<notin> set (m_finalizers (cc_meta d)) \<longrightarrow>
               (\<exists>r. (RDeleteAllOf Cached KRancher [MatchingLabels (owner_labels c)], r) \<in> set us \<and>
                    ignore_not_found E (reply_unit r) = None)
           | _ \<Rightarrow> True)
      | _ \<Rightarrow> True)"

lemmas event_ok_defs = creation_ok_def rancher_update_ok_def release_ok_def

section \<open>Frames\<close>

lemma emits_attempts:
  assumes "\<And>c. emits R (f c)"
  shows "emits R (attempts p n f c)"
proof (induction n arbitrary: c)
  case (Suc n)
  then show ?case by (auto intro!: emits_rules assms)
qed (simp add: assms)

text \<open>Adding the finalizer reads and updates CAPI clusters, nothing else.\<close>

fun finalizing :: "request \<Rightarrow> bool" where
  "finalizing (RGet Cached KCluster k) = True"
| "finalizing (RUpdate Cached (OCluster c)) = (CapiClusterFinalizer \<in> set (m_finalizers (cc_meta c)))"
| "finalizing _ = False"

lemma finalizer_added:
  "finalizer_laws E \<Longrightarrow> f \<in> set (fst (add_finalizer E fs f))"
  by (simp add: finalizer_laws_def)

lemma key_of_finalizers [simp]: "key_of (m_finalizers_update f m) = key_of m"
  by (simp add: key_of_def)

lemma finalizer_gone:
  "finalizer_laws E \<Longrightarrow> f \<notin> set (fst (remove_finalizer E fs f))"
  by (simp add: finalizer_laws_def)

lemma emits_add_import_finalizer:
  assumes "retry_law E" and "finalizer_laws E"
  shows "emits finalizing (add_import_finalizer E c)"
proof -
  obtain n where "retry_on_conflict E = attempts (is_conflict E) n"
    using assms(1) by (auto simp: retry_law_def)
  then show ?thesis
    unfolding add_import_finalizer_def Let_def
    by (auto intro!: emits_attempts emits_rules simp: cluster_codec_def finalizer_added [OF assms(2)])
qed

lemma emits_remote_client [emits_rules]:
  "(\<And>r. read_only r \<Longrightarrow> R r) \<Longrightarrow> emits R (remote_client E c)"
  unfolding remote_client_def by (auto intro!: emits_rules simp: read_only_def)

lemma emits_import_agent: "emits spares_clusters (import_agent E skip c rc)"
  unfolding import_agent_def apply_manifest_def
  by (auto intro!: emits_rules intro: read_only_spares simp: spares_clusters_def [of "RCreate _ _"])

lemma emits_migrate_fleet: "emits spares_clusters (migrate_fleet E c rc)"
  unfolding migrate_fleet_def by (auto intro!: emits_rules intro: read_only_spares)


text \<open>Events that spare both cluster kinds need no justification.\<close>

definition reconcile_ok :: "'w env \<Rightarrow> capi_cluster \<Rightarrow> event list \<Rightarrow> event \<Rightarrow> bool" where
  "reconcile_ok E c us e \<longleftrightarrow> creation_ok E c us e \<and> rancher_update_ok us e \<and> release_ok E c us e"

lemma spared_ok: "spares_clusters (fst e) \<Longrightarrow> reconcile_ok E c us e"
  by (cases e) (auto simp: reconcile_ok_def event_ok_defs spares_clusters_def
      split: request.splits kobj.splits)

lemma spared_justified: "only spares_clusters es \<Longrightarrow> justified (\<lambda>us. reconcile_ok E c (vs @ us)) es"
  by (rule justified_all) (auto simp: only_def spared_ok)

lemma patch_ok [simp]: "reconcile_ok E c us (RPatch t pk b ob, a)"
  by (simp add: reconcile_ok_def event_ok_defs)

lemma reads_ok [simp]:
  "reconcile_ok E c us (RGet t k q, a)" "reconcile_ok E c us (RList t k sel, a)"
  "reconcile_ok E c us (RDeleteAllOf t k sel, a)"
  by (simp_all add: reconcile_ok_def event_ok_defs)

section \<open>The parts of the reconciler\<close>

text \<open>What a run of the uncached check can be.\<close>

definition fresh_run :: "capi_cluster \<Rightarrow> capi_cluster \<times> go_error option \<times> bool \<Rightarrow> event list \<Rightarrow> bool" where
  "fresh_run c r es \<longleftrightarrow>
     only read_only es \<and>
     (fst (snd r) = None \<and> snd (snd r) \<longrightarrow> permits_import (key_of (cc_meta c)) es)"

lemma namespace_choice_True:
  "namespace_choice l (reply_obj namespace_codec a) = Inr True \<longleftrightarrow>
     (\<exists>ns. a = RObj (ONamespace ns) \<and> snd (ShouldImport (ns_meta ns) l))"
  by (auto simp: namespace_choice_def reply_obj_Inr split: sum.splits)

lemma auto_import_permits:
  assumes "auto_import_run fresh importLabelName (Inr True) es"
  shows "permits_import k ((RGet Uncached KCluster k, RObj (OCluster fresh)) # es)"
  using assms unfolding auto_import_run_def permits_import_def
  by (auto dest!: sym [of "Inr True"] simp: namespace_choice_True split: import_choice.splits)

lemma auto_import_reads: "auto_import_run c l r es \<Longrightarrow> only read_only es"
  by (auto simp: auto_import_run_def read_only_def split: import_choice.splits)

lemma runs_shouldAutoImportUncached:
  "runs (shouldAutoImportUncached E c) (fresh_run c)"
  unfolding shouldAutoImportUncached_def
  by (rule runsI, intro trace_rules)
    (auto simp: fresh_run_def reply_obj_Inr auto_import_permits
      dest: auto_import_reads simp: read_only_def [of "RGet _ _ _"])


section \<open>The prepared cluster\<close>

lemma owner_keys_kept [simp]:
  "\<not> propagated capiClusterOwner" "\<not> propagated capiClusterOwnerNamespace"
  "\<not> propagated ownedLabelName"
  by code_simp+

lemma optOut_labels [simp]:
  "m_labels (rc_meta (optOutOfClusterOwner rc)) = m_labels (rc_meta rc)"
  by (simp add: optOutOfClusterOwner_def Let_def)

lemma fleet_labels [simp]:
  "m_labels (rc_meta (fst (reconcileExternalFleetManagement E rc c))) = m_labels (rc_meta rc)"
  by (simp add: reconcileExternalFleetManagement_def addFleetAnnotation_def
      removeFleetAnnotation_def Let_def)

lemma propagate_labels [simp]:
  "mget (m_labels (rc_meta (propagateLabels rc c))) k =
     (case mget (m_labels (cc_meta c)) k of
        Some v \<Rightarrow> if propagated k then Some v else mget (m_labels (rc_meta rc)) k
      | None \<Rightarrow> mget (m_labels (rc_meta rc)) k)"
  by (simp add: propagateLabels_def alloc_mget Let_def split: option.split)

lemma prepare_labels:
  "mget (m_labels (rc_meta (fst (prepare_rancher_cluster E c mrc)))) k =
     (case mget (m_labels (cc_meta c)) k of
        Some v \<Rightarrow> if propagated k then Some v
                 else mget (m_labels (rc_meta (case mrc of Some rc \<Rightarrow> rc | None \<Rightarrow> new_rancher_cluster c))) k
      | None \<Rightarrow> mget (m_labels (rc_meta (case mrc of Some rc \<Rightarrow> rc | None \<Rightarrow> new_rancher_cluster c))) k)"
  unfolding prepare_rancher_cluster_def Let_def
  by (auto simp: fleet_labels [of E "propagateLabels r c" c for r, symmetric] split: prod.splits)
     (metis fst_conv fleet_labels propagate_labels optOut_labels)

lemma prepare_new_labelled: "labelled_for c (fst (prepare_rancher_cluster E c None))"
  unfolding labelled_for_def owner_labels_def
  by (auto simp: prepare_labels new_rancher_cluster_def split: option.splits)
     (simp_all add: helper_keys)

lemma prepare_cluster:
  "key_of (cc_meta (snd (prepare_rancher_cluster E c mrc))) = key_of (cc_meta c)"
  "m_labels (cc_meta (snd (prepare_rancher_cluster E c mrc))) = m_labels (cc_meta c)"
  "m_annotations (cc_meta (snd (prepare_rancher_cluster E c mrc))) = m_annotations (cc_meta c)"
  by (auto simp: prepare_rancher_cluster_def reconcileExternalFleetManagement_def key_of_def
      Let_def split: prod.splits)

section \<open>The runs of the reconciler\<close>

text \<open>
  \<open>reconcileNormal\<close> without a Rancher cluster reads, then creates at most one, and
  only with the permission of what it read; with one it spares both cluster kinds.
\<close>

definition creation_run :: "key \<Rightarrow> rancher_cluster \<Rightarrow> event list \<Rightarrow> bool" where
  "creation_run k rc es \<longleftrightarrow>
     (\<exists>fs gs. es = fs @ gs \<and> only read_only fs \<and>
        (gs = [] \<or> permits_import k fs \<and> (\<exists>a. gs = [(RCreate Cached (ORancher rc), a)])))"

lemma creation_run_reads: "only read_only es \<Longrightarrow> creation_run k rc es"
  unfolding creation_run_def by (rule exI [of _ es], rule exI [of _ "[]"]) simp

lemma creation_run_create:
  "only read_only es \<Longrightarrow> permits_import k es \<Longrightarrow>
   creation_run k rc (es @ [(RCreate Cached (ORancher rc), a)])"
  unfolding creation_run_def by (rule exI [of _ es], rule exI [of _ "[(RCreate Cached (ORancher rc), a)]"]) simp

lemma runs_create_missing_cluster:
  "runs (create_missing_cluster E c rc) (\<lambda>r es. creation_run (key_of (cc_meta c)) rc es)"
  unfolding create_missing_cluster_def
  by (rule runsI, rule twp_bind, rule runs_use [OF runs_shouldAutoImportUncached], intro trace_rules)
    (auto simp: fresh_run_def creation_run_reads creation_run_create)

lemma runs_reconcileNormal:
  "runs (reconcileNormal E skip c mrc) (\<lambda>r es.
     case mrc of
       None \<Rightarrow> creation_run (key_of (cc_meta c)) (fst (prepare_rancher_cluster E c None)) es
     | Some rc \<Rightarrow> only spares_clusters es)"
proof (cases mrc)
  case None
  obtain rc capi where p: "prepare_rancher_cluster E c None = (rc, capi)" by fastforce
  with prepare_cluster(1) [of E c None] have "key_of (cc_meta capi) = key_of (cc_meta c)" by simp
  with runs_create_missing_cluster [of E capi rc] show ?thesis
    by (simp add: None reconcileNormal_def p)
next
  case (Some old)
  have "emits spares_clusters (reconcileNormal E skip c (Some old))"
    unfolding reconcileNormal_def
    by (auto intro!: emits_rules emits_migrate_fleet emits_import_agent split: prod.split)
  then show ?thesis
    by (simp add: Some emits_def runs_def)
qed

text \<open>The three blocks of \<open>reconcile\<close>, each from the events its guard has seen.\<close>

lemma runs_rancher_deletion:
  assumes "finalizer_laws E"
  shows "runs (reconcile_rancher_deletion E c rc) (\<lambda>r es. justified (reconcile_ok E c) es)"
  unfolding reconcile_rancher_deletion_def import_reconcileDelete_def release_rancher_cluster_def
    imported_and_released_def Let_def
  by (rule runsI) (auto intro!: trace_rules
      simp: reply_obj_Inr reconcile_ok_def event_ok_defs finalizer_gone [OF assms])

lemma runs_capi_deletion:
  "runs (reconcile_capi_deletion E c) (\<lambda>r es. justified (reconcile_ok E c) es)"
  unfolding reconcile_capi_deletion_def deleteDependentRancherCluster_def release_capi_cluster_def
    Let_def
  by (rule runsI) (auto intro!: trace_rules simp: reconcile_ok_def event_ok_defs)

lemma permits_import_more [simp]: "permits_import k es \<Longrightarrow> permits_import k (e # es)"
  unfolding permits_import_def by (metis list.set_intros(2))

lemma creation_run_justified:
  assumes "creation_run (key_of (cc_meta c)) rc es" "labelled_for c rc" "no_items E l"
  shows "justified (\<lambda>us. reconcile_ok E c
    ((RList Cached KRancher [MatchingLabels (owner_labels c)], l) # us)) es"
proof -
  let ?e = "(RList Cached KRancher [MatchingLabels (owner_labels c)], l)"
  obtain fs gs where es: "es = fs @ gs" "only read_only fs"
    and gs: "gs = [] \<or> permits_import (key_of (cc_meta c)) fs \<and> (\<exists>a. gs = [(RCreate Cached (ORancher rc), a)])"
    using assms(1) by (auto simp: creation_run_def)
  have "only spares_clusters fs"
    using es(2) by (rule only_mono) (rule read_only_spares)
  then have "justified (\<lambda>us. reconcile_ok E c ([?e] @ us)) fs"
    by (rule spared_justified)
  then show ?thesis
    using gs assms(2,3) by (auto simp: es(1) reconcile_ok_def event_ok_defs)
qed

lemma runs_reconcile_import:
  assumes "mrc = None \<longrightarrow> no_items E l"
  shows "runs (reconcile_import E skip c mrc) (\<lambda>r es. justified (\<lambda>us. reconcile_ok E c
    ((RList Cached KRancher [MatchingLabels (owner_labels c)], l) # us)) es)"
proof -
  let ?J = "justified (\<lambda>us. reconcile_ok E c
    ((RList Cached KRancher [MatchingLabels (owner_labels c)], l) # us))"
  have "?J es" if "case mrc of
       None \<Rightarrow> creation_run (key_of (cc_meta c)) (fst (prepare_rancher_cluster E c None)) es
     | Some rc \<Rightarrow> only spares_clusters es" for es
    using that assms creation_run_justified [OF _ prepare_new_labelled]
      spared_justified [where vs = "[(RList Cached KRancher [MatchingLabels (owner_labels c)], l)]"]
    by (auto split: option.splits)
  then have "runs (reconcileNormal E skip c mrc) (\<lambda>r. ?J)"
    by (rule runs_mono [OF runs_reconcileNormal])
  then show ?thesis
    unfolding reconcile_import_def
    by (intro runsI twp_obind) (erule runs_use, auto intro!: trace_rules split: outcome.split)
qed

lemma reconcile_ok_more: "reconcile_ok E c us e \<Longrightarrow> reconcile_ok E c (ds @ us) e"
  by (induction ds) (auto simp: reconcile_ok_def event_ok_defs split: prod.splits request.splits kobj.splits)

lemma reconcile_ok_after: "justified (reconcile_ok E c) es \<Longrightarrow> justified (\<lambda>us. reconcile_ok E c (ds @ us)) es"
  by (erule justified_mono) (rule reconcile_ok_more)

lemma runs_import_reconcile:
  assumes "finalizer_laws E"
  shows "runs (import_reconcile E skip c) (\<lambda>r es. justified (reconcile_ok E c) es)"
  unfolding import_reconcile_def Let_def
  by (rule runsI, intro trace_rules)
    (auto intro!: trace_rules runs_use [OF runs_rancher_deletion [OF assms]]
      runs_use [OF runs_capi_deletion] runs_use [OF runs_reconcile_import]
      dest: reconcile_ok_after [where ds = "[_]"] simp: no_items_def split: sum.splits list.splits)

section \<open>The whole Reconcile\<close>

text \<open>An object the API server has answered with.\<close>

definition served :: "capi_cluster \<Rightarrow> event list \<Rightarrow> bool" where
  "served c es \<longleftrightarrow> (\<exists>r. (r, RObj (OCluster c)) \<in> set es)"

lemma runs_attempts:
  assumes "\<And>c. runs (f c) (\<lambda>r es. only R es \<and> (snd r = None \<longrightarrow> served (fst r) es))"
  shows "runs (attempts p n f c) (\<lambda>r es. only R es \<and> (snd r = None \<longrightarrow> served (fst r) es))"
proof (induction n arbitrary: c)
  case 0
  then show ?case by (simp add: assms)
next
  case (Suc n)
  show ?case
    by (simp, intro runsI twp_bind, rule runs_use [OF assms], intro trace_rules)
      (auto intro!: runs_use [OF Suc] simp: served_def)
qed

lemma runs_add_import_finalizer:
  assumes "retry_law E" and "finalizer_laws E"
  shows "runs (add_import_finalizer E c) (\<lambda>r es. only finalizing es \<and> (snd r = None \<longrightarrow> served (fst r) es))"
proof -
  obtain n where "retry_on_conflict E = attempts (is_conflict E) n"
    using assms(1) by (auto simp: retry_law_def)
  then show ?thesis
    unfolding add_import_finalizer_def Let_def
    by (auto intro!: runs_attempts) (rule runsI, intro trace_rules,
      auto simp: served_def reply_obj_Inr finalizer_added [OF assms(2)])
qed

lemma finalizing_ok: "finalizing (fst e) \<Longrightarrow> reconcile_ok E c us e"
  by (cases e) (auto simp: reconcile_ok_def event_ok_defs split: request.splits kobj.splits elim: finalizing.elims)

lemma runs_after_finalizer:
  assumes "finalizer_laws E"
  shows "runs (import_after_finalizer E skip c) (\<lambda>r es. justified (reconcile_ok E c) es)"
  unfolding import_after_finalizer_def Let_def
  by (rule runsI) (auto intro!: trace_rules runs_use [OF runs_import_reconcile [OF assms]]
    split: outcome.split)

text \<open>
  The cluster the reconciler works on was served to it before the first event that is
  not about the finalizer.
\<close>

definition working_on :: "'w env \<Rightarrow> capi_cluster \<Rightarrow> event list \<Rightarrow> event \<Rightarrow> bool" where
  "working_on E c us e \<longleftrightarrow> reconcile_ok E c us e \<and> (finalizing (fst e) \<or> served c us)"

lemma working_after:
  assumes "only finalizing us" "served c us" "justified (reconcile_ok E c) vs"
  shows "justified (working_on E c) (us @ vs)"
proof -
  have "justified (working_on E c) us"
    using assms(1) by (intro justified_all) (auto simp: only_def working_on_def finalizing_ok)
  moreover have "justified (\<lambda>ws. working_on E c (us @ ws)) vs"
    using assms(2) by (intro justified_mono [OF reconcile_ok_after [OF assms(3), of us]])
      (auto simp: working_on_def served_def)
  ultimately show ?thesis by simp
qed

lemma finalizing_justified: "only finalizing us \<Longrightarrow> justified (working_on E c) us"
  by (intro justified_all) (auto simp: only_def working_on_def finalizing_ok)

definition import_run :: "'w env \<Rightarrow> event list \<Rightarrow> bool" where
  "import_run E es \<longleftrightarrow> (\<exists>c. justified (working_on E c) es)"

lemma import_run_finalizing: "only finalizing es \<Longrightarrow> import_run E es"
  unfolding import_run_def by (blast intro: finalizing_justified)

lemma import_run_after:
  "only finalizing us \<Longrightarrow> served c us \<Longrightarrow> justified (reconcile_ok E c) vs \<Longrightarrow> import_run E (us @ vs)"
  unfolding import_run_def by (blast intro: working_after)

lemma served_Cons: "served c es \<Longrightarrow> served c (e # es)"
  by (auto simp: served_def)

lemma runs_import_Reconcile:
  assumes "retry_law E" and "finalizer_laws E"
  shows "runs (import_Reconcile E skip req) (\<lambda>r es. import_run E es)"
proof -
  let ?get = "\<lambda>r. (RGet Cached KCluster req, r)"
  have direct: "import_run E (?get (RObj (OCluster d)) # es)"
    if "justified (reconcile_ok E d) es" for d es
    using import_run_after [of "[?get (RObj (OCluster d))]" d E es] that
    by (simp add: served_def)
  have after: "import_run E (?get r # us @ vs)"
    if "only finalizing us" "served d us" "justified (reconcile_ok E d) vs" for r d us vs
    using import_run_after [of "?get r # us" d E vs] that by (simp add: served_Cons)
  have first: "import_run E (?get r # es)" if "only finalizing es" for r es
    using that by (simp add: import_run_finalizing)
  show ?thesis
    unfolding import_Reconcile_def
    by (rule runsI, intro trace_rules)
      (auto intro!: trace_rules
        runs_use [OF runs_after_finalizer [OF assms(2)]]
        runs_use [OF runs_add_import_finalizer [OF assms]]
        intro: direct after first import_run_finalizing simp: reply_obj_Inr)
qed

section \<open>Conversations for the examples\<close>

definition demo_key :: key where
  "demo_key = \<lparr>k_namespace = ''default'', k_name = ''edge''\<rparr>"

text \<open>A cluster that is ready, has the import finalizer and asks to be imported.\<close>

definition demo_cluster :: capi_cluster where
  "demo_cluster = \<lparr>cc_meta = empty_meta\<lparr>m_name := ''edge'', m_namespace := ''default'',
       m_labels := Some [importLabelName \<mapsto> ''true''], m_finalizers := [CapiClusterFinalizer]\<rparr>,
     cc_conditions = [\<lparr>c_type = ClusterControlPlaneAvailableCondition, c_status = CondTrue,
       c_reason = [], c_message = []\<rparr>]\<rparr>"

definition demo_rancher :: rancher_cluster where
  "demo_rancher = fst (prepare_rancher_cluster script_env demo_cluster None)"

lemmas demo_defs =
  demo_key_def demo_cluster_def demo_rancher_def empty_meta_def

lemma demo_facts [simp]:
  "deletion_is_zero (cc_meta demo_cluster)"
  "\<not> HasClusterImportAnnotation (cc_meta demo_cluster)"
  "CapiClusterFinalizer \<in> set (m_finalizers (cc_meta demo_cluster))"
  "script_cond_get (cc_conditions demo_cluster) ClusterControlPlaneAvailableCondition =
     Some \<lparr>c_type = ClusterControlPlaneAvailableCondition, c_status = CondTrue,
       c_reason = [], c_message = []\<rparr>"
  "key_of (cc_meta demo_cluster) = demo_key"
  "prepare_rancher_cluster script_env demo_cluster None = (demo_rancher, demo_cluster)"
  "ShouldAutoImport script_env demo_cluster importLabelName = ret (Inr True)"
  by (simp_all add: demo_cluster_def demo_key_def empty_meta_def deletion_is_zero_def
      HasClusterImportAnnotation_def HasAnnotation_def script_cond_get_def key_of_def
      demo_rancher_def prepare_rancher_cluster_def reconcileExternalFleetManagement_def
      ShouldAutoImport_choice cluster_choice_def parse_bool_def CapiClusterFinalizer_def
      FleetAddonFinalizer_def Let_def)

text \<open>The server has no Rancher cluster and confirms the import label.\<close>

lemma demo_creation:
  "trace_of (import_Reconcile script_env False demo_key)
     [RObj (OCluster demo_cluster), RObjs [], RObj (OCluster demo_cluster),
      RObj (ORancher demo_rancher), RObj (OCluster demo_cluster)] =
   [(RGet Cached KCluster demo_key, RObj (OCluster demo_cluster)),
    (RList Cached KRancher [MatchingLabels (owner_labels demo_cluster)], RObjs []),
    (RGet Uncached KCluster demo_key, RObj (OCluster demo_cluster))] @
   (RCreate Cached (ORancher demo_rancher), RObj (ORancher demo_rancher)) #
   [(RPatch Cached MergeFromLock (OCluster demo_cluster) (OCluster demo_cluster),
     RObj (OCluster demo_cluster))]"
  by (simp add: run_simps import_Reconcile_def import_after_finalizer_def import_reconcile_def
      reconcile_import_def reconcileNormal_def create_missing_cluster_def
      shouldAutoImportUncached_def)

text \<open>The Rancher cluster is being deleted; then the CAPI cluster is.\<close>

definition demo_dying :: rancher_cluster where
  "demo_dying = rc_meta_update (\<lambda>m. m\<lparr>m_deletion := Some 1\<rparr>) demo_rancher"

definition demo_leaving :: capi_cluster where
  "demo_leaving = cc_meta_update (\<lambda>m. m\<lparr>m_deletion := Some 1\<rparr>) demo_cluster"

lemma demo_deletion_facts [simp]:
  "\<not> deletion_is_zero (rc_meta demo_dying)"
  "\<not> deletion_is_zero (cc_meta demo_leaving)"
  "\<not> HasClusterImportAnnotation (cc_meta demo_leaving)"
  "cc_conditions demo_leaving = cc_conditions demo_cluster"
  "key_of (cc_meta demo_leaving) = demo_key"
  "owner_labels demo_leaving = owner_labels demo_cluster"
  "m_finalizers (cc_meta demo_leaving) = [CapiClusterFinalizer]"
  "CapiClusterFinalizer \<in> set (m_finalizers (rc_meta demo_dying))"
  by (simp_all add: demo_dying_def demo_leaving_def deletion_is_zero_def
      HasClusterImportAnnotation_def HasAnnotation_def demo_cluster_def empty_meta_def key_of_def
      owner_labels_def demo_key_def demo_rancher_def prepare_rancher_cluster_def Let_def
      split: prod.split)

lemma demo_rancher_deletion:
  "trace_of (import_Reconcile script_env False demo_key)
     [RObj (OCluster demo_cluster), RObjs [ORancher demo_dying], RObj (OCluster demo_cluster),
      RObj (ORancher demo_dying), RObj (OCluster demo_cluster)] =
   [(RGet Cached KCluster demo_key, RObj (OCluster demo_cluster)),
    (RList Cached KRancher [MatchingLabels (owner_labels demo_cluster)], RObjs [ORancher demo_dying]),
    (RPatch Cached MergeFromLock (OCluster demo_cluster)
       (OCluster (imported_and_released script_env demo_cluster)), RObj (OCluster demo_cluster))] @
   (RUpdate Cached (ORancher (rc_meta_update (m_finalizers_update (\<lambda>_. filter (\<lambda>f. f \<noteq> CapiClusterFinalizer) (m_finalizers (rc_meta demo_dying))))
      demo_dying)), RObj (ORancher demo_dying)) #
   [(RPatch Cached MergeFromLock (OCluster demo_cluster) (OCluster demo_cluster),
     RObj (OCluster demo_cluster))]"
  by (simp add: run_simps import_Reconcile_def import_after_finalizer_def import_reconcile_def
      reply_list_def reconcile_rancher_deletion_def import_reconcileDelete_def
      release_rancher_cluster_def)

lemma demo_capi_deletion:
  "trace_of (import_Reconcile script_env False demo_key)
     [RObj (OCluster demo_leaving), RObjs [], ROk, RObj (OCluster demo_leaving),
      RErr (EApi ''NotFound'')] =
   [(RGet Cached KCluster demo_key, RObj (OCluster demo_leaving)),
    (RList Cached KRancher [MatchingLabels (owner_labels demo_cluster)], RObjs []),
    (RDeleteAllOf Cached KRancher [MatchingLabels (owner_labels demo_cluster)], ROk)] @
   (RUpdate Cached (OCluster (cc_meta_update (m_finalizers_update (\<lambda>_. [])) demo_leaving)),
     RObj (OCluster demo_leaving)) #
   [(RPatch Cached MergeFromLock (OCluster demo_leaving) (OCluster demo_leaving),
     RErr (EApi ''NotFound''))]"
  by (simp add: run_simps import_Reconcile_def import_after_finalizer_def import_reconcile_def
      reconcile_capi_deletion_def deleteDependentRancherCluster_def release_capi_cluster_def)

section \<open>Properties\<close>

text \<open>
  C4.  A Rancher cluster is created only for a CAPI cluster the API server has answered
  with, carries the labels that name it as its owner, and comes after a list of the
  Rancher clusters under those labels that had no item, and after an uncached read of
  the CAPI cluster whose label (or whose namespace's label) asks for the import.
\<close>

theorem creation_needs_fresh_decision:
  assumes "retry_law E" and "finalizer_laws E"
    and "trace_of (import_Reconcile E skip req) w = us @ (RCreate t (ORancher rc), a) # vs"
  shows "\<exists>c l. served c us \<and> labelled_for c rc \<and> permits_import (key_of (cc_meta c)) us \<and>
    (RList Cached KRancher [MatchingLabels (owner_labels c)], l) \<in> set us \<and> no_items E l"
  using runs_exec [OF runs_import_Reconcile [OF assms(1,2), of skip req], of w]
  by (auto simp: assms(3) import_run_def working_on_def reconcile_ok_def creation_ok_def)

theorem creation_needs_fresh_decision_witness:
  "\<exists>c l. served c [(RGet Cached KCluster demo_key, RObj (OCluster demo_cluster)),
      (RList Cached KRancher [MatchingLabels (owner_labels demo_cluster)], RObjs []),
      (RGet Uncached KCluster demo_key, RObj (OCluster demo_cluster))] \<and>
    labelled_for c demo_rancher \<and>
    permits_import (key_of (cc_meta c))
     [(RGet Cached KCluster demo_key, RObj (OCluster demo_cluster)),
      (RList Cached KRancher [MatchingLabels (owner_labels demo_cluster)], RObjs []),
      (RGet Uncached KCluster demo_key, RObj (OCluster demo_cluster))] \<and>
    (RList Cached KRancher [MatchingLabels (owner_labels c)], l) \<in>
      set [(RGet Cached KCluster demo_key, RObj (OCluster demo_cluster)),
      (RList Cached KRancher [MatchingLabels (owner_labels demo_cluster)], RObjs []),
      (RGet Uncached KCluster demo_key, RObj (OCluster demo_cluster))] \<and> no_items script_env l"
  by (rule creation_needs_fresh_decision [OF script_retry_law script_finalizer_laws demo_creation])





end
