(* ===== verification/Import_Behaviour.thy ===== *)
theory Import_Behaviour
  imports Import_Safety
begin

text \<open>
  More of what the import reconciler does: when it leaves a cluster alone, when it
  panics, what the Rancher cluster it prepares looks like, and what it asks of the
  workload cluster before it installs the agent there.
\<close>

section \<open>Preparing a prepared cluster\<close>

lemma optOut_done:
  "mget (m_annotations (rc_meta rc)) NoCreatorRBACAnnotation \<noteq> None \<Longrightarrow> optOutOfClusterOwner rc = rc"
  by (auto simp: optOutOfClusterOwner_def Let_def)

lemma optOut_annotations:
  "mget (m_annotations (rc_meta (optOutOfClusterOwner rc))) k =
     (if k = NoCreatorRBACAnnotation \<and> mget (m_annotations (rc_meta rc)) k = None
      then Some trueValue else mget (m_annotations (rc_meta rc)) k)"
  by (auto simp: optOutOfClusterOwner_def Let_def)

lemma rancher_labels_id: "m_labels (rc_meta rc) = L \<Longrightarrow> rc_meta_update (m_labels_update (\<lambda>_. L)) rc = rc"
  by (cases rc; cases "rc_meta rc") simp

lemma rancher_finalizers_id:
  "f (m_finalizers (rc_meta rc)) = m_finalizers (rc_meta rc) \<Longrightarrow>
   rc_meta_update (m_finalizers_update f) rc = rc"
  by (cases rc; cases "rc_meta rc") simp

lemma cluster_finalizers_id:
  "f (m_finalizers (cc_meta c)) = m_finalizers (cc_meta c) \<Longrightarrow>
   cc_meta_update (m_finalizers_update f) c = c"
  by (cases c; cases "cc_meta c") simp

lemma propagate_done:
  assumes "m_labels (rc_meta rc) \<noteq> None"
    and "\<And>k v. mget (m_labels (cc_meta c)) k = Some v \<Longrightarrow> propagated k \<Longrightarrow>
      mget (m_labels (rc_meta rc)) k = Some v"
  shows "propagateLabels rc c = rc"
proof -
  obtain L where L: "m_labels (rc_meta rc) = Some L" using assms(1) by auto
  have "(\<lambda>k. case alloc (m_labels (cc_meta c)) k of None \<Rightarrow> L k
      | Some v \<Rightarrow> if propagated k then Some v else L k) = L"
    using assms(2) by (auto simp: fun_eq_iff alloc_mget L split: option.split)
  with rancher_labels_id [OF L] show ?thesis
    by (simp add: propagateLabels_def L Let_def)
qed

lemma fleet_annotations:
  "mget (m_annotations (rc_meta (fst (reconcileExternalFleetManagement E rc c)))) k =
     (if k = ExternalFleetAnnotation
      then (if gate E UseCAAPF
            then Some (case mget (m_annotations (rc_meta rc)) k of Some v \<Rightarrow> v | None \<Rightarrow> trueValue)
            else None)
      else mget (m_annotations (rc_meta rc)) k)"
  by (auto simp: reconcileExternalFleetManagement_def addFleetAnnotation_def
      removeFleetAnnotation_def Let_def split: option.split)

lemma fleet_done:
  assumes "gate E UseCAAPF \<longleftrightarrow> mget (m_annotations (rc_meta rc)) ExternalFleetAnnotation \<noteq> None"
    and "\<not> gate E UseCAAPF \<Longrightarrow> FleetAddonFinalizer \<notin> set (m_finalizers (cc_meta c))"
    and "finalizer_laws E"
  shows "reconcileExternalFleetManagement E rc c = (rc, c)"
  using assms by (auto simp: reconcileExternalFleetManagement_def addFleetAnnotation_def
      removeFleetAnnotation_def finalizer_laws_def Let_def intro!: cluster_finalizers_id)

text \<open>The annotations, labels and finalizers of the prepared cluster.\<close>

lemma prepare_rewrite:
  "prepare_rancher_cluster E c mrc =
     (let rc0 = (case mrc of Some r \<Rightarrow> r | None \<Rightarrow> new_rancher_cluster c);
          rc1 = propagateLabels (optOutOfClusterOwner rc0) c;
          r = reconcileExternalFleetManagement E rc1 c
      in (rc_meta_update (m_finalizers_update
            (\<lambda>fs. fst (add_finalizer E fs CapiClusterFinalizer))) (fst r), snd r))"
  by (simp add: prepare_rancher_cluster_def Let_def split: prod.split)

lemma propagate_annotations [simp]:
  "m_annotations (rc_meta (propagateLabels rc c)) = m_annotations (rc_meta rc)"
  by (simp add: propagateLabels_def Let_def)

lemma prepare_annotations:
  "mget (m_annotations (rc_meta (fst (prepare_rancher_cluster E c mrc)))) k =
     (let old = mget (m_annotations (rc_meta (case mrc of Some r \<Rightarrow> r | None \<Rightarrow> new_rancher_cluster c))) k in
      if k = NoCreatorRBACAnnotation then Some (case old of Some v \<Rightarrow> v | None \<Rightarrow> trueValue)
      else if k = ExternalFleetAnnotation
      then (if gate E UseCAAPF then Some (case old of Some v \<Rightarrow> v | None \<Rightarrow> trueValue) else None)
      else old)"
  by (auto simp: prepare_rewrite Let_def fleet_annotations optOut_annotations annotation_keys
      split: option.split)

lemma prepare_done:
  assumes laws: "finalizer_laws E" and p: "prepare_rancher_cluster E c mrc = (rc, d)"
  shows "prepare_rancher_cluster E d (Some rc) = (rc, d)"
proof -
  have rc: "rc = fst (prepare_rancher_cluster E c mrc)" and d: "d = snd (prepare_rancher_cluster E c mrc)"
    using p by simp_all
  have "optOutOfClusterOwner rc = rc"
    by (rule optOut_done) (simp add: rc prepare_annotations Let_def)
  moreover have "propagateLabels rc d = rc"
  proof (rule propagate_done)
    show "m_labels (rc_meta rc) \<noteq> None"
      by (simp add: rc prepare_rewrite Let_def propagateLabels_def)
    show "mget (m_labels (rc_meta rc)) k = Some v"
      if "mget (m_labels (cc_meta d)) k = Some v" "propagated k" for k v
      using that by (simp add: rc d prepare_labels prepare_cluster)
  qed
  moreover have "reconcileExternalFleetManagement E rc d = (rc, d)"
  proof (rule fleet_done [OF _ _ laws])
    show "gate E UseCAAPF \<longleftrightarrow> mget (m_annotations (rc_meta rc)) ExternalFleetAnnotation \<noteq> None"
      by (simp add: rc prepare_annotations Let_def annotation_keys)
    show "FleetAddonFinalizer \<notin> set (m_finalizers (cc_meta d))" if "\<not> gate E UseCAAPF"
      using that laws
      by (simp add: d prepare_rewrite Let_def reconcileExternalFleetManagement_def finalizer_laws_def)
  qed
  moreover have "rc_meta_update (m_finalizers_update
      (\<lambda>fs. fst (add_finalizer E fs CapiClusterFinalizer))) rc = rc"
    using laws by (intro rancher_finalizers_id) (simp add: rc prepare_rewrite Let_def finalizer_laws_def)
  ultimately show ?thesis
    by (simp add: prepare_rewrite Let_def)
qed
section \<open>Objects on the workload cluster\<close>

definition cleanup_selector :: "selector list" where
  "cleanup_selector = [MatchingLabels [(''cattle.io/creator'', ''norman'')]]"

definition no_cleanup_job :: "response \<Rightarrow> bool" where
  "no_cleanup_job a \<longleftrightarrow>
     (\<exists>items. reply_list job_codec a = Inr items \<and>
        \<not> (\<exists>j \<in> set items. m_generate_name (job_meta j) = ''cattle-cleanup-''))"

definition remote_ok :: "event list \<Rightarrow> event \<Rightarrow> bool" where
  "remote_ok us e \<longleftrightarrow>
     (\<forall>ob. fst e = RCreate Remote ob \<longrightarrow>
        (\<exists>a. (RList Remote KJob cleanup_selector, a) \<in> set us \<and> no_cleanup_job a))"

definition not_remote_create :: "request \<Rightarrow> bool" where
  "not_remote_create r \<longleftrightarrow> (\<forall>ob. r \<noteq> RCreate Remote ob)"

lemma not_remote_create_simps [simp]:
  "not_remote_create (RCreate t ob) = (t \<noteq> Remote)"
  "not_remote_create (RGet t k q)" "not_remote_create (RList t k sel)"
  "not_remote_create (RUpdate t ob)" "not_remote_create (RPatch t pk b ob)"
  "not_remote_create (RDeleteAllOf t k sel)" "not_remote_create (RDelete t ob)"
  by (simp_all add: not_remote_create_def)

lemma read_only_not_create: "read_only r \<Longrightarrow> not_remote_create r"
  by (cases r) (auto simp: read_only_def not_remote_create_def)

lemma finalizing_not_create: "finalizing r \<Longrightarrow> not_remote_create r"
  by (auto simp: not_remote_create_def)

lemma not_create_ok: "not_remote_create r \<Longrightarrow> remote_ok us (r, a)"
  by (simp add: remote_ok_def not_remote_create_def)

lemma complies_elsewhere: "emits not_remote_create m \<Longrightarrow> complies remote_ok m"
  by (erule complies_emits) (rule not_create_ok)

lemma not_create_justified: "only not_remote_create es \<Longrightarrow> justified (\<lambda>vs. remote_ok (us @ vs)) es"
  by (rule justified_all) (auto simp: only_def remote_ok_def not_remote_create_def)

definition ready_run :: "bool \<times> go_error option \<Rightarrow> event list \<Rightarrow> bool" where
  "ready_run r es \<longleftrightarrow>
     only not_remote_create es \<and>
     (r = (False, None) \<longrightarrow>
        (\<exists>a. (RList Remote KJob cleanup_selector, a) \<in> set es \<and> no_cleanup_job a))"

lemma runs_validateImportReadiness: "runs (validateImportReadiness E manifest) ready_run"
proof -
  have docs: "emits not_remote_create (for_each (\<lambda>read. case read of
        Inl err \<Rightarrow> ret (Some (False, Some err))
      | Inr raw \<Rightarrow> do { d \<leftarrow> verifyRawManifest E raw; ret (stop_or_go d) }) (yaml_documents E manifest))"
    unfolding verifyRawManifest_def by (auto intro!: emits_rules intro: read_only_not_create)
  show ?thesis
    unfolding validateImportReadiness_def cleanup_selector_def [symmetric]
    by (rule runsI, intro trace_rules, auto intro!: trace_rules emits_use [OF docs]
      simp: ready_run_def no_cleanup_job_def, blast)
qed

lemma complies_apply_manifest: "complies remote_ok (apply_manifest E c manifest)"
proof -
  have create: "complies (\<lambda>vs e. \<forall>us. remote_ok (us @ es @ vs) e) (createImportManifest E manifest)"
    if "(RList Remote KJob cleanup_selector, a) \<in> set es" "no_cleanup_job a" for a es
    using that by (intro complies_emits [OF emits_createImportManifest [where R = "\<lambda>_. True"]])
      (auto simp: remote_ok_def)
  show ?thesis
    unfolding apply_manifest_def
    by (rule complies_bind, rule complies_elsewhere, intro emits_rules read_only_not_create,
        assumption, rule complies_case_option, rule complies_checked,
        rule runs_mono [OF runs_validateImportReadiness])
      (auto simp: ready_run_def not_create_justified intro!: complies_rules intro: create)
qed


lemma spares_elsewhere: "emits read_only m \<Longrightarrow> complies remote_ok m"
  by (rule complies_elsewhere, erule emits_mono, rule read_only_not_create)

lemma emits_manifest_not_create:
  "emits not_remote_create (getClusterRegistrationManifest E name ns ca skip)"
  unfolding getClusterRegistrationManifest_def manifest_of_token_def Let_def
  by (auto intro!: emits_rules intro: read_only_not_create)

lemma complies_import_agent: "complies remote_ok (import_agent E skip c rc)"
  unfolding import_agent_def
  by (auto intro!: complies_rules complies_apply_manifest
      complies_elsewhere [OF emits_manifest_not_create]
      complies_elsewhere [OF emits_getTrustedCAcert] intro: read_only_not_create)

lemma emits_migrate_not_create: "emits not_remote_create (migrate_fleet E c rc)"
  unfolding migrate_fleet_def removeFleetNamespace_def check_fleet_migration_def Let_def
  by (auto intro!: emits_rules intro: read_only_not_create)

lemma emits_uncached_not_create: "emits not_remote_create (create_missing_cluster E c rc)"
  unfolding create_missing_cluster_def shouldAutoImportUncached_def
  by (auto intro!: emits_rules)

lemma complies_reconcileNormal: "complies remote_ok (reconcileNormal E skip c mrc)"
  unfolding reconcileNormal_def
  by (auto intro!: complies_rules complies_import_agent
      complies_elsewhere [OF emits_migrate_not_create]
      complies_elsewhere [OF emits_uncached_not_create])

lemma complies_import_reconcile: "complies remote_ok (import_reconcile E skip c)"
  unfolding import_reconcile_def reconcile_import_def reconcile_rancher_deletion_def
    import_reconcileDelete_def release_rancher_cluster_def reconcile_capi_deletion_def
    deleteDependentRancherCluster_def release_capi_cluster_def Let_def
  by (auto intro!: complies_rules complies_reconcileNormal simp: not_create_ok)

lemma complies_import_Reconcile:
  assumes "retry_law E" and "finalizer_laws E"
  shows "complies remote_ok (import_Reconcile E skip req)"
proof -
  have "complies remote_ok (import_after_finalizer E skip c)" for c
    unfolding import_after_finalizer_def Let_def
    by (auto intro!: complies_rules complies_import_reconcile simp: not_create_ok)
  moreover have "complies remote_ok (add_import_finalizer E c)" for c
    by (rule complies_elsewhere, rule emits_mono [OF emits_add_import_finalizer [OF assms]],
        rule finalizing_not_create)
  ultimately show ?thesis
    unfolding import_Reconcile_def
    by (auto intro!: complies_rules simp: not_create_ok)
qed

section \<open>A conversation that installs the agent\<close>

definition demo_token :: registration_token where
  "demo_token = (new_token ''c-edge'' ''c-edge'')\<lparr>rt_manifest_url := ''https://rancher/v3/import''\<rparr>"

definition demo_setting :: setting where
  "demo_setting = \<lparr>set_meta = empty_meta\<lparr>m_name := ''agent-tls-mode''\<rparr>,
     set_value = ''system-store'', set_default = ''strict'', set_customized = False,
     set_source = []\<rparr>"

definition demo_existing :: rancher_cluster where
  "demo_existing = fst (prepare_rancher_cluster script_env demo_cluster
     (Some (rc_meta_update (m_name_update (\<lambda>_. ''c-edge'')) (new_rancher_cluster demo_cluster))))"

definition demo_script :: "response list" where
  "demo_script =
     [RObj (OCluster demo_cluster), RObjs [ORancher demo_existing], RObj (OSetting demo_setting),
      RObj (OToken demo_token), ROk, RData ''agent'', ROk, RObjs [],
      RErr (EApi ''NotFound''), RObj (OUnstr (script_object ''agent'')),
      RObj (ORancher demo_existing), RObj (OCluster demo_cluster)]"

lemma demo_agent_facts [simp]:
  "deletion_is_zero (rc_meta demo_existing)"
  "rc_conditions demo_existing = []"
  "m_name (rc_meta demo_existing) = ''c-edge''"
  by (simp_all add: demo_existing_def prepare_rewrite Let_def
      new_rancher_cluster_def deletion_is_zero_def empty_meta_def optOutOfClusterOwner_def
      propagateLabels_def reconcileExternalFleetManagement_def removeFleetAnnotation_def)

lemma demo_name:
  "m_name (cc_meta demo_cluster) = ''edge''"
  "\<lparr>k_namespace = m_namespace (cc_meta demo_cluster), k_name = ''edge''\<rparr> = demo_key"
  by (simp_all add: demo_cluster_def demo_key_def)

lemma demo_url [simp]: "\<not> contains ''https://rancher/v3/import'' tokenPlaceholder"
  by code_simp

lemma no_condition [simp]: "script_cond_get [] t = None"
  by (simp add: script_cond_get_def)

lemma demo_existing_prepared [simp]:
  "prepare_rancher_cluster script_env demo_cluster (Some demo_existing) = (demo_existing, demo_cluster)"
proof (rule prepare_done [OF script_finalizer_laws])
  have "snd (prepare_rancher_cluster script_env demo_cluster mrc) = demo_cluster" for mrc
    by (simp add: prepare_rewrite Let_def reconcileExternalFleetManagement_def cluster_finalizers_id
        demo_cluster_def empty_meta_def CapiClusterFinalizer_def FleetAddonFinalizer_def)
  then show "prepare_rancher_cluster script_env demo_cluster
      (Some (rc_meta_update (m_name_update (\<lambda>_. ''c-edge'')) (new_rancher_cluster demo_cluster))) =
    (demo_existing, demo_cluster)"
    by (simp add: demo_existing_def prod_eq_iff)
qed

lemma demo_agent:
  "trace_of (import_Reconcile script_env False demo_key) demo_script =
   [(RGet Cached KCluster demo_key, RObj (OCluster demo_cluster)),
    (RList Cached KRancher [MatchingLabels (owner_labels demo_cluster)], RObjs [ORancher demo_existing]),
    (RGet Cached KSetting (setting_key ''agent-tls-mode''), RObj (OSetting demo_setting)),
    (RGet Cached KToken \<lparr>k_namespace = ''c-edge'', k_name = ''c-edge''\<rparr>, RObj (OToken demo_token)),
    (RHttpGet ''https://rancher/v3/import'' None False, ROk),
    (RReadBody ''https://rancher/v3/import'', RData ''agent''),
    (RRemoteClient ''edge'' demo_key, ROk),
    (RList Remote KJob cleanup_selector, RObjs []),
    (RGet Remote (KUnstr (un_gvk (script_object ''agent''))) \<lparr>k_namespace = [], k_name = ''agent''\<rparr>,
      RErr (EApi ''NotFound''))] @
   (RCreate Remote (OUnstr (script_object ''agent'')), RObj (OUnstr (script_object ''agent''))) #
   [(RPatch Cached MergeFromLock (ORancher demo_existing) (ORancher demo_existing),
      RObj (ORancher demo_existing)),
    (RPatch Cached MergeFromLock (OCluster demo_cluster) (OCluster demo_cluster),
      RObj (OCluster demo_cluster))]"
  by (simp add: run_simps demo_script_def import_Reconcile_def import_after_finalizer_def
      import_reconcile_def reply_list_def reconcile_import_def reconcileNormal_def import_agent_def
      getTrustedCAcert_def demo_setting_def getClusterRegistrationManifest_def new_token_def
      key_of_def empty_meta_def manifest_of_token_def resolveManifestURL_def demo_token_def
      downloadManifest_def apply_manifest_def remote_client_def demo_name
      validateImportReadiness_def cleanup_selector_def verifyRawManifest_def checkDeletion_def
      script_object_def stop_or_go_def createImportManifest_def createRawManifest_def
      createObject_def)

section \<open>Panics\<close>

text \<open>
  The deferred patch and the write to the annotation map cannot panic: a prepared
  cluster always has annotations.
\<close>

definition panic_free :: "'a outcome \<Rightarrow> bool" where
  "panic_free r \<longleftrightarrow> (\<exists>a. r = Ret a)"

lemma prepared_annotations:
  "prepare_rancher_cluster E c mrc = (rc, d) \<Longrightarrow> m_annotations (rc_meta rc) \<noteq> None"
  using prepare_annotations [of E c mrc NoCreatorRBACAnnotation]
  by (cases "m_annotations (rc_meta rc)") (auto simp: Let_def)

lemma runs_removeFleetNamespace:
  assumes "m_annotations (rc_meta rc) \<noteq> None"
  shows "runs (removeFleetNamespace E rc) (\<lambda>r es. panic_free r)"
  unfolding removeFleetNamespace_def check_fleet_migration_def Let_def
  using assms by (intro runsI) (auto intro!: trace_rules simp: panic_free_def)

lemma emits_any: "emits R m \<Longrightarrow> (\<And>a es. Q a (t @ es)) \<Longrightarrow> twp m Q t"
  by (erule emits_use) simp

lemma runs_reconcileNormal_free: "runs (reconcileNormal E skip c mrc) (\<lambda>r es. panic_free r)"
  unfolding reconcileNormal_def migrate_fleet_def remote_client_def create_missing_cluster_def
  by (rule runsI, auto intro!: trace_rules runs_use [OF runs_removeFleetNamespace]
      runs_use [OF runs_shouldAutoImportUncached] emits_any [OF emits_import_agent]
      simp: panic_free_def) (auto dest: prepared_annotations)

text \<open>The trace of a run that panicked.\<close>

definition panicked_at_list :: "'w env \<Rightarrow> 'a outcome \<Rightarrow> event list \<Rightarrow> bool" where
  "panicked_at_list E r u \<longleftrightarrow>
     panic_free r \<or>
     (\<exists>us c l e. u = us @ [(RList Cached KRancher [MatchingLabels (owner_labels c)], l)] \<and>
        reply_list rancher_codec l = Inl e \<and> ignore_not_found E (Some e) \<noteq> None)"

lemma panicked_free [simp]: "panicked_at_list E (Ret a) u"
  by (simp add: panicked_at_list_def panic_free_def)

lemma twp_free: "runs m (\<lambda>r es. panic_free r) \<Longrightarrow> (\<And>a u. Q (Ret a) u) \<Longrightarrow> twp m Q t"
  by (erule runs_use) (auto simp: panic_free_def)

lemma twp_any: "(\<And>a u. Q a u) \<Longrightarrow> twp m Q t"
  by (rule twp_mono [OF twp_True]) simp

lemma twp_reconcile_panic: "twp (import_reconcile E skip c) (panicked_at_list E) t"
  unfolding import_reconcile_def reconcile_import_def Let_def
  by (auto intro!: trace_rules twp_free [OF runs_reconcileNormal_free]
      intro: twp_any [of _ "reconcile_rancher_deletion E c r" for r]
        twp_any [of _ "reconcile_capi_deletion E c"]
      simp: panicked_at_list_def [of E "Panic _"] split: sum.splits)

lemma twp_after_finalizer_panic: "twp (import_after_finalizer E skip c) (panicked_at_list E) t"
  unfolding import_after_finalizer_def Let_def
  by (auto intro!: trace_rules twp_mono [OF twp_reconcile_panic] split: outcome.splits)
    (auto simp: panicked_at_list_def panic_free_def)

section \<open>Properties\<close>

text \<open>
  C7.  Whatever the operator creates on a workload cluster while importing it comes
  after a list of the clean-up jobs there that showed none: an agent is never installed
  while Rancher is still cleaning up the previous one.
\<close>

theorem agent_waits_for_cleanup:
  assumes "retry_law E" and "finalizer_laws E"
    and "trace_of (import_Reconcile E skip req) w = us @ (RCreate Remote ob, a) # vs"
  shows "\<exists>r. (RList Remote KJob cleanup_selector, r) \<in> set us \<and> no_cleanup_job r"
  using complies_exec [OF complies_import_Reconcile [OF assms(1,2), of skip req], of w]
  by (auto simp: assms(3) remote_ok_def)

theorem agent_waits_for_cleanup_witness:
  "\<exists>r. (RList Remote KJob cleanup_selector, r) \<in> set
     [(RGet Cached KCluster demo_key, RObj (OCluster demo_cluster)),
      (RList Cached KRancher [MatchingLabels (owner_labels demo_cluster)], RObjs [ORancher demo_existing]),
      (RGet Cached KSetting (setting_key ''agent-tls-mode''), RObj (OSetting demo_setting)),
      (RGet Cached KToken \<lparr>k_namespace = ''c-edge'', k_name = ''c-edge''\<rparr>, RObj (OToken demo_token)),
      (RHttpGet ''https://rancher/v3/import'' None False, ROk),
      (RReadBody ''https://rancher/v3/import'', RData ''agent''),
      (RRemoteClient ''edge'' demo_key, ROk),
      (RList Remote KJob cleanup_selector, RObjs []),
      (RGet Remote (KUnstr (un_gvk (script_object ''agent''))) \<lparr>k_namespace = [], k_name = ''agent''\<rparr>,
        RErr (EApi ''NotFound''))] \<and> no_cleanup_job r"
  by (rule agent_waits_for_cleanup [OF script_retry_law script_finalizer_laws demo_agent])

text \<open>
  C8.  The import reconciler panics only right after it failed to list the Rancher
  clusters: the log line of that branch takes the key of a cluster that is still nil.
  The nil maps of annotations further on are never written.
\<close>

theorem panic_only_after_failed_list:
  assumes "result_of (import_Reconcile E skip req) w = Panic p"
  shows "\<exists>us c l e. trace_of (import_Reconcile E skip req) w =
      us @ [(RList Cached KRancher [MatchingLabels (owner_labels c)], l)] \<and>
    reply_list rancher_codec l = Inl e \<and> ignore_not_found E (Some e) \<noteq> None"
proof -
  have "twp (import_Reconcile E skip req) (panicked_at_list E) []"
    unfolding import_Reconcile_def
    by (auto intro!: trace_rules twp_after_finalizer_panic
        twp_any [where m = "add_import_finalizer E c" for c])
  from exec_twp [OF this, of w] assms show ?thesis
    by (simp add: panicked_at_list_def panic_free_def)
qed

theorem panic_only_after_failed_list_witness:
  "\<exists>us c l e. trace_of (import_Reconcile script_env False demo_key)
      [RObj (OCluster demo_cluster), RErr (EApi ''Timeout'')] =
      us @ [(RList Cached KRancher [MatchingLabels (owner_labels c)], l)] \<and>
    reply_list rancher_codec l = Inl e \<and> ignore_not_found script_env (Some e) \<noteq> None"
  by (rule panic_only_after_failed_list [where p = "''nil pointer dereference''"])
    (simp add: run_simps import_Reconcile_def import_after_finalizer_def import_reconcile_def)



end
