(* ===== verification/Helper_Behaviour.thy ===== *)
theory Helper_Behaviour
  imports Import_Behaviour
begin

text \<open>
  What the helpers promise: the CA certificate of a download, the objects of the
  import manifest, the readiness check, the Fleet migration, the namespace watch, the
  ownership of translated credentials, cluster names.
\<close>

section \<open>The CA certificate\<close>

definition agent_tls_mode :: "setting \<Rightarrow> string" where
  "agent_tls_mode s = (if set_value s = [] then set_default s else set_value s)"

text \<open>What the settings say a download may trust.\<close>

definition settings_trust :: "'w env \<Rightarrow> string option \<Rightarrow> event list \<Rightarrow> bool" where
  "settings_trust E ca es \<longleftrightarrow>
     (case ca of
        None \<Rightarrow> \<not> gate E AgentTLSMode \<or>
          (\<exists>s. (RGet Cached KSetting (setting_key ''agent-tls-mode''), RObj (OSetting s)) \<in> set es \<and>
               agent_tls_mode s = ''system-store'')
      | Some pem \<Rightarrow> pem \<noteq> [] \<and>
          (\<exists>s. (RGet Cached KSetting (setting_key ''cacerts''), RObj (OSetting s)) \<in> set es \<and>
               set_value s = pem))"

definition download_ok :: "'w env \<Rightarrow> bool \<Rightarrow> event list \<Rightarrow> event \<Rightarrow> bool" where
  "download_ok E skip us e \<longleftrightarrow>
     (\<forall>url ca k. fst e = RHttpGet url ca k \<longrightarrow> k = skip \<and> settings_trust E ca us)"

definition no_download :: "request \<Rightarrow> bool" where
  "no_download r \<longleftrightarrow> (\<forall>url ca k. r \<noteq> RHttpGet url ca k)"

lemma no_download_simps [simp]:
  "no_download (RGet t k q)" "no_download (RList t k sel)" "no_download (RCreate t ob)"
  "no_download (RUpdate t ob)" "no_download (RPatch t pk b ob)" "no_download (RDelete t ob)"
  "no_download (RDeleteAllOf t k sel)" "no_download (RRemoteClient n q)" "no_download (RReadBody u)"
  by (simp_all add: no_download_def)

lemma no_download_ok: "no_download r \<Longrightarrow> download_ok E skip us (r, a)"
  by (auto simp: download_ok_def no_download_def)

lemma finalizing_no_download: "finalizing r \<Longrightarrow> no_download r"
  by (cases r) auto

lemma complies_no_download: "emits no_download m \<Longrightarrow> complies (download_ok E skip) m"
  by (erule complies_emits) (rule no_download_ok)

lemma runs_getTrustedCAcert:
  "runs (getTrustedCAcert E (gate E AgentTLSMode)) (\<lambda>r es.
     (\<forall>us. justified (\<lambda>vs. download_ok E skip (us @ vs)) es) \<and>
     (\<forall>ca. r = Inr ca \<longrightarrow> settings_trust E ca es))"
  unfolding getTrustedCAcert_def Let_def agent_tls_mode_def [symmetric]
  by (rule runsI) (auto intro!: trace_rules
      simp: settings_trust_def reply_obj_Inr no_download_ok)

lemma settings_trust_within: "settings_trust E ca es \<Longrightarrow> settings_trust E ca (us @ es @ vs)"
  by (auto simp: settings_trust_def split: option.splits)

lemma complies_download:
  assumes "settings_trust E ca es"
  shows "complies (\<lambda>vs e. \<forall>us. download_ok E skip (us @ es @ vs) e)
    (getClusterRegistrationManifest E name ns ca skip)"
  unfolding getClusterRegistrationManifest_def manifest_of_token_def resolveManifestURL_def
    downloadManifest_def Let_def
  by (auto intro!: complies_rules simp: no_download_ok)
    (auto simp: download_ok_def settings_trust_within [OF assms])

lemma complies_no_download_after:
  "emits no_download m \<Longrightarrow> complies (\<lambda>vs e. \<forall>us. download_ok E skip (us @ es @ vs) e) m"
  by (erule complies_emits) (simp add: no_download_ok)

lemma emits_apply_no_download: "emits no_download (apply_manifest E c manifest)"
  unfolding apply_manifest_def remote_client_def validateImportReadiness_def verifyRawManifest_def
    checkDeletion_def createImportManifest_def createRawManifest_def createObject_def
  by (auto intro!: emits_rules)

lemma complies_agent_download: "complies (download_ok E skip) (import_agent E skip c rc)"
  unfolding import_agent_def
  by (rule complies_checked, rule runs_mono [OF runs_getTrustedCAcert [where skip = skip]])
    (auto intro!: complies_rules complies_download
      complies_no_download_after [OF emits_apply_no_download])

lemma emits_others_no_download:
  "emits no_download (migrate_fleet E c rc)"
  "emits no_download (create_missing_cluster E c rc)"
  "emits no_download (reconcile_rancher_deletion E c rc)"
  "emits no_download (reconcile_capi_deletion E c)"
  unfolding migrate_fleet_def remote_client_def removeFleetNamespace_def check_fleet_migration_def
    create_missing_cluster_def shouldAutoImportUncached_def reconcile_rancher_deletion_def
    import_reconcileDelete_def release_rancher_cluster_def reconcile_capi_deletion_def
    deleteDependentRancherCluster_def release_capi_cluster_def Let_def
  by (auto intro!: emits_rules)

lemma complies_reconcile_download: "complies (download_ok E skip) (import_reconcile E skip c)"
  unfolding import_reconcile_def reconcile_import_def reconcileNormal_def Let_def
  by (auto intro!: complies_rules complies_agent_download
      emits_others_no_download [THEN complies_no_download] simp: no_download_ok)

lemma complies_import_download:
  assumes "retry_law E" and "finalizer_laws E"
  shows "complies (download_ok E skip) (import_Reconcile E skip req)"
proof -
  have "complies (download_ok E skip) (import_after_finalizer E skip c)" for c
    unfolding import_after_finalizer_def Let_def
    by (auto intro!: complies_rules complies_reconcile_download simp: no_download_ok)
  moreover have "complies (download_ok E skip) (add_import_finalizer E c)" for c
    by (rule complies_no_download, rule emits_mono [OF emits_add_import_finalizer [OF assms]],
        rule finalizing_no_download)
  ultimately show ?thesis
    unfolding import_Reconcile_def
    by (auto intro!: complies_rules simp: no_download_ok)
qed

section \<open>The objects of a manifest\<close>

text \<open>The objects of a multi-document manifest, if all of it can be read.\<close>

fun document_objects :: "'w env \<Rightarrow> (go_error + string) list \<Rightarrow> unstructured list option" where
  "document_objects E [] = Some []"
| "document_objects E (Inl e # ds) = None"
| "document_objects E (Inr raw # ds) =
     (case to_unstructured E raw of
        Inl e \<Rightarrow> None
      | Inr items \<Rightarrow> map_option ((@) items) (document_objects E ds))"

definition create_requests :: "unstructured list \<Rightarrow> request list" where
  "create_requests obs = map (\<lambda>ob. RCreate Remote (OUnstr ob)) obs"

fun created_or_there :: "'w env \<Rightarrow> event \<Rightarrow> bool" where
  "created_or_there E (RCreate t (OUnstr ob), a) =
     (case reply_obj (unstr_codec (un_gvk ob)) a of Inl e \<Rightarrow> is_already_exists E e | Inr _ \<Rightarrow> True)"
| "created_or_there E _ = False"

lemma runs_createRawManifest:
  "runs (createRawManifest E raw) (\<lambda>r es. r = None \<longrightarrow>
     (\<exists>items. to_unstructured E raw = Inr items \<and> map fst es = create_requests items \<and>
        list_all (created_or_there E) es))"
proof (cases "to_unstructured E raw")
  case (Inr items)
  have "runs (createObject E ob) (\<lambda>r es. r = None \<longrightarrow>
      map fst es = create_requests [ob] \<and> list_all (created_or_there E) es)" for ob
    unfolding createObject_def
    by (rule runsI) (auto intro!: trace_rules
        simp: create_requests_def)
  then have "runs (for_each (createObject E) items) (\<lambda>r es. r = None \<longrightarrow>
      map fst es = create_requests items \<and> list_all (created_or_there E) es)"
    by (rule runs_for_each) (auto simp: create_requests_def)
  with Inr show ?thesis by (simp add: createRawManifest_def)
qed (simp add: createRawManifest_def)

lemma runs_createImportManifest:
  "runs (createImportManifest E manifest) (\<lambda>r es. r = None \<longrightarrow>
     (\<exists>obs. document_objects E (yaml_documents E manifest) = Some obs \<and>
        map fst es = create_requests obs \<and> list_all (created_or_there E) es))"
  unfolding createImportManifest_def
proof (rule runs_for_each [where R = "\<lambda>d es. \<exists>raw items. d = Inr raw \<and>
      to_unstructured E raw = Inr items \<and> map fst es = create_requests items \<and>
      list_all (created_or_there E) es"])
  fix d
  show "runs (case d of Inl err \<Rightarrow> ret (Some err) | Inr raw \<Rightarrow> createRawManifest E raw)
     (\<lambda>r es. r = None \<longrightarrow> (\<exists>raw items. d = Inr raw \<and> to_unstructured E raw = Inr items \<and>
        map fst es = create_requests items \<and> list_all (created_or_there E) es))"
    by (cases d) (auto intro!: runs_mono [OF runs_createRawManifest])
qed (auto simp: create_requests_def)

text \<open>The readiness check: every object of the manifest is looked at before any is created.\<close>

definition get_requests :: "unstructured list \<Rightarrow> request list" where
  "get_requests obs = map (\<lambda>ob. RGet Remote (KUnstr (un_gvk ob)) (key_of (un_meta ob))) obs"

fun not_being_deleted :: "'w env \<Rightarrow> event \<Rightarrow> bool" where
  "not_being_deleted E (RGet t (KUnstr g) k, a) =
     (case reply_obj (unstr_codec g) a of
        Inl e \<Rightarrow> is_not_found E e
      | Inr found \<Rightarrow> m_deletion (un_meta found) = None)"
| "not_being_deleted E _ = False"

lemma stop_or_go_None [simp]: "stop_or_go d = None \<longleftrightarrow> d = (False, None)"
  by (cases d) (auto simp: stop_or_go_def)

lemma stop_or_go_Some [simp]: "stop_or_go d = Some x \<longleftrightarrow> d = x \<and> x \<noteq> (False, None)"
  by (cases d) (auto simp: stop_or_go_def)

lemma runs_verifyRawManifest:
  "runs (verifyRawManifest E raw) (\<lambda>r es. r = (False, None) \<longrightarrow>
     (\<exists>items. to_unstructured E raw = Inr items \<and> map fst es = get_requests items \<and>
        list_all (not_being_deleted E) es))"
proof (cases "to_unstructured E raw")
  case (Inr items)
  have "runs (do { d \<leftarrow> checkDeletion E ob; ret (stop_or_go d) }) (\<lambda>r es. r = None \<longrightarrow>
      map fst es = get_requests [ob] \<and> list_all (not_being_deleted E) es)" for ob
    unfolding checkDeletion_def
    by (rule runsI) (auto intro!: trace_rules simp: get_requests_def)
  then have loop: "runs (for_each (\<lambda>ob. do { d \<leftarrow> checkDeletion E ob; ret (stop_or_go d) }) items)
      (\<lambda>r es. r = None \<longrightarrow> map fst es = get_requests items \<and> list_all (not_being_deleted E) es)"
    by (rule runs_for_each) (auto simp: get_requests_def)
  have stop: "runs (for_each (\<lambda>ob. do { d \<leftarrow> checkDeletion E ob; ret (stop_or_go d) }) items)
      (\<lambda>r es. \<forall>d. r = Some d \<longrightarrow> d \<noteq> (False, None))"
    by (rule runs_stopped, unfold checkDeletion_def, rule runsI) (auto intro!: trace_rules)
  show ?thesis
    unfolding verifyRawManifest_def Inr sum.case
    by (rule runs_bind, rule runs_mono [OF runs_conj [OF loop stop]]) (auto split: option.split)
qed (simp add: verifyRawManifest_def)

lemma runs_validate_objects:
  "runs (validateImportReadiness E manifest) (\<lambda>r es. r = (False, None) \<longrightarrow>
     (\<exists>obs l fs. document_objects E (yaml_documents E manifest) = Some obs \<and>
        es = (RList Remote KJob cleanup_selector, l) # fs \<and> no_cleanup_job l \<and>
        map fst fs = get_requests obs \<and> list_all (not_being_deleted E) fs))"
proof -
  let ?body = "\<lambda>read. case read of Inl err \<Rightarrow> ret (Some (False, Some err))
    | Inr raw \<Rightarrow> do { d \<leftarrow> verifyRawManifest E raw; ret (stop_or_go d) }"
  have step: "runs (?body d) (\<lambda>r es. r = None \<longrightarrow> (\<exists>raw items. d = Inr raw \<and>
      to_unstructured E raw = Inr items \<and> map fst es = get_requests items \<and>
      list_all (not_being_deleted E) es))" for d
    by (cases d) (auto intro!: runs_bind runs_mono [OF runs_verifyRawManifest])
  have "runs (?body d) (\<lambda>r es. \<forall>x. r = Some x \<longrightarrow> x \<noteq> (False, None))" for d
    by (cases d) (auto intro!: runs_bind runs_mono [OF runs_verifyRawManifest])
  then have stop: "runs (for_each ?body ds) (\<lambda>r es. \<forall>x. r = Some x \<longrightarrow> x \<noteq> (False, None))" for ds
    by (rule runs_stopped)
  have loop: "runs (for_each ?body ds) (\<lambda>r es. r = None \<longrightarrow>
      (\<exists>obs. document_objects E ds = Some obs \<and> map fst es = get_requests obs \<and>
         list_all (not_being_deleted E) es))" for ds
    by (rule runs_for_each [OF step]) (auto simp: get_requests_def)
  show ?thesis
    unfolding validateImportReadiness_def cleanup_selector_def [symmetric]
    by (rule runsI, intro trace_rules)
      (auto intro!: runs_use [OF runs_conj [OF loop stop]] simp: no_cleanup_job_def
        split: option.splits)
qed

lemma runs_apply_manifest:
  "runs (apply_manifest E c manifest) (\<lambda>r es. r = (no_requeue, None) \<longrightarrow>
     (\<exists>obs l. document_objects E (yaml_documents E manifest) = Some obs \<and> no_cleanup_job l \<and>
        (RList Remote KJob cleanup_selector, l) \<in> set es \<and>
        map fst es = RRemoteClient (m_name (cc_meta c)) (key_of (cc_meta c))
          # RList Remote KJob cleanup_selector # get_requests obs @ create_requests obs))"
  unfolding apply_manifest_def remote_client_def
  by (rule runsI, intro trace_rules)
    (auto intro!: trace_rules runs_use [OF runs_validate_objects]
      runs_use [OF runs_createImportManifest] simp: defaultRequeueDuration_def)

section \<open>The Fleet namespace\<close>

definition fleet_key :: "string \<Rightarrow> key" where
  "fleet_key name = \<lparr>k_namespace = [], k_name = name\<rparr>"

lemma key_of_template [simp]: "key_of (ns_meta (namespace_template name)) = fleet_key name"
  by (simp add: key_of_def namespace_template_def fleet_key_def empty_meta_def)

text \<open>
  The cluster is marked as migrated exactly when the last two answers were that the old
  namespace is gone and that the new one is there.
\<close>

definition migration_seen :: "'w env \<Rightarrow> rancher_cluster \<Rightarrow> event list \<Rightarrow> bool" where
  "migration_seen E rc es \<longleftrightarrow>
     (\<exists>us k e a fleet. es = us @ [(RGet Remote KNamespace k, a),
         (RGet Remote KNamespace (fleet_key ''cattle-fleet-system''), RObj (ONamespace fleet))] \<and>
        reply_obj namespace_codec a = Inl e \<and> is_not_found E e \<and>
        mget (m_annotations (rc_meta rc)) fleetNamespaceMigrated = Some (m_name (ns_meta fleet)))"

definition fleet_run ::
  "'w env \<Rightarrow> rancher_cluster \<Rightarrow> (rancher_cluster \<times> bool \<times> go_error option) outcome \<Rightarrow> event list \<Rightarrow> bool" where
  "fleet_run E rc r es \<longleftrightarrow>
     (case r of
        Panic p \<Rightarrow> True
      | Ret (rc', q, err) \<Rightarrow> if q then rc' = rc else err = None \<and> migration_seen E rc' es)"

lemma fleet_run_later: "fleet_run E rc r es \<Longrightarrow> fleet_run E rc r (e # es)"
  unfolding fleet_run_def migration_seen_def
  by (auto split: outcome.splits if_splits)

lemma runs_check_fleet_migration:
  "runs (check_fleet_migration E ns rc) (fleet_run E rc)"
proof -
  have seen: "fleet_run E rc (Ret (rc_meta_update (m_annotations_update
        (\<lambda>_. Some (f(fleetNamespaceMigrated \<mapsto> m_name (ns_meta fleet))))) rc, False, None))
      [(RGet Remote KNamespace k, a),
       (RGet Remote KNamespace (fleet_key ''cattle-fleet-system''), RObj (ONamespace fleet))]"
    if "reply_obj namespace_codec a = Inl e" "is_not_found E e" for f k a e fleet
    using that unfolding fleet_run_def migration_seen_def by auto
  have other: "fleet_run E rc (Ret (rc, True, err)) es" "fleet_run E rc (Panic p) es" for err es p
    by (simp_all add: fleet_run_def)
  show ?thesis
    unfolding check_fleet_migration_def
    by (rule runsI) (auto intro!: trace_rules simp: seen other reply_obj_Inr)
qed

lemma runs_fleet_namespace: "runs (removeFleetNamespace E rc) (fleet_run E rc)"
  unfolding removeFleetNamespace_def Let_def
  by (rule runsI) (auto intro!: trace_rules runs_use [OF runs_check_fleet_migration]
      simp: fleet_run_later fleet_run_def [of E rc "Ret _"] split: outcome.split)

section \<open>Properties\<close>


lemma demo_download:
  "trace_of (import_Reconcile script_env False demo_key) demo_script =
   [(RGet Cached KCluster demo_key, RObj (OCluster demo_cluster)),
    (RList Cached KRancher [MatchingLabels (owner_labels demo_cluster)], RObjs [ORancher demo_existing]),
    (RGet Cached KSetting (setting_key ''agent-tls-mode''), RObj (OSetting demo_setting)),
    (RGet Cached KToken \<lparr>k_namespace = ''c-edge'', k_name = ''c-edge''\<rparr>, RObj (OToken demo_token))] @
   (RHttpGet ''https://rancher/v3/import'' None False, ROk) #
   [(RReadBody ''https://rancher/v3/import'', RData ''agent''),
    (RRemoteClient ''edge'' demo_key, ROk),
    (RList Remote KJob cleanup_selector, RObjs []),
    (RGet Remote (KUnstr (un_gvk (script_object ''agent''))) \<lparr>k_namespace = [], k_name = ''agent''\<rparr>,
      RErr (EApi ''NotFound'')),
    (RCreate Remote (OUnstr (script_object ''agent'')), RObj (OUnstr (script_object ''agent''))),
    (RPatch Cached MergeFromLock (ORancher demo_existing) (ORancher demo_existing),
      RObj (ORancher demo_existing)),
    (RPatch Cached MergeFromLock (OCluster demo_cluster) (OCluster demo_cluster),
      RObj (OCluster demo_cluster))]"
  by (simp add: demo_agent)


text \<open>
  When applying the manifest succeeds, the requests were, in this order: a client
  for the workload cluster, the clean-up jobs there, a look at every object of the
  manifest, the creation of every object of the manifest.
\<close>

theorem manifest_applied_in_order:
  assumes "result_of (apply_manifest E c manifest) w = (no_requeue, None)"
  shows "\<exists>obs l. document_objects E (yaml_documents E manifest) = Some obs \<and> no_cleanup_job l \<and>
    (RList Remote KJob cleanup_selector, l) \<in> set (trace_of (apply_manifest E c manifest) w) \<and>
    map fst (trace_of (apply_manifest E c manifest) w) =
      RRemoteClient (m_name (cc_meta c)) (key_of (cc_meta c))
      # RList Remote KJob cleanup_selector # get_requests obs @ create_requests obs"
  using runs_exec [OF runs_apply_manifest, of E c manifest w] assms by blast

theorem manifest_applied_in_order_witness:
  "\<exists>obs l. document_objects script_env (yaml_documents script_env ''agent'') = Some obs \<and>
    no_cleanup_job l \<and>
    (RList Remote KJob cleanup_selector, l) \<in> set (trace_of (apply_manifest script_env demo_cluster ''agent'')
       [ROk, RObjs [], RErr (EApi ''NotFound''), RErr (EApi ''AlreadyExists'')]) \<and>
    map fst (trace_of (apply_manifest script_env demo_cluster ''agent'')
       [ROk, RObjs [], RErr (EApi ''NotFound''), RErr (EApi ''AlreadyExists'')]) =
      RRemoteClient (m_name (cc_meta demo_cluster)) (key_of (cc_meta demo_cluster))
      # RList Remote KJob cleanup_selector # get_requests obs @ create_requests obs"
  by (rule manifest_applied_in_order)
    (simp add: run_simps apply_manifest_def remote_client_def validateImportReadiness_def
      verifyRawManifest_def checkDeletion_def createImportManifest_def createRawManifest_def
      createObject_def stop_or_go_def)

text \<open>
  The Fleet namespace counts as migrated only when the old agent namespace is
  gone from the workload cluster and the new one is there, whose name is recorded on
  the Rancher cluster; in every other case the Rancher cluster is unchanged and the
  reconciler is asked to come back or gets an error.
\<close>

theorem fleet_migration_recorded:
  assumes "result_of (removeFleetNamespace E rc) w = Ret (rc', q, err)"
  shows "if q then rc' = rc
    else err = None \<and> migration_seen E rc' (trace_of (removeFleetNamespace E rc) w)"
  using runs_exec [OF runs_fleet_namespace, of E rc w] assms by (simp add: fleet_run_def)

definition demo_bare :: rancher_cluster where
  "demo_bare = rc_meta_update (m_annotations_update (\<lambda>_. Some Map.empty)) demo_rancher"

definition demo_migrated :: rancher_cluster where
  "demo_migrated = rc_meta_update (m_annotations_update
     (\<lambda>_. Some [fleetNamespaceMigrated \<mapsto> ''cattle-fleet-system''])) demo_bare"

theorem fleet_migration_recorded_witness:
  "migration_seen script_env demo_migrated (trace_of (removeFleetNamespace script_env demo_bare)
     [RErr (EApi ''NotFound''), RErr (EApi ''NotFound''),
      RObj (ONamespace (namespace_template ''cattle-fleet-system''))])"
proof -
  have "result_of (removeFleetNamespace script_env demo_bare)
      [RErr (EApi ''NotFound''), RErr (EApi ''NotFound''),
       RObj (ONamespace (namespace_template ''cattle-fleet-system''))] =
    Ret (demo_migrated, False, None)"
    by (simp add: run_simps removeFleetNamespace_def check_fleet_migration_def demo_bare_def
        demo_migrated_def namespace_template_def)
  from fleet_migration_recorded [OF this] show ?thesis by simp
qed

text \<open>The metadata with the source recorded, and who may record it.\<close>

definition claimed :: "object_meta \<Rightarrow> secret \<Rightarrow> object_meta" where
  "claimed m src = m\<lparr>m_annotations :=
     mset (m_annotations m) cloudCredentialSecretAnnotation (m_uid (sec_meta src))\<rparr>"

lemma verifySecretOwnership_cases:
  "m_resource_version m \<noteq> [] \<and> \<not> isObjectOwnedBySecret m src \<Longrightarrow>
     \<exists>e. verifySecretOwnership knd m src = Inl e"
  "m_resource_version m = [] \<or> isObjectOwnedBySecret m src \<Longrightarrow>
     verifySecretOwnership knd m src = Inr (claimed m src)"
  by (auto simp: verifySecretOwnership_def isObjectOwnedBySecret_def claimed_def)

lemma claimed_facts [simp]:
  "isObjectOwnedBySecret (claimed m src) src" "key_of (claimed m src) = key_of m"
  "claimed (claimed m src) src = claimed m src"
  "mget (m_annotations (claimed m src)) k =
     (if k = cloudCredentialSecretAnnotation then Some (m_uid (sec_meta src))
      else mget (m_annotations m) k)"
  by (simp_all add: claimed_def isObjectOwnedBySecret_def key_of_def mread_def)
    (simp add: mset_def)

text \<open>
  A translated credential never takes over an object of someone else: an object
  that exists is accepted exactly if its annotation names the same source secret, what
  is accepted then names the source, keeps every other annotation, and is accepted
  again.
\<close>

lemma secret_ownership:
  "case verifySecretOwnership knd m src of
     Inl e \<Rightarrow> m_resource_version m \<noteq> [] \<and> \<not> isObjectOwnedBySecret m src
   | Inr m' \<Rightarrow> (m_resource_version m = [] \<or> isObjectOwnedBySecret m src) \<and>
       isObjectOwnedBySecret m' src \<and> key_of m' = key_of m \<and>
       (\<forall>k. mget (m_annotations m') k =
          (if k = cloudCredentialSecretAnnotation then Some (m_uid (sec_meta src))
           else mget (m_annotations m) k)) \<and>
       verifySecretOwnership knd m' src = Inr m'"
proof (cases "m_resource_version m = [] \<or> isObjectOwnedBySecret m src")
  case True
  then show ?thesis
    using verifySecretOwnership_cases(2) [of "claimed m src" src knd]
    by (simp add: verifySecretOwnership_cases(2))
next
  case False
  then show ?thesis
    using verifySecretOwnership_cases(1) [of m src knd] by auto
qed

text \<open>
  The names of a cluster: a Rancher name always carries the CAPI suffix, turning
  a name into a Rancher name twice is the same as once, and the CAPI name can be read
  off the Rancher name; two CAPI names that do not end in the suffix never share a
  Rancher name.
\<close>

lemma cluster_names:
  "has_suffix (ToRancherName n) rancherCAPISuffix \<and>
   ToRancherName (ToRancherName n) = ToRancherName n \<and>
   ToCapiName (ToRancherName n) = ToCapiName n \<and>
   (ToRancherName n = ToRancherName m \<longleftrightarrow> ToCapiName n = ToCapiName m) \<and>
   (has_suffix n rancherCAPISuffix \<or> ToCapiName n = n)"
  by (auto simp: ToRancherName_def) (auto simp: ToCapiName_def trim_suffix_def split: if_splits)

text \<open>
  The import decision: a cluster whose label is not true is skipped, one whose
  label is true and that was never imported is imported, neither asks the server; all
  others (no label, or imported before) get the namespace's label, and a failing lookup
  of the namespace is the error.
\<close>

lemma auto_import_decision:
  "exec (ShouldAutoImport E c label) w =
     (case cluster_choice c label of
        Import \<Rightarrow> (Inr True, [])
      | Skip \<Rightarrow> (Inr False, [])
      | AskNamespace \<Rightarrow>
          (let a = fst (srv E (RGet Cached KNamespace (namespace_key c)) w) in
           (namespace_choice label (reply_obj namespace_codec a),
            [(RGet Cached KNamespace (namespace_key c), a)])))"
  by (auto simp: ShouldAutoImport_choice run_simps split: import_choice.split prod.split)

text \<open>
  The namespace watch enqueues the clusters of the list that pass the predicate,
  in the order of the list; the list is restricted to the namespace named in the
  namespace's own metadata, so for a namespace, which has none, it is not restricted at
  all.
\<close>

theorem namespace_watch:
  assumes "snd (ShouldImport (ns_meta ns) importLabelName)"
    and "m_namespace (ns_meta ns) = []"
    and "srv E (RList Cached KCluster [InNamespace []]) w = (RObjs (map OCluster cs), v)"
  shows "exec (namespaceToCapiClusters E (\<lambda>c. ret (p c)) (ONamespace ns)) w =
    (map (\<lambda>c. key_of (cc_meta c)) (filter p cs),
     [(RList Cached KCluster [InNamespace []], RObjs (map OCluster cs))])"
proof -
  have loop: "run_state (collect_requests (\<lambda>c. ret (p c)) ds) s =
      (map (\<lambda>c. key_of (cc_meta c)) (filter p ds), s)" for ds and s :: "'a st"
    by (induction ds) (auto simp: run_simps)
  have decoded: "reply_list cluster_codec (RObjs (map OCluster cs)) = Inr cs"
    by (induction cs) (auto simp: reply_list_def split: option.splits)
  show ?thesis
    using assms by (simp add: namespaceToCapiClusters_def run_simps loop decoded)
qed

text \<open>A cluster of another namespace is enqueued when a namespace changes.\<close>

theorem namespace_watch_witness:
  "exec (namespaceToCapiClusters script_env (\<lambda>c. ret True)
      (ONamespace \<lparr>ns_meta = empty_meta\<lparr>m_name := ''other'', m_labels := Some [importLabelName \<mapsto> ''true'']\<rparr>\<rparr>))
     [RObjs [OCluster demo_cluster]] =
   (map (\<lambda>c. key_of (cc_meta c)) (filter (\<lambda>c. True) [demo_cluster]),
    [(RList Cached KCluster [InNamespace []], RObjs (map OCluster [demo_cluster]))])"
  by (rule namespace_watch) (simp_all add: ShouldImport_def parse_bool_def empty_meta_def)

end
