(* ===== verification/Clusterctl.thy ===== *)
theory Clusterctl
  imports Env_Laws
begin

text \<open>
  The clusterctl configuration: src/internal/controllers/clusterctl/config.go, the
  reconciler in src/internal/controllers/clusterctlconfig_controller.go and the wait in
  src/internal/provider/clusterctlconfig.go.  The embedded YAML file and the YAML
  reader and writer are parameters; the file has annotations, so the write to its
  annotation map does not panic.
\<close>

section \<open>The embedded configuration\<close>

definition latestVersionKey :: string where
  "latestVersionKey = ''latest''"

definition ConfigPath :: string where
  "ConfigPath = ''/config/clusterctl.yaml''"

definition ClusterctlConfigName :: string where
  "ClusterctlConfigName = ''clusterctl-config''"

definition Config :: "'w env \<Rightarrow> config_map" where
  "Config E =
     (let namespace = cmp_or (pod_namespace E) ''cattle-turtles-system'' in
      cm_meta_update (\<lambda>m. m\<lparr>m_namespace := namespace,
        m_annotations := mset (m_annotations m) ''meta.helm.sh/release-namespace'' namespace\<rparr>)
        (embedded_config E))"

section \<open>Providers\<close>

definition provider_key :: "provider_entry \<Rightarrow> string" where
  "provider_key p = pe_name p @ ''-'' @ pe_type p"

text \<open>The index of each provider in the list; of two with one key, the last.\<close>

fun index_providers :: "nat \<Rightarrow> provider_entry list \<Rightarrow> (string \<rightharpoonup> nat) \<Rightarrow> (string \<rightharpoonup> nat)" where
  "index_providers i [] idx = idx"
| "index_providers i (p # ps) idx = index_providers (Suc i) ps (idx(provider_key p \<mapsto> i))"

text \<open>The index is not extended when a provider is added.\<close>

fun update_providers ::
  "(string \<rightharpoonup> nat) \<Rightarrow> provider_entry list \<Rightarrow> provider_entry list \<Rightarrow> provider_entry list" where
  "update_providers idx providers [] = providers"
| "update_providers idx providers (new # news) =
     update_providers idx
       (case idx (provider_key new) of
          Some i \<Rightarrow> providers[i := new]
        | None \<Rightarrow> providers @ [new]) news"

definition merge_providers :: "provider_entry list \<Rightarrow> provider_entry list \<Rightarrow> provider_entry list" where
  "merge_providers providers news =
     update_providers (index_providers 0 providers Map.empty) providers news"

section \<open>Images\<close>

definition extractNamespace :: "string \<Rightarrow> string" where
  "extractNamespace imageURI =
     (let parts = split_char (CHR ''/'') imageURI in
      if 1 < length parts then join ''/'' (tl parts) else imageURI)"

definition registry_images :: "string \<Rightarrow> (string \<rightharpoonup> config_image) \<Rightarrow> (string \<rightharpoonup> config_image)" where
  "registry_images value images =
     (if value = [] then images
      else
        let registry = (if has_suffix value ''/'' then value else value @ ''/'') in
        (\<lambda>name. map_option (\<lambda>url. \<lparr>ci_repository = registry @ extractNamespace (ci_repository url),
           ci_tag = ci_tag url\<rparr>) (images name)))"

definition override_images :: "image_entry list \<Rightarrow> (string \<rightharpoonup> config_image) \<Rightarrow> (string \<rightharpoonup> config_image)" where
  "override_images images m =
     fold (\<lambda>i m. m(ie_name i \<mapsto> \<lparr>ci_repository = ie_repository i, ci_tag = ie_tag i\<rparr>)) images m"

section \<open>The merged configuration\<close>

text \<open>
  The zero \<open>ClusterctlConfig\<close>, which the code works on when there is none, and the
  result for a configuration, a registry (empty for none) and the embedded file.
\<close>

definition zero_config :: clusterctl_config where
  "zero_config = \<lparr>cfg_meta = empty_meta, cfg_images = [], cfg_providers = []\<rparr>"

definition config_of :: "clusterctl_config \<Rightarrow> string \<Rightarrow> config_repository \<Rightarrow> config_repository" where
  "config_of config registry embedded =
     (let images = (case cfgr_images embedded of None \<Rightarrow> Map.empty | Some m \<Rightarrow> m) in
      \<lparr>cfgr_providers = merge_providers (cfgr_providers embedded) (cfg_providers config),
       cfgr_images = Some (override_images (cfg_images config) (registry_images registry images))\<rparr>)"

definition merge_config ::
  "'w env \<Rightarrow> clusterctl_config \<Rightarrow> ('w st, go_error + config_repository) state" where
  "merge_config E config =
     (case unmarshal_config E (mread (cm_data (Config E)) ''clusterctl.yaml'') of
        Inl err \<Rightarrow> ret (Inl err)
      | Inr embedded \<Rightarrow>
          if gate E UseRancherDefaultRegistry then do {
            s \<leftarrow> get_obj E setting_codec Cached
                   \<lparr>k_namespace = [], k_name = ''system-default-registry''\<rparr>;
            case s of
              Inl err \<Rightarrow> ret (Inl err)
            | Inr setting \<Rightarrow> ret (Inr (config_of config (set_value setting) embedded)) }
          else ret (Inr (config_of config [] embedded)))"

definition ClusterConfig :: "'w env \<Rightarrow> ('w st, go_error + config_repository) state" where
  "ClusterConfig E = do {
     r \<leftarrow> get_obj E config_codec Cached (key_of (cm_meta (Config E)));
     case r of
       Inr config \<Rightarrow> merge_config E config
     | Inl err \<Rightarrow>
         (case ignore_not_found E (Some err) of
            Some e \<Rightarrow> ret (Inl e)
          | None \<Rightarrow> merge_config E zero_config) }"

text \<open>The apply configuration has a name, a namespace and the one data key.\<close>

definition SyncConfigMap :: "'w env \<Rightarrow> string \<Rightarrow> ('w st, go_error option) state" where
  "SyncConfigMap E owner = do {
     c \<leftarrow> ClusterConfig E;
     case c of
       Inl err \<Rightarrow> ret (Some (EWrap ''getting updated ClusterctlConfig'' err))
     | Inr clusterctlConfig \<Rightarrow>
         (case marshal_config E clusterctlConfig of
            Inl err \<Rightarrow> ret (Some (EWrap ''serializing updated ClusterctlConfig'' err))
          | Inr clusterctlYaml \<Rightarrow> do {
              e \<leftarrow> apply_obj E config_map_codec
                     \<lparr>cm_meta = empty_meta\<lparr>m_name := m_name (cm_meta (Config E)),
                        m_namespace := m_namespace (cm_meta (Config E))\<rparr>,
                      cm_data = Some [''clusterctl.yaml'' \<mapsto> clusterctlYaml]\<rparr> owner;
              ret (map_option (EWrap ''patching clusterctl ConfigMap'') e) }) }"

definition clusterctlconfig_Reconcile :: "'w env \<Rightarrow> ('w st, ctrl_result \<times> go_error option) state" where
  "clusterctlconfig_Reconcile E = do {
     e \<leftarrow> SyncConfigMap E ''clusterctlconfig-controller'';
     case e of
       Some err \<Rightarrow> ret (no_requeue, Some err)
     | None \<Rightarrow> ret (no_requeue, None) }"

definition configMapMapper :: "kobj \<Rightarrow> key list" where
  "configMapMapper obj =
     (if m_name (kobj_meta obj) \<noteq> ClusterctlConfigName then [] else [key_of (kobj_meta obj)])"

definition waitForClusterctlConfigDuration :: nat where
  "waitForClusterctlConfigDuration = 10"

definition WaitForClusterctlConfigUpdate ::
  "'w env \<Rightarrow> ('w st, ctrl_result \<times> go_error option) state" where
  "WaitForClusterctlConfigUpdate E = do {
     f \<leftarrow> call E (RReadFile ConfigPath);
     case reply_data f of
       Inl err \<Rightarrow>
         if is_not_exist E err then ret (requeue waitForClusterctlConfigDuration, None)
         else ret (no_requeue, Some (EWrap (''reading '' @ ConfigPath @ '' file'') err))
     | Inr configBytes \<Rightarrow> do {
         c \<leftarrow> ClusterConfig E;
         case c of
           Inl err \<Rightarrow> ret (no_requeue, Some (EWrap ''getting updated ClusterctlConfig'' err))
         | Inr config \<Rightarrow>
             (case marshal_config E config of
                Inl err \<Rightarrow> ret (no_requeue, Some (EWrap ''serializing updated ClusterctlConfig'' err))
              | Inr clusterctlYaml \<Rightarrow>
                  if clusterctlYaml \<noteq> configBytes
                  then ret (requeue waitForClusterctlConfigDuration, None)
                  else ret (no_requeue, None)) } }"

section \<open>Versions\<close>

definition collectVersion :: "string \<Rightarrow> string" where
  "collectVersion url =
     (let version = rev (split_char (CHR ''/'') url) in
      if length version < 2 then latestVersionKey else version ! 1)"

fun provider_version :: "provider_entry list \<Rightarrow> string \<Rightarrow> string \<Rightarrow> string \<times> bool" where
  "provider_version [] name providerType = (latestVersionKey, False)"
| "provider_version (p # ps) name providerType =
     (if pe_name p = name \<and> equal_fold (pe_type p) providerType
      then (collectVersion (pe_url p), True)
      else provider_version ps name providerType)"

definition GetProviderVersion :: "config_repository \<Rightarrow> string \<Rightarrow> string \<Rightarrow> string \<times> bool" where
  "GetProviderVersion r name providerType = provider_version (cfgr_providers r) name providerType"

definition IsLatestVersion :: "'w env \<Rightarrow> string \<Rightarrow> string \<Rightarrow> go_error + bool" where
  "IsLatestVersion E providerVersion expected =
     (if providerVersion = latestVersionKey then Inr True
      else
        case semver_parse E (cut_prefix providerVersion ''v'') of
          Inl err \<Rightarrow> Inl (EWrap (''unable to parse default provider version '' @ providerVersion) err)
        | Inr maxVersion \<Rightarrow>
            (let expected = cmp_or expected latestVersionKey in
             if expected = latestVersionKey then Inr False
             else
               case semver_parse E (cut_prefix expected ''v'') of
                 Inl err \<Rightarrow> Inl (EWrap (''unable to parse desired version '' @ expected) err)
               | Inr desiredVersion \<Rightarrow> Inr (semver_lte E maxVersion desiredVersion)))"

section \<open>Merging providers\<close>

text \<open>
  What the loop computes when no two embedded providers share a key: each embedded
  provider is replaced by the last user entry with its key, and the user entries with
  other keys follow, in their order and with their duplicates.
\<close>

definition last_override :: "provider_entry list \<Rightarrow> string \<Rightarrow> provider_entry option" where
  "last_override news k = List.find (\<lambda>n. provider_key n = k) (rev news)"

definition override_with :: "provider_entry list \<Rightarrow> provider_entry \<Rightarrow> provider_entry" where
  "override_with news b = (case last_override news (provider_key b) of Some n \<Rightarrow> n | None \<Rightarrow> b)"

definition merged_reference :: "provider_entry list \<Rightarrow> provider_entry list \<Rightarrow> provider_entry list" where
  "merged_reference providers news =
     map (override_with news) providers
     @ filter (\<lambda>n. provider_key n \<notin> provider_key ` set providers) news"

lemma last_override_Cons:
  "last_override (n # news) k =
     (case last_override news k of Some m \<Rightarrow> Some m
      | None \<Rightarrow> if provider_key n = k then Some n else None)"
  by (auto simp: last_override_def find_app split: option.split)

lemma last_override_key: "last_override news k = Some n \<Longrightarrow> n \<in> set news \<and> provider_key n = k"
  by (auto simp: last_override_def dest: find_in)

lemma index_providers_ne:
  "k \<notin> provider_key ` set ps \<Longrightarrow> index_providers i ps idx k = idx k"
  by (induction ps arbitrary: i idx) auto

lemma index_providers_nth:
  "distinct (map provider_key ps) \<Longrightarrow> index_providers i ps idx k = Some m \<longleftrightarrow>
     (\<exists>j < length ps. m = i + j \<and> provider_key (ps ! j) = k) \<or>
     k \<notin> provider_key ` set ps \<and> idx k = Some m"
proof (induction ps arbitrary: i idx)
  case (Cons p ps)
  show ?case
  proof (cases "provider_key p = k")
    case True
    with Cons.prems have "k \<notin> provider_key ` set ps" by auto
    moreover from this have "\<not> (\<exists>j < length ps. provider_key (ps ! j) = k)" by force
    ultimately show ?thesis
      using True by (auto simp: index_providers_ne less_Suc_eq_0_disj)
  next
    case False
    with Cons show ?thesis
      by (auto simp: less_Suc_eq_0_disj)
  qed
qed simp

lemma override_update:
  assumes "distinct (map provider_key base)" "i < length base" "provider_key (base ! i) = provider_key n"
  shows "map (override_with news) (base[i := n]) = map (override_with (n # news)) base"
proof (rule nth_equalityI)
  fix j
  assume "j < length (map (override_with news) (base[i := n]))"
  then have j: "j < length base" by simp
  show "map (override_with news) (base[i := n]) ! j = map (override_with (n # news)) base ! j"
  proof (cases "j = i")
    case True
    with assms j show ?thesis
      by (simp add: override_with_def last_override_Cons split: option.split)
  next
    case False
    with assms j have "provider_key (base ! j) \<noteq> provider_key n"
      by (metis (no_types, lifting) distinct_conv_nth length_map nth_map)
    with False j show ?thesis
      by (auto simp: override_with_def last_override_Cons split: option.split)
  qed
qed simp

lemma override_other:
  assumes "provider_key n \<notin> provider_key ` set base"
  shows "map (override_with (n # news)) base = map (override_with news) base"
  using assms by (auto simp: override_with_def last_override_Cons split: option.split)

lemma update_providers_spec:
  assumes "distinct (map provider_key base)"
    and "\<And>k i. idx k = Some i \<longleftrightarrow> i < length base \<and> provider_key (base ! i) = k"
  shows "update_providers idx (base @ extra) news =
    map (override_with news) base @ extra
    @ filter (\<lambda>n. provider_key n \<notin> provider_key ` set base) news"
  using assms
proof (induction news arbitrary: base extra)
  case Nil
  then show ?case
    by (simp add: override_with_def last_override_def)
next
  case (Cons n news)
  show ?case
  proof (cases "idx (provider_key n)")
    case None
    have "provider_key n \<notin> provider_key ` set base"
    proof
      assume "provider_key n \<in> provider_key ` set base"
      then obtain i where "i < length base" "provider_key (base ! i) = provider_key n"
        by (auto simp: in_set_conv_nth)
      with Cons.prems(2) have "idx (provider_key n) = Some i" by blast
      with None show False by simp
    qed
    with None Cons.IH [OF Cons.prems, of "extra @ [n]"] show ?thesis
      by (simp add: override_other)
  next
    case (Some i)
    with Cons.prems(2) have i: "i < length base" "provider_key (base ! i) = provider_key n"
      by blast+
    have keys: "map provider_key (base[i := n]) = map provider_key base"
      using i by (metis list_update_id map_update)
    have keys_at: "provider_key (base[i := n] ! j) = provider_key (base ! j)" if "j < length base" for j
      using that i by (cases "i = j") auto
    have "update_providers idx (base[i := n] @ extra) news =
      map (override_with news) (base[i := n]) @ extra
      @ filter (\<lambda>m. provider_key m \<notin> provider_key ` set (base[i := n])) news"
      by (rule Cons.IH) (use Cons.prems keys keys_at in auto)
    moreover have "provider_key ` set (base[i := n]) = provider_key ` set base"
      using keys by (metis list.set_map)
    moreover have "provider_key n \<in> provider_key ` set base"
      using i by (metis imageI nth_mem)
    ultimately show ?thesis
      using Some i Cons.prems(1) by (simp add: list_update_append override_update)
  qed
qed

lemma merge_providers_reference:
  assumes "distinct (map provider_key providers)"
  shows "merge_providers providers news = merged_reference providers news"
proof -
  have "index_providers 0 providers Map.empty k = Some i \<longleftrightarrow>
      i < length providers \<and> provider_key (providers ! i) = k" for k i
    using index_providers_nth [OF assms, of 0 Map.empty k i] by auto
  from update_providers_spec [OF assms this, of "[]" news] show ?thesis
    by (simp add: merge_providers_def merged_reference_def)
qed

end
