(* ===== verification/Provider.thy ===== *)
theory Provider
  imports Clusterctl
begin

text \<open>
  The CAPIProvider type as the CAPI operator sees it: src/api/v1alpha1/provider_types.go
  and capiprovider_wrapper.go, and the defaults of src/internal/provider/defaults.go.
\<close>

section \<open>Types of providers\<close>

definition Infrastructure :: string where "Infrastructure = ''infrastructure''"
definition Core :: string where "Core = ''core''"
definition ControlPlane :: string where "ControlPlane = ''controlPlane''"
definition Bootstrap :: string where "Bootstrap = ''bootstrap''"
definition Addon :: string where "Addon = ''addon''"
definition IPAM :: string where "IPAM = ''ipam''"
definition RuntimeExtension :: string where "RuntimeExtension = ''runtimeextension''"

lemmas type_defs =
  Infrastructure_def Core_def ControlPlane_def Bootstrap_def Addon_def IPAM_def
  RuntimeExtension_def

definition ToKind :: "'w env \<Rightarrow> string \<Rightarrow> string" where
  "ToKind E t = title_case E t @ ''Provider''"

definition ToName :: "string \<Rightarrow> string" where
  "ToName t =
     (if t = Infrastructure then ''infrastructure-''
      else if t = Core then []
      else if t = ControlPlane then ''control-plane-''
      else if t = Bootstrap then ''bootstrap-''
      else if t = Addon then ''addon-''
      else if t = IPAM then ''ipam-''
      else if t = RuntimeExtension then ''runtime-extension-''
      else [])"

section \<open>The generic provider interface\<close>

definition GetSpec :: "capi_provider \<Rightarrow> provider_spec" where
  "GetSpec b = cps_provider (cp_spec b)"

definition SetSpec :: "capi_provider \<Rightarrow> provider_spec \<Rightarrow> capi_provider" where
  "SetSpec b spec = b\<lparr>cp_spec := (cp_spec b)\<lparr>cps_provider := spec\<rparr>\<rparr>"

definition GetStatus :: "capi_provider \<Rightarrow> provider_status" where
  "GetStatus b = cpst_provider (cp_status b)"

definition SetStatus :: "capi_provider \<Rightarrow> provider_status \<Rightarrow> capi_provider" where
  "SetStatus b status = b\<lparr>cp_status := (cp_status b)\<lparr>cpst_provider := status\<rparr>\<rparr>"

definition GetType :: "capi_provider \<Rightarrow> string" where
  "GetType b = to_lower (cps_type (cp_spec b))"

definition GetItems :: "capi_provider list \<Rightarrow> capi_provider list" where
  "GetItems items = map (\<lambda>i. items ! i) [0..<length items]"

definition SetVariables :: "capi_provider \<Rightarrow> smap \<Rightarrow> capi_provider" where
  "SetVariables b v = b\<lparr>cp_status := (cp_status b)\<lparr>cpst_variables := v\<rparr>\<rparr>"

definition SetProviderName :: "capi_provider \<Rightarrow> capi_provider" where
  "SetProviderName b = b\<lparr>cp_status := (cp_status b)\<lparr>cpst_name :=
     cmp_or (cps_name (cp_spec b)) (m_name (cp_meta b))\<rparr>\<rparr>"

definition SetPhase :: "capi_provider \<Rightarrow> string \<Rightarrow> capi_provider" where
  "SetPhase b p = b\<lparr>cp_status := (cp_status b)\<lparr>cpst_phase := p\<rparr>\<rparr>"

definition ProviderName :: "capi_provider \<Rightarrow> string" where
  "ProviderName b =
     (if cps_name (cp_spec b) \<noteq> [] then cps_name (cp_spec b) else m_name (cp_meta b))"

text \<open>
  \<open>operatorv1.GenericProvider\<close>, as code written against it relies on it: the spec and
  the status are independent fields, and the metadata is neither.
\<close>

locale generic_provider = meta_object meta upd
  for meta :: "'o \<Rightarrow> object_meta" and upd :: "(object_meta \<Rightarrow> object_meta) \<Rightarrow> 'o \<Rightarrow> 'o" +
  fixes get_spec :: "'o \<Rightarrow> provider_spec" and set_spec :: "'o \<Rightarrow> provider_spec \<Rightarrow> 'o"
    and get_status :: "'o \<Rightarrow> provider_status" and set_status :: "'o \<Rightarrow> provider_status \<Rightarrow> 'o"
  assumes get_set_spec: "get_spec (set_spec x s) = s"
    and set_get_spec: "set_spec x (get_spec x) = x"
    and set_set_spec: "set_spec (set_spec x s) u = set_spec x u"
    and get_set_status: "get_status (set_status x t) = t"
    and spec_status: "get_spec (set_status x t) = get_spec x"
    and status_spec: "get_status (set_spec x s) = get_status x"
    and meta_spec: "meta (set_spec x s) = meta x"
begin

text \<open>The secret reference \<open>SetDefaultProviderSpec\<close> leaves in the spec of any provider.\<close>

definition default_secret :: "'o \<Rightarrow> object_ref" where
  "default_secret x =
     (case ps_config_secret (get_spec x) of
        Some r \<Rightarrow> r\<lparr>ref_namespace := m_namespace (meta x)\<rparr>
      | None \<Rightarrow> \<lparr>ref_name = m_name (meta x), ref_namespace = m_namespace (meta x)\<rparr>)"

definition with_secret :: "'o \<Rightarrow> 'o" where
  "with_secret x = set_spec x ((get_spec x)\<lparr>ps_config_secret := Some (default_secret x)\<rparr>)"

lemma default_secret_namespace: "ref_namespace (default_secret x) = m_namespace (meta x)"
  by (simp add: default_secret_def split: option.split)

lemma default_secret_stable: "default_secret (with_secret x) = default_secret x"
  by (cases "ps_config_secret (get_spec x)")
    (simp_all add: default_secret_def with_secret_def get_set_spec meta_spec)

lemma with_secret_stable: "with_secret (with_secret x) = with_secret x"
proof -
  have "get_spec (with_secret x) = (get_spec x)\<lparr>ps_config_secret := Some (default_secret x)\<rparr>"
    by (simp add: with_secret_def get_set_spec)
  then have "with_secret (with_secret x) =
      set_spec (with_secret x) ((get_spec x)\<lparr>ps_config_secret := Some (default_secret x)\<rparr>)"
    using default_secret_stable [of x] by (simp add: with_secret_def [of "with_secret x"])
  then show ?thesis
    by (simp add: with_secret_def set_set_spec)
qed

lemma with_secret_status: "get_status (with_secret x) = get_status x"
  by (simp add: with_secret_def status_spec)

end

interpretation capi_generic: generic_provider cp_meta cp_meta_update GetSpec SetSpec GetStatus SetStatus
  by unfold_locales (auto simp: GetSpec_def SetSpec_def GetStatus_def SetStatus_def)

lemma GetItems_id: "GetItems items = items"
  by (simp add: GetItems_def map_nth)

section \<open>Defaults\<close>

text \<open>
  \<open>maps.Copy\<close> into a nil map panics at the first element, so it does not if there is
  none.
\<close>

definition setVariables :: "capi_provider \<Rightarrow> capi_provider outcome" where
  "setVariables p =
     (case cps_variables (cp_spec p) of
        None \<Rightarrow> Ret p
      | Some source \<Rightarrow>
          if source = Map.empty then Ret p
          else
            (case cpst_variables (cp_status p) of
               None \<Rightarrow> Panic ''assignment to entry in nil map''
             | Some dest \<Rightarrow> Ret (SetVariables p (Some (dest ++ source)))))"

definition setFeatures :: "capi_provider \<Rightarrow> capi_provider outcome" where
  "setFeatures p =
     (case cps_features (cp_spec p) of
        None \<Rightarrow> Ret p
      | Some f \<Rightarrow>
          (case cpst_variables (cp_status p) of
             None \<Rightarrow> Panic ''assignment to entry in nil map''
           | Some variables \<Rightarrow>
               Ret (SetVariables p (Some (variables(
                 ''EXP_CLUSTER_RESOURCE_SET'' \<mapsto> format_bool (f_cluster_resource_set f),
                 ''CLUSTER_TOPOLOGY'' \<mapsto> format_bool (f_cluster_topology f),
                 ''EXP_MACHINE_POOL'' \<mapsto> format_bool (f_machine_pool f)))))))"

definition SetDefaultProviderSpec :: "capi_provider \<Rightarrow> capi_provider outcome" where
  "SetDefaultProviderSpec o' =
     (let providerSpec = GetSpec o';
          providerNamespace = m_namespace (cp_meta o');
          providerSpec = ps_config_secret_update
            (map_option (\<lambda>r. r\<lparr>ref_namespace := providerNamespace\<rparr>)) providerSpec;
          providerSpec = ps_additional_manifests_update
            (map_option (\<lambda>r. if ref_namespace r = [] then r\<lparr>ref_namespace := providerNamespace\<rparr> else r))
            providerSpec in
      case setVariables o' of
        Panic p \<Rightarrow> Panic p
      | Ret provider \<Rightarrow>
          (case setFeatures provider of
             Panic p \<Rightarrow> Panic p
           | Ret provider \<Rightarrow>
               (let providerSpec = ps_config_secret_update (\<lambda>s. case s of
                      Some r \<Rightarrow> Some r
                    | None \<Rightarrow> Some \<lparr>ref_name = m_name (cp_meta o'),
                        ref_namespace = providerNamespace\<rparr>) providerSpec in
                Ret (SetSpec provider providerSpec))))"

section \<open>The latest version\<close>

definition CheckLatestVersionTime :: string where
  "CheckLatestVersionTime = ''CheckLatestVersionTime''"

definition CheckLatestUpdateAvailableReason :: string where
  "CheckLatestUpdateAvailableReason = ''UpdateAvailable''"

definition CheckLatestProviderUnknownReason :: string where
  "CheckLatestProviderUnknownReason = ''ProviderUnknown''"

definition set_condition :: "'w env \<Rightarrow> condition \<Rightarrow> capi_provider \<Rightarrow> capi_provider" where
  "set_condition E c p = cp_SetConditions p (cond_put E (cp_GetConditions p) c)"

definition set_version :: "string \<Rightarrow> capi_provider \<Rightarrow> capi_provider" where
  "set_version v p = SetSpec p ((GetSpec p)\<lparr>ps_version := v\<rparr>)"

definition apply_latest :: "'w env \<Rightarrow> string \<Rightarrow> bool \<Rightarrow> bool \<Rightarrow> capi_provider \<Rightarrow> capi_provider" where
  "apply_latest E providerVersion knownProvider latest provider =
     (let auto = cps_auto_update (cp_spec provider) in
      if \<not> knownProvider then
        set_condition E \<lparr>c_type = CheckLatestVersionTime, c_status = CondUnknown,
          c_reason = CheckLatestProviderUnknownReason, c_message = ''Provider is unknown''\<rparr> provider
      else if latest then
        set_version providerVersion (set_condition E \<lparr>c_type = CheckLatestVersionTime,
          c_status = CondTrue, c_reason = ''LatestVersionSet'',
          c_message = ''Latest version is set''\<rparr> provider)
      else if \<not> auto then
        set_condition E \<lparr>c_type = CheckLatestVersionTime, c_status = CondFalse,
          c_reason = CheckLatestUpdateAvailableReason,
          c_message = ''Provider version update available. Current latest is '' @ providerVersion\<rparr> provider
      else
        (let updatedMessage = ''Updated to latest '' @ providerVersion @ '' version'' in
         set_version providerVersion
           (case cond_get E (cp_GetConditions provider) CheckLatestVersionTime of
              Some c \<Rightarrow>
                if c_message c \<noteq> updatedMessage then
                  set_condition E \<lparr>c_type = CheckLatestVersionTime, c_status = CondTrue,
                    c_reason = ''VersionUpdated'', c_message = updatedMessage\<rparr> provider
                else provider
            | None \<Rightarrow>
                set_condition E \<lparr>c_type = CheckLatestVersionTime, c_status = CondTrue,
                  c_reason = ''VersionUpdated'', c_message = updatedMessage\<rparr> provider)))"

definition setLatestVersion ::
  "'w env \<Rightarrow> capi_provider \<Rightarrow> ('w st, go_error + capi_provider) state" where
  "setLatestVersion E provider = do {
     c \<leftarrow> ClusterConfig E;
     case c of
       Inl err \<Rightarrow> ret (Inl err)
     | Inr config \<Rightarrow>
         (case GetProviderVersion config (ProviderName provider) (ToKind E (cps_type (cp_spec provider))) of
            (providerVersion, knownProvider) \<Rightarrow>
              (case IsLatestVersion E providerVersion (ps_version (GetSpec provider)) of
                 Inl err \<Rightarrow> ret (Inl err)
               | Inr latest \<Rightarrow> ret (Inr (apply_latest E providerVersion knownProvider latest provider)))) }"

definition set_variable :: "string \<Rightarrow> string \<Rightarrow> capi_provider \<Rightarrow> capi_provider" where
  "set_variable k v p = SetVariables p (mset (cpst_variables (cp_status p)) k v)"

definition provider_variables :: "capi_provider \<Rightarrow> capi_provider" where
  "provider_variables provider =
     (if ProviderName provider = ''azure''
      then set_variable ''EXP_AKS_RESOURCE_HEALTH'' ''true'' provider
      else if ProviderName provider = ''gcp''
      then set_variable ''EXP_CAPG_GKE'' ''true'' provider
      else provider)"

text \<open>
  The provider is changed in place, so what was set before an error stays; the result
  is the provider with the error.
\<close>

definition SetProviderSpec ::
  "'w env \<Rightarrow> capi_provider \<Rightarrow> ('w st, (capi_provider \<times> go_error option) outcome) state" where
  "SetProviderSpec E provider =
     (case SetDefaultProviderSpec provider of
        Panic p \<Rightarrow> ret (Panic p)
      | Ret provider \<Rightarrow> do {
          r \<leftarrow> setLatestVersion E provider;
          case r of
            Inl err \<Rightarrow> ret (Ret (provider, Some err))
          | Inr provider \<Rightarrow> ret (Ret (provider_variables provider, None)) })"

section \<open>Facts about the fields\<close>

lemma provider_fields [simp]:
  "cp_meta (SetSpec p s) = cp_meta p" "cp_meta (SetStatus p t) = cp_meta p"
  "cp_meta (SetVariables p v) = cp_meta p" "cp_meta (set_condition E c p) = cp_meta p"
  "GetSpec (SetVariables p v) = GetSpec p" "GetSpec (set_condition E c p) = GetSpec p"
  "GetSpec (SetSpec p s) = s" "GetSpec (SetPhase p ph) = GetSpec p"
  "cpst_variables (cp_status (SetVariables p v)) = v"
  "cpst_variables (cp_status (SetSpec p s)) = cpst_variables (cp_status p)"
  "cpst_variables (cp_status (set_condition E c p)) = cpst_variables (cp_status p)"
  "cp_GetConditions (set_condition E c p) = cond_put E (cp_GetConditions p) c"
  "cp_GetConditions (SetSpec p s) = cp_GetConditions p"
  "cp_GetConditions (SetVariables p v) = cp_GetConditions p"
  "cp_GetConditions (SetPhase p ph) = cp_GetConditions p"
  by (simp_all add: SetSpec_def SetStatus_def SetVariables_def set_condition_def GetSpec_def
      SetPhase_def cp_SetConditions_def cp_GetConditions_def)

lemma provider_spec_fields [simp]:
  "cps_name (cp_spec (SetSpec p s)) = cps_name (cp_spec p)"
  "cps_type (cp_spec (SetSpec p s)) = cps_type (cp_spec p)"
  "cps_variables (cp_spec (SetSpec p s)) = cps_variables (cp_spec p)"
  "cps_features (cp_spec (SetSpec p s)) = cps_features (cp_spec p)"
  "cps_auto_update (cp_spec (SetSpec p s)) = cps_auto_update (cp_spec p)"
  "cp_spec (SetVariables p v) = cp_spec p" "cp_spec (set_condition E c p) = cp_spec p"
  "cp_spec (SetPhase p ph) = cp_spec p"
  by (simp_all add: SetSpec_def SetVariables_def set_condition_def SetPhase_def cp_SetConditions_def)

lemma SetVariables_SetVariables [simp]: "SetVariables (SetVariables p v) w = SetVariables p w"
  by (simp add: SetVariables_def)

lemma SetVariables_SetSpec: "SetVariables (SetSpec p s) v = SetSpec (SetVariables p v) s"
  by (simp add: SetVariables_def SetSpec_def)

lemma SetSpec_SetSpec [simp]: "SetSpec (SetSpec p s) u = SetSpec p u"
  by (simp add: SetSpec_def)

end
