(* ===== verification/Secret_Sync.thy ===== *)
theory Secret_Sync
  imports Provider Go_Encoding
begin

text \<open>
  src/internal/sync: the two syncers that mirror a CAPIProvider into its config secret,
  one from the variables of the status, one from a Rancher cloud credential.

  The source provider is shared by the syncers and mutated by them, so every operation
  takes it and returns it.  The dynamic dispatch of the \<open>Sync\<close> interface is a case
  distinction over \<open>syncer\<close>; of the \<open>convert\<close> interface, one over \<open>conversion\<close>.
\<close>

section \<open>Conversions\<close>

datatype conversion =
    Raw string
  | B64 string
  | Template string "string list"

fun missing_key :: "smap \<Rightarrow> string list \<Rightarrow> go_error option" where
  "missing_key data [] = None"
| "missing_key data (k # ks) =
     (if mget data k = None then Some (EMsg (''key not found: '' @ k)) else missing_key data ks)"

definition Raw_validate :: "string \<Rightarrow> smap \<Rightarrow> go_error option" where
  [simp]: "Raw_validate source data =
     (if mget data source = None then Some (EMsg (''key not found: '' @ source)) else None)"

definition Raw_convert :: "string \<Rightarrow> smap \<Rightarrow> string" where
  [simp]: "Raw_convert source data = mread data source"

definition B64_validate :: "string \<Rightarrow> smap \<Rightarrow> go_error option" where
  [simp]: "B64_validate source data =
     (if mget data source = None then Some (EMsg (''key not found: '' @ source)) else None)"

definition B64_convert :: "string \<Rightarrow> smap \<Rightarrow> string" where
  [simp]: "B64_convert source data = base64 (mread data source)"

text \<open>The template engine's error texts are a parameter.\<close>

definition Template_convert :: "'w env \<Rightarrow> string \<Rightarrow> string list \<Rightarrow> smap \<Rightarrow> string" where
  [simp]: "Template_convert E template sources data =
     (if missing_key data sources \<noteq> None then []
      else
        case render template data of
          None \<Rightarrow> template_error E template
        | Some rendered \<Rightarrow> base64 rendered)"

text \<open>The methods of the interface, by the type of the receiver.\<close>

fun validate :: "conversion \<Rightarrow> smap \<Rightarrow> go_error option" where
  "validate (Raw source) data = Raw_validate source data"
| "validate (B64 source) data = B64_validate source data"
| "validate (Template template sources) data = missing_key data sources"

fun convert :: "'w env \<Rightarrow> conversion \<Rightarrow> smap \<Rightarrow> string" where
  "convert E (Raw source) data = Raw_convert source data"
| "convert E (B64 source) data = B64_convert source data"
| "convert E (Template template sources) data = Template_convert E template sources data"

section \<open>The requirements of each provider\<close>

record mapping =
  map_to :: string
  map_from :: conversion

definition newline :: string where
  "newline = [CHR 0x0A]"

definition index_action :: "string \<Rightarrow> string" where
  "index_action k = ''{{index . '' @ [dquote] @ k @ [dquote] @ ''}}''"

definition awsDataTemplate :: string where
  "awsDataTemplate =
     ''[default]'' @ newline @
     ''aws_access_key_id = '' @ index_action ''amazonec2credentialConfig-accessKey'' @ newline @
     ''aws_secret_access_key = '' @ index_action ''amazonec2credentialConfig-secretKey'' @ newline @
     ''region = '' @ index_action ''amazonec2credentialConfig-defaultRegion''"

definition knownProviderRequirements :: "string \<Rightarrow> mapping list option" where
  "knownProviderRequirements provider =
     (if provider = ''aws'' then Some [
        \<lparr>map_to = ''AWS_ACCESS_KEY_ID'', map_from = Raw ''amazonec2credentialConfig-accessKey''\<rparr>,
        \<lparr>map_to = ''AWS_SECRET_ACCESS_KEY'', map_from = Raw ''amazonec2credentialConfig-secretKey''\<rparr>,
        \<lparr>map_to = ''AWS_REGION'', map_from = Raw ''amazonec2credentialConfig-defaultRegion''\<rparr>,
        \<lparr>map_to = ''AWS_B64ENCODED_CREDENTIALS'', map_from = Template awsDataTemplate
           [''amazonec2credentialConfig-accessKey'',
            ''amazonec2credentialConfig-secretKey'',
            ''amazonec2credentialConfig-defaultRegion'']\<rparr>]
      else if provider = ''azure'' then Some [
        \<lparr>map_to = ''AZURE_SUBSCRIPTION_ID'', map_from = Raw ''azurecredentialConfig-subscriptionId''\<rparr>,
        \<lparr>map_to = ''AZURE_CLIENT_ID'', map_from = Raw ''azurecredentialConfig-clientId''\<rparr>,
        \<lparr>map_to = ''AZURE_CLIENT_SECRET'', map_from = Raw ''azurecredentialConfig-clientSecret''\<rparr>,
        \<lparr>map_to = ''AZURE_TENANT_ID'', map_from = Raw ''azurecredentialConfig-tenantId''\<rparr>,
        \<lparr>map_to = ''AZURE_SUBSCRIPTION_ID_B64'', map_from = B64 ''azurecredentialConfig-subscriptionId''\<rparr>,
        \<lparr>map_to = ''AZURE_CLIENT_ID_B64'', map_from = B64 ''azurecredentialConfig-clientId''\<rparr>,
        \<lparr>map_to = ''AZURE_CLIENT_SECRET_B64'', map_from = B64 ''azurecredentialConfig-clientSecret''\<rparr>,
        \<lparr>map_to = ''AZURE_TENANT_ID_B64'', map_from = B64 ''azurecredentialConfig-tenantId''\<rparr>]
      else if provider = ''vsphere'' then Some [
        \<lparr>map_to = ''VSPHERE_PASSWORD'', map_from = Raw ''vmwarevspherecredentialConfig-password''\<rparr>,
        \<lparr>map_to = ''VSPHERE_USERNAME'', map_from = Raw ''vmwarevspherecredentialConfig-username''\<rparr>]
      else if provider = ''gcp'' then Some [
        \<lparr>map_to = ''GCP_B64ENCODED_CREDENTIALS'', map_from = B64 ''googlecredentialConfig-authEncodedJson''\<rparr>]
      else if provider = ''digitalocean'' then Some [
        \<lparr>map_to = ''DIGITALOCEAN_ACCESS_TOKEN'', map_from = Raw ''digitaloceancredentialConfig-accessToken''\<rparr>,
        \<lparr>map_to = ''DO_B64ENCODED_CREDENTIALS'', map_from = B64 ''digitaloceancredentialConfig-accessToken''\<rparr>]
      else None)"

definition driverMapping :: "string \<rightharpoonup> string" where
  "driverMapping = [''vsphere'' \<mapsto> ''vmwarevsphere'']"

text \<open>The loop of \<open>Into\<close>: the destination map and the errors so far.\<close>

fun map_values ::
  "'w env \<Rightarrow> smap \<Rightarrow> mapping list \<Rightarrow> (string \<rightharpoonup> string) \<Rightarrow> go_error option list
     \<Rightarrow> (string \<rightharpoonup> string) \<times> go_error option list" where
  "map_values E from [] to errors = (to, errors)"
| "map_values E from (v # vs) to errors =
     map_values E from vs (to(map_to v \<mapsto> convert E (map_from v) from))
       (errors @ [validate (map_from v) from])"

definition Into ::
  "'w env \<Rightarrow> string \<Rightarrow> smap \<Rightarrow> (string \<rightharpoonup> string) \<Rightarrow> (string \<rightharpoonup> string) \<times> go_error option" where
  "Into E provider from to =
     (case knownProviderRequirements provider of
        None \<Rightarrow> (to, None)
      | Some providerValues \<Rightarrow>
          (case map_values E from providerValues to [] of
             (to', errors) \<Rightarrow> (to', aggregate E errors)))"

section \<open>Writing a secret\<close>

definition FinalizerDeleteDependents :: string where
  "FinalizerDeleteDependents = ''foregroundDeletion''"

definition setFinalizers :: "object_meta \<Rightarrow> object_meta" where
  "setFinalizers obj =
     (if FinalizerDeleteDependents \<in> set (m_finalizers obj) then obj
      else obj\<lparr>m_finalizers := m_finalizers obj @ [FinalizerDeleteDependents]\<rparr>)"

definition setOwnerReference :: "object_meta \<Rightarrow> object_meta \<Rightarrow> object_meta" where
  "setOwnerReference owner obj =
     obj\<lparr>m_owners := [\<lparr>or_api_version = ''turtles-capi.cattle.io/v1alpha1'',
        or_kind = ''CAPIProvider'', or_name = m_name owner, or_uid = m_uid owner,
        or_controller = True, or_block_deletion = True\<rparr>]\<rparr>"

text \<open>\<open>setKind\<close> fails or sets the type metadata, which is not modelled.\<close>

definition setKind :: "'w env \<Rightarrow> kobj \<Rightarrow> go_error option" where
  "setKind E obj = object_kinds_error E obj"

definition Patch :: "'w env \<Rightarrow> secret \<Rightarrow> ('w st, secret \<times> go_error option) state" where
  "Patch E obj =
     (case setKind E (OSecret obj) of
        Some err \<Rightarrow> ret (obj, Some err)
      | None \<Rightarrow> do {
          u \<leftarrow> update_obj E secret_codec Cached obj;
          case u of
            Inr updated \<Rightarrow> ret (updated, None)
          | Inl err \<Rightarrow>
              if is_not_found E err then do {
                c \<leftarrow> create_obj E secret_codec Cached obj;
                case c of
                  Inr created \<Rightarrow> ret (created, None)
                | Inl cerr \<Rightarrow> ret (obj, Some cerr) }
              else ret (obj, Some err) })"

definition default_Get :: "'w env \<Rightarrow> secret \<Rightarrow> ('w st, secret \<times> go_error option) state" where
  "default_Get E dest = do {
     r \<leftarrow> get_obj E secret_codec Cached (key_of (sec_meta dest));
     case r of
       Inr found \<Rightarrow> ret (found, None)
     | Inl err \<Rightarrow> ret (dest, ignore_not_found E (Some err)) }"

definition default_Apply ::
  "'w env \<Rightarrow> capi_provider \<Rightarrow> secret \<Rightarrow> go_error option \<Rightarrow> ('w st, secret \<times> go_error option) state" where
  "default_Apply E source dest reterr = do {
     p \<leftarrow> Patch E (sec_meta_update (\<lambda>m. setOwnerReference (cp_meta source) (setFinalizers m)) dest);
     case p of (dest, err) \<Rightarrow>
       (case err of
          Some e \<Rightarrow> ret (dest, aggregate E [reterr, Some e])
        | None \<Rightarrow> ret (dest, reterr)) }"

section \<open>The syncers\<close>

datatype syncer =
    SecretSyncer secret \<comment> \<open>the destination\<close>
  | MapperSyncer secret secret \<comment> \<open>the destination and the Rancher secret\<close>

definition secret_named :: "string \<Rightarrow> string \<Rightarrow> secret" where
  "secret_named name namespace =
     \<lparr>sec_meta = empty_meta\<lparr>m_name := name, m_namespace := namespace\<rparr>,
      sec_data = None, sec_string_data = None\<rparr>"

definition secret_GetSecret :: "capi_provider \<Rightarrow> secret" where
  "secret_GetSecret p =
     secret_named
       (case ps_config_secret (GetSpec p) of Some r \<Rightarrow> ref_name r | None \<Rightarrow> m_name (cp_meta p))
       (m_namespace (cp_meta p))"

definition NewSecretSync :: "capi_provider \<Rightarrow> syncer" where
  "NewSecretSync p = SecretSyncer (secret_GetSecret p)"

definition RancherCredentialsNamespace :: string where
  "RancherCredentialsNamespace = ''cattle-global-data''"

definition NameAnnotation :: string where
  "NameAnnotation = ''field.cattle.io/name''"

definition DriverNameAnnotation :: string where
  "DriverNameAnnotation = ''provisioning.cattle.io/driver''"

text \<open>Indexing the second part panics when the reference has no colon.\<close>

definition mapper_GetSecret :: "credentials \<Rightarrow> secret outcome" where
  "mapper_GetSecret c =
     (let splitName = cmp_or (cr_namespace_name c) '':'' in
      case split_two '':'' splitName of
        [namespace, name] \<Rightarrow>
          Ret (secret_named (cmp_or name (cr_cloud_credential c))
                 (cmp_or namespace RancherCredentialsNamespace))
      | _ \<Rightarrow> Panic ''index out of range'')"

definition NewSecretMapperSync :: "capi_provider \<Rightarrow> syncer option outcome" where
  "NewSecretMapperSync p =
     (case cps_credentials (cp_spec p) of
        None \<Rightarrow> Ret None
      | Some c \<Rightarrow>
          if cmp_or (cr_cloud_credential c) (cr_namespace_name c) = [] \<or>
             knownProviderRequirements (ProviderName p) = None
          then Ret None
          else
            (case mapper_GetSecret c of
               Panic e \<Rightarrow> Panic e
             | Ret rancher \<Rightarrow> Ret (Some (MapperSyncer (secret_GetSecret p) rancher))))"

text \<open>The first secret that names the credential and the driver of the provider.\<close>

definition driver_of :: "capi_provider \<Rightarrow> string" where
  "driver_of p =
     (case driverMapping (ProviderName p) of Some n \<Rightarrow> n | None \<Rightarrow> ProviderName p)"

definition matches_credential :: "capi_provider \<Rightarrow> string \<Rightarrow> secret \<Rightarrow> bool" where
  "matches_credential p name s \<longleftrightarrow>
     mget (m_annotations (sec_meta s)) NameAnnotation = Some name \<and>
     mget (m_annotations (sec_meta s)) DriverNameAnnotation = Some (driver_of p)"

definition RancherCredentialsSecretCondition :: string where
  "RancherCredentialsSecretCondition = ''RancherCredentialsSecretMapped''"

definition RancherCredentialKeyMissing :: string where
  "RancherCredentialKeyMissing = ''RancherCredentialKeyMissing''"

definition RancherCredentialSourceMissing :: string where
  "RancherCredentialSourceMissing = ''RancherCredentialSourceMissing''"

definition credential_of :: "capi_provider \<Rightarrow> credentials" where
  "credential_of p =
     (case cps_credentials (cp_spec p) of
        Some c \<Rightarrow> c | None \<Rightarrow> \<lparr>cr_cloud_credential = [], cr_namespace_name = []\<rparr>)"

definition source_missing :: "'w env \<Rightarrow> capi_provider \<Rightarrow> capi_provider" where
  "source_missing E p = set_condition E \<lparr>c_type = RancherCredentialsSecretCondition,
     c_status = CondFalse, c_reason = RancherCredentialSourceMissing,
     c_message = ''Rancher Credentials secret named ''
       @ cmp_or (cr_cloud_credential (credential_of p)) (cr_namespace_name (credential_of p))
       @ '' was not located''\<rparr> p"

definition find_credential ::
  "'w env \<Rightarrow> capi_provider \<Rightarrow> secret \<Rightarrow> secret \<Rightarrow> secret list
     \<Rightarrow> ('w st, syncer \<times> capi_provider \<times> go_error option) state" where
  "find_credential E source dest rancher items =
     (case List.find (matches_credential source (m_name (sec_meta rancher))) items of
        Some found \<Rightarrow> do {
          g \<leftarrow> default_Get E dest;
          ret (MapperSyncer (fst g) found, source, snd g) }
      | None \<Rightarrow>
          ret (MapperSyncer dest rancher, source_missing E source,
            Some (EMsg (''unable to locate rancher secret with name '' @ m_name (sec_meta rancher)
              @ '' for provider '' @ ProviderName source))))"

text \<open>A failed lookup by reference goes on with an empty list.\<close>

definition mapper_Get ::
  "'w env \<Rightarrow> capi_provider \<Rightarrow> secret \<Rightarrow> secret
     \<Rightarrow> ('w st, syncer \<times> capi_provider \<times> go_error option) state" where
  "mapper_Get E source dest rancher =
     (if cr_namespace_name (credential_of source) \<noteq> [] then do {
        r \<leftarrow> get_obj E secret_codec Cached (key_of (sec_meta rancher));
        case r of
          Inr found \<Rightarrow> do {
            g \<leftarrow> default_Get E dest;
            ret (MapperSyncer (fst g) found, source, snd g) }
        | Inl err \<Rightarrow> find_credential E source dest rancher [] }
      else do {
        l \<leftarrow> list_obj E secret_codec Cached [InNamespace RancherCredentialsNamespace];
        case l of
          Inl err \<Rightarrow> ret (MapperSyncer dest rancher, source, Some err)
        | Inr items \<Rightarrow> find_credential E source dest rancher items })"

definition mapper_Sync ::
  "'w env \<Rightarrow> capi_provider \<Rightarrow> secret \<Rightarrow> secret \<Rightarrow> syncer \<times> capi_provider \<times> go_error option" where
  "mapper_Sync E source dest rancher =
     (case Into E (ProviderName source) (sec_data rancher) Map.empty of
        (to, err) \<Rightarrow>
          (let dest = dest\<lparr>sec_string_data := Some to\<rparr> in
           case err of
             Some e \<Rightarrow>
               (MapperSyncer dest rancher,
                set_condition E \<lparr>c_type = RancherCredentialsSecretCondition, c_status = CondFalse,
                  c_reason = RancherCredentialKeyMissing, c_message = ''Credential keys missing: '' @ error_text E e\<rparr> source,
                None)
           | None \<Rightarrow>
               (MapperSyncer dest rancher,
                set_condition E \<lparr>c_type = RancherCredentialsSecretCondition, c_status = CondTrue,
                  c_reason = ''CredentialsMapped'',
                  c_message = ''Credentials successfully mapped''\<rparr> source,
                None)))"

definition sync_Get ::
  "'w env \<Rightarrow> syncer \<Rightarrow> capi_provider \<Rightarrow> ('w st, syncer \<times> capi_provider \<times> go_error option) state" where
  "sync_Get E s source =
     (case s of
        SecretSyncer dest \<Rightarrow> do {
          g \<leftarrow> default_Get E dest;
          ret (SecretSyncer (fst g), source, snd g) }
      | MapperSyncer dest rancher \<Rightarrow> mapper_Get E source dest rancher)"

definition sync_Sync ::
  "'w env \<Rightarrow> syncer \<Rightarrow> capi_provider \<Rightarrow> ('w st, syncer \<times> capi_provider \<times> go_error option) state" where
  "sync_Sync E s source =
     (case s of
        SecretSyncer dest \<Rightarrow>
          ret (SecretSyncer (dest\<lparr>sec_string_data := cpst_variables (cp_status source)\<rparr>), source, None)
      | MapperSyncer dest rancher \<Rightarrow> ret (mapper_Sync E source dest rancher))"

definition sync_Apply ::
  "'w env \<Rightarrow> syncer \<Rightarrow> capi_provider \<Rightarrow> go_error option
     \<Rightarrow> ('w st, syncer \<times> capi_provider \<times> go_error option) state" where
  "sync_Apply E s source reterr =
     (case s of
        SecretSyncer dest \<Rightarrow> do {
          a \<leftarrow> default_Apply E source dest reterr;
          ret (SecretSyncer (fst a), source, snd a) }
      | MapperSyncer dest rancher \<Rightarrow> do {
          a \<leftarrow> default_Apply E source dest reterr;
          ret (MapperSyncer (fst a) rancher, source, snd a) })"

section \<open>Lists of syncers\<close>

definition NewList :: "syncer option list \<Rightarrow> syncer list" where
  "NewList handlers = List.map_filter (\<lambda>s. s) handlers"

text \<open>The loops of \<open>List\<close> are written against the interface: its operations are arguments.\<close>

type_synonym ('w, 's) sync_op =
  "'s \<Rightarrow> capi_provider \<Rightarrow> ('w st, 's \<times> capi_provider \<times> go_error option) state"

fun sync_all ::
  "('w, 's) sync_op \<Rightarrow> ('w, 's) sync_op \<Rightarrow> 's list \<Rightarrow> capi_provider
     \<Rightarrow> ('w st, 's list \<times> capi_provider \<times> go_error option list) state" where
  "sync_all get sync [] source = ret ([], source, [])"
| "sync_all get sync (s # ss) source = do {
     g \<leftarrow> get s source;
     case g of (s, source, e1) \<Rightarrow> do {
       y \<leftarrow> sync s source;
       case y of (s, source, e2) \<Rightarrow> do {
         r \<leftarrow> sync_all get sync ss source;
         case r of (ss, source, es) \<Rightarrow> ret (s # ss, source, e1 # e2 # es) } } }"

fun apply_all ::
  "('w, 's) sync_op \<Rightarrow> 's list \<Rightarrow> capi_provider
     \<Rightarrow> ('w st, 's list \<times> capi_provider \<times> go_error option list) state" where
  "apply_all app [] source = ret ([], source, [])"
| "apply_all app (s # ss) source = do {
     a \<leftarrow> app s source;
     case a of (s, source, err) \<Rightarrow> do {
       r \<leftarrow> apply_all app ss source;
       case r of (ss, source, es) \<Rightarrow> ret (s # ss, source, err # es) } }"

definition list_Sync ::
  "'w env \<Rightarrow> syncer list \<Rightarrow> capi_provider
     \<Rightarrow> ('w st, syncer list \<times> capi_provider \<times> go_error option) state" where
  "list_Sync E ss source = do {
     r \<leftarrow> sync_all (sync_Get E) (sync_Sync E) ss source;
     case r of (ss, source, errors) \<Rightarrow> ret (ss, source, aggregate E errors) }"

definition list_Apply ::
  "'w env \<Rightarrow> syncer list \<Rightarrow> capi_provider \<Rightarrow> go_error option
     \<Rightarrow> ('w st, syncer list \<times> capi_provider \<times> go_error option) state" where
  "list_Apply E ss source reterr = do {
     r \<leftarrow> apply_all (\<lambda>s source. sync_Apply E s source None) ss source;
     case r of (ss, source, errors) \<Rightarrow> ret (ss, source, aggregate E (reterr # errors)) }"

section \<open>The interfaces\<close>

text \<open>
  \<open>convert\<close>: validation fails exactly if a key is missing, and the value depends on
  the keys alone.
\<close>

locale converter =
  fixes keys :: "string list"
    and valid :: "smap \<Rightarrow> go_error option"
    and conv :: "smap \<Rightarrow> string"
  assumes valid_keys: "valid data = None \<longleftrightarrow> (\<forall>k \<in> set keys. mget data k \<noteq> None)"
    and conv_keys: "(\<And>k. k \<in> set keys \<Longrightarrow> mget data k = mget other k) \<Longrightarrow> conv data = conv other"
begin

lemma valid_same:
  assumes "\<And>k. k \<in> set keys \<Longrightarrow> mget data k = mget other k"
  shows "valid data = None \<longleftrightarrow> valid other = None"
  using assms by (simp add: valid_keys)

lemma extra_keys_ignored:
  assumes "k \<notin> set keys"
  shows "conv (mset data k v) = conv data" "valid (mset data k v) = None \<longleftrightarrow> valid data = None"
proof -
  have same: "mget (mset data k v) j = mget data j" if "j \<in> set keys" for j
    using that assms by auto
  show "conv (mset data k v) = conv data" by (rule conv_keys) (rule same)
  show "valid (mset data k v) = None \<longleftrightarrow> valid data = None" by (rule valid_same) (rule same)
qed

end

lemma missing_key_None: "missing_key data ks = None \<longleftrightarrow> (\<forall>k \<in> set ks. mget data k \<noteq> None)"
  by (induction ks) auto

interpretation raw: converter "[s]" "validate (Raw s)" "convert E (Raw s)" for E s
  by unfold_locales (auto simp: mread_def)

interpretation b64: converter "[s]" "validate (B64 s)" "convert E (B64 s)" for E s
  by unfold_locales (auto simp: mread_def)

definition aws_keys :: "string list" where
  "aws_keys =
     [''amazonec2credentialConfig-accessKey'', ''amazonec2credentialConfig-secretKey'',
      ''amazonec2credentialConfig-defaultRegion'']"

text \<open>The AWS template, executed: three literals, three values.\<close>

lemma render_step:
  assumes "cut_at ''{{'' t = Some (lit, rest)" "cut_at ''}}'' rest = Some (act, tail)"
    and "index_key act = Some k"
  shows "render t data = map_option (\<lambda>r. lit @ mread data k @ r) (render tail data)"
  by (subst render.simps) (simp add: assms)

lemma render_literal: "cut_at ''{{'' t = None \<Longrightarrow> render t data = Some t"
  by (subst render.simps) simp

definition aws_tail3 :: string where
  "aws_tail3 = newline @ ''region = '' @ index_action ''amazonec2credentialConfig-defaultRegion''"

definition aws_tail2 :: string where
  "aws_tail2 = newline @ ''aws_secret_access_key = ''
     @ index_action ''amazonec2credentialConfig-secretKey'' @ aws_tail3"

lemma render_aws:
  "render awsDataTemplate data = Some (''[default]'' @ newline @ ''aws_access_key_id = ''
     @ mread data ''amazonec2credentialConfig-accessKey'' @ newline @ ''aws_secret_access_key = ''
     @ mread data ''amazonec2credentialConfig-secretKey'' @ newline @ ''region = ''
     @ mread data ''amazonec2credentialConfig-defaultRegion'')"
proof -
  let ?act = "\<lambda>k. ''index . '' @ [dquote] @ k @ [dquote]"
  have 1: "cut_at ''{{'' awsDataTemplate = Some (''[default]'' @ newline @ ''aws_access_key_id = '',
      ?act ''amazonec2credentialConfig-accessKey'' @ ''}}'' @ aws_tail2)"
    "cut_at ''}}'' (?act ''amazonec2credentialConfig-accessKey'' @ ''}}'' @ aws_tail2) =
      Some (?act ''amazonec2credentialConfig-accessKey'', aws_tail2)"
    "index_key (?act ''amazonec2credentialConfig-accessKey'') = Some ''amazonec2credentialConfig-accessKey''"
    by code_simp+
  have 2: "cut_at ''{{'' aws_tail2 = Some (newline @ ''aws_secret_access_key = '',
      ?act ''amazonec2credentialConfig-secretKey'' @ ''}}'' @ aws_tail3)"
    "cut_at ''}}'' (?act ''amazonec2credentialConfig-secretKey'' @ ''}}'' @ aws_tail3) =
      Some (?act ''amazonec2credentialConfig-secretKey'', aws_tail3)"
    "index_key (?act ''amazonec2credentialConfig-secretKey'') = Some ''amazonec2credentialConfig-secretKey''"
    by code_simp+
  have 3: "cut_at ''{{'' aws_tail3 = Some (newline @ ''region = '',
      ?act ''amazonec2credentialConfig-defaultRegion'' @ ''}}'')"
    "cut_at ''}}'' (?act ''amazonec2credentialConfig-defaultRegion'' @ ''}}'') =
      Some (?act ''amazonec2credentialConfig-defaultRegion'', [])"
    "index_key (?act ''amazonec2credentialConfig-defaultRegion'') = Some ''amazonec2credentialConfig-defaultRegion''"
    by code_simp+
  show ?thesis
    by (simp add: render_step [OF 1] render_step [OF 2] render_step [OF 3] render_literal)
qed

interpretation aws_template: converter aws_keys
  "validate (Template awsDataTemplate aws_keys)" "convert E (Template awsDataTemplate aws_keys)" for E
proof unfold_locales
  show "validate (Template awsDataTemplate aws_keys) data = None \<longleftrightarrow>
      (\<forall>k \<in> set aws_keys. mget data k \<noteq> None)" for data
    by (simp add: missing_key_None)
  show "convert E (Template awsDataTemplate aws_keys) data = convert E (Template awsDataTemplate aws_keys) other"
    if "\<And>k. k \<in> set aws_keys \<Longrightarrow> mget data k = mget other k" for data other
  proof -
    have "missing_key data aws_keys \<noteq> None \<longleftrightarrow> missing_key other aws_keys \<noteq> None"
      using that missing_key_None by metis
    moreover have "mread data k = mread other k" if "k \<in> set aws_keys" for k
      using that \<open>\<And>k. k \<in> set aws_keys \<Longrightarrow> mget data k = mget other k\<close> by (simp add: mread_def)
    ultimately show ?thesis
      by (simp add: render_aws aws_keys_def)
  qed
qed

text \<open>
  \<open>Sync\<close>: getting and syncing only read the cluster, applying only writes secrets, and
  applying leaves the provider alone.
\<close>

definition writes_secret :: "request \<Rightarrow> bool" where
  "writes_secret r \<longleftrightarrow> read_only r \<or> written_kind r = Some KSecret"

locale sync_interface =
  fixes getf :: "('w, 's) sync_op" and syncf :: "('w, 's) sync_op" and applyf :: "('w, 's) sync_op"
  assumes get_reads: "emits read_only (getf s p)"
    and sync_reads: "emits read_only (syncf s p)"
    and apply_writes: "emits writes_secret (applyf s p)"
    and apply_source: "runs (applyf s p) (\<lambda>r es. fst (snd r) = p)"
begin

lemma list_reads: "emits read_only (sync_all getf syncf ss p)"
  by (induction ss arbitrary: p) (auto intro!: emits_rules get_reads sync_reads)

lemma list_writes: "emits writes_secret (apply_all applyf ss p)"
  by (induction ss arbitrary: p) (auto intro!: emits_rules apply_writes)

lemma list_source: "runs (apply_all applyf ss p) (\<lambda>r es. fst (snd r) = p)"
proof (induction ss)
  case (Cons s ss)
  show ?case
    by (simp, rule runs_bind, rule runs_mono [OF apply_source])
      (auto intro!: runs_bind runs_mono [OF Cons])
qed simp

end

lemma emits_default_Get: "emits read_only (default_Get E dest)"
  unfolding default_Get_def by (auto intro!: emits_rules simp: read_only_def)

interpretation secret_sync: sync_interface "sync_Get E" "sync_Sync E" "\<lambda>s p. sync_Apply E s p None" for E
proof unfold_locales
  show "emits read_only (sync_Get E s p)" for s p
    unfolding sync_Get_def mapper_Get_def find_credential_def
    by (auto intro!: emits_rules emits_default_Get split: syncer.split simp: read_only_def)
  show "emits read_only (sync_Sync E s p)" for s p
    unfolding sync_Sync_def by (auto intro!: emits_rules split: syncer.split)
  show "emits writes_secret (sync_Apply E s p None)" for s p
    unfolding sync_Apply_def default_Apply_def Patch_def
    by (auto intro!: emits_rules split: syncer.split simp: writes_secret_def)
  show "runs (sync_Apply E s p None) (\<lambda>r es. fst (snd r) = p)" for s p
    unfolding sync_Apply_def default_Apply_def Patch_def
    by (rule runsI) (auto intro!: trace_rules split: syncer.split)
qed

end
