(* ===== verification/Wrangler.thy ===== *)
theory Wrangler
  imports Provider "HOL-Library.AList"
begin

text \<open>
  src/internal/provider/wrangler.go and rancher.go: the patchers of a provider's
  manifest, which move its certificates from cert-manager to wrangler, and the clean-up
  of what either of the two left in the cluster.

  The map of services is an association list with distinct keys; Go ranges over it in
  any order, and \<open>patch_service_order\<close> says that the order does not matter.  Log lines
  are left out.
\<close>

section \<open>Constants\<close>

definition CertificateAnnotationKey :: string where
  "CertificateAnnotationKey = ''need-a-cert.cattle.io/secret-name''"

definition CertManagerInjectAnnotationKey :: string where
  "CertManagerInjectAnnotationKey = ''cert-manager.io/inject-ca-from''"

definition MutatingWebhookConfigurationKind :: string where
  "MutatingWebhookConfigurationKind = ''MutatingWebhookConfiguration''"

definition ValidatingWebhookConfigurationKind :: string where
  "ValidatingWebhookConfigurationKind = ''ValidatingWebhookConfiguration''"

definition CAPIProviderLabel :: string where
  "CAPIProviderLabel = ''cluster.x-k8s.io/provider''"

definition WranglerManagedCertificates :: string where
  "WranglerManagedCertificates = ''WranglerManagedCertificates''"

definition clusterIndexedLabelKey :: string where
  "clusterIndexedLabelKey = ''auth.cattle.io/cluster-indexed''"

definition ErrNoCertificateSecret :: go_error where
  "ErrNoCertificateSecret = EMsg ''certificate has no secretName defined''"

abbreviation un_kind :: "unstructured \<Rightarrow> string" where
  "un_kind u \<equiv> gvk_kind (un_gvk u)"

section \<open>Certificates and services of a manifest\<close>

record webhook_service =
  sv_name :: string
  sv_namespace :: string
  sv_secret :: string

definition slash_key :: "string \<Rightarrow> string \<Rightarrow> string" where
  "slash_key namespace name = namespace @ ''/'' @ name"

fun getCertificates ::
  "'w env \<Rightarrow> unstructured list \<Rightarrow> (string \<rightharpoonup> string) \<Rightarrow> go_error + (string \<rightharpoonup> string)" where
  "getCertificates E [] certificates = Inr certificates"
| "getCertificates E (u # us) certificates =
     (if un_kind u = ''Certificate'' then
        (case nested_string E u [''spec'', ''secretName''] of
           Inl err \<Rightarrow> Inl (EWrap ''parsing Certificate.spec.secretName'' err)
         | Inr None \<Rightarrow> Inl ErrNoCertificateSecret
         | Inr (Some secretName) \<Rightarrow>
             getCertificates E us
               (certificates(slash_key (m_namespace (un_meta u)) (m_name (un_meta u)) \<mapsto> secretName)))
      else getCertificates E us certificates)"

text \<open>
  The webhooks of a configuration, read by a round trip over JSON: per webhook, the
  namespace and the name of its service, if it has one.
\<close>

definition add_services ::
  "(string \<times> string) option list \<Rightarrow> string \<Rightarrow> (string \<times> webhook_service) list
     \<Rightarrow> (string \<times> webhook_service) list" where
  "add_services webhooks certificateSecretName services =
     fold (\<lambda>w services.
       case w of
         None \<Rightarrow> services
       | Some (namespace, name) \<Rightarrow>
           AList.update (slash_key namespace name)
             \<lparr>sv_name = name, sv_namespace = namespace, sv_secret = certificateSecretName\<rparr> services)
       webhooks services"

definition addMutatingWebhookServices ::
  "'w env \<Rightarrow> unstructured \<Rightarrow> (string \<times> webhook_service) list \<Rightarrow> string
     \<Rightarrow> go_error + (string \<times> webhook_service) list" where
  "addMutatingWebhookServices E u services certificateSecretName =
     (case mutating_webhooks E u of
        Inl err \<Rightarrow> Inl err
      | Inr webhooks \<Rightarrow> Inr (add_services webhooks certificateSecretName services))"

definition addValidatingWebhookServices ::
  "'w env \<Rightarrow> unstructured \<Rightarrow> (string \<times> webhook_service) list \<Rightarrow> string
     \<Rightarrow> go_error + (string \<times> webhook_service) list" where
  "addValidatingWebhookServices E u services certificateSecretName =
     (case validating_webhooks E u of
        Inl err \<Rightarrow> Inl err
      | Inr webhooks \<Rightarrow> Inr (add_services webhooks certificateSecretName services))"

definition wrap_error :: "string \<Rightarrow> go_error + 'a \<Rightarrow> go_error + 'a" where
  "wrap_error m r = (case r of Inl err \<Rightarrow> Inl (EWrap m err) | Inr x \<Rightarrow> Inr x)"

definition webhook_services ::
  "'w env \<Rightarrow> unstructured \<Rightarrow> (string \<times> webhook_service) list \<Rightarrow> string
     \<Rightarrow> go_error + (string \<times> webhook_service) list" where
  "webhook_services E u services certificateSecretName =
     (let full = slash_key (m_namespace (un_meta u)) (m_name (un_meta u)) in
      if un_kind u = MutatingWebhookConfigurationKind then
        wrap_error (''evaluating MutatingWebhookConfiguration '' @ full)
          (addMutatingWebhookServices E u services certificateSecretName)
      else if un_kind u = ValidatingWebhookConfigurationKind then
        wrap_error (''evaluating ValidatingWebhookConfiguration '' @ full)
          (addValidatingWebhookServices E u services certificateSecretName)
      else Inr services)"

fun getServices ::
  "'w env \<Rightarrow> unstructured list \<Rightarrow> (string \<rightharpoonup> string) \<Rightarrow> (string \<times> webhook_service) list
     \<Rightarrow> go_error + (string \<times> webhook_service) list" where
  "getServices E [] certificates services = Inr services"
| "getServices E (u # us) certificates services =
     (case mget (m_annotations (un_meta u)) CertManagerInjectAnnotationKey of
        None \<Rightarrow> getServices E us certificates services
      | Some injectCAFromValue \<Rightarrow>
          (case certificates injectCAFromValue of
             None \<Rightarrow> Inl (EMsg (''could not find secret for certificate '' @ injectCAFromValue))
           | Some certificateSecretName \<Rightarrow>
               (case webhook_services E u services certificateSecretName of
                  Inl err \<Rightarrow> Inl err
                | Inr services \<Rightarrow> getServices E us certificates services)))"

section \<open>The manifest patchers\<close>

definition service_matches :: "unstructured \<Rightarrow> webhook_service \<Rightarrow> bool" where
  "service_matches u s \<longleftrightarrow>
     un_kind u = ''Service'' \<and> m_name (un_meta u) = sv_name s \<and>
     m_namespace (un_meta u) = sv_namespace s"

definition set_annotation :: "string \<Rightarrow> string \<Rightarrow> unstructured \<Rightarrow> unstructured" where
  "set_annotation k v u = un_meta_update (m_annotations_update (\<lambda>a. mset a k v)) u"

definition patch_service :: "webhook_service list \<Rightarrow> unstructured \<Rightarrow> unstructured" where
  "patch_service services u =
     fold (\<lambda>s u. if service_matches u s then set_annotation CertificateAnnotationKey (sv_secret s) u else u)
       services u"

definition drop_inject :: "unstructured \<Rightarrow> unstructured" where
  "drop_inject u =
     un_meta_update (m_annotations_update (\<lambda>a. mdelete a CertManagerInjectAnnotationKey)) u"

definition WranglerPatcher :: "'w env \<Rightarrow> unstructured list \<Rightarrow> go_error + unstructured list" where
  "WranglerPatcher E objs =
     (if objs = [] then Inr []
      else
        case getCertificates E objs Map.empty of
          Inl err \<Rightarrow> Inl (EWrap ''parsing Certificates'' err)
        | Inr certificates \<Rightarrow>
            (case getServices E objs certificates [] of
               Inl err \<Rightarrow> Inl (EWrap ''parsing Services'' err)
             | Inr services \<Rightarrow>
                 Inr (filter (\<lambda>u. un_kind u \<noteq> ''Certificate'' \<and> un_kind u \<noteq> ''Issuer'')
                   (map (\<lambda>u. drop_inject (patch_service (map snd services) u)) objs))))"

definition AddClusterIndexedLabelFn :: "unstructured list \<Rightarrow> go_error + unstructured list" where
  "AddClusterIndexedLabelFn objs =
     Inr (map (\<lambda>u.
       if un_kind u \<noteq> ''CustomResourceDefinition'' then u
       else un_meta_update (m_labels_update (\<lambda>l. mset l clusterIndexedLabelKey ''true'')) u) objs)"

section \<open>Cleaning the cluster up\<close>

text \<open>The namespace of the provider and the values its label can have.\<close>

definition selector_names :: "capi_provider \<Rightarrow> string list" where
  "selector_names provider =
     (let t = cps_type (cp_spec provider); n = cps_name (cp_spec provider) in
      if n \<noteq> [] then [ToName t @ n, n]
      else [ToName t @ m_name (cp_meta provider), m_name (cp_meta provider)])"

definition getSelector :: "'w env \<Rightarrow> capi_provider \<Rightarrow> go_error + selector list" where
  "getSelector E provider =
     (case new_requirement_error E CAPIProviderLabel (selector_names provider) of
        Some err \<Rightarrow> Inl (EWrap ''creating labels requirement'' err)
      | None \<Rightarrow> Inr [InNamespace (m_namespace (cp_meta provider)),
                    LabelIn CAPIProviderLabel (selector_names provider)])"

definition restart_deployment ::
  "'w env \<Rightarrow> deployment \<Rightarrow> ('w st, go_error option) state" where
  "restart_deployment E d = do {
     t \<leftarrow> call E RNow;
     u \<leftarrow> update_obj E deployment_codec Cached (d\<lparr>dep_template_annotations :=
       mset (dep_template_annotations d) ''kubectl.kubernetes.io/restartedAt''
         (case reply_data t of Inr now \<Rightarrow> now | Inl err \<Rightarrow> [])\<rparr>);
     case u of
       Inl err \<Rightarrow> ret (Some (EWrap ''updating Deployment'' err))
     | Inr d \<Rightarrow> ret None }"

definition providerDeploymentRestart ::
  "'w env \<Rightarrow> capi_provider \<Rightarrow> ('w st, go_error option) state" where
  "providerDeploymentRestart E provider =
     (case getSelector E provider of
        Inl err \<Rightarrow> ret (Some (EWrap ''getting selector'' err))
      | Inr listOpts \<Rightarrow> do {
          l \<leftarrow> list_obj E deployment_codec Cached listOpts;
          case l of
            Inl err \<Rightarrow> ret (Some (EWrap ''listing Deployments'' err))
          | Inr deployments \<Rightarrow> for_each (restart_deployment E) deployments })"

definition cert_kind :: "string \<Rightarrow> gvk" where
  "cert_kind k = \<lparr>gvk_group = ''cert-manager.io'', gvk_version = ''v1'', gvk_kind = k\<rparr>"

text \<open>A list of a kind that the cluster does not know is empty.\<close>

definition delete_cert_objects ::
  "'w env \<Rightarrow> string \<Rightarrow> selector list \<Rightarrow> ('w st, go_error option) state" where
  "delete_cert_objects E k listOpts = do {
     l \<leftarrow> list_obj E (unstr_codec (cert_kind k)) Cached listOpts;
     let delete_items = for_each (\<lambda>u. do {
       e \<leftarrow> delete_obj E (unstr_codec (cert_kind k)) Cached u;
       ret (map_option (EWrap (''deleting '' @ k @ '' '' @ m_name (un_meta u))) e) }) in
     case l of
       Inl err \<Rightarrow>
         if is_no_match E err then delete_items []
         else ret (Some (EWrap (''listing '' @ k @ ''s'') err))
     | Inr items \<Rightarrow> delete_items items }"

definition cleanupKinds :: "gvk list" where
  "cleanupKinds =
     [\<lparr>gvk_group = ''apiextensions.k8s.io'', gvk_version = ''v1'', gvk_kind = ''CustomResourceDefinition''\<rparr>,
      \<lparr>gvk_group = ''admissionregistration.k8s.io'', gvk_version = ''v1'',
       gvk_kind = ''MutatingWebhookConfiguration''\<rparr>,
      \<lparr>gvk_group = ''admissionregistration.k8s.io'', gvk_version = ''v1'',
       gvk_kind = ''ValidatingWebhookConfiguration''\<rparr>]"

definition clean_inject ::
  "'w env \<Rightarrow> gvk \<Rightarrow> unstructured \<Rightarrow> ('w st, (ctrl_result \<times> go_error) option) state" where
  "clean_inject E g u =
     (if mget (m_annotations (un_meta u)) CertManagerInjectAnnotationKey = None then ret None
      else do {
        r \<leftarrow> update_obj E (unstr_codec g) Cached (drop_inject u);
        case r of
          Inl err \<Rightarrow> ret (Some (requeue 10,
            EWrap (''updating '' @ gvk_kind g @ '' '' @ m_name (un_meta u)) err))
        | Inr u \<Rightarrow> ret None })"

definition clean_kind ::
  "'w env \<Rightarrow> selector list \<Rightarrow> gvk \<Rightarrow> ('w st, (ctrl_result \<times> go_error) option) state" where
  "clean_kind E listOpts g = do {
     l \<leftarrow> list_obj E (unstr_codec g) Cached listOpts;
     case l of
       Inl err \<Rightarrow> ret (Some (no_requeue, EWrap ''listing resources'' err))
     | Inr items \<Rightarrow> for_each (clean_inject E g) items }"

definition wrangler_managed :: "'w env \<Rightarrow> capi_provider \<Rightarrow> capi_provider" where
  "wrangler_managed E provider = set_condition E \<lparr>c_type = WranglerManagedCertificates,
     c_status = CondTrue, c_reason = ''CertificatesManaged'',
     c_message = ''Certificates are now managed by wrangler''\<rparr> provider"

definition restart_and_mark ::
  "'w env \<Rightarrow> (capi_provider \<Rightarrow> capi_provider) \<Rightarrow> capi_provider
     \<Rightarrow> ('w st, capi_provider \<times> ctrl_result \<times> go_error option) state" where
  "restart_and_mark E mark provider = do {
     e \<leftarrow> providerDeploymentRestart E provider;
     case e of
       Some err \<Rightarrow> ret (provider, no_requeue, Some (EWrap ''restarting Deployment'' err))
     | None \<Rightarrow> ret (mark provider, no_requeue, None) }"

definition clean_cert_manager ::
  "'w env \<Rightarrow> selector list \<Rightarrow> ('w st, (ctrl_result \<times> go_error) option) state" where
  "clean_cert_manager E listOpts = do {
     e \<leftarrow> delete_cert_objects E ''Certificate'' listOpts;
     case e of
       Some err \<Rightarrow> ret (Some (no_requeue, err))
     | None \<Rightarrow> do {
         e \<leftarrow> delete_cert_objects E ''Issuer'' listOpts;
         case e of
           Some err \<Rightarrow> ret (Some (no_requeue, err))
         | None \<Rightarrow> for_each (clean_kind E listOpts) cleanupKinds } }"

definition CleanupCertManagerResources ::
  "'w env \<Rightarrow> capi_provider \<Rightarrow> ('w st, capi_provider \<times> ctrl_result \<times> go_error option) state" where
  "CleanupCertManagerResources E provider =
     (if cond_is_true E (cp_GetConditions provider) WranglerManagedCertificates
      then ret (provider, no_requeue, None)
      else
        case getSelector E provider of
          Inl err \<Rightarrow> ret (provider, no_requeue, Some (EWrap ''getting selector'' err))
        | Inr listOpts \<Rightarrow> do {
            e \<leftarrow> clean_cert_manager E listOpts;
            case e of
              Some (res, err) \<Rightarrow> ret (provider, res, Some err)
            | None \<Rightarrow> restart_and_mark E (wrangler_managed E) provider })"

definition clean_service ::
  "'w env \<Rightarrow> service_object \<Rightarrow> ('w st, go_error option) state" where
  "clean_service E s =
     (if mget (m_annotations (svc_meta s)) CertificateAnnotationKey = None then ret None
      else do {
        r \<leftarrow> update_obj E service_codec Cached
               (svc_meta_update (m_annotations_update (\<lambda>a. mdelete a CertificateAnnotationKey)) s);
        case r of
          Inl err \<Rightarrow> ret (Some (EWrap
            (''updating Service '' @ slash_key (m_namespace (svc_meta s)) (m_name (svc_meta s))) err))
        | Inr s \<Rightarrow> ret None })"

definition wrangler_unmanaged :: "'w env \<Rightarrow> capi_provider \<Rightarrow> capi_provider" where
  "wrangler_unmanaged E provider =
     cp_SetConditions provider (cond_delete E (cp_GetConditions provider) WranglerManagedCertificates)"

definition CleanupWranglerResources ::
  "'w env \<Rightarrow> capi_provider \<Rightarrow> ('w st, capi_provider \<times> ctrl_result \<times> go_error option) state" where
  "CleanupWranglerResources E provider =
     (if cond_is_false E (cp_GetConditions provider) WranglerManagedCertificates
      then ret (provider, no_requeue, None)
      else
        case getSelector E provider of
          Inl err \<Rightarrow> ret (provider, no_requeue, Some (EWrap ''getting selector'' err))
        | Inr listOpts \<Rightarrow> do {
            l \<leftarrow> list_obj E service_codec Cached listOpts;
            case l of
              Inl err \<Rightarrow> ret (provider, no_requeue, Some (EWrap ''listing Services'' err))
            | Inr services \<Rightarrow> do {
                e \<leftarrow> for_each (clean_service E) services;
                case e of
                  Some err \<Rightarrow> ret (provider, no_requeue, Some err)
                | None \<Rightarrow> restart_and_mark E (wrangler_unmanaged E) provider } })"

section \<open>What a patched manifest looks like\<close>

text \<open>The secret of the service that an object is, if it serves a webhook.\<close>

definition secret_for :: "(string \<times> webhook_service) list \<Rightarrow> unstructured \<Rightarrow> string option" where
  "secret_for services u = map_option sv_secret (List.find (service_matches u) (map snd services))"

lemma noted_frame [simp]:
  "un_gvk (set_annotation k v u) = un_gvk u"
  "m_name (un_meta (set_annotation k v u)) = m_name (un_meta u)"
  "m_namespace (un_meta (set_annotation k v u)) = m_namespace (un_meta u)"
  "service_matches (set_annotation k v u) s = service_matches u s"
  by (simp_all add: set_annotation_def service_matches_def)

lemma set_annotation_twice [simp]: "set_annotation k w (set_annotation k v u) = set_annotation k w u"
  by (simp add: set_annotation_def comp_def)

lemma patch_service_Nil [simp]: "patch_service [] u = u"
  by (simp add: patch_service_def)

lemma patch_service_Cons [simp]:
  "patch_service (s # ss) u =
     patch_service ss (if service_matches u s then set_annotation CertificateAnnotationKey (sv_secret s) u else u)"
  by (simp add: patch_service_def)

text \<open>The keys are those of the services, so at most one service matches an object.\<close>

definition keyed :: "(string \<times> webhook_service) list \<Rightarrow> bool" where
  "keyed services \<longleftrightarrow>
     distinct (map fst services) \<and>
     (\<forall>(k, s) \<in> set services. k = slash_key (sv_namespace s) (sv_name s))"

lemma update_subset: "set (AList.update k v al) \<subseteq> insert (k, v) (set al)"
  by (induction al) auto

lemma keyed_update:
  assumes "keyed services"
  shows "keyed (AList.update (slash_key (sv_namespace s) (sv_name s)) s services)"
proof -
  have "distinct (map fst (AList.update (slash_key (sv_namespace s) (sv_name s)) s services))"
    using assms by (intro distinct_update) (simp add: keyed_def)
  with assms update_subset [of "slash_key (sv_namespace s) (sv_name s)" s services] show ?thesis
    unfolding keyed_def by fast
qed

lemma add_services_simps [simp]:
  "add_services [] n services = services"
  "add_services (None # ws) n services = add_services ws n services"
  "add_services (Some (ns, name) # ws) n services =
     add_services ws n (AList.update (slash_key ns name)
       \<lparr>sv_name = name, sv_namespace = ns, sv_secret = n\<rparr> services)"
  by (simp_all add: add_services_def)

lemma add_services_induct [case_names Nil None Some]:
  assumes "\<And>services. P [] services"
    and "\<And>ws services. P ws services \<Longrightarrow> P (None # ws) services"
    and "\<And>ns name ws services. P ws (AList.update (slash_key ns name)
      \<lparr>sv_name = name, sv_namespace = ns, sv_secret = n\<rparr> services) \<Longrightarrow> P (Some (ns, name) # ws) services"
  shows "P ws services"
proof (induction ws arbitrary: services)
  case (Cons w ws)
  with assms show ?case by (cases w) auto
qed (rule assms(1))

lemma keyed_add: "keyed services \<Longrightarrow> keyed (add_services webhooks n services)"
proof (induction webhooks services rule: add_services_induct [where n = n])
  case (Some ns name ws services)
  then show ?case
    using keyed_update [of services "\<lparr>sv_name = name, sv_namespace = ns, sv_secret = n\<rparr>"] by simp
qed simp_all

text \<open>Whatever the kind of the object is, its services are added under the secret's name.\<close>

lemma webhook_services_cases:
  assumes "webhook_services E u services n = Inr found"
  obtains webhooks where "found = add_services webhooks n services"
proof -
  have "\<exists>webhooks. found = add_services webhooks n services"
    using assms exI [of "\<lambda>ws. found = add_services ws n services" "[]"]
    by (auto simp: webhook_services_def wrap_error_def addMutatingWebhookServices_def
        addValidatingWebhookServices_def Let_def split: if_splits sum.splits)
  with that show thesis by blast
qed

lemma keyed_getServices:
  "getServices E us certificates services = Inr result \<Longrightarrow> keyed services \<Longrightarrow> keyed result"
  by (induction us arbitrary: services)
    (auto split: option.splits sum.splits elim!: webhook_services_cases intro: keyed_add)

lemma keyed_unique:
  assumes "keyed services" "s \<in> set (map snd services)" "t \<in> set (map snd services)"
    and "service_matches u s" "service_matches u t"
  shows "s = t"
proof -
  obtain k l where kl: "(k, s) \<in> set services" "(l, t) \<in> set services"
    using assms(2,3) by auto
  then have "k = slash_key (sv_namespace s) (sv_name s)" "l = slash_key (sv_namespace t) (sv_name t)"
    using assms(1) by (auto simp: keyed_def)
  then have "k = l" using assms(4,5) by (simp add: service_matches_def)
  then show ?thesis
    using kl assms(1) by (auto simp: keyed_def dest: eq_key_imp_eq_value)
qed

lemma patch_service_none:
  "(\<And>s. s \<in> set ss \<Longrightarrow> \<not> service_matches u s) \<Longrightarrow> patch_service ss u = u"
  by (induction ss) auto

lemma patch_service_one:
  "s \<in> set ss \<Longrightarrow> service_matches u s \<Longrightarrow>
   (\<And>t. t \<in> set ss \<Longrightarrow> service_matches u t \<Longrightarrow> t = s) \<Longrightarrow>
   patch_service ss u = set_annotation CertificateAnnotationKey (sv_secret s) u"
proof (induction ss arbitrary: u)
  case (Cons t ts)
  show ?case
  proof (cases "s \<in> set ts")
    case True
    have only_s: "x = s" if "x \<in> set ts" "service_matches u x" for x
      using Cons.prems(3) [of x] that by simp
    have "patch_service ts v = set_annotation CertificateAnnotationKey (sv_secret s) v"
      if "service_matches v = service_matches u" for v
      by (rule Cons.IH [OF True]) (simp_all add: that Cons.prems(2) only_s)
    moreover have "service_matches (set_annotation CertificateAnnotationKey n u) = service_matches u" for n
      by (simp add: fun_eq_iff)
    ultimately show ?thesis by simp
  next
    case False
    then have none: "\<not> service_matches u x" if "x \<in> set ts" for x
      using that Cons.prems by auto
    from False Cons.prems(1) have "t = s" by simp
    then show ?thesis
      using Cons.prems(2) none by (simp add: patch_service_none)
  qed
qed simp

text \<open>The order in which the map of services is walked does not matter.\<close>

lemma patch_service_order:
  assumes "keyed services" "set ss = set (map snd services)"
  shows "patch_service ss u =
    (case secret_for services u of
       None \<Rightarrow> u
     | Some n \<Rightarrow> set_annotation CertificateAnnotationKey n u)"
proof (cases "List.find (service_matches u) (map snd services)")
  case None
  then have "\<not> service_matches u s" if "s \<in> set ss" for s
    using that assms(2) by (simp only: find_None_iff) blast
  then show ?thesis
    using None by (simp add: secret_for_def patch_service_none)
next
  case (Some s)
  then have s: "s \<in> set ss" "service_matches u s"
    using assms(2) by (blast dest: find_in)+
  have "t = s" if "t \<in> set ss" "service_matches u t" for t
    using keyed_unique [OF assms(1) _ _ that(2) s(2)] that(1) s(1) assms(2) by simp
  then have "patch_service ss u = set_annotation CertificateAnnotationKey (sv_secret s) u"
    by (rule patch_service_one [OF s])
  then show ?thesis
    using Some by (simp add: secret_for_def)
qed

end
