(* ===== verification/Operator.thy ===== *)
theory Operator
  imports Secret_Sync Wrangler
begin

text \<open>
  src/internal/controllers/operator_reconciler.go: the reconciler that wraps the generic
  provider reconciler of the CAPI operator, the phases it adds, the converters between
  the two provider types, the watches and the field indexes.

  The generic reconciler and its own phases are not in this repository: they are the
  parameters \<open>generic\<close> and \<open>up\<close>.  The provider of a reconciliation is shared by the
  phases and mutated by them, so a phase takes it and returns it.
\<close>

section \<open>Field indexes\<close>

definition configSecretNameField :: string where
  "configSecretNameField = ''spec.configSecret.name''"

definition configSecretNamespaceField :: string where
  "configSecretNamespaceField = ''spec.configSecret.namespace''"

definition providerTypeField :: string where
  "providerTypeField = ''spec.type''"

definition providerNameField :: string where
  "providerNameField = ''spec.name''"

lemmas field_defs =
  configSecretNameField_def configSecretNamespaceField_def providerTypeField_def
  providerNameField_def

text \<open>The name index sets the defaults in the object it is given, so it can panic.\<close>

definition configSecretNameIndexFunc :: "capi_provider \<Rightarrow> (capi_provider \<times> string list) outcome" where
  "configSecretNameIndexFunc obj =
     (case SetDefaultProviderSpec obj of
        Panic e \<Rightarrow> Panic e
      | Ret p \<Rightarrow>
          Ret (p, case ps_config_secret (GetSpec p) of None \<Rightarrow> [] | Some r \<Rightarrow> [ref_name r]))"

definition configSecretNamespaceIndexFunc :: "capi_provider \<Rightarrow> string list" where
  "configSecretNamespaceIndexFunc obj =
     (case ps_config_secret (GetSpec obj) of
        None \<Rightarrow> []
      | Some r \<Rightarrow> [cmp_or (ref_namespace r) (m_namespace (cp_meta obj))])"

definition typeIndexFunc :: "capi_provider \<Rightarrow> string list" where
  "typeIndexFunc obj = [cps_type (cp_spec obj)]"

definition nameIndexFunc :: "capi_provider \<Rightarrow> string list" where
  "nameIndexFunc obj = [ProviderName obj]"

text \<open>The arguments of \<open>cmp.Or\<close> are all evaluated; the first error counts.\<close>

definition first_error :: "go_error option \<Rightarrow> go_error option \<Rightarrow> go_error option" where
  "first_error a b = (case a of None \<Rightarrow> b | Some e \<Rightarrow> Some e)"

definition indexField :: "'w env \<Rightarrow> string \<Rightarrow> ('w st, go_error option) state" where
  "indexField E field = do {
     r \<leftarrow> call E (RManager ''IndexField'' [field]);
     ret (reply_unit r) }"

definition indexFields :: "'w env \<Rightarrow> ('w st, go_error option) state" where
  "indexFields E = do {
     a \<leftarrow> indexField E configSecretNameField;
     b \<leftarrow> indexField E configSecretNamespaceField;
     c \<leftarrow> indexField E providerTypeField;
     d \<leftarrow> indexField E providerNameField;
     ret (first_error a (first_error b (first_error c d))) }"

section \<open>Provider types\<close>

datatype clusterctl_type =
    CoreProviderType | BootstrapProviderType | InfrastructureProviderType
  | ControlPlaneProviderType | IPAMProviderType | RuntimeExtensionProviderType
  | AddonProviderType | ProviderTypeUnknown

definition toClusterctlType :: "capi_provider \<Rightarrow> clusterctl_type" where
  "toClusterctlType p =
     (let t = cps_type (cp_spec p) in
      if t = Infrastructure then InfrastructureProviderType
      else if t = Core then CoreProviderType
      else if t = ControlPlane then ControlPlaneProviderType
      else if t = Bootstrap then BootstrapProviderType
      else if t = Addon then AddonProviderType
      else if t = IPAM then IPAMProviderType
      else if t = RuntimeExtension then RuntimeExtensionProviderType
      else ProviderTypeUnknown)"

fun toProviderType :: "clusterctl_type \<Rightarrow> string" where
  "toProviderType CoreProviderType = Core"
| "toProviderType BootstrapProviderType = Bootstrap"
| "toProviderType InfrastructureProviderType = Infrastructure"
| "toProviderType ControlPlaneProviderType = ControlPlane"
| "toProviderType IPAMProviderType = IPAM"
| "toProviderType RuntimeExtensionProviderType = RuntimeExtension"
| "toProviderType AddonProviderType = Addon"
| "toProviderType ProviderTypeUnknown = []"

record clusterctl_provider =
  ccp_name :: string
  ccp_namespace :: string
  ccp_type :: clusterctl_type
  ccp_provider_name :: string
  ccp_version :: string

definition getProvider :: "capi_provider \<Rightarrow> clusterctl_provider" where
  "getProvider p =
     \<lparr>ccp_name = ToName (cps_type (cp_spec p)) @ cps_name (cp_spec p),
      ccp_namespace = m_namespace (cp_meta p), ccp_type = toClusterctlType p,
      ccp_provider_name = ProviderName p,
      ccp_version = (case pst_installed_version (GetStatus p) of None \<Rightarrow> [] | Some v \<Rightarrow> v)\<rparr>"

section \<open>Watches\<close>

definition newSecretToProviderFuncMap ::
  "'w env \<Rightarrow> secret \<Rightarrow> ('w st, key list) state" where
  "newSecretToProviderFuncMap E s = do {
     l \<leftarrow> list_obj E provider_codec Cached
            [MatchingFields [(configSecretNameField, m_name (sec_meta s)),
                             (configSecretNamespaceField, m_namespace (sec_meta s))]];
     case l of
       Inl err \<Rightarrow> ret []
     | Inr items \<Rightarrow> ret (map (\<lambda>p. key_of (cp_meta p)) (GetItems items)) }"

definition preflight_failed :: "'w env \<Rightarrow> capi_provider \<Rightarrow> bool" where
  "preflight_failed E p \<longleftrightarrow>
     cps_type (cp_spec p) \<noteq> Core \<and> \<not> cond_is_true E (cp_GetConditions p) (preflight_condition E)"

definition newCoreProviderToProviderFuncMap ::
  "'w env \<Rightarrow> kobj \<Rightarrow> ('w st, key list) state" where
  "newCoreProviderToProviderFuncMap E obj =
     (case decode provider_codec obj of
        None \<Rightarrow> ret []
      | Some coreProvider \<Rightarrow>
          if cps_type (cp_spec coreProvider) \<noteq> Core then ret []
          else if \<not> cond_is_true E (cp_GetConditions coreProvider) (capi_ready_condition E) then ret []
          else do {
            l \<leftarrow> list_obj E provider_codec Cached [];
            case l of
              Inl err \<Rightarrow> ret []
            | Inr items \<Rightarrow>
                ret (map (\<lambda>p. key_of (cp_meta p)) (filter (preflight_failed E) items)) })"

section \<open>Looking providers up\<close>

text \<open>
  The callbacks of the caller change nothing but may fail; each provider is converted
  after its callbacks.
\<close>

fun run_ops :: "(capi_provider \<Rightarrow> go_error option) list \<Rightarrow> capi_provider \<Rightarrow> go_error option" where
  "run_ops [] p = None"
| "run_ops (f # fs) p = (case f p of Some err \<Rightarrow> Some err | None \<Rightarrow> run_ops fs p)"

fun convert_items ::
  "(capi_provider \<Rightarrow> go_error option) list \<Rightarrow> capi_provider list \<Rightarrow> clusterctl_provider list
     \<Rightarrow> clusterctl_provider list \<times> go_error option" where
  "convert_items ops [] found = (found, None)"
| "convert_items ops (p # ps) found =
     (case run_ops ops p of
        Some err \<Rightarrow> (found, Some err)
      | None \<Rightarrow> convert_items ops ps (found @ [getProvider p]))"

definition listProviders ::
  "'w env \<Rightarrow> (capi_provider \<Rightarrow> go_error option) list \<Rightarrow> clusterctl_provider list
     \<Rightarrow> ('w st, clusterctl_provider list \<times> go_error option) state" where
  "listProviders E ops found = do {
     l \<leftarrow> list_obj E provider_codec Cached [];
     case l of
       Inl err \<Rightarrow> ret (found, Some err)
     | Inr items \<Rightarrow> ret (convert_items ops (GetItems items) found) }"

definition getGenericProvider ::
  "'w env \<Rightarrow> clusterctl_type \<Rightarrow> string \<Rightarrow> ('w st, (go_error + capi_provider) outcome) state" where
  "getGenericProvider E t name = do {
     l \<leftarrow> list_obj E provider_codec Cached
            [MatchingFields [(providerTypeField, toProviderType t), (providerNameField, name)]];
     case l of
       Inl err \<Rightarrow> ret (Ret (Inl err))
     | Inr items \<Rightarrow>
         (case items of
            [] \<Rightarrow> ret (Ret (Inl (EMsg (''unable to find provider manifest with name '' @ name
                    @ '' and type '' @ toProviderType t))))
          | pr # prs \<Rightarrow> obind (SetProviderSpec E pr) (\<lambda>r.
              ret (Ret (case r of (p, err) \<Rightarrow> (case err of Some e \<Rightarrow> Inl e | None \<Rightarrow> Inr p))))) }"

section \<open>The phases of this repository\<close>

definition Pending :: string where "Pending = ''Pending''"
definition Provisioning :: string where "Provisioning = ''Provisioning''"
definition Ready :: string where "Ready = ''Ready''"
definition Failed :: string where "Failed = ''Failed''"

definition setConditions :: "'w env \<Rightarrow> capi_provider \<Rightarrow> capi_provider" where
  "setConditions E provider =
     (let provider = SetProviderName provider in
      if cond_is_true E (cp_GetConditions provider) (installed_condition E) then SetPhase provider Ready
      else if cond_is_false E (cp_GetConditions provider) (preflight_condition E)
      then SetPhase provider Failed
      else SetPhase provider Provisioning)"

definition provider_syncers :: "capi_provider \<Rightarrow> syncer list outcome" where
  "provider_syncers p =
     (case NewSecretMapperSync p of
        Panic e \<Rightarrow> Panic e
      | Ret mapper \<Rightarrow> Ret (NewList [Some (NewSecretSync p), mapper]))"

definition syncSecrets ::
  "'w env \<Rightarrow> capi_provider \<Rightarrow> ('w st, (capi_provider \<times> ctrl_result \<times> go_error option) outcome) state" where
  "syncSecrets E provider =
     (case provider_syncers provider of
        Panic e \<Rightarrow> ret (Panic e)
      | Ret ss \<Rightarrow> do {
          s \<leftarrow> list_Sync E ss provider;
          case s of (ss, provider, err) \<Rightarrow>
            if ignore_not_found E err \<noteq> None then ret (Ret (provider, no_requeue, err))
            else do {
              a \<leftarrow> list_Apply E ss provider None;
              case a of (ss, provider, err) \<Rightarrow> ret (Ret (provider, no_requeue, err)) } })"

datatype phase =
    waitForClusterctlConfigUpdate
  | setProviderSpec
  | syncSecrets_phase
  | cleanupCertManagerResources
  | cleanupWranglerResources
  | setConditions_phase
  | Upstream string

text \<open>The result of a phase: the provider, what to requeue after, the error.\<close>

type_synonym phase_result = "(capi_provider \<times> ctrl_result \<times> go_error option) outcome"

definition run_phase ::
  "'w env \<Rightarrow> (string \<Rightarrow> capi_provider \<Rightarrow> ('w st, phase_result) state) \<Rightarrow> phase
     \<Rightarrow> capi_provider \<Rightarrow> ('w st, phase_result) state" where
  "run_phase E up ph provider =
     (case ph of
        waitForClusterctlConfigUpdate \<Rightarrow> do {
          r \<leftarrow> WaitForClusterctlConfigUpdate E;
          ret (Ret (provider, r)) }
      | setProviderSpec \<Rightarrow> obind (SetProviderSpec E provider) (\<lambda>r.
          ret (Ret (case r of (p, err) \<Rightarrow> (p, no_requeue, err))))
      | syncSecrets_phase \<Rightarrow> syncSecrets E provider
      | cleanupCertManagerResources \<Rightarrow> lift (CleanupCertManagerResources E provider)
      | cleanupWranglerResources \<Rightarrow> lift (CleanupWranglerResources E provider)
      | setConditions_phase \<Rightarrow> ret (Ret (setConditions E provider, no_requeue, None))
      | Upstream name \<Rightarrow> up name provider)"

section \<open>The reconciler\<close>

text \<open>What \<open>BuildWithManager\<close> sets up: the phases and the patchers of the manifest.\<close>

definition ReconcilePhases :: "'w env \<Rightarrow> phase list" where
  "ReconcilePhases E =
     [waitForClusterctlConfigUpdate, setProviderSpec, syncSecrets_phase]
     @ (if gate E NoCertManager then [cleanupCertManagerResources] else [cleanupWranglerResources])
     @ [Upstream ''ApplyFromCache'', Upstream ''PreflightChecks'',
        Upstream ''InitializePhaseReconciler'', Upstream ''DownloadManifests'', Upstream ''Load'',
        Upstream ''Fetch'', Upstream ''Store'', Upstream ''Upgrade'', Upstream ''Install'',
        Upstream ''ReportStatus'', setConditions_phase, Upstream ''Finalize'']"

definition DeletePhases :: "phase list" where
  "DeletePhases = [waitForClusterctlConfigUpdate, Upstream ''Delete'']"

text \<open>The patchers run in this order on the objects of a provider's manifest.\<close>

definition customAlterFuncs ::
  "'w env \<Rightarrow> (unstructured list \<Rightarrow> go_error + unstructured list) list" where
  "customAlterFuncs E =
     [AddClusterIndexedLabelFn] @ (if gate E NoCertManager then [WranglerPatcher E] else [])"

definition provider_Reconcile ::
  "'w env \<Rightarrow> (key \<Rightarrow> ('w st, ctrl_result \<times> go_error option) state) \<Rightarrow> capi_provider
     \<Rightarrow> ('w st, ctrl_result \<times> go_error option) state" where
  "provider_Reconcile E generic provider =
     (if \<not> contains_finalizer E (m_finalizers (cp_meta provider)) (operator_finalizer E) \<and>
         deletion_is_zero (cp_meta provider)
      then
        (case patch_helper_error E (OProvider provider) of
           Some err \<Rightarrow> ret (no_requeue, Some err)
         | None \<Rightarrow> do {
             r \<leftarrow> patch_obj E provider_codec HelperPatch provider
                    (cp_meta_update (m_finalizers_update (\<lambda>fs. fst (add_finalizer E fs (operator_finalizer E))))
                      provider);
             ret (no_requeue, case r of Inl err \<Rightarrow> Some err | Inr p \<Rightarrow> None) })
      else generic (key_of (cp_meta provider)))"

text \<open>Setting the controllers up: the first error is returned.\<close>

definition manager_step :: "'w env \<Rightarrow> string \<Rightarrow> string list \<Rightarrow> ('w st, go_error option) state" where
  "manager_step E name args = do { r \<leftarrow> call E (RManager name args); ret (reply_unit r) }"

fun in_order :: "('w st, go_error option) state list \<Rightarrow> ('w st, go_error option) state" where
  "in_order [] = ret None"
| "in_order (m # ms) = do {
     e \<leftarrow> m;
     case e of Some err \<Rightarrow> ret (Some err) | None \<Rightarrow> in_order ms }"

definition BuildWithManager :: "'w env \<Rightarrow> ('w st, go_error option) state" where
  "BuildWithManager E =
     in_order [manager_step E ''GenericProviderReconciler.BuildWithManager'' [], indexFields E]"

definition provider_SetupWithManager :: "'w env \<Rightarrow> ('w st, go_error option) state" where
  "provider_SetupWithManager E =
     in_order [BuildWithManager E, manager_step E ''Complete'' [''ProviderReconciler'']]"

definition operator_SetupWithManager :: "'w env \<Rightarrow> ('w st, go_error option) state" where
  "operator_SetupWithManager E =
     in_order [provider_SetupWithManager E,
       manager_step E ''GenericProviderHealthCheckReconciler.SetupWithManager'' []]"

section \<open>Facts about the parts\<close>

lemma emits_in_order [emits_rules]:
  "(\<And>m. m \<in> set ms \<Longrightarrow> emits R m) \<Longrightarrow> emits R (in_order ms)"
  by (induction ms) (auto intro!: emits_rules)

fun_cases run_ops_None: "run_ops (f # fs) p = None"

text \<open>The two conversions of the type are inverse on the types of the API.\<close>

definition api_types :: "string list" where
  "api_types = [Infrastructure, Core, ControlPlane, Bootstrap, Addon, IPAM, RuntimeExtension]"

lemma type_roundtrip_list:
  "list_all (\<lambda>t. \<forall>p. cps_type (cp_spec p) = t \<longrightarrow>
     toProviderType (toClusterctlType p) = t \<and> toClusterctlType p \<noteq> ProviderTypeUnknown) api_types"
  by (simp add: api_types_def toClusterctlType_def type_defs)

lemma convert_items_ok:
  "snd (convert_items ops ps found) = None \<Longrightarrow>
   fst (convert_items ops ps found) = found @ map getProvider ps"
  by (induction ps arbitrary: found) (auto split: option.splits)

lemma convert_items_prefix:
  "\<exists>k \<le> length ps. fst (convert_items ops ps found) = found @ map getProvider (take k ps)"
proof (induction ps arbitrary: found)
  case (Cons p ps)
  show ?case
  proof (cases "run_ops ops p")
    case None
    obtain k where "k \<le> length ps"
      "fst (convert_items ops ps (found @ [getProvider p])) =
         (found @ [getProvider p]) @ map getProvider (take k ps)"
      using Cons.IH by blast
    then show ?thesis
      using None by (intro exI [of _ "Suc k"]) simp
  qed (auto intro!: exI [of _ 0])
qed simp

end
