(* ===== verification/Credential.thy ===== *)
theory Credential
  imports Operator Helpers
begin

text \<open>
  src/internal/controllers/credentialtranslation_controller.go and aws_translator.go: the
  reconciler that turns Rancher cloud credentials into the identities of an
  infrastructure provider.

  \<open>CredentialTranslator\<close> is an interface; a value of it is a \<open>translator\<close> record.  The
  map of translators is an association list with distinct keys, in the order in which a
  range over it happens to go.
\<close>

section \<open>The translator interface\<close>

record 'w translator =
  t_DriverName :: string
  t_ProviderName :: string
  t_ProviderNamespace :: string
  t_Finalizer :: string
  t_Translate :: "secret \<Rightarrow> ('w st, go_error + string) state"
  t_Cleanup :: "secret \<Rightarrow> ('w st, go_error option) state"

type_synonym 'w translators = "(string \<times> 'w translator) list"

section \<open>The reconciler\<close>

definition identity_annotation :: "string \<Rightarrow> secret \<Rightarrow> secret" where
  "identity_annotation identityName credential =
     sec_meta_update (m_annotations_update (\<lambda>a. mset a CAPIIdentityRefAnnotation identityName)) credential"

definition full_name :: "secret \<Rightarrow> string" where
  "full_name credential = m_namespace (sec_meta credential) @ ''/'' @ m_name (sec_meta credential)"

definition patch_credential ::
  "'w env \<Rightarrow> string \<Rightarrow> string \<Rightarrow> secret \<Rightarrow> secret \<Rightarrow> ('w st, go_error + secret) state" where
  "patch_credential E before after base credential = do {
     r \<leftarrow> patch_obj E secret_codec MergeFrom base credential;
     case r of
       Inl err \<Rightarrow> ret (Inl (EWrap (before @ full_name credential @ after) err))
     | Inr updated \<Rightarrow> ret (Inr updated) }"

definition ensure_finalizer ::
  "'w env \<Rightarrow> 'w translator \<Rightarrow> secret \<Rightarrow> ('w st, go_error + secret) state" where
  "ensure_finalizer E t credential =
     (if contains_finalizer E (m_finalizers (sec_meta credential)) (t_Finalizer t) then ret (Inr credential)
      else patch_credential E ''adding finalizer to credential '' [] credential
        (sec_meta_update (m_finalizers_update (\<lambda>fs. fst (add_finalizer E fs (t_Finalizer t)))) credential))"

definition annotate_credential ::
  "'w env \<Rightarrow> string \<Rightarrow> secret \<Rightarrow> ('w st, ctrl_result \<times> go_error option) state" where
  "annotate_credential E identityName credential =
     (if mread (m_annotations (sec_meta credential)) CAPIIdentityRefAnnotation = identityName
      then ret (no_requeue, None)
      else do {
        r \<leftarrow> patch_credential E ''annotating credential '' '' with identity reference'' credential
               (identity_annotation identityName credential);
        case r of
          Inl err \<Rightarrow> ret (no_requeue, Some err)
        | Inr updated \<Rightarrow> ret (no_requeue, None) })"

definition credential_reconcileNormal ::
  "'w env \<Rightarrow> secret \<Rightarrow> 'w translator \<Rightarrow> ('w st, ctrl_result \<times> go_error option) state" where
  "credential_reconcileNormal E credential t = do {
     f \<leftarrow> ensure_finalizer E t credential;
     case f of
       Inl err \<Rightarrow> ret (no_requeue, Some err)
     | Inr credential \<Rightarrow> do {
         i \<leftarrow> t_Translate t credential;
         case i of
           Inl err \<Rightarrow> ret (no_requeue, Some err)
         | Inr identityName \<Rightarrow>
             if identityName = [] then ret (no_requeue, None)
             else annotate_credential E identityName credential } }"

definition credential_reconcileDelete ::
  "'w env \<Rightarrow> secret \<Rightarrow> 'w translator \<Rightarrow> ('w st, ctrl_result \<times> go_error option) state" where
  "credential_reconcileDelete E credential t =
     (if \<not> contains_finalizer E (m_finalizers (sec_meta credential)) (t_Finalizer t)
      then ret (no_requeue, None)
      else do {
        c \<leftarrow> t_Cleanup t credential;
        case c of
          Some err \<Rightarrow> ret (no_requeue, Some err)
        | None \<Rightarrow> do {
            r \<leftarrow> patch_credential E ''removing finalizer from credential '' [] credential
                   (sec_meta_update (m_finalizers_update
                      (\<lambda>fs. fst (remove_finalizer E fs (t_Finalizer t)))) credential);
            case r of
              Inl err \<Rightarrow> ret (no_requeue, Some err)
            | Inr updated \<Rightarrow> ret (no_requeue, None) } })"

definition provider_key_of :: "'w translator \<Rightarrow> key" where
  "provider_key_of t = \<lparr>k_namespace = t_ProviderNamespace t, k_name = t_ProviderName t\<rparr>"

definition reconcile_with ::
  "'w env \<Rightarrow> secret \<Rightarrow> 'w translator \<Rightarrow> ('w st, ctrl_result \<times> go_error option) state" where
  "reconcile_with E credential t = do {
     p \<leftarrow> get_obj E provider_codec Cached (provider_key_of t);
     case p of
       Inl err \<Rightarrow>
         if is_not_found E err then ret (no_requeue, None) else ret (no_requeue, Some err)
     | Inr provider \<Rightarrow>
         if cpst_phase (cp_status provider) \<noteq> Ready then ret (requeue defaultRequeueDuration, None)
         else if \<not> deletion_is_zero (sec_meta credential) then credential_reconcileDelete E credential t
         else credential_reconcileNormal E credential t }"

definition credential_Reconcile ::
  "'w env \<Rightarrow> 'w translators \<Rightarrow> key \<Rightarrow> ('w st, ctrl_result \<times> go_error option) state" where
  "credential_Reconcile E translators req = do {
     c \<leftarrow> get_obj E secret_codec Cached req;
     case c of
       Inl err \<Rightarrow> ret (no_requeue, ignore_not_found E (Some err))
     | Inr credential \<Rightarrow>
         (case map_of translators (mread (m_annotations (sec_meta credential)) driverNameAnnotation) of
            None \<Rightarrow> ret (no_requeue, None)
          | Some t \<Rightarrow> reconcile_with E credential t) }"

section \<open>Watches\<close>

definition secretPredicate :: "'w translators \<Rightarrow> object_meta \<Rightarrow> bool" where
  "secretPredicate translators obj \<longleftrightarrow>
     m_namespace obj = rancherCredentialsNamespace \<and>
     map_of translators (mread (m_annotations obj) driverNameAnnotation) \<noteq> None"

fun capiProviderPredicate :: "'w translators \<Rightarrow> watch_event \<Rightarrow> bool" where
  "capiProviderPredicate translators (CreateEvent obj) =
     (case decode provider_codec obj of
        None \<Rightarrow> False
      | Some p \<Rightarrow> cps_type (cp_spec p) = Infrastructure \<and>
          list_ex (\<lambda>(k, t). cps_name (cp_spec p) = t_ProviderName t) translators)"
| "capiProviderPredicate translators (UpdateEvent old new) = False"
| "capiProviderPredicate translators (DeleteEvent obj) = False"
| "capiProviderPredicate translators (GenericEvent obj) = False"

definition target_driver :: "'w translators \<Rightarrow> capi_provider \<Rightarrow> string" where
  "target_driver translators p =
     (case List.find (\<lambda>(k, t). t_ProviderName t = cps_name (cp_spec p)) translators of
        None \<Rightarrow> []
      | Some (k, t) \<Rightarrow> t_DriverName t)"

definition enqueueAllMatchingSecrets ::
  "'w env \<Rightarrow> 'w translators \<Rightarrow> kobj \<Rightarrow> ('w st, key list) state" where
  "enqueueAllMatchingSecrets E translators obj =
     (case decode provider_codec obj of
        None \<Rightarrow> ret []
      | Some p \<Rightarrow>
          if target_driver translators p = [] then ret []
          else do {
            l \<leftarrow> list_obj E secret_codec Cached [InNamespace rancherCredentialsNamespace];
            case l of
              Inl err \<Rightarrow> ret []
            | Inr items \<Rightarrow> ret (map (\<lambda>s. key_of (sec_meta s))
                (filter (\<lambda>s. mread (m_annotations (sec_meta s)) driverNameAnnotation =
                   target_driver translators p) items)) })"

definition credential_SetupWithManager :: "'w env \<Rightarrow> ('w st, go_error option) state" where
  "credential_SetupWithManager E = do {
     e \<leftarrow> manager_step E ''Complete'' [''rancher-credential-translation''];
     ret (map_option (EWrap ''creating RancherCredential translation controller'') e) }"

section \<open>The AWS translator\<close>

definition rancherAWSAccessKeyField :: string where
  "rancherAWSAccessKeyField = ''amazonec2credentialConfig-accessKey''"

definition rancherAWSSecretKeyField :: string where
  "rancherAWSSecretKeyField = ''amazonec2credentialConfig-secretKey''"

definition allowedAWSClusterNamespaceList :: "string list" where
  "allowedAWSClusterNamespaceList = [''fleet-default'']"

definition aws_gvk :: gvk where
  "aws_gvk = \<lparr>gvk_group = ''infrastructure.cluster.x-k8s.io'', gvk_version = ''v1beta2'',
     gvk_kind = ''AWSClusterStaticIdentity''\<rparr>"

definition awsClusterStaticIdentity :: "string \<Rightarrow> unstructured" where
  "awsClusterStaticIdentity name =
     \<lparr>un_gvk = aws_gvk, un_meta = empty_meta\<lparr>m_name := name\<rparr>, un_fields = Map.empty\<rparr>"

definition aws_namespace :: string where
  "aws_namespace = ''capa-system''"

text \<open>The functions that \<open>CreateOrUpdate\<close> calls on what it found, or on the template.\<close>

definition credential_data :: "string \<Rightarrow> string \<Rightarrow> smap" where
  "credential_data accessKey secretKey =
     Some [''AccessKeyID'' \<mapsto> accessKey, ''SecretAccessKey'' \<mapsto> secretKey]"

definition mutate_secret :: "secret \<Rightarrow> string \<Rightarrow> string \<Rightarrow> kobj \<Rightarrow> go_error + kobj" where
  "mutate_secret sourceSecret accessKey secretKey k =
     (case k of
        OSecret credSecret \<Rightarrow>
          (case verifySecretOwnership [] (sec_meta credSecret) sourceSecret of
             Inl err \<Rightarrow> Inl err
           | Inr m \<Rightarrow> Inr (OSecret (credSecret\<lparr>sec_meta := m, sec_data := credential_data accessKey secretKey\<rparr>)))
      | _ \<Rightarrow> Inl decode_error)"

definition identitySpec :: "secret \<Rightarrow> json" where
  "identitySpec sourceSecret =
     JObj [(''secretRef'', JStr (m_name (sec_meta sourceSecret))),
           (''allowedNamespaces'', JObj [(''list'', JStrs allowedAWSClusterNamespaceList)])]"

definition mutate_identity :: "secret \<Rightarrow> kobj \<Rightarrow> go_error + kobj" where
  "mutate_identity sourceSecret k =
     (case k of
        OUnstr awsIdentity \<Rightarrow>
          (case verifySecretOwnership ''AWSClusterStaticIdentity'' (un_meta awsIdentity) sourceSecret of
             Inl err \<Rightarrow> Inl err
           | Inr m \<Rightarrow> Inr (OUnstr (awsIdentity\<lparr>un_meta := m,
               un_fields := (un_fields awsIdentity)(''spec'' \<mapsto> identitySpec sourceSecret)\<rparr>)))
      | _ \<Rightarrow> Inl decode_error)"

definition createOrUpdateCredentialSecret ::
  "'w env \<Rightarrow> secret \<Rightarrow> string \<Rightarrow> string \<Rightarrow> string \<Rightarrow> ('w st, go_error option) state" where
  "createOrUpdateCredentialSecret E sourceSecret accessKey secretKey ns = do {
     e \<leftarrow> create_or_update E (OSecret (secret_named (m_name (sec_meta sourceSecret)) ns))
            (mutate_secret sourceSecret accessKey secretKey);
     ret (map_option (EWrap (''creating/updating credentials secret '' @ ns @ ''/''
            @ m_name (sec_meta sourceSecret))) e) }"

definition createOrUpdateAWSClusterStaticIdentity ::
  "'w env \<Rightarrow> secret \<Rightarrow> ('w st, go_error option) state" where
  "createOrUpdateAWSClusterStaticIdentity E sourceSecret = do {
     e \<leftarrow> create_or_update E (OUnstr (awsClusterStaticIdentity (m_name (sec_meta sourceSecret))))
            (mutate_identity sourceSecret);
     ret (map_option (EWrap (''creating/updating AWSClusterStaticIdentity ''
            @ m_name (sec_meta sourceSecret))) e) }"

definition aws_Translate :: "'w env \<Rightarrow> secret \<Rightarrow> ('w st, go_error + string) state" where
  "aws_Translate E credential =
     (let accessKeyID = mread (sec_data credential) rancherAWSAccessKeyField;
          secretAccessKey = mread (sec_data credential) rancherAWSSecretKeyField in
      if accessKeyID = [] \<or> secretAccessKey = [] then ret (Inr [])
      else do {
        e \<leftarrow> createOrUpdateCredentialSecret E credential accessKeyID secretAccessKey aws_namespace;
        case e of
          Some err \<Rightarrow> ret (Inl err)
        | None \<Rightarrow> do {
            e \<leftarrow> createOrUpdateAWSClusterStaticIdentity E credential;
            case e of
              Some err \<Rightarrow> ret (Inl err)
            | None \<Rightarrow> ret (Inr (m_name (sec_meta credential))) } })"

text \<open>Deleting one object: nothing to do if it is gone or belongs to another credential.\<close>

definition cleanup_owned ::
  "'w env \<Rightarrow> 'a codec \<Rightarrow> ('a \<Rightarrow> object_meta) \<Rightarrow> key \<Rightarrow> secret \<Rightarrow> ('w st, go_error option) state" where
  "cleanup_owned E c meta k credential = do {
     r \<leftarrow> get_obj E c Cached k;
     case r of
       Inl err \<Rightarrow> ret (if is_not_found E err then None else Some err)
     | Inr x \<Rightarrow>
         if isObjectOwnedBySecret (meta x) credential then do {
           e \<leftarrow> delete_obj E c Cached x;
           ret (case e of
                  None \<Rightarrow> None
                | Some err \<Rightarrow> if is_not_found E err then None else Some err) }
         else ret None }"

definition aws_Cleanup :: "'w env \<Rightarrow> secret \<Rightarrow> ('w st, go_error option) state" where
  "aws_Cleanup E credential = do {
     e \<leftarrow> cleanup_owned E (unstr_codec aws_gvk) un_meta
            \<lparr>k_namespace = [], k_name = m_name (sec_meta credential)\<rparr> credential;
     case e of
       Some err \<Rightarrow> ret (Some err)
     | None \<Rightarrow> cleanup_owned E secret_codec sec_meta
         \<lparr>k_namespace = aws_namespace, k_name = m_name (sec_meta credential)\<rparr> credential }"

definition AWSTranslator :: "'w env \<Rightarrow> 'w translator" where
  "AWSTranslator E = \<lparr>t_DriverName = ''aws'', t_ProviderName = ''aws'',
     t_ProviderNamespace = aws_namespace,
     t_Finalizer = ''cloudcredential.cattle.io/aws-identity-finalizer'',
     t_Translate = aws_Translate E, t_Cleanup = aws_Cleanup E\<rparr>"

end
