(* ===== verification/Lifecycle.thy ===== *)
theory Lifecycle
  imports Credential Import Clusterctl
begin

text \<open>
  The two small controllers and the program's start-up: the clean-up of Rancher clusters
  (src/internal/controllers/cleanup_controller.go), the move of the UI plugin
  (uiplugin_controller.go), the set-up of the import and the ClusterctlConfig controllers,
  the scheme (src/api/v1alpha1/groupversion_info.go) and src/main.go.

  What the controller manager is asked to do is a request \<open>RManager\<close>; its own code is not
  in this repository.
\<close>

section \<open>Clean-up of Rancher clusters\<close>

definition cleanup_filter :: "object_meta \<Rightarrow> bool" where
  "cleanup_filter obj \<longleftrightarrow> mget (m_labels obj) ownedLabelName \<noteq> None"

definition cleanup_Reconcile ::
  "'w env \<Rightarrow> rancher_cluster \<Rightarrow> ('w st, ctrl_result \<times> go_error option) state" where
  "cleanup_Reconcile E cluster =
     (if deletion_is_zero (rc_meta cluster) \<or>
         \<not> snd (remove_finalizer E (m_finalizers (rc_meta cluster)) CapiClusterFinalizer)
      then ret (no_requeue, None)
      else do {
        r \<leftarrow> patch_obj E rancher_codec MergeFromLock cluster
               (rc_meta_update (m_finalizers_update
                  (\<lambda>fs. fst (remove_finalizer E fs CapiClusterFinalizer))) cluster);
        case r of
          Inl err \<Rightarrow> ret (no_requeue, Some err)
        | Inr patched \<Rightarrow> ret (no_requeue, None) })"

definition cleanup_SetupWithManager :: "'w env \<Rightarrow> ('w st, go_error option) state" where
  "cleanup_SetupWithManager E = do {
     e \<leftarrow> manager_step E ''Complete'' [''cleanup''];
     ret (map_option (EWrap ''creating new downgrade controller'') e) }"

section \<open>The UI plugin\<close>

definition ui_plugin_gvk :: gvk where
  "ui_plugin_gvk = \<lparr>gvk_group = ''catalog.cattle.io'', gvk_version = ''v1'', gvk_kind = ''UIPlugin''\<rparr>"

definition turtles_role :: key where
  "turtles_role = \<lparr>k_namespace = [], k_name = ''rancher-turtles-manager-role''\<rparr>"

definition ui_plugin_filter :: "'w env \<Rightarrow> object_meta \<Rightarrow> bool" where
  "ui_plugin_filter E plugin \<longleftrightarrow> m_namespace plugin = pod_namespace E"

text \<open>A key that is not there is read as nil, which is what is stored then.\<close>

definition destination_plugin :: "unstructured \<Rightarrow> unstructured" where
  "destination_plugin plugin =
     \<lparr>un_gvk = un_gvk plugin,
      un_meta = empty_meta\<lparr>m_name := m_name (un_meta plugin), m_namespace := ''cattle-ui-plugin-system''\<rparr>,
      un_fields = [''spec'' \<mapsto> (case un_fields plugin ''spec'' of None \<Rightarrow> JNull | Some v \<Rightarrow> v)]\<rparr>"

definition move_plugin ::
  "'w env \<Rightarrow> unstructured \<Rightarrow> unstructured \<Rightarrow> ('w st, ctrl_result \<times> go_error option) state" where
  "move_plugin E plugin destination = do {
     e \<leftarrow> apply_obj E (unstr_codec ui_plugin_gvk) destination ''ui-plugin-controller'';
     case e of
       Some err \<Rightarrow> ret (no_requeue, Some err)
     | None \<Rightarrow> do {
         e \<leftarrow> delete_obj E (unstr_codec ui_plugin_gvk) Cached plugin;
         ret (no_requeue, e) } }"

definition uiplugin_Reconcile ::
  "'w env \<Rightarrow> key \<Rightarrow> ('w st, ctrl_result \<times> go_error option) state" where
  "uiplugin_Reconcile E req = do {
     p \<leftarrow> get_obj E (unstr_codec ui_plugin_gvk) Cached req;
     case p of
       Inl err \<Rightarrow> ret (no_requeue, ignore_not_found E (Some err))
     | Inr plugin \<Rightarrow>
         if m_deletion (un_meta plugin) \<noteq> None then ret (no_requeue, None)
         else do {
           r \<leftarrow> get_obj E role_codec Uncached turtles_role;
           case r of
             Inl err \<Rightarrow> ret (no_requeue, Some err)
           | Inr role \<Rightarrow>
               (case set_owner_reference E role (destination_plugin plugin) of
                  Inl err \<Rightarrow> ret (no_requeue, Some err)
                | Inr destination \<Rightarrow> move_plugin E plugin destination) } }"

definition uiplugin_SetupWithManager :: "'w env \<Rightarrow> ('w st, go_error option) state" where
  "uiplugin_SetupWithManager E = do {
     e \<leftarrow> manager_step E ''Complete'' [''ui-plugin''];
     ret (map_option (EWrap ''creating UIPlugin controller'') e) }"

section \<open>The watches of the import and the ClusterctlConfig controllers\<close>

text \<open>
  \<open>predicates.All\<close> and \<open>predicates.ResourceHasFilterLabel\<close> are Cluster API's: they are the
  parameters \<open>all\<close> and \<open>has_filter\<close>.
\<close>

definition capiPredicates ::
  "'w env \<Rightarrow> ('w event_predicate list \<Rightarrow> 'w event_predicate) \<Rightarrow> (string \<Rightarrow> 'w event_predicate)
     \<Rightarrow> string \<Rightarrow> 'w event_predicate" where
  "capiPredicates E all has_filter watchFilterValue =
     all [has_filter watchFilterValue,
          ClusterWithoutImportedAnnotation,
          ClusterWithReadyControlPlane E,
          ClusterOrNamespaceWithImportLabel E importLabelName]"

definition wrapped_step ::
  "'w env \<Rightarrow> string \<Rightarrow> string \<Rightarrow> string list \<Rightarrow> ('w st, go_error option) state" where
  "wrapped_step E message name args = do {
     e \<leftarrow> manager_step E name args;
     ret (map_option (EWrap message) e) }"

definition import_SetupWithManager :: "'w env \<Rightarrow> ('w st, go_error option) state" where
  "import_SetupWithManager E = in_order
     [wrapped_step E ''creating new controller'' ''Build'' [''cluster''],
      wrapped_step E ''adding watch for Rancher cluster'' ''Watch'' [''management.cattle.io/v3, Cluster''],
      wrapped_step E ''adding watch for namespaces'' ''Watch'' [''v1, Namespace'']]"

definition clusterctlconfig_SetupWithManager :: "'w env \<Rightarrow> ('w st, go_error option) state" where
  "clusterctlconfig_SetupWithManager E =
     wrapped_step E ''creating ClusterctlConfigReconciler controller'' ''Complete'' [''clusterctlconfig'']"

section \<open>The scheme\<close>

text \<open>
  A scheme is the list of the types registered with it, each under its group and version.
  \<open>metav1.AddToGroupVersion\<close> is the parameter \<open>add_version\<close>, the group and version of the
  CAPI operator's API the parameter \<open>operator_gv\<close>.
\<close>

type_synonym group_version = "string \<times> string"
type_synonym scheme = "(group_version \<times> string) list"

definition turtles_GroupVersion :: group_version where
  "turtles_GroupVersion = (''turtles-capi.cattle.io'', ''v1alpha1'')"

definition Providers :: "string list" where
  "Providers = [''CoreProvider'', ''BootstrapProvider'', ''ControlPlaneProvider'',
     ''InfrastructureProvider'', ''AddonProvider'', ''IPAMProvider'']"

definition ProviderLists :: "string list" where
  "ProviderLists = [''CoreProviderList'', ''BootstrapProviderList'', ''ControlPlaneProviderList'',
     ''InfrastructureProviderList'', ''AddonProviderList'', ''IPAMProviderList'']"

definition scheme_add :: "scheme \<Rightarrow> group_version \<Rightarrow> string list \<Rightarrow> scheme" where
  "scheme_add s gv types = s @ map (Pair gv) types"

definition AddKnownTypes ::
  "(scheme \<Rightarrow> group_version \<Rightarrow> scheme) \<Rightarrow> group_version \<Rightarrow> scheme \<Rightarrow> scheme" where
  "AddKnownTypes add_version operator_gv s =
     (let s = scheme_add s turtles_GroupVersion [''CAPIProvider'', ''CAPIProviderList''];
          s = scheme_add s turtles_GroupVersion [''ClusterctlConfig'', ''ClusterctlConfigList''];
          s = fold (\<lambda>t s. scheme_add s operator_gv [t]) Providers s;
          s = fold (\<lambda>t s. scheme_add s operator_gv [t]) ProviderLists s in
      add_version (add_version s turtles_GroupVersion) operator_gv)"

text \<open>
  The scheme builders of the API groups: the group and version, and the types that the
  \<open>init\<close> of each file registers.
\<close>

record scheme_builder =
  sb_version :: group_version
  sb_types :: "string list"

definition Register :: "string list \<Rightarrow> scheme_builder \<Rightarrow> scheme_builder" where
  "Register types = sb_types_update (\<lambda>ts. ts @ types)"

definition management_GroupVersion :: group_version where
  "management_GroupVersion = (''management.cattle.io'', ''v3'')"

definition management_SchemeBuilder :: scheme_builder where
  "management_SchemeBuilder = \<lparr>sb_version = management_GroupVersion, sb_types = []\<rparr>"

definition init_cluster :: "scheme_builder \<Rightarrow> scheme_builder" where
  "init_cluster = Register [''Cluster'', ''ClusterList'']"

definition init_token :: "scheme_builder \<Rightarrow> scheme_builder" where
  "init_token = Register [''ClusterRegistrationToken'', ''ClusterRegistrationTokenList'']"

definition init_setting :: "scheme_builder \<Rightarrow> scheme_builder" where
  "init_setting = Register [''Setting'', ''SettingList'']"

definition provisioning_GroupVersion :: group_version where
  "provisioning_GroupVersion = (''provisioning.cattle.io'', ''v1'')"

definition provisioning_SchemeBuilder :: scheme_builder where
  "provisioning_SchemeBuilder = \<lparr>sb_version = provisioning_GroupVersion, sb_types = []\<rparr>"

definition init_prov_cluster :: "scheme_builder \<Rightarrow> scheme_builder" where
  "init_prov_cluster = Register [''Cluster'', ''ClusterList'']"

definition k3s_GroupVersion :: group_version where
  "k3s_GroupVersion = (''k3s.cattle.io'', ''v1'')"

definition k3s_SchemeBuilder :: scheme_builder where
  "k3s_SchemeBuilder = \<lparr>sb_version = k3s_GroupVersion, sb_types = []\<rparr>"

definition init_snapshot_file :: "scheme_builder \<Rightarrow> scheme_builder" where
  "init_snapshot_file = Register [''ETCDSnapshotFile'', ''ETCDSnapshotFileList'']"

definition turtles_SchemeBuilder :: scheme_builder where
  "turtles_SchemeBuilder = \<lparr>sb_version = turtles_GroupVersion, sb_types = []\<rparr>"

definition init_capi_provider :: "scheme_builder \<Rightarrow> scheme_builder" where
  "init_capi_provider = Register [''CAPIProvider'', ''CAPIProviderList'']"

definition init_clusterctl_config :: "scheme_builder \<Rightarrow> scheme_builder" where
  "init_clusterctl_config = Register [''ClusterctlConfig'', ''ClusterctlConfigList'']"

text \<open>
  The builders once the packages are initialized, by the name under which src/main.go adds
  them.  That of k3s it does not add.
\<close>

definition api_builder :: "string \<Rightarrow> scheme_builder option" where
  "api_builder = [''managementv3'' \<mapsto> init_setting (init_token (init_cluster management_SchemeBuilder)),
     ''provisioningv1'' \<mapsto> init_prov_cluster provisioning_SchemeBuilder,
     ''turtlesv1'' \<mapsto> init_clusterctl_config (init_capi_provider turtles_SchemeBuilder),
     ''k3sv1'' \<mapsto> init_snapshot_file k3s_SchemeBuilder]"

text \<open>
  \<open>init\<close>: each group registers itself and may fail, which panics; \<open>register\<close> stands for
  the \<open>AddToScheme\<close> of a group.
\<close>

fun must_register ::
  "(string \<Rightarrow> scheme \<Rightarrow> string + scheme) \<Rightarrow> string list \<Rightarrow> scheme \<Rightarrow> scheme outcome" where
  "must_register register [] s = Ret s"
| "must_register register (g # gs) s =
     (case register g s of Inl err \<Rightarrow> Panic err | Inr s \<Rightarrow> must_register register gs s)"

definition init_groups :: "string list" where
  "init_groups = [''clientgoscheme'', ''clusterv1'', ''provisioningv1'', ''managementv3'',
     ''operatorv1'', ''turtlesv1'']"

definition init_scheme ::
  "(string \<Rightarrow> scheme \<Rightarrow> string + scheme) \<Rightarrow> (scheme \<Rightarrow> group_version \<Rightarrow> scheme) \<Rightarrow> group_version
     \<Rightarrow> scheme \<Rightarrow> scheme outcome" where
  "init_scheme register add_version operator_gv s =
     (case must_register register init_groups s of
        Panic err \<Rightarrow> Panic err
      | Ret s \<Rightarrow> Ret (AddKnownTypes add_version operator_gv s))"

section \<open>Flags and options\<close>

text \<open>Durations are in seconds.\<close>

record flags =
  metricsBindAddr :: string
  enableLeaderElection :: bool
  leaderElectionLeaseDuration :: nat
  leaderElectionRenewDeadline :: nat
  leaderElectionRetryPeriod :: nat
  watchFilterValue :: string
  profilerAddress :: string
  syncPeriod :: nat
  healthAddr :: string
  concurrencyNumber :: nat
  managerConcurrency :: nat
  insecureSkipVerify :: bool

definition initFlags :: flags where
  "initFlags = \<lparr>metricsBindAddr = '':8080'', enableLeaderElection = False,
     leaderElectionLeaseDuration = 15, leaderElectionRenewDeadline = 10,
     leaderElectionRetryPeriod = 2, watchFilterValue = [], profilerAddress = [],
     syncPeriod = 120, healthAddr = '':9440'', concurrencyNumber = 1, managerConcurrency = 15,
     insecureSkipVerify = False\<rparr>"

record manager_options =
  mo_metrics :: string
  mo_leader_election :: bool
  mo_leader_election_id :: string
  mo_lease_duration :: nat
  mo_renew_deadline :: nat
  mo_retry_period :: nat
  mo_uncached_kinds :: "kind list"
  mo_max_concurrent :: nat
  mo_sync_period :: nat
  mo_health :: string

definition manager_options :: "flags \<Rightarrow> manager_options" where
  "manager_options fl = \<lparr>mo_metrics = metricsBindAddr fl, mo_leader_election = enableLeaderElection fl,
     mo_leader_election_id = ''controller-leader-election-rancher-turtles'',
     mo_lease_duration = leaderElectionLeaseDuration fl,
     mo_renew_deadline = leaderElectionRenewDeadline fl,
     mo_retry_period = leaderElectionRetryPeriod fl,
     mo_uncached_kinds = [KConfigMap, KSecret, KConfig],
     mo_max_concurrent = concurrencyNumber fl, mo_sync_period = syncPeriod fl,
     mo_health = healthAddr fl\<rparr>"

section \<open>Start-up\<close>

definition setupChecks :: "'w env \<Rightarrow> ('w st, go_error option) state" where
  "setupChecks E = in_order
     [manager_step E ''AddReadyzCheck'' [''ping''], manager_step E ''AddHealthzCheck'' [''ping'']]"

definition gated :: "'w env \<Rightarrow> feature \<Rightarrow> ('w st, go_error option) state \<Rightarrow> ('w st, go_error option) state" where
  "gated E f m = (if gate E f then m else ret None)"

text \<open>The first error ends the process.\<close>

definition setupReconcilers :: "'w env \<Rightarrow> ('w st, go_error option) state" where
  "setupReconcilers E = in_order
     [manager_step E ''client.New'' [''cluster.x-k8s.io/v1beta2, Cluster''],
      import_SetupWithManager E,
      cleanup_SetupWithManager E,
      clusterctlconfig_SetupWithManager E,
      operator_SetupWithManager E,
      gated E UIPlugin (uiplugin_SetupWithManager E),
      gated E RancherCCTranslation (credential_SetupWithManager E)]"

text \<open>The exit status of the process.  The options of the manager are its addresses and its lock here.\<close>

definition main :: "'w env \<Rightarrow> flags \<Rightarrow> ('w st, nat) state" where
  "main E fl = do {
     e \<leftarrow> in_order
       [manager_step E ''NewManager'' [mo_metrics (manager_options fl), mo_health (manager_options fl),
          mo_leader_election_id (manager_options fl), format_bool (mo_leader_election (manager_options fl))],
        setupChecks E,
        setupReconcilers E,
        manager_step E ''Start'' []];
     ret (case e of None \<Rightarrow> 0 | Some err \<Rightarrow> 1) }"

end
