(* ===== verification/Import_Typing.thy ===== *)
theory Import_Typing
  imports Helper_Behaviour Lifecycle
begin

text \<open>
  Two facts about the import controller (src/internal/controllers/import_controller.go)
  as a whole: what it may ask of which client, as a typing of its requests against the
  scheme that src/main.go registers, and that its retry of the finalizer update ends.
\<close>

section \<open>The types of the requests\<close>

text \<open>The group of \<open>init_groups\<close> that registers a Go type; an unstructured object carries its own.\<close>

fun kind_group :: "kind \<Rightarrow> string option" where
  "kind_group KCluster = Some ''clusterv1''"
| "kind_group KRancher = Some ''managementv3''"
| "kind_group KToken = Some ''managementv3''"
| "kind_group KSetting = Some ''managementv3''"
| "kind_group KProvider = Some ''turtlesv1''"
| "kind_group KConfig = Some ''turtlesv1''"
| "kind_group (KUnstr g) = None"
| "kind_group _ = Some ''clientgoscheme''"

text \<open>The client a request goes to and the kind it names.\<close>

fun request_kind :: "request \<Rightarrow> (target \<times> kind) option" where
  "request_kind (RGet t k n) = Some (t, k)"
| "request_kind (RList t k sel) = Some (t, k)"
| "request_kind (RCreate t ob) = Some (t, kobj_kind ob)"
| "request_kind (RUpdate t ob) = Some (t, kobj_kind ob)"
| "request_kind (RPatch t pk base ob) = Some (t, kobj_kind ob)"
| "request_kind (RApply t ob owner) = Some (t, kobj_kind ob)"
| "request_kind (RDelete t ob) = Some (t, kobj_kind ob)"
| "request_kind (RDeleteAllOf t k sel) = Some (t, k)"
| "request_kind _ = None"

text \<open>
  The workload cluster is asked for core types and for what the manifest names; the
  management cluster for registered types only, of which the core ones are read and
  never written.
\<close>

definition typed_at :: "bool \<Rightarrow> target \<Rightarrow> kind \<Rightarrow> bool" where
  "typed_at write t k =
     (case kind_group k of
        None \<Rightarrow> t = Remote
      | Some g \<Rightarrow> g \<in> set init_groups \<and>
          (if t = Remote then g = ''clientgoscheme'' else write \<longrightarrow> g \<noteq> ''clientgoscheme''))"

definition well_typed :: "request \<Rightarrow> bool" where
  "well_typed r \<longleftrightarrow>
     (case request_kind r of
        None \<Rightarrow> True
      | Some (t, k) \<Rightarrow> typed_at (written_kind r \<noteq> None) t k) \<and>
     (case r of RPatch t pk base ob \<Rightarrow> kobj_kind base = kobj_kind ob | _ \<Rightarrow> True)"

lemmas typing_simps = well_typed_def typed_at_def init_groups_def

lemmas typing_rules =
  emits_ret emits_bind emits_case_outcome emits_obind emits_lift emits_call emits_if
  emits_case_sum emits_case_option emits_case_list emits_case_prod emits_Let emits_for_each
  emits_client

lemmas manifest_defs =
  getClusterRegistrationManifest_def manifest_of_token_def resolveManifestURL_def
  downloadManifest_def getTrustedCAcert_def

lemmas workload_defs =
  removeFleetNamespace_def check_fleet_migration_def createImportManifest_def createRawManifest_def
  createObject_def validateImportReadiness_def verifyRawManifest_def checkDeletion_def
  remote_client_def

text \<open>The Go type of a codec and the kind of what it encodes are the same.\<close>

lemma encoded_kinds [simp]:
  "kobj_kind (encode cluster_codec x) = KCluster" "ckind cluster_codec = KCluster"
  "kobj_kind (encode rancher_codec y) = KRancher" "ckind rancher_codec = KRancher"
  "kobj_kind (encode token_codec z) = KToken" "ckind token_codec = KToken"
  "ckind setting_codec = KSetting" "ckind secret_codec = KSecret" "ckind job_codec = KJob"
  "kobj_kind (encode namespace_codec n) = KNamespace" "ckind namespace_codec = KNamespace"
  "kobj_kind (encode (unstr_codec g) u) = KUnstr (un_gvk u)" "ckind (unstr_codec g) = KUnstr g"
  by (simp_all add: cluster_codec_def rancher_codec_def token_codec_def setting_codec_def
      secret_codec_def job_codec_def namespace_codec_def unstr_codec_def)

lemma typed_manifest: "emits well_typed (getClusterRegistrationManifest E n ns ca skip)"
  unfolding manifest_defs Let_def by (intro typing_rules) (simp_all add: typing_simps)

lemma typed_ca: "emits well_typed (getTrustedCAcert E b)"
  unfolding manifest_defs Let_def by (intro typing_rules) (simp_all add: typing_simps)

lemma typed_workload:
  "emits well_typed (removeFleetNamespace E rc)"
  "emits well_typed (createImportManifest E m)"
  "emits well_typed (validateImportReadiness E m)"
  "emits well_typed (remote_client E c)"
  unfolding workload_defs Let_def by (intro typing_rules; simp add: typing_simps)+

lemma typed_normal: "emits well_typed (reconcileNormal E skip c mrc)"
  unfolding reconcileNormal_def create_missing_cluster_def shouldAutoImportUncached_def
    migrate_fleet_def import_agent_def apply_manifest_def Let_def
  by (intro typing_rules typed_manifest typed_ca typed_workload emits_ShouldAutoImport)
    (simp_all add: typing_simps)

lemma typed_branches:
  "emits well_typed (reconcile_import E skip c mrc)"
  "emits well_typed (reconcile_rancher_deletion E c rc)"
  "emits well_typed (reconcile_capi_deletion E c)"
  unfolding reconcile_import_def reconcile_rancher_deletion_def
    import_reconcileDelete_def reconcile_capi_deletion_def deleteDependentRancherCluster_def
    release_rancher_cluster_def release_capi_cluster_def Let_def
  by (intro typing_rules typed_normal; simp add: typing_simps)+

lemma typed_reconcile: "emits well_typed (import_reconcile E skip c)"
  unfolding import_reconcile_def Let_def
  by (intro typing_rules typed_branches) (simp add: typing_simps)

lemma typed_after_finalizer: "emits well_typed (import_after_finalizer E skip c)"
  unfolding import_after_finalizer_def Let_def
  by (intro typing_rules typed_reconcile) (simp_all add: typing_simps)

lemma typed_finalizer:
  assumes "retry_law E"
  shows "emits well_typed (add_import_finalizer E c)"
proof -
  obtain n where "retry_on_conflict E = attempts (is_conflict E) n"
    using assms by (auto simp: retry_law_def)
  then show ?thesis
    unfolding add_import_finalizer_def Let_def
    by (auto intro!: emits_attempts typing_rules simp: typing_simps)
qed

text \<open>
  C13.  What the import controller asks of which cluster, whatever the servers answer:
  every request to the management cluster names a type of a group that main registers,
  core objects there are only read, a patch has one type on both sides, and the workload
  cluster is asked only for core types and the unstructured objects of the manifest.
\<close>

theorem requests_well_typed:
  assumes "retry_law E"
  shows "list_all (\<lambda>e. well_typed (fst e)) (trace_of (import_Reconcile E skip req) w)"
proof -
  have "emits well_typed (import_Reconcile E skip req)"
    unfolding import_Reconcile_def
    by (intro typing_rules typed_after_finalizer typed_finalizer [OF assms]) (simp_all add: typing_simps)
  from emits_exec [OF this, of w] show ?thesis by (auto simp: only_def list_all_iff)
qed

text \<open>
  The run of the import up to the download; creating a namespace on the management
  cluster would not be typed.
\<close>

theorem requests_well_typed_witness:
  "list_all (\<lambda>e. well_typed (fst e)) (trace_of (import_Reconcile script_env False demo_key) demo_script) \<and>
   (RGet Cached KSetting (setting_key ''agent-tls-mode''), RObj (OSetting demo_setting))
     \<in> set (trace_of (import_Reconcile script_env False demo_key) demo_script) \<and>
   \<not> well_typed (RCreate Cached (ONamespace (namespace_template ''cattle-system'')))"
  using requests_well_typed [OF script_retry_law, of False demo_key demo_script]
  by (simp add: demo_download typing_simps)

section \<open>The scheme knows the requested types\<close>

text \<open>The type of a kind of this repository's API groups.\<close>

fun kind_type :: "kind \<Rightarrow> (group_version \<times> string) option" where
  "kind_type KRancher = Some (management_GroupVersion, ''Cluster'')"
| "kind_type KToken = Some (management_GroupVersion, ''ClusterRegistrationToken'')"
| "kind_type KSetting = Some (management_GroupVersion, ''Setting'')"
| "kind_type KProvider = Some (turtles_GroupVersion, ''CAPIProvider'')"
| "kind_type KConfig = Some (turtles_GroupVersion, ''ClusterctlConfig'')"
| "kind_type _ = None"

text \<open>What \<open>AddToScheme\<close> of a builder does, and that no registration drops a type.\<close>

definition registers :: "(string \<Rightarrow> scheme \<Rightarrow> string + scheme) \<Rightarrow> bool" where
  "registers register \<longleftrightarrow> (\<forall>g s t. register g s = Inr t \<longrightarrow> set s \<subseteq> set t \<and>
     (\<forall>b. api_builder g = Some b \<longrightarrow> Pair (sb_version b) ` set (sb_types b) \<subseteq> set t))"

lemma must_register_adds:
  "registers register \<Longrightarrow> must_register register gs s = Ret t \<Longrightarrow> set s \<subseteq> set t \<and>
     (\<forall>g b. g \<in> set gs \<longrightarrow> api_builder g = Some b \<longrightarrow> Pair (sb_version b) ` set (sb_types b) \<subseteq> set t)"
proof (induction gs arbitrary: s)
  case Nil
  then show ?case by simp
next
  case (Cons h gs)
  then obtain u where u: "register h s = Inr u" "must_register register gs u = Ret t"
    by (auto split: sum.splits)
  note rest = Cons.IH [OF Cons.prems(1) u(2)]
  from Cons.prems(1) u(1) have "set s \<subseteq> set u"
    "\<And>b. api_builder h = Some b \<Longrightarrow> Pair (sb_version b) ` set (sb_types b) \<subseteq> set u"
    unfolding registers_def by blast+
  with rest show ?case unfolding set_simps by blast
qed

lemma scheme_adds_keep: "set s \<subseteq> set (fold (\<lambda>t s. scheme_add s gv [t]) ts s)"
  by (induction ts arbitrary: s) (simp, force simp: scheme_add_def)

lemma AddKnownTypes_keeps:
  assumes "\<And>s gv. set s \<subseteq> set (add_version s gv)"
  shows "set s \<subseteq> set (AddKnownTypes add_version operator_gv s)"
proof -
  have add: "set s \<subseteq> set u \<Longrightarrow> set s \<subseteq> set (scheme_add u gv ts)" for u gv ts by (auto simp: scheme_add_def)
  have adds: "set s \<subseteq> set u \<Longrightarrow> set s \<subseteq> set (fold (\<lambda>t s. scheme_add s gv [t]) ts u)" for u gv ts
    by (rule subset_trans [OF _ scheme_adds_keep])
  have version: "set s \<subseteq> set u \<Longrightarrow> set s \<subseteq> set (add_version u gv)" for u gv
    by (rule subset_trans [OF _ assms])
  show ?thesis
    unfolding AddKnownTypes_def Let_def by (intro version adds add subset_refl)
qed

lemma requested_types_registered:
  assumes "registers register" "\<And>s gv. set s \<subseteq> set (add_version s gv)"
    and init: "init_scheme register add_version operator_gv s = Ret t"
    and k: "kind_type k = Some (gv, n)"
  shows "(gv, n) \<in> set t \<and> (gv, n @ ''List'') \<in> set t"
proof -
  from init obtain u where u: "must_register register init_groups s = Ret u"
    and t: "t = AddKnownTypes add_version operator_gv u"
    by (auto simp: init_scheme_def split: outcome.splits)
  note a = must_register_adds [OF assms(1) u, THEN conjunct2, rule_format]
  have "(gv, n) \<in> set u \<and> (gv, n @ ''List'') \<in> set u"
    using k a [of "''managementv3''"] a [of "''turtlesv1''"]
    by (cases k) (auto simp: init_groups_def api_builder_def Register_def init_setting_def init_token_def
        init_cluster_def init_clusterctl_config_def init_capi_provider_def management_SchemeBuilder_def
        turtles_SchemeBuilder_def)
  moreover have "set u \<subseteq> set t" unfolding t by (rule AddKnownTypes_keeps [OF assms(2)])
  ultimately show ?thesis by blast
qed

section \<open>The retry ends\<close>

fun is_fetch :: "event \<Rightarrow> bool" where
  "is_fetch (RGet t k n, a) = True"
| "is_fetch _ = False"

definition fetches :: "event list \<Rightarrow> nat" where
  "fetches es = length (filter is_fetch es)"

lemma fetches_simps [simp]:
  "fetches [] = 0" "fetches (e # es) = (if is_fetch e then Suc (fetches es) else fetches es)"
  "fetches (es @ fs) = fetches es + fetches fs"
  by (simp_all add: fetches_def)

text \<open>What \<open>n\<close> retries may do: the number of fetches, of requests, and when all are used up.\<close>

definition bounded_run :: "(go_error \<Rightarrow> bool) \<Rightarrow> nat \<Rightarrow> go_error option \<Rightarrow> event list \<Rightarrow> bool" where
  "bounded_run p n err es \<longleftrightarrow>
     0 < fetches es \<and> fetches es \<le> Suc n \<and> length es \<le> 2 * fetches es \<and>
     (fetches es < Suc n \<longrightarrow> (case err of None \<Rightarrow> True | Some e \<Rightarrow> \<not> p e))"

lemma runs_attempts_bounded:
  assumes "\<And>c. runs (f c) (\<lambda>r es. bounded_run p 0 (snd r) es)"
  shows "runs (attempts p n f c) (\<lambda>r es. bounded_run p n (snd r) es)"
proof (induction n arbitrary: c)
  case 0
  then show ?case by (simp add: assms)
next
  case (Suc n)
  show ?case
    by (simp, rule runs_bind, rule runs_mono [OF assms])
      (auto split: option.split intro!: runs_mono [OF Suc] simp: bounded_run_def)
qed

text \<open>
  C14.  The update of the finalizer ends: with \<open>n\<close> retries on conflict it fetches the
  cluster at least once and at most \<open>n + 1\<close> times, makes at most two requests per
  fetch, and if it stopped earlier than that, then because it succeeded or failed with
  an error that is no conflict.
\<close>

theorem finalizer_retry_ends:
  assumes "retry_on_conflict E = attempts (is_conflict E) n"
    and "exec (add_import_finalizer E c) w = ((d, err), es)"
  shows "0 < fetches es \<and> fetches es \<le> Suc n \<and> length es \<le> 2 * fetches es \<and>
    (fetches es < Suc n \<longrightarrow> (case err of None \<Rightarrow> True | Some e \<Rightarrow> \<not> is_conflict E e))"
proof -
  have "runs (add_import_finalizer E c) (\<lambda>r es. bounded_run (is_conflict E) n (snd r) es)"
    unfolding add_import_finalizer_def Let_def assms(1)
    by (rule runs_attempts_bounded, rule runsI, intro trace_rules)
      (auto simp: bounded_run_def intro!: trace_rules)
  from runs_exec [OF this, of w] assms(2) show ?thesis
    by (simp add: bounded_run_def)
qed

text \<open>A conflict, then the update goes through.\<close>

theorem finalizer_retry_ends_witness:
  "let es = trace_of (add_import_finalizer script_env demo_cluster)
       [RObj (OCluster demo_cluster), RErr (EApi ''Conflict''), RObj (OCluster demo_cluster),
        RObj (OCluster demo_cluster)] in
   fetches es = 2 \<and> length es \<le> 4 \<and> fetches es \<le> Suc 4"
proof -
  let ?run = "exec (add_import_finalizer script_env demo_cluster)
       [RObj (OCluster demo_cluster), RErr (EApi ''Conflict''), RObj (OCluster demo_cluster),
        RObj (OCluster demo_cluster)]"
  have two: "fetches (snd ?run) = 2"
    by (simp add: add_import_finalizer_def run_simps numeral_eq_Suc)
  have law: "retry_on_conflict script_env = attempts (is_conflict script_env) 4"
    by (simp only: script_is_conflict script_fields)
  obtain d err es where run: "?run = ((d, err), es)"
    by (metis prod.collapse)
  show ?thesis
    using finalizer_retry_ends [OF law run] two unfolding run by (simp add: Let_def)
qed

end
