(* ===== verification/Import_Release.thy ===== *)
theory Import_Release
  imports Import_Behaviour Import_Typing Lifecycle
begin

text \<open>
  How an import ends: which events of a CAPI cluster reach the import controller, and how
  the run that takes the import finalizer off a CAPI cluster returns.
\<close>

section \<open>The event filter\<close>

text \<open>
  \<open>predicates.All\<close> of \<open>sigs.k8s.io/cluster-api/util/predicates\<close> asks one predicate after
  the other and stops at the first that says no.
\<close>

primrec all_of :: "'w event_predicate list \<Rightarrow> 'w event_predicate" where
  "all_of [] ev = ret True"
| "all_of (p # ps) ev = do { b \<leftarrow> p ev; if b then all_of ps ev else ret False }"

definition all_law :: "('w event_predicate list \<Rightarrow> 'w event_predicate) \<Rightarrow> bool" where
  "all_law all \<longleftrightarrow> all = all_of"

lemma result_bind_ret: "result_of (do { b \<leftarrow> ret a; f b }) w = result_of (f a) w"
  by (simp add: exec_def run_bind run_ret)

lemma label_decision:
  "result_of (processIfClusterOrNamespaceWithImportLabel E ob l) w \<longleftrightarrow>
     (\<exists>c. ob = OCluster c \<and> result_of (ShouldAutoImport E c l) w = Inr True)"
  by (cases ob) (auto simp: processIfClusterOrNamespaceWithImportLabel_def exec_def run_bind run_ret
      split: prod.splits sum.splits)

lemma then_True: "result_of (do { b \<leftarrow> m; if b then ret True else ret False }) w = result_of m w"
  by (simp add: exec_def run_bind run_ret split: prod.splits)

text \<open>
  C9.  Which events reach the import controller: those of a CAPI cluster that passes the
  filter label, does not have the imported annotation, has an available control plane,
  and for which the decision is to import.  That the cluster is being deleted makes no
  difference.
\<close>

theorem watch_filter:
  assumes "all_law all" and "has_filter v ev = ret b"
  shows "result_of (capiPredicates E all has_filter v ev) w \<longleftrightarrow> b \<and>
    (\<exists>c. event_object ev = OCluster c \<and> \<not> HasAnnotation (cc_meta c) ClusterImportedAnnotation \<and>
      cond_is_true E (cc_conditions c) ClusterControlPlaneAvailableCondition \<and>
      result_of (ShouldAutoImport E c importLabelName) w = Inr True)"
proof -
  have "result_of (capiPredicates E all has_filter v ev) w \<longleftrightarrow>
      b \<and> processIfClusterNotImported (event_object ev) \<and> processIfClusterReadyControlPlane E (event_object ev) \<and>
      result_of (processIfClusterOrNamespaceWithImportLabel E (event_object ev) importLabelName) w"
    unfolding capiPredicates_def assms(1) [unfolded all_law_def]
    by (simp add: assms(2) predicate_event_object result_bind_ret then_True cong: if_cong) (simp add: exec_def run_ret)
  then show ?thesis
    unfolding label_decision
    by (auto simp: processIfClusterNotImported_def processIfClusterReadyControlPlane_def split: if_splits)
qed

text \<open>
  A cluster that was imported, lost its label and is being deleted, and the one that is
  being deleted with its label: only the event of the second passes.
\<close>

definition unlabelled_leaving :: capi_cluster where
  "unlabelled_leaving = cc_meta_update (m_labels_update (\<lambda>_. Some [importLabelName \<mapsto> ''false''])) demo_leaving"

theorem watch_filter_witness:
  "\<not> result_of (capiPredicates script_env all_of (\<lambda>_ _. ret True) [] (UpdateEvent (OCluster demo_leaving) (OCluster unlabelled_leaving))) [] \<and>
   CapiClusterFinalizer \<in> set (m_finalizers (cc_meta unlabelled_leaving)) \<and>
   \<not> deletion_is_zero (cc_meta unlabelled_leaving) \<and>
   result_of (capiPredicates script_env all_of (\<lambda>_ _. ret True) [] (UpdateEvent (OCluster unlabelled_leaving) (OCluster demo_leaving))) []"
proof -
  note filter = watch_filter [where all = all_of and has_filter = "\<lambda>_ _. ret True" and b = True, unfolded all_law_def, OF refl refl]
  have "result_of (ShouldAutoImport script_env unlabelled_leaving importLabelName) [] = Inr False"
    "result_of (ShouldAutoImport script_env demo_leaving importLabelName) [] = Inr True"
    by (simp_all add: ShouldAutoImport_choice cluster_choice_def unlabelled_leaving_def demo_leaving_def
        demo_cluster_def empty_meta_def parse_bool_def exec_def run_ret HasClusterImportAnnotation_def HasAnnotation_def)
  then show ?thesis
    by (simp add: filter)
      (simp add: unlabelled_leaving_def demo_leaving_def demo_cluster_def empty_meta_def deletion_is_zero_def
        HasAnnotation_def script_cond_get_def)
qed

section \<open>Runs that read only\<close>

text \<open>
  A CAPI cluster that is imported, or whose control plane is not available, is left
  alone once it has the finalizer or is being deleted: the reconciler reads it and asks
  for nothing else.  So the finalizer stays on a cluster that is deleted in such a state.
\<close>

lemma unready_cluster_left_alone:
  assumes "srv E (RGet Cached KCluster req) w = (RObj (OCluster c), v)"
    and "finalizer_laws E"
    and "HasClusterImportAnnotation (cc_meta c) \<or>
      \<not> cond_is_true E (cc_conditions c) ClusterControlPlaneAvailableCondition \<and>
      (\<not> deletion_is_zero (cc_meta c) \<or> CapiClusterFinalizer \<in> set (m_finalizers (cc_meta c)))"
  shows "exec (import_Reconcile E skip req) w =
    (Ret (if cond_is_true E (cc_conditions c) ClusterControlPlaneAvailableCondition
          then no_requeue else requeue defaultRequeueDuration, None),
     [(RGet Cached KCluster req, RObj (OCluster c))])"
proof -
  have "contains_finalizer E fs f = (f \<in> set fs)" for fs f
    using assms(2) by (simp add: finalizer_laws_def)
  then show ?thesis
    using assms(1,3) by (auto simp: run_simps import_Reconcile_def import_after_finalizer_def)
qed

section \<open>The last patch\<close>

text \<open>
  A successful write to the object of \<open>base\<close> that gave it another version.
\<close>

definition supersedes :: "event \<Rightarrow> kobj \<Rightarrow> bool" where
  "supersedes e base \<longleftrightarrow> (\<exists>r d. e = (r, RObj d) \<and> \<not> read_only r \<and> kobj_kind d = kobj_kind base \<and>
     key_of (kobj_meta d) = key_of (kobj_meta base) \<and>
     m_resource_version (kobj_meta d) \<noteq> m_resource_version (kobj_meta base))"

text \<open>
  Optimistic locking: the server refuses a locked patch that was computed from a version
  a write of the same run has superseded.
\<close>

definition locked :: "event list \<Rightarrow> bool" where
  "locked es \<longleftrightarrow> justified (\<lambda>us e. \<forall>t base n a. e = (RPatch t MergeFromLock base n, a) \<longrightarrow>
     (\<exists>d \<in> set us. supersedes d base) \<longrightarrow> (\<exists>err. a = RErr err)) es"

text \<open>What \<open>reconcile\<close> writes to the CAPI cluster is computed from the one it was given.\<close>

fun cluster_write :: "request \<Rightarrow> bool" where
  "cluster_write (RPatch t pk base n) = (kobj_kind n = KCluster)"
| "cluster_write (RUpdate t n) = (kobj_kind n = KCluster)"
| "cluster_write r = False"

fun based_on :: "capi_cluster \<Rightarrow> request \<Rightarrow> bool" where
  "based_on c (RPatch t pk base n) = (base = OCluster c)"
| "based_on c (RUpdate t n) =
     (kobj_kind n = KCluster \<and> key_of (kobj_meta n) = key_of (cc_meta c) \<and>
      m_resource_version (kobj_meta n) = m_resource_version (cc_meta c))"
| "based_on c r = False"

definition writes_from :: "capi_cluster \<Rightarrow> 'a outcome \<Rightarrow> event list \<Rightarrow> bool" where
  "writes_from c r es \<longleftrightarrow> (\<forall>e \<in> set es. cluster_write (fst e) \<longrightarrow> based_on c (fst e) \<and> panic_free r)"

lemma only_writes_from: "only (\<lambda>r. \<not> cluster_write r) es \<Longrightarrow> writes_from c r es"
  by (auto simp: writes_from_def only_def)

lemma emits_no_write:
  "emits (\<lambda>r. \<not> cluster_write r) (reconcile_import E skip c mrc)"
proof -
  have spared: "\<not> cluster_write r" if "spares_clusters r" for r
    using that by (cases r) (simp_all add: spares_clusters_def)
  show ?thesis
    unfolding reconcile_import_def reconcileNormal_def create_missing_cluster_def shouldAutoImportUncached_def Let_def
    by (intro typing_rules emits_ShouldAutoImport emits_mono [OF emits_import_agent spared]
        emits_mono [OF emits_migrate_fleet spared]) simp_all
qed

lemma runs_reconcile_writes: "runs (import_reconcile E skip c) (\<lambda>r es. writes_from c r es)"
proof -
  have import: "runs (reconcile_import E skip c mrc) (\<lambda>r es. writes_from c r es)" for mrc
    using emits_no_write [of E skip c mrc] unfolding emits_def runs_def
    by (blast intro: twp_mono only_writes_from)
  show ?thesis
    unfolding import_reconcile_def reconcile_rancher_deletion_def import_reconcileDelete_def
      release_rancher_cluster_def reconcile_capi_deletion_def deleteDependentRancherCluster_def
      release_capi_cluster_def Let_def
    by (rule runsI, auto intro!: trace_rules runs_use [OF import])
      (simp_all add: writes_from_def panic_free_def cluster_codec_def rancher_codec_def imported_and_released_def key_of_def)
qed

text \<open>A run of \<open>Reconcile\<close> after the finalizer is there: what \<open>reconcile\<close> does, then the locked patch.\<close>

definition ends_with_patch :: "(ctrl_result \<times> go_error option) outcome \<Rightarrow> event list \<Rightarrow> bool" where
  "ends_with_patch r es \<longleftrightarrow> (\<forall>e \<in> set es. \<not> cluster_write (fst e)) \<or>
     (\<exists>c xs n a. es = xs @ [(RPatch Cached MergeFromLock (OCluster c) (OCluster n), a)] \<and>
        (\<forall>e \<in> set xs. cluster_write (fst e) \<longrightarrow> based_on c (fst e)) \<and>
        ((\<exists>err. a = RErr err) \<longrightarrow> (\<exists>err. r = Ret (no_requeue, Some err))))"

lemma ends_last:
  assumes "writes_from c (Ret x) es" "\<And>err. a = RErr err \<Longrightarrow> \<exists>err. r = Ret (no_requeue, Some err)"
  shows "ends_with_patch r (es @ [(RPatch Cached MergeFromLock (OCluster c) (OCluster n), a)])"
  using assms unfolding ends_with_patch_def writes_from_def by blast

lemma ends_panicked: "writes_from c (Panic p :: 'a outcome) es \<Longrightarrow> ends_with_patch (Panic p) es"
  by (auto simp: ends_with_patch_def writes_from_def panic_free_def)

lemma ends_Nil [simp]: "ends_with_patch r []"
  by (simp add: ends_with_patch_def)

lemma runs_after_ends:
  assumes "aggregate_law E"
  shows "runs (import_after_finalizer E skip c) ends_with_patch"
proof -
  have err: "\<exists>err. aggregate E (errs @ [Some e]) = Some err" for errs e
    using assms by (cases "aggregate E (errs @ [Some e])") (auto simp: aggregate_law_def)
  have "runs (do {
      p \<leftarrow> patch_obj E cluster_codec MergeFromLock c capi;
      if errs @ (case p of Inl perr \<Rightarrow> [Some (EWrap ''failed to patch cluster'' perr)] | Inr x \<Rightarrow> []) \<noteq> []
      then ret (Ret (no_requeue, aggregate E (errs @ (case p of
        Inl perr \<Rightarrow> [Some (EWrap ''failed to patch cluster'' perr)] | Inr x \<Rightarrow> []))))
      else ret (Ret (result, None)) }) (\<lambda>r fs. ends_with_patch r (es @ fs))"
    if "writes_from c (Ret x) es" for capi errs result x es
  proof (rule runsI, rule twp_bind, rule twp_patch)
    fix t a
    show "twp (if errs @ (case reply_obj cluster_codec a of
           Inl perr \<Rightarrow> [Some (EWrap ''failed to patch cluster'' perr)] | Inr x \<Rightarrow> []) \<noteq> []
      then ret (Ret (no_requeue, aggregate E (errs @ (case reply_obj cluster_codec a of
        Inl perr \<Rightarrow> [Some (EWrap ''failed to patch cluster'' perr)] | Inr x \<Rightarrow> []))))
      else ret (Ret (result, None))) (\<lambda>r u. \<exists>fs. u = t @ fs \<and> ends_with_patch r (es @ fs))
     (t @ [(RPatch Cached MergeFromLock (encode cluster_codec c) (encode cluster_codec capi), a)])"
      using that err
      by (cases "reply_obj cluster_codec a")
        (auto intro!: trace_rules ends_last simp: cluster_codec_def reply_obj_def split: response.splits)
  qed
  then show ?thesis
    unfolding import_after_finalizer_def Let_def
    by (auto intro!: runs_obind runs_mono [OF runs_reconcile_writes] ends_panicked split: outcome.split)
qed

lemma runs_Reconcile_ends:
  assumes "finalizer_laws E" "retry_law E" "aggregate_law E"
  shows "runs (import_Reconcile E skip req)
    (\<lambda>r es. \<exists>us vs. es = us @ vs \<and> only finalizing us \<and> ends_with_patch r vs)"
proof -
  have start: "\<exists>us' vs'. (RGet Cached KCluster req, a) # us @ vs = us' @ vs' \<and> only finalizing us' \<and> ends_with_patch r vs'"
    if "only finalizing us" "ends_with_patch r vs" for a us vs r
    by (rule exI [of _ "(RGet Cached KCluster req, a) # us"]) (use that in auto)
  show ?thesis
    unfolding import_Reconcile_def
    by (rule runsI, intro trace_rules)
      (auto intro!: trace_rules runs_use [OF runs_after_ends [OF assms(3)]]
        runs_use [OF runs_add_import_finalizer [OF assms(2,1)]]
        intro: start start [of "[]", simplified] start [where vs = "[]", simplified])
qed

text \<open>A write that took the import finalizer off the CAPI cluster, and gave it a new version.\<close>

fun computed_from :: "request \<Rightarrow> kobj option" where
  "computed_from (RPatch t pk base n) = Some base"
| "computed_from (RUpdate t n) = Some n"
| "computed_from r = None"

fun lets_cluster_go :: "request \<Rightarrow> bool" where
  "lets_cluster_go (RPatch t pk base n) = (CapiClusterFinalizer \<notin> set (m_finalizers (kobj_meta n)))"
| "lets_cluster_go (RUpdate t n) = (CapiClusterFinalizer \<notin> set (m_finalizers (kobj_meta n)))"
| "lets_cluster_go r = False"

definition taken_off :: "event \<Rightarrow> bool" where
  "taken_off e \<longleftrightarrow> lets_cluster_go (fst e) \<and> cluster_write (fst e) \<and>
     (\<exists>x d. computed_from (fst e) = Some x \<and> snd e = RObj (OCluster d) \<and>
        key_of (cc_meta d) = key_of (kobj_meta x) \<and> m_resource_version (cc_meta d) \<noteq> m_resource_version (kobj_meta x))"

lemma taken_off_supersedes:
  assumes "taken_off e" "based_on c (fst e)"
  shows "supersedes e (OCluster c)"
  using assms by (cases e; cases "fst e") (auto simp: taken_off_def supersedes_def read_only_def)

lemma taken_off_not_finalizing: "taken_off e \<Longrightarrow> \<not> finalizing (fst e)"
  by (cases e; cases "fst e") (auto simp: taken_off_def elim!: finalizing.elims)

text \<open>
  C10.  The run that takes the import finalizer off a CAPI cluster fails: its last patch
  is locked to the version the cluster had before, which the server refuses.
\<close>

theorem releasing_run_fails:
  assumes "finalizer_laws E" "retry_law E" "aggregate_law E"
    and "trace_of (import_Reconcile E skip req) w = us @ e # vs" "vs \<noteq> []" "taken_off e"
    and "locked (trace_of (import_Reconcile E skip req) w)"
  shows "\<exists>err. result_of (import_Reconcile E skip req) w = Ret (no_requeue, Some err)"
proof -
  let ?r = "result_of (import_Reconcile E skip req) w"
  obtain ps qs where split: "us @ e # vs = ps @ qs" "only finalizing ps" "ends_with_patch ?r qs"
    using runs_exec [OF runs_Reconcile_ends [OF assms(1-3)], of skip req w] assms(4) by auto
  have early: "e \<notin> set ps" using split(2) taken_off_not_finalizing [OF assms(6)] by (auto simp: only_def)
  have e: "e \<in> set qs" "cluster_write (fst e)"
    using early assms(6) arg_cong [OF split(1), of set] by (auto simp: taken_off_def)
  then obtain c xs n a where last: "qs = xs @ [(RPatch Cached MergeFromLock (OCluster c) (OCluster n), a)]"
    and based: "\<forall>e \<in> set xs. cluster_write (fst e) \<longrightarrow> based_on c (fst e)"
    and result: "(\<exists>err. a = RErr err) \<longrightarrow> (\<exists>err. ?r = Ret (no_requeue, Some err))"
    using split(3) unfolding ends_with_patch_def by blast
  have "e \<in> set (butlast (us @ e # vs))" using assms(5) by (simp add: butlast_append)
  then have "e \<in> set xs" unfolding split(1) last using early by (simp add: butlast_append)
  then have "supersedes e (OCluster c)" "e \<in> set xs"
    using based e(2) taken_off_supersedes [OF assms(6)] by auto
  then have "\<exists>err. a = RErr err"
    using assms(7) unfolding assms(4) split(1) last locked_def by auto
  then show ?thesis using result by blast
qed

text \<open>The deletion of a CAPI cluster: the update succeeds, the patch finds another version.\<close>

definition versioned_leaving :: capi_cluster where
  "versioned_leaving = cc_meta_update (m_resource_version_update (\<lambda>_. ''1'')) demo_leaving"

definition released_leaving :: capi_cluster where
  "released_leaving = cc_meta_update (\<lambda>m. m\<lparr>m_finalizers := [], m_resource_version := ''2''\<rparr>) versioned_leaving"

definition leaving_answers :: "response list" where
  "leaving_answers = [RObj (OCluster versioned_leaving), RObjs [], ROk, RObj (OCluster released_leaving),
     RErr (EApi ''Conflict'')]"

lemma versioned_facts [simp]:
  "\<not> deletion_is_zero (cc_meta versioned_leaving)" "\<not> HasClusterImportAnnotation (cc_meta versioned_leaving)"
  "cc_conditions versioned_leaving = cc_conditions demo_cluster"
  "m_finalizers (cc_meta versioned_leaving) = [CapiClusterFinalizer]"
  "m_resource_version (cc_meta versioned_leaving) = ''1''"
  "m_finalizers (cc_meta released_leaving) = []" "m_resource_version (cc_meta released_leaving) = ''2''"
  "key_of (cc_meta released_leaving) = key_of (cc_meta versioned_leaving)"
  by (simp_all add: versioned_leaving_def released_leaving_def deletion_is_zero_def key_of_def
      HasClusterImportAnnotation_def HasAnnotation_def demo_leaving_def demo_cluster_def empty_meta_def)

definition release_event :: event where
  "release_event = (RUpdate Cached (OCluster (cc_meta_update (m_finalizers_update (\<lambda>_. [])) versioned_leaving)),
     RObj (OCluster released_leaving))"

lemma leaving_run:
  "trace_of (import_Reconcile script_env False demo_key) leaving_answers =
   [(RGet Cached KCluster demo_key, RObj (OCluster versioned_leaving)),
    (RList Cached KRancher [MatchingLabels (owner_labels versioned_leaving)], RObjs []),
    (RDeleteAllOf Cached KRancher [MatchingLabels (owner_labels versioned_leaving)], ROk)] @
   release_event #
   [(RPatch Cached MergeFromLock (OCluster versioned_leaving) (OCluster released_leaving), RErr (EApi ''Conflict''))]"
  by (simp add: run_simps import_Reconcile_def import_after_finalizer_def import_reconcile_def leaving_answers_def
      reconcile_capi_deletion_def deleteDependentRancherCluster_def release_capi_cluster_def release_event_def)

theorem releasing_run_fails_witness:
  "taken_off release_event \<and> release_event \<in> set (trace_of (import_Reconcile script_env False demo_key) leaving_answers) \<and>
   (\<exists>err. result_of (import_Reconcile script_env False demo_key) leaving_answers = Ret (no_requeue, Some err))"
proof -
  have "taken_off release_event"
    by (simp add: release_event_def taken_off_def)
  moreover have "locked (trace_of (import_Reconcile script_env False demo_key) leaving_answers)"
    unfolding leaving_run by (simp add: locked_def release_event_def)
  ultimately show ?thesis
    using releasing_run_fails [OF script_finalizer_laws script_retry_law script_aggregate_law leaving_run]
    by (simp add: leaving_run)
qed

end
