(* ===== verification/Rely_Guarantee.thy ===== *)
theory Rely_Guarantee
  imports Client
begin

text \<open>
  A program logic for handlers that run against a shared server while others act on it.
  The server is a step relation on its states; \<open>rely\<close> is what the others may do between
  two requests, \<open>guar\<close> what a request of the handler may do.  \<open>sat\<close> is the triple of the
  logic, with a rule for each construct the handlers are written with.
\<close>

section \<open>Runs against a server\<close>

inductive play ::
  "('s \<Rightarrow> event \<Rightarrow> 's \<Rightarrow> bool) \<Rightarrow> ('s \<Rightarrow> 's \<Rightarrow> bool) \<Rightarrow> 's \<Rightarrow> event list \<Rightarrow> 's \<Rightarrow> bool"
  for step rely S where
  idle: "play step rely S [] S"
| answer: "play step rely S es T \<Longrightarrow> step T e U \<Longrightarrow> play step rely S (es @ [e]) U"
| interfere: "play step rely S es T \<Longrightarrow> rely T U \<Longrightarrow> play step rely S es U"

lemma play_trans: "play step rely T fs U \<Longrightarrow> play step rely S es T \<Longrightarrow> play step rely S (es @ fs) U"
  by (induction rule: play.induct)
    (auto intro: play.interfere dest: play.answer simp flip: append_assoc)

lemma play_split: "play step rely S xs U \<Longrightarrow> xs = es @ fs \<Longrightarrow> \<exists>T. play step rely S es T \<and> play step rely T fs U"
proof (induction arbitrary: fs rule: play.induct)
  case idle
  then show ?case by (auto intro: play.idle)
next
  case (answer xs T e U)
  show ?case
  proof (cases fs rule: rev_cases)
    case Nil
    then have "play step rely S es U"
      using play.answer [OF answer.hyps] answer.prems by simp
    then show ?thesis using Nil by (auto intro: play.idle)
  next
    case (snoc gs f)
    then show ?thesis
      using answer.IH [of gs] answer.prems answer.hyps(2) by (auto intro: play.answer)
  qed
next
  case (interfere xs T U)
  then show ?case using interfere.IH [of fs] by (auto intro: play.interfere)
qed

lemma play_append: "play step rely S (es @ fs) U \<longleftrightarrow> (\<exists>T. play step rely S es T \<and> play step rely T fs U)"
  using play_split [of step rely S "es @ fs" U es fs] by (auto intro: play_trans)

lemma play_Nil: "play step rely S es T \<Longrightarrow> es = [] \<Longrightarrow> rely\<^sup>*\<^sup>* S T"
  by (induction rule: play.induct) auto

lemma play_single: "play step rely S es T \<Longrightarrow> es = [e] \<Longrightarrow>
  \<exists>U V. rely\<^sup>*\<^sup>* S U \<and> step U e V \<and> rely\<^sup>*\<^sup>* V T"
proof (induction rule: play.induct)
  case (answer es T f U)
  then have "rely\<^sup>*\<^sup>* S T" "f = e" by (auto dest: play_Nil)
  with answer.hyps(2) show ?case by blast
next
  case (interfere es T U)
  then show ?case by (meson rtranclp.rtrancl_into_rtrancl)
qed simp

definition steadfast :: "('s \<Rightarrow> 's \<Rightarrow> bool) \<Rightarrow> ('s \<Rightarrow> bool) \<Rightarrow> bool" where
  "steadfast rely P \<longleftrightarrow> (\<forall>S T. P S \<longrightarrow> rely S T \<longrightarrow> P T)"

lemma stableI: "(\<And>S T. P S \<Longrightarrow> rely S T \<Longrightarrow> P T) \<Longrightarrow> steadfast rely P"
  by (auto simp: steadfast_def)

lemma stable_steps: "rely\<^sup>*\<^sup>* S T \<Longrightarrow> steadfast rely P \<Longrightarrow> P S \<Longrightarrow> P T"
  by (induction rule: rtranclp_induct) (auto simp: steadfast_def)

named_theorems stable_rules \<open>introduction rules for stability\<close>

lemma stable_const [stable_rules]: "steadfast rely (\<lambda>_. b)"
  by (simp add: steadfast_def)

lemma stable_conj [stable_rules]: "steadfast rely P \<Longrightarrow> steadfast rely Q \<Longrightarrow> steadfast rely (\<lambda>S. P S \<and> Q S)"
  by (auto simp: steadfast_def)

lemma stable_disj [stable_rules]: "steadfast rely P \<Longrightarrow> steadfast rely Q \<Longrightarrow> steadfast rely (\<lambda>S. P S \<or> Q S)"
  by (auto simp: steadfast_def)

lemma stable_imp [stable_rules]: "(b \<Longrightarrow> steadfast rely Q) \<Longrightarrow> steadfast rely (\<lambda>S. b \<longrightarrow> Q S)"
  by (auto simp: steadfast_def)

lemma stable_all [stable_rules]: "(\<And>x. steadfast rely (Q x)) \<Longrightarrow> steadfast rely (\<lambda>S. \<forall>x. Q x S)"
  by (auto simp: steadfast_def)

lemma stable_case_sum [stable_rules]:
  "(\<And>a. steadfast rely (P a)) \<Longrightarrow> (\<And>b. steadfast rely (Q b)) \<Longrightarrow>
   steadfast rely (\<lambda>S. case x of Inl a \<Rightarrow> P a S | Inr b \<Rightarrow> Q b S)"
  by (cases x) auto

lemma stable_case_list [stable_rules]:
  "steadfast rely P \<Longrightarrow> (\<And>y ys. steadfast rely (Q y ys)) \<Longrightarrow>
   steadfast rely (\<lambda>S. case xs of [] \<Rightarrow> P S | y # ys \<Rightarrow> Q y ys S)"
  by (cases xs) auto

lemma stable_case_outcome [stable_rules]:
  "(\<And>a. steadfast rely (P a)) \<Longrightarrow> (\<And>p. steadfast rely (Q p)) \<Longrightarrow>
   steadfast rely (\<lambda>S. case x of Ret a \<Rightarrow> P a S | Panic p \<Rightarrow> Q p S)"
  by (cases x) auto

lemma stable_case_prod [stable_rules]:
  "(\<And>a b. steadfast rely (P a b)) \<Longrightarrow> steadfast rely (\<lambda>S. case x of (a, b) \<Rightarrow> P a b S)"
  by (cases x) auto

section \<open>The triple\<close>

text \<open>
  From a state with the invariant and \<open>P\<close>, every request the handler gets answered is a
  guaranteed step, and when it has returned \<open>a\<close>, \<open>Q a\<close> holds, however others acted.
\<close>

definition sat ::
  "('s \<Rightarrow> event \<Rightarrow> 's \<Rightarrow> bool) \<Rightarrow> ('s \<Rightarrow> 's \<Rightarrow> bool) \<Rightarrow> ('s \<Rightarrow> 's \<Rightarrow> bool) \<Rightarrow> ('s \<Rightarrow> bool)
     \<Rightarrow> ('s \<Rightarrow> bool) \<Rightarrow> ('w st, 'a) state \<Rightarrow> ('a \<Rightarrow> 's \<Rightarrow> bool) \<Rightarrow> bool" where
  "sat step rely guar good P m Q \<longleftrightarrow>
     runs m (\<lambda>a es. \<forall>S. good S \<longrightarrow> P S \<longrightarrow>
       (\<forall>us e vs T U. es = us @ e # vs \<longrightarrow> play step rely S us T \<longrightarrow> step T e U \<longrightarrow> guar T U) \<and>
       (\<forall>T. play step rely S es T \<longrightarrow> Q a T))"

named_theorems sat_rules \<open>introduction rules of the triple\<close>

text \<open>The contract of a component with the others: both sides keep the invariant.\<close>

locale rely_guarantee =
  fixes step :: "'s \<Rightarrow> event \<Rightarrow> 's \<Rightarrow> bool" and rely guar :: "'s \<Rightarrow> 's \<Rightarrow> bool" and good :: "'s \<Rightarrow> bool"
  assumes good_rely: "good S \<Longrightarrow> rely S T \<Longrightarrow> good T"
    and good_guar: "good S \<Longrightarrow> guar S T \<Longrightarrow> good T"
begin

lemma good_others: "rely\<^sup>*\<^sup>* S T \<Longrightarrow> good S \<Longrightarrow> good T"
  by (induction rule: rtranclp_induct) (auto intro: good_rely)

lemma play_good:
  assumes "play step rely S es T" and "good S"
    and "\<And>us e vs V W. es = us @ e # vs \<Longrightarrow> play step rely S us V \<Longrightarrow> step V e W \<Longrightarrow> guar V W"
  shows "good T"
  using assms
proof (induction rule: play.induct)
  case (answer es T e U)
  have "good T" by (rule answer.IH) (use answer.prems in \<open>auto\<close>)
  moreover have "guar T U" using answer.prems(2) [of es e "[]"] answer.hyps by simp
  ultimately show ?case by (rule good_guar)
qed (auto intro: good_rely)

lemma sat_ret [sat_rules]:
  assumes "steadfast rely P" and "\<And>S. good S \<Longrightarrow> P S \<Longrightarrow> Q a S"
  shows "sat step rely guar good P (ret a) Q"
  using assms by (auto simp: sat_def dest!: play_Nil intro: stable_steps good_others)

lemma sat_call:
  assumes "steadfast rely P" and "\<And>a. steadfast rely (Q a)"
    and "\<And>S a T. good S \<Longrightarrow> P S \<Longrightarrow> step S (r, a) T \<Longrightarrow> guar S T \<and> Q a T"
  shows "sat step rely guar good P (call E r) Q"
  unfolding sat_def
proof (rule runsI, rule twp_call)
  fix t a
  have "guar T U" if "good S" "P S" "[(r, a)] = us @ e # vs" "play step rely S us T" "step T e U"
    for S us e vs T U
  proof -
    have "us = []" "e = (r, a)" using that(3) by (auto simp: Cons_eq_append_conv)
    then have "rely\<^sup>*\<^sup>* S T" using that(4) by (auto dest: play_Nil)
    then have "good T" "P T" using that(1,2) assms(1) by (auto intro: good_others stable_steps)
    then show ?thesis using assms(3) that(5) \<open>e = (r, a)\<close> by blast
  qed
  moreover have "Q a T" if S: "good S" "P S" and run: "play step rely S [(r, a)] T" for S T
  proof -
    obtain U V where uv: "rely\<^sup>*\<^sup>* S U" "step U (r, a) V" "rely\<^sup>*\<^sup>* V T"
      using play_single [OF run refl] by blast
    then have "good U" "P U" using S assms(1) by (auto intro: good_others stable_steps)
    then show ?thesis using assms(2,3) uv by (meson stable_steps)
  qed
  ultimately show "\<exists>es. t @ [(r, a)] = t @ es \<and>
      (\<forall>S. good S \<longrightarrow> P S \<longrightarrow>
        (\<forall>us e vs T U. es = us @ e # vs \<longrightarrow> play step rely S us T \<longrightarrow> step T e U \<longrightarrow> guar T U) \<and>
        (\<forall>T. play step rely S es T \<longrightarrow> Q a T))" by auto
qed

lemma sat_bind [sat_rules]:
  assumes "sat step rely guar good P m Q" and "\<And>a. sat step rely guar good (Q a) (f a) R"
  shows "sat step rely guar good P (State_Monad.bind m f) R"
  unfolding sat_def
proof (rule runs_bind, rule runs_mono [OF assms(1) [unfolded sat_def]])
  fix a es
  assume first: "\<forall>S. good S \<longrightarrow> P S \<longrightarrow>
    (\<forall>us e vs T U. es = us @ e # vs \<longrightarrow> play step rely S us T \<longrightarrow> step T e U \<longrightarrow> guar T U) \<and>
    (\<forall>T. play step rely S es T \<longrightarrow> Q a T)"
  show "runs (f a) (\<lambda>b fs. \<forall>S. good S \<longrightarrow> P S \<longrightarrow>
    (\<forall>us e vs T U. es @ fs = us @ e # vs \<longrightarrow> play step rely S us T \<longrightarrow> step T e U \<longrightarrow> guar T U) \<and>
    (\<forall>T. play step rely S (es @ fs) T \<longrightarrow> R b T))"
  proof (rule runs_mono [OF assms(2) [of a, unfolded sat_def]], intro allI impI conjI)
    fix b fs S
    assume second: "\<forall>S. good S \<longrightarrow> Q a S \<longrightarrow>
      (\<forall>us e vs T U. fs = us @ e # vs \<longrightarrow> play step rely S us T \<longrightarrow> step T e U \<longrightarrow> guar T U) \<and>
      (\<forall>T. play step rely S fs T \<longrightarrow> R b T)" and S: "good S" "P S"
    have mid: "good M \<and> Q a M" if run: "play step rely S es M" for M
    proof
      show "good M"
        by (rule play_good [OF run S(1)]) (use first S in blast)
      show "Q a M" using first S run by blast
    qed
    show "guar T U" if eq: "es @ fs = us @ e # vs" and run: "play step rely S us T" and e: "step T e U"
      for us e vs T U
      using eq unfolding append_eq_append_conv2
    proof (elim exE disjE conjE)
      fix ws assume ws: "es = us @ ws" "ws @ fs = e # vs"
      show ?thesis
      proof (cases ws)
        case Nil
        have "good T \<and> Q a T" using mid [of T] run ws(1) Nil by simp
        then show ?thesis using second e ws(2) Nil by (metis append_Nil play.idle)
      next
        case (Cons w ws')
        then have "es = us @ e # ws'" using ws by simp
        then show ?thesis using first S run e by blast
      qed
    next
      fix ws assume ws: "es @ ws = us" "fs = ws @ e # vs"
      obtain M where "play step rely S es M" "play step rely M ws T"
        using run unfolding ws(1) [symmetric] play_append by blast
      then show ?thesis using mid second e ws(2) by blast
    qed
    show "R b T" if "play step rely S (es @ fs) T" for T
    proof -
      obtain M where "play step rely S es M" "play step rely M fs T"
        using \<open>play step rely S (es @ fs) T\<close> unfolding play_append by blast
      then show ?thesis using mid second by blast
    qed
  qed
qed

lemma sat_reply:
  assumes "steadfast rely P" and "\<And>a. steadfast rely (Q (f a))"
    and "\<And>S a T. good S \<Longrightarrow> P S \<Longrightarrow> step S (r, a) T \<Longrightarrow> guar S T \<and> Q (f a) T"
  shows "sat step rely guar good P (do { a \<leftarrow> call E r; ret (f a) }) Q"
  by (rule sat_bind, rule sat_call [where Q = "\<lambda>a. Q (f a)"]) (use assms in \<open>auto intro!: sat_ret\<close>)

lemma sat_weaken:
  assumes "sat step rely guar good P m Q" and "\<And>S. good S \<Longrightarrow> P' S \<Longrightarrow> P S" and "\<And>a S. Q a S \<Longrightarrow> Q' a S"
  shows "sat step rely guar good P' m Q'"
  using assms(1) unfolding sat_def by (rule runs_mono) (use assms(2,3) in blast)

lemma sat_pre: "sat step rely guar good P m Q \<Longrightarrow> (\<And>S. good S \<Longrightarrow> P' S \<Longrightarrow> P S) \<Longrightarrow> sat step rely guar good P' m Q"
  by (rule sat_weaken)

lemma sat_post: "sat step rely guar good P m Q \<Longrightarrow> (\<And>a S. Q a S \<Longrightarrow> Q' a S) \<Longrightarrow> sat step rely guar good P m Q'"
  by (rule sat_weaken)

lemma sat_pure:
  "sat step rely guar good P m Q \<Longrightarrow> sat step rely guar good (\<lambda>S. b \<and> P S) m (\<lambda>a S. b \<and> Q a S)"
  unfolding sat_def by (erule runs_mono) blast

lemma sat_assume:
  assumes "b \<Longrightarrow> sat step rely guar good P m Q" and "emits R m"
  shows "sat step rely guar good (\<lambda>S. b \<and> P S) m Q"
proof (cases b)
  case False
  have "runs m (\<lambda>_. only R)" using assms(2) by (simp add: emits_def runs_def)
  then show ?thesis unfolding sat_def by (rule runs_mono) (simp add: False)
qed (use assms(1) in simp)

lemma sat_absurd:
  assumes "emits R m" and "\<And>S. \<not> P S"
  shows "sat step rely guar good P m Q"
proof -
  have "sat step rely guar good (\<lambda>S. False \<and> P S) m Q"
    by (rule sat_assume [OF _ assms(1)]) simp
  then show ?thesis by (rule sat_pre) (simp add: assms(2))
qed

lemma sat_runs:
  "sat step rely guar good P m Q \<Longrightarrow> runs m (\<lambda>a es. R a) \<Longrightarrow> sat step rely guar good P m (\<lambda>a S. R a \<and> Q a S)"
  unfolding sat_def by (drule (1) runs_conj, erule runs_mono) blast

lemma sat_if [sat_rules]:
  "(b \<Longrightarrow> sat step rely guar good P m Q) \<Longrightarrow> (\<not> b \<Longrightarrow> sat step rely guar good P n Q) \<Longrightarrow>
   sat step rely guar good P (if b then m else n) Q"
  by simp

lemma sat_case_sum [sat_rules]:
  "(\<And>e. x = Inl e \<Longrightarrow> sat step rely guar good P (f e) Q) \<Longrightarrow>
   (\<And>a. x = Inr a \<Longrightarrow> sat step rely guar good P (g a) Q) \<Longrightarrow>
   sat step rely guar good P (case x of Inl e \<Rightarrow> f e | Inr a \<Rightarrow> g a) Q"
  by (cases x) auto

lemma sat_case_option [sat_rules]:
  "(x = None \<Longrightarrow> sat step rely guar good P m Q) \<Longrightarrow>
   (\<And>a. x = Some a \<Longrightarrow> sat step rely guar good P (g a) Q) \<Longrightarrow>
   sat step rely guar good P (case x of None \<Rightarrow> m | Some a \<Rightarrow> g a) Q"
  by (cases x) auto

lemma sat_case_prod [sat_rules]:
  "(\<And>a b. x = (a, b) \<Longrightarrow> sat step rely guar good P (f a b) Q) \<Longrightarrow>
   sat step rely guar good P (case x of (a, b) \<Rightarrow> f a b) Q"
  by (cases x) auto

lemma sat_Let [sat_rules]: "sat step rely guar good P (f v) Q \<Longrightarrow> sat step rely guar good P (let x = v in f x) Q"
  by (simp add: Let_def)

lemma sat_lift [sat_rules]: "sat step rely guar good P m (\<lambda>a. Q (Ret a)) \<Longrightarrow> sat step rely guar good P (lift m) Q"
  unfolding lift_def sat_def by (rule runs_bind) (simp add: runs_mono)

lemma sat_obind [sat_rules]:
  assumes "sat step rely guar good P m Q" and "\<And>a. sat step rely guar good (Q (Ret a)) (f a) R"
    and "\<And>p. steadfast rely (Q (Panic p))" and "\<And>p S. Q (Panic p) S \<Longrightarrow> R (Panic p) S"
  shows "sat step rely guar good P (obind m f) R"
  unfolding obind_def
proof (rule sat_bind [OF assms(1)])
  show "sat step rely guar good (Q a) (case a of Ret b \<Rightarrow> f b | Panic p \<Rightarrow> ret (Panic p)) R" for a
    by (cases a) (auto intro!: assms(2) sat_ret assms(3) dest: assms(4))
qed

text \<open>A handler all of whose requests are of a kind that keeps the precondition.\<close>

lemma sat_frame:
  assumes "emits R m" and "steadfast rely P"
    and "\<And>r S a T. R r \<Longrightarrow> good S \<Longrightarrow> P S \<Longrightarrow> step S (r, a) T \<Longrightarrow> guar S T \<and> P T"
  shows "sat step rely guar good P m (\<lambda>_. P)"
proof -
  have kept: "good T \<and> P T" if "play step rely S es T" "only R es" "good S" "P S" for es S T
    using that
  proof (induction rule: play.induct)
    case (answer es T e U)
    then have "good T" "P T" "R (fst e)" by auto
    with assms(3) [of "fst e" T "snd e" U] answer.hyps(2) show ?case by (auto intro: good_guar)
  qed (use assms(2) in \<open>auto simp: steadfast_def intro: good_rely\<close>)
  have "runs m (\<lambda>_. only R)"
    using assms(1) by (simp add: emits_def runs_def)
  then show ?thesis
    unfolding sat_def
    by (rule runs_mono) (use kept assms(3) in \<open>auto dest!: kept; metis prod.collapse\<close>)
qed

end

text \<open>A quieter world: a server that does less, and others that do less.\<close>

lemma play_mono:
  assumes "play step rely S es T" "\<And>S e T. step S e T \<Longrightarrow> step' S e T" "\<And>S T. rely S T \<Longrightarrow> rely' S T"
  shows "play step' rely' S es T"
  using assms(1) by induction (auto intro: play.intros assms(2,3))

end
