(* ===== verification/Store.thy ===== *)
theory Store
  imports Env_Laws
begin

text \<open>
  The content of an API server, for the theories that put controllers, the server and
  everybody else together: a map from kinds and keys to objects.
\<close>

type_synonym object_id = "kind \<times> key"
type_synonym store = "object_id \<Rightarrow> kobj option"

definition ref :: "kobj \<Rightarrow> object_id" where
  "ref ob = (kobj_kind ob, key_of (kobj_meta ob))"

lemma ref_simps [simp]: "fst (ref ob) = kobj_kind ob" "snd (ref ob) = key_of (kobj_meta ob)"
  by (simp_all add: ref_def)

text \<open>Which object a kind and an id tell.\<close>

lemma rancher_kind: "kobj_kind ob = KRancher \<longleftrightarrow> (\<exists>r. ob = ORancher r)"
  by (cases ob) auto

lemma cluster_kind: "kobj_kind ob = KCluster \<longleftrightarrow> (\<exists>c. ob = OCluster c)"
  by (cases ob) auto

end
