(* ===== verification/Import_System.thy ===== *)
theory Import_System
  imports Import_Safety Lifecycle Rely_Guarantee Store
begin

text \<open>
  The import controller, the clean-up controller, the API server and everybody else as
  one system.  The state is the content of the management cluster; any request may fail,
  a write may be done and its answer lost, and others act between two requests.  The
  proofs about the handlers are done in the logic of Rely_Guarantee: what a worker on one
  CAPI cluster relies on is what the workers on all others, the clean-up controller and
  the users guarantee.
\<close>

declare split_paired_All [simp del] split_paired_Ex [simp del]

section \<open>The management cluster\<close>

text \<open>The objects, and the ids the server has ever given to one.\<close>

record cluster_state =
  objects :: store
  uids :: "string set"

definition carries :: "(string \<times> string) list \<Rightarrow> kobj \<Rightarrow> bool" where
  "carries ls ob \<longleftrightarrow> (\<forall>(k, v) \<in> set ls. mget (m_labels (kobj_meta ob)) k = Some v)"

text \<open>The labels by which a Rancher cluster names its CAPI cluster, see \<open>owner_labels\<close>.\<close>

definition key_labels :: "key \<Rightarrow> (string \<times> string) list" where
  "key_labels req =
     [(capiClusterOwner, k_name req), (capiClusterOwnerNamespace, k_namespace req), (ownedLabelName, [])]"

lemma owner_labels_key: "owner_labels c = key_labels (key_of (cc_meta c))"
  by (simp add: owner_labels_def key_labels_def key_of_def)

definition chosen :: "kind \<Rightarrow> (string \<times> string) list \<Rightarrow> cluster_state \<Rightarrow> object_id set" where
  "chosen k ls S = {x. fst x = k \<and> (\<exists>ob. objects S x = Some ob \<and> carries ls ob)}"

definition owned :: "key \<Rightarrow> cluster_state \<Rightarrow> object_id set" where
  "owned req S = chosen KRancher (key_labels req) S"

text \<open>Those of them that are not being deleted.\<close>

definition live :: "key \<Rightarrow> cluster_state \<Rightarrow> object_id set" where
  "live req S = {x \<in> owned req S. \<exists>ob. objects S x = Some ob \<and> m_deletion (kobj_meta ob) = None}"

text \<open>The CAPI cluster is there and carries the import finalizer.\<close>

definition guarded_by :: "key \<Rightarrow> cluster_state \<Rightarrow> bool" where
  "guarded_by req S \<longleftrightarrow>
     (\<exists>c. objects S (KCluster, req) = Some (OCluster c) \<and> CapiClusterFinalizer \<in> set (m_finalizers (cc_meta c)))"

definition well_formed :: "cluster_state \<Rightarrow> bool" where
  "well_formed S \<longleftrightarrow> [] \<notin> uids S \<and>
     (\<forall>x ob. objects S x = Some ob \<longrightarrow> ref ob = x \<and> m_uid (kobj_meta ob) \<in> uids S)"

text \<open>
  What holds of the server's objects whoever acts: an object keeps its id, its deletion is
  not taken back, and a new object has a new id.
\<close>

definition steady :: "cluster_state \<Rightarrow> cluster_state \<Rightarrow> bool" where
  "steady S T \<longleftrightarrow> uids S \<subseteq> uids T \<and>
     (\<forall>x n. objects T x = Some n \<longrightarrow>
        (\<exists>ob. objects S x = Some ob \<and> m_uid (kobj_meta ob) = m_uid (kobj_meta n) \<and>
            (m_deletion (kobj_meta ob) \<noteq> None \<longrightarrow> m_deletion (kobj_meta n) \<noteq> None)) \<or>
        m_uid (kobj_meta n) \<notin> uids S)"

text \<open>
  What a worker on the CAPI cluster \<open>req\<close> relies on: no one else takes the import
  finalizer off the cluster, and no one else makes a Rancher cluster for it.
\<close>

definition spares :: "key \<Rightarrow> cluster_state \<Rightarrow> cluster_state \<Rightarrow> bool" where
  "spares req S T \<longleftrightarrow> steady S T \<and> (well_formed S \<longrightarrow> well_formed T) \<and>
     (guarded_by req S \<longrightarrow> guarded_by req T) \<and> owned req T \<subseteq> owned req S \<and> live req T \<subseteq> live req S"

section \<open>The invariant and the machine of an import\<close>

definition import_inv :: "key \<Rightarrow> cluster_state \<Rightarrow> bool" where
  "import_inv req S \<longleftrightarrow> well_formed S \<and>
     (\<forall>x \<in> owned req S. \<forall>y \<in> owned req S. x = y) \<and> (live req S \<noteq> {} \<longrightarrow> guarded_by req S)"

datatype import_stage = Unguarded | Guarded | Imported | Stray

inductive advances :: "import_stage \<Rightarrow> import_stage \<Rightarrow> bool" where
  guard: "advances Unguarded Guarded"
| create: "advances Guarded Imported"
| doom: "advances Imported Guarded"
| let_go: "advances Guarded Unguarded"

inductive_simps advances_from [simp]:
  "advances Unguarded s" "advances Guarded s" "advances Imported s" "advances Stray s"

definition keeps_or_advances :: "import_stage \<Rightarrow> import_stage \<Rightarrow> bool" where
  [simp]: "keeps_or_advances s t \<longleftrightarrow> s = t \<or> advances s t"

definition import_stage :: "key \<Rightarrow> cluster_state \<Rightarrow> import_stage" where
  "import_stage req S =
     (if live req S \<noteq> {} then if guarded_by req S then Imported else Stray
      else if guarded_by req S then Guarded else Unguarded)"

lemma import_stage_Stray: "import_inv req S \<Longrightarrow> import_stage req S \<noteq> Stray"
  by (auto simp: import_inv_def import_stage_def)

text \<open>What every request of the worker on \<open>req\<close> guarantees.\<close>

definition import_step :: "key \<Rightarrow> cluster_state \<Rightarrow> cluster_state \<Rightarrow> bool" where
  "import_step req S T \<longleftrightarrow>
     (import_inv req S \<longrightarrow> import_inv req T \<and> keeps_or_advances (import_stage req S) (import_stage req T)) \<and>
     (\<forall>other. other \<noteq> req \<longrightarrow> spares other S T)"

section \<open>The server\<close>

text \<open>An object whose last finalizer is gone vanishes if it is being deleted.\<close>

definition settled :: "kobj \<Rightarrow> kobj option" where
  "settled ob = (if m_deletion (kobj_meta ob) \<noteq> None \<and> m_finalizers (kobj_meta ob) = [] then None else Some ob)"

definition put :: "kobj \<Rightarrow> cluster_state \<Rightarrow> cluster_state" where
  "put ob S = S\<lparr>objects := (objects S)(ref ob := settled ob)\<rparr>"

definition same_object :: "kobj \<Rightarrow> kobj \<Rightarrow> bool" where
  "same_object new old \<longleftrightarrow> ref new = ref old \<and> m_uid (kobj_meta new) = m_uid (kobj_meta old) \<and>
     m_deletion (kobj_meta new) = m_deletion (kobj_meta old)"

definition as_sent :: "kobj \<Rightarrow> kobj \<Rightarrow> bool" where
  "as_sent new ob \<longleftrightarrow> kobj_kind new = kobj_kind ob \<and>
     m_labels (kobj_meta new) = m_labels (kobj_meta ob) \<and>
     m_annotations (kobj_meta new) = m_annotations (kobj_meta ob) \<and>
     m_finalizers (kobj_meta new) = m_finalizers (kobj_meta ob)"

text \<open>
  A merge patch sends what differs between the two objects it was computed from: labels
  one by one, the finalizers as a whole.
\<close>

definition merge_patched :: "kobj \<Rightarrow> kobj \<Rightarrow> kobj \<Rightarrow> kobj \<Rightarrow> bool" where
  "merge_patched base n old new \<longleftrightarrow> same_object new old \<and>
     (\<forall>k. mget (m_labels (kobj_meta new)) k =
        (if mget (m_labels (kobj_meta n)) k = mget (m_labels (kobj_meta base)) k
         then mget (m_labels (kobj_meta old)) k else mget (m_labels (kobj_meta n)) k)) \<and>
     m_finalizers (kobj_meta new) =
       (if m_finalizers (kobj_meta n) = m_finalizers (kobj_meta base)
        then m_finalizers (kobj_meta old) else m_finalizers (kobj_meta n))"

text \<open>Of a deletion of many, each object is marked or goes at once.\<close>

definition doomed :: "kobj option \<Rightarrow> kobj option \<Rightarrow> bool" where
  "doomed new old \<longleftrightarrow>
     (case new of
        None \<Rightarrow> True
      | Some n \<Rightarrow> (\<exists>ob. old = Some ob \<and> ref n = ref ob \<and> m_uid (kobj_meta n) = m_uid (kobj_meta ob) \<and>
          m_labels (kobj_meta n) = m_labels (kobj_meta ob) \<and> m_deletion (kobj_meta n) \<noteq> None))"

text \<open>Requests that are not for the management cluster.\<close>

fun elsewhere :: "request \<Rightarrow> bool" where
  "elsewhere (RGet t k q) = (t = Remote)"
| "elsewhere (RList t k sel) = (t = Remote)"
| "elsewhere (RCreate t ob) = (t = Remote)"
| "elsewhere (RUpdate t ob) = (t = Remote)"
| "elsewhere (RPatch t pk base ob) = (t = Remote)"
| "elsewhere (RApply t ob owner) = (t = Remote)"
| "elsewhere (RDelete t ob) = (t = Remote)"
| "elsewhere (RDeleteAllOf t k sel) = (t = Remote)"
| "elsewhere _ = True"

definition answered_by :: "response \<Rightarrow> kobj \<Rightarrow> bool" where
  "answered_by a ob \<longleftrightarrow> a = RObj ob \<or> (\<exists>err. a = RErr err)"

text \<open>
  \<open>api E S e T\<close>: the management cluster may answer the event \<open>e\<close> and go from \<open>S\<close> to \<open>T\<close>.
  An update is for the object with the id it was read with; of a write whose answer is
  lost the client sees an error.
\<close>

inductive api :: "'w env \<Rightarrow> cluster_state \<Rightarrow> event \<Rightarrow> cluster_state \<Rightarrow> bool" for E where
  found: "t \<noteq> Remote \<Longrightarrow> objects S (k, q) = Some ob \<Longrightarrow> api E S (RGet t k q, RObj ob) S"
| absent: "t \<noteq> Remote \<Longrightarrow> objects S (k, q) = None \<Longrightarrow> is_not_found E err \<Longrightarrow> api E S (RGet t k q, RErr err) S"
| unread: "t \<noteq> Remote \<Longrightarrow> \<not> is_not_found E err \<Longrightarrow> api E S (RGet t k q, RErr err) S"
| listed: "t \<noteq> Remote \<Longrightarrow> set obs = {ob. \<exists>x \<in> chosen k ls S. objects S x = Some ob} \<Longrightarrow>
    api E S (RList t k [MatchingLabels ls], RObjs obs) S"
| unlisted: "t \<noteq> Remote \<Longrightarrow> (is_not_found E err \<longrightarrow> chosen k ls S = {}) \<Longrightarrow>
    api E S (RList t k [MatchingLabels ls], RErr err) S"
| created: "t \<noteq> Remote \<Longrightarrow> objects S (ref new) = None \<Longrightarrow> m_uid (kobj_meta new) \<notin> insert [] (uids S) \<Longrightarrow>
    as_sent new ob \<Longrightarrow> m_namespace (kobj_meta new) = m_namespace (kobj_meta ob) \<Longrightarrow>
    (m_name (kobj_meta ob) \<noteq> [] \<longrightarrow> m_name (kobj_meta new) = m_name (kobj_meta ob)) \<Longrightarrow>
    m_deletion (kobj_meta new) = None \<Longrightarrow> answered_by a new \<Longrightarrow>
    api E S (RCreate t ob, a)
      (S\<lparr>objects := (objects S)(ref new \<mapsto> new), uids := insert (m_uid (kobj_meta new)) (uids S)\<rparr>)"
| updated: "t \<noteq> Remote \<Longrightarrow> objects S (ref ob) = Some old \<Longrightarrow>
    m_uid (kobj_meta ob) = [] \<or> m_uid (kobj_meta ob) = m_uid (kobj_meta old) \<Longrightarrow>
    same_object new old \<Longrightarrow> as_sent new ob \<Longrightarrow> answered_by a new \<Longrightarrow> api E S (RUpdate t ob, a) (put new S)"
| patched: "t \<noteq> Remote \<Longrightarrow> objects S (ref n) = Some old \<Longrightarrow> merge_patched base n old new \<Longrightarrow>
    answered_by a new \<Longrightarrow> api E S (RPatch t pk base n, a) (put new S)"
| swept: "t \<noteq> Remote \<Longrightarrow> a = ROk \<or> (\<exists>err. a = RErr err \<and> is_not_found E err) \<Longrightarrow>
    \<forall>x \<in> chosen k ls S. doomed (objects T x) (objects S x) \<Longrightarrow>
    \<forall>x. x \<notin> chosen k ls S \<longrightarrow> objects T x = objects S x \<Longrightarrow>
    uids T = uids S \<Longrightarrow> api E S (RDeleteAllOf t k [MatchingLabels ls], a) T"
| half_swept: "t \<noteq> Remote \<Longrightarrow> \<not> is_not_found E err \<Longrightarrow>
    \<forall>x. objects T x = objects S x \<or> x \<in> chosen k ls S \<and> doomed (objects T x) (objects S x) \<Longrightarrow>
    uids T = uids S \<Longrightarrow> api E S (RDeleteAllOf t k [MatchingLabels ls], RErr err) T"
| refused: "\<not> elsewhere r \<Longrightarrow> \<forall>t k sel. r \<noteq> RDeleteAllOf t k sel \<Longrightarrow> written_kind r \<noteq> None \<Longrightarrow> api E S (r, RErr err) S"
| outside: "elsewhere r \<Longrightarrow> api E S (r, a) S"

inductive_cases api_getE: "api E S (RGet t k q, a) T"
inductive_cases api_listE: "api E S (RList t k sel, a) T"
inductive_cases api_createE: "api E S (RCreate t ob, a) T"
inductive_cases api_updateE: "api E S (RUpdate t ob, a) T"
inductive_cases api_patchE: "api E S (RPatch t pk base n, a) T"
inductive_cases api_sweepE: "api E S (RDeleteAllOf t k sel, a) T"

section \<open>Steps that spare everybody\<close>


lemma spares_refl: "spares req S S"
  by (auto simp: spares_def steady_def)

lemma import_inv_spared: "import_inv req S \<Longrightarrow> spares req S T \<Longrightarrow> import_inv req T"
  unfolding import_inv_def spares_def by blast

lemma stage_spared:
  "import_inv req S \<Longrightarrow> spares req S T \<Longrightarrow> keeps_or_advances (import_stage req S) (import_stage req T)"
  by (auto simp: import_inv_def spares_def import_stage_def)

lemma import_step_spares: "(\<And>k. spares k S T) \<Longrightarrow> import_step req S T"
  by (auto simp: import_step_def simp del: keeps_or_advances_def intro: import_inv_spared stage_spared)

text \<open>A step that leaves all clusters as they are.\<close>

definition aside :: "cluster_state \<Rightarrow> cluster_state \<Rightarrow> bool" where
  "aside S T \<longleftrightarrow> steady S T \<and> (well_formed S \<longrightarrow> well_formed T) \<and>
     (\<forall>k q. k = KCluster \<or> k = KRancher \<longrightarrow> objects T (k, q) = objects S (k, q))"

lemma aside_refl: "aside S S"
  by (auto simp: aside_def steady_def)

lemma aside_chosen: "aside S T \<Longrightarrow> chosen KRancher ls T = chosen KRancher ls S"
  by (auto simp: aside_def chosen_def)

lemma aside_sets: "aside S T \<Longrightarrow> owned req T = owned req S" "aside S T \<Longrightarrow> live req T = live req S"
  "aside S T \<Longrightarrow> guarded_by req T = guarded_by req S"
  by (auto simp: owned_def live_def aside_chosen guarded_by_def)
    (auto simp: aside_def chosen_def)

lemma aside_spares: "aside S T \<Longrightarrow> spares req S T"
  by (simp add: spares_def aside_sets) (simp add: aside_def)

text \<open>Putting a new version of an object in its place.\<close>

lemma put_objects: "objects (put new S) x = (if x = ref new then settled new else objects S x)"
  by (simp add: put_def)

lemma settled_Some: "settled new = Some ob \<longleftrightarrow> new = ob \<and> \<not> (m_deletion (kobj_meta ob) \<noteq> None \<and> m_finalizers (kobj_meta ob) = [])"
  by (auto simp: settled_def)

lemma put_steady: "objects S (ref old) = Some old \<Longrightarrow> same_object new old \<Longrightarrow> steady S (put new S)"
  by (auto simp: steady_def put_objects put_def settled_Some same_object_def split: if_splits)

lemma well_formedD:
  "well_formed S \<Longrightarrow> objects S x = Some ob \<Longrightarrow> ref ob = x \<and> m_uid (kobj_meta ob) \<in> uids S \<and> m_uid (kobj_meta ob) \<noteq> []"
  by (metis well_formed_def)

lemma well_formedI:
  "[] \<notin> uids S \<Longrightarrow> (\<And>x ob. objects S x = Some ob \<Longrightarrow> ref ob = x \<and> m_uid (kobj_meta ob) \<in> uids S) \<Longrightarrow> well_formed S"
  by (simp add: well_formed_def)

lemma uids_put [simp]: "uids (put new S) = uids S"
  by (simp add: put_def)

lemma put_well_formed:
  assumes "objects S (ref old) = Some old" "same_object new old" "well_formed S"
  shows "well_formed (put new S)"
proof (rule well_formedI)
  show "[] \<notin> uids (put new S)" using assms(3) by (simp add: well_formed_def)
  show "ref ob = x \<and> m_uid (kobj_meta ob) \<in> uids (put new S)" if ob: "objects (put new S) x = Some ob" for x ob
  proof (cases "x = ref new")
    case True
    then have "ob = new" using ob by (simp add: put_objects settled_Some)
    then show ?thesis using True assms(2) well_formedD [OF assms(3,1)] by (simp add: same_object_def)
  next
    case False
    then show ?thesis using ob well_formedD [OF assms(3), of x ob] by (simp add: put_objects)
  qed
qed

lemma put_aside:
  assumes "objects S (ref old) = Some old" "same_object new old"
    and "kobj_kind new \<noteq> KCluster" "kobj_kind new \<noteq> KRancher"
  shows "aside S (put new S)"
  using put_steady [OF assms(1,2)] put_well_formed [OF assms(1,2)] assms(3,4)
  by (auto simp: aside_def put_objects ref_def)


text \<open>A Rancher cluster that does not come to name another CAPI cluster.\<close>

lemma put_rancher:
  assumes "objects S (ref old) = Some old" "same_object new old" "kobj_kind new = KRancher"
    and "carries (key_labels req) new \<Longrightarrow> carries (key_labels req) old"
  shows "spares req S (put new S)"
proof -
  have "guarded_by req (put new S) = guarded_by req S"
    using assms(3) by (auto simp: guarded_by_def put_objects ref_def)
  moreover have "owned req (put new S) \<subseteq> owned req S" "live req (put new S) \<subseteq> live req S"
    using assms by (auto simp: live_def owned_def chosen_def put_objects settled_Some same_object_def
        split: if_splits)
  ultimately show ?thesis
    using put_steady [OF assms(1,2)] put_well_formed [OF assms(1,2)] by (simp add: spares_def)
qed

text \<open>A CAPI cluster: only what is known of its finalizer changes.\<close>

lemma put_cluster:
  assumes "objects S (ref old) = Some old" "same_object new old" "ref new = (KCluster, k)"
  shows "owned req (put new S) = owned req S" "live req (put new S) = live req S"
    and "req \<noteq> k \<Longrightarrow> spares req S (put new S)"
    and "guarded_by k (put new S) \<longleftrightarrow> settled new = Some new \<and> CapiClusterFinalizer \<in> set (m_finalizers (kobj_meta new))"
proof -
  show sets: "owned req (put new S) = owned req S" "live req (put new S) = live req S" for req
    using assms(3) by (auto simp: live_def owned_def chosen_def put_objects)
  show "spares req S (put new S)" if "req \<noteq> k"
  proof -
    have "guarded_by req (put new S) = guarded_by req S"
      using assms(3) that by (simp add: guarded_by_def put_objects)
    then show ?thesis
      using put_steady [OF assms(1,2)] put_well_formed [OF assms(1,2)] by (simp add: spares_def sets)
  qed
  obtain c where "new = OCluster c" using assms(3) by (auto simp: ref_def cluster_kind)
  then show "guarded_by k (put new S) \<longleftrightarrow> settled new = Some new \<and> CapiClusterFinalizer \<in> set (m_finalizers (kobj_meta new))"
    using assms(3) by (auto simp: guarded_by_def put_objects settled_Some)
qed

lemma step_cluster:
  assumes "objects S (ref old) = Some old" "same_object new old" "ref new = (KCluster, req)"
    and "CapiClusterFinalizer \<in> set (m_finalizers (kobj_meta new)) \<or> live req S = {} \<or>
      m_finalizers (kobj_meta new) = m_finalizers (kobj_meta old)"
  shows "import_step req S (put new S)"
proof -
  note facts = put_cluster [OF assms(1-3)]
  have same: "guarded_by req (put new S)" if "guarded_by req S" "live req S \<noteq> {}"
  proof -
    have "objects S (KCluster, req) = Some old"
      using assms(1-3) by (metis same_object_def)
    with \<open>guarded_by req S\<close> obtain c where
      "old = OCluster c" "CapiClusterFinalizer \<in> set (m_finalizers (cc_meta c))"
      by (auto simp: guarded_by_def)
    then show ?thesis
      using assms(4) that(2) by (auto simp: facts(4) settled_def)
  qed
  have "import_inv req (put new S)" if "import_inv req S"
    using that same put_well_formed [OF assms(1,2)] by (auto simp: import_inv_def facts(1,2))
  moreover have "keeps_or_advances (import_stage req S) (import_stage req (put new S))" if "import_inv req S"
    using that same by (auto simp: import_inv_def import_stage_def facts(2))
  ultimately show ?thesis
    using facts(3) by (simp add: import_step_def)
qed

section \<open>The events of a worker\<close>

lemma api_get:
  assumes "api E S (RGet t k q, a) T"
  shows "T = S" "t \<noteq> Remote \<Longrightarrow> a = RObj ob \<Longrightarrow> objects S (k, q) = Some ob"
  using assms by (auto elim!: api_getE)

lemma api_list:
  assumes "api E S (RList t k sel, a) T"
  shows "T = S" "t \<noteq> Remote \<Longrightarrow> (\<exists>obs. a = RObjs obs) \<or> (\<exists>err. a = RErr err)"
    and "t \<noteq> Remote \<Longrightarrow> sel = [MatchingLabels ls] \<Longrightarrow> a = RObjs obs \<Longrightarrow>
      set obs = {ob. \<exists>x \<in> chosen k ls S. objects S x = Some ob}"
    and "t \<noteq> Remote \<Longrightarrow> sel = [MatchingLabels ls] \<Longrightarrow> a = RErr err \<Longrightarrow> is_not_found E err \<Longrightarrow> chosen k ls S = {}"
  using assms by (auto elim!: api_listE)

lemma api_update:
  assumes "api E S (RUpdate t ob, a) T" "well_formed S"
  obtains "T = S" "t = Remote \<or> (\<exists>err. a = RErr err)"
  | old new where "objects S (ref old) = Some old" "same_object new old" "as_sent new ob" "answered_by a new"
      "ref old = ref ob" "m_uid (kobj_meta ob) = [] \<or> m_uid (kobj_meta ob) = m_uid (kobj_meta old)" "T = put new S"
  using assms(1)
proof (rule api_updateE)
  fix old new
  assume "objects S (ref ob) = Some old" "same_object new old" "as_sent new ob" "answered_by a new"
    "m_uid (kobj_meta ob) = [] \<or> m_uid (kobj_meta ob) = m_uid (kobj_meta old)" "T = put new S"
  moreover from this(1) have "ref old = ref ob" using well_formedD [OF assms(2)] by blast
  ultimately show ?thesis using that(2) by metis
qed (use that(1) in auto)

lemma api_patch:
  assumes "api E S (RPatch t pk base n, a) T" "well_formed S"
  obtains "T = S" "t = Remote \<or> (\<exists>err. a = RErr err)"
  | old new where "objects S (ref old) = Some old" "merge_patched base n old new" "answered_by a new"
      "ref old = ref n" "T = put new S"
  using assms(1)
proof (rule api_patchE)
  fix old new
  assume "objects S (ref n) = Some old" "merge_patched base n old new" "answered_by a new" "T = put new S"
  moreover from this(1) have "ref old = ref n" using well_formedD [OF assms(2)] by blast
  ultimately show ?thesis using that(2) by metis
qed (use that(1) in auto)

text \<open>A creation: the new object is at a free place and has a new id.\<close>

definition add_object :: "kobj \<Rightarrow> cluster_state \<Rightarrow> cluster_state" where
  "add_object new S =
     S\<lparr>objects := (objects S)(ref new \<mapsto> new), uids := insert (m_uid (kobj_meta new)) (uids S)\<rparr>"

lemma add_objects: "objects (add_object new S) x = (if x = ref new then Some new else objects S x)"
  by (simp add: add_object_def)

lemma uids_add [simp]: "uids (add_object new S) = insert (m_uid (kobj_meta new)) (uids S)"
  by (simp add: add_object_def)

lemma add_steady:
  assumes "well_formed S" "m_uid (kobj_meta new) \<notin> insert [] (uids S)"
  shows "steady S (add_object new S)" "well_formed (add_object new S)"
proof -
  show "steady S (add_object new S)"
    using assms(2) by (auto simp: steady_def add_objects)
  show "well_formed (add_object new S)"
  proof (rule well_formedI)
    show "ref ob = x \<and> m_uid (kobj_meta ob) \<in> uids (add_object new S)" if "objects (add_object new S) x = Some ob" for x ob
      using that well_formedD [OF assms(1), of x ob] by (auto simp: add_objects split: if_splits)
  qed (use assms in \<open>auto simp: well_formed_def\<close>)
qed

lemma api_create:
  assumes "api E S (RCreate t ob, a) T"
  obtains "T = S"
  | new where "t \<noteq> Remote" "objects S (ref new) = None" "m_uid (kobj_meta new) \<notin> insert [] (uids S)" "as_sent new ob"
      "m_deletion (kobj_meta new) = None" "T = add_object new S"
  using assms
proof (rule api_createE)
  fix new
  assume "t \<noteq> Remote" "objects S (ref new) = None" "m_uid (kobj_meta new) \<noteq> []" "m_uid (kobj_meta new) \<notin> uids S"
    "as_sent new ob" "m_deletion (kobj_meta new) = None"
    "T = S\<lparr>objects := (objects S)(ref new \<mapsto> new), uids := insert (m_uid (kobj_meta new)) (uids S)\<rparr>"
  then show ?thesis using that(2) by (simp add: add_object_def)
qed (use that(1) in auto)

text \<open>A sweep: nothing new, and what it was about is doomed.\<close>

lemma doomed_spares:
  assumes "\<forall>x. objects T x = objects S x \<or> doomed (objects T x) (objects S x)" "uids T = uids S"
    and "\<forall>q. objects T (KCluster, q) = objects S (KCluster, q)"
  shows "spares req S T"
proof -
  have same: "\<exists>ob. objects S x = Some ob \<and> ref n = ref ob \<and> m_uid (kobj_meta n) = m_uid (kobj_meta ob) \<and>
      m_labels (kobj_meta n) = m_labels (kobj_meta ob) \<and> (n = ob \<or> m_deletion (kobj_meta n) \<noteq> None)"
    if "objects T x = Some n" for x n
  proof -
    have "objects T x = objects S x \<or> doomed (objects T x) (objects S x)" using assms(1) by blast
    then show ?thesis
    proof
      assume "objects T x = objects S x"
      then have "objects S x = Some n" using that by simp
      then show ?thesis by blast
    qed (use that in \<open>auto simp: doomed_def\<close>)
  qed
  have "steady S T"
    unfolding steady_def assms(2)
  proof (intro conjI allI impI disjI1)
    show "\<exists>ob. objects S x = Some ob \<and> m_uid (kobj_meta ob) = m_uid (kobj_meta n) \<and>
        (m_deletion (kobj_meta ob) \<noteq> None \<longrightarrow> m_deletion (kobj_meta n) \<noteq> None)" if "objects T x = Some n" for x n
      using same [OF that] by auto
  qed simp
  moreover have "well_formed T" if wf: "well_formed S"
  proof (rule well_formedI)
    show "ref n = x \<and> m_uid (kobj_meta n) \<in> uids T" if "objects T x = Some n" for x n
      using same [OF that] well_formedD [OF wf] assms(2) by metis
  qed (use wf assms(2) in \<open>simp add: well_formed_def\<close>)
  moreover have "x \<in> owned req S" if x: "x \<in> owned req T" for x
  proof -
    obtain n where "objects T x = Some n" "fst x = KRancher" "carries (key_labels req) n"
      using x unfolding owned_def chosen_def by blast
    then show ?thesis using same [of x n] unfolding owned_def chosen_def carries_def by auto
  qed
  moreover have "x \<in> live req S" if x: "x \<in> live req T" for x
  proof -
    obtain n where "x \<in> owned req T" "objects T x = Some n" "m_deletion (kobj_meta n) = None"
      using x unfolding live_def by blast
    then show ?thesis using same [of x n] calculation(3) unfolding live_def by auto
  qed
  moreover have "guarded_by req T = guarded_by req S"
    using assms(3) by (simp add: guarded_by_def)
  ultimately show ?thesis by (auto simp: spares_def)
qed

lemma api_sweep:
  assumes "api E S (RDeleteAllOf t k [MatchingLabels ls], a) T"
  shows "t \<noteq> Remote \<and> uids T = uids S \<and>
      (\<forall>x. objects T x = objects S x \<or> x \<in> chosen k ls S \<and> doomed (objects T x) (objects S x)) \<or> T = S"
    and "k \<noteq> KCluster \<Longrightarrow> spares req S T"
    and "t \<noteq> Remote \<Longrightarrow> error_laws E \<Longrightarrow> ignore_not_found E (reply_unit a) = None \<Longrightarrow>
      k = KRancher \<Longrightarrow> ls = key_labels req \<Longrightarrow> live req T = {}"
proof -
  show cases: "t \<noteq> Remote \<and> uids T = uids S \<and>
      (\<forall>x. objects T x = objects S x \<or> x \<in> chosen k ls S \<and> doomed (objects T x) (objects S x)) \<or> T = S"
    using assms by (rule api_sweepE) (simp_all, blast+)
  have clusters: "objects T (KCluster, q) = objects S (KCluster, q)" if "k \<noteq> KCluster" for q
    using cases that by (auto simp: chosen_def)
  show "spares req S T" if "k \<noteq> KCluster"
    using cases
  proof
    assume "t \<noteq> Remote \<and> uids T = uids S \<and>
      (\<forall>x. objects T x = objects S x \<or> x \<in> chosen k ls S \<and> doomed (objects T x) (objects S x))"
    then show ?thesis using clusters [OF that] by (intro doomed_spares) auto
  qed (simp add: spares_refl)
  show "live req T = {}" if sel: "t \<noteq> Remote" "error_laws E" "ignore_not_found E (reply_unit a) = None"
      "k = KRancher" "ls = key_labels req"
  proof -
    have all: "\<forall>x \<in> chosen k ls S. doomed (objects T x) (objects S x)"
      "\<forall>x. x \<notin> chosen k ls S \<longrightarrow> objects T x = objects S x"
      using assms sel(1-3) by (auto elim!: api_sweepE simp: error_laws_def reply_unit_def)
    have "x \<notin> live req T" for x
    proof
      assume "x \<in> live req T"
      then obtain n where n: "objects T x = Some n" "fst x = KRancher" "carries ls n" "m_deletion (kobj_meta n) = None"
        unfolding live_def owned_def chosen_def sel(5) by auto
      show False
      proof (cases "x \<in> chosen k ls S")
        case True
        then show False using all(1) n by (auto simp: doomed_def)
      next
        case False
        then show False using all(2) n sel(4) by (auto simp: chosen_def)
      qed
    qed
    then show ?thesis by blast
  qed
qed

text \<open>Requests that write no cluster.\<close>

lemma api_spared:
  assumes "api E S (r, a) T" "spares_clusters r" "well_formed S"
  shows "aside S T"
proof -
  have wf: "ref old = x" if "objects S x = Some old" for x old
    using well_formedD [OF assms(3) that] by simp
  have swept: "aside S T" if "r = RDeleteAllOf t k [MatchingLabels ls]" for t k ls
  proof -
    have k: "k \<noteq> KCluster" "k \<noteq> KRancher" using assms(2) that by (auto simp: spares_clusters_def)
    note facts = api_sweep(1,2) [OF assms(1) [unfolded that]]
    have "objects T (l, q) = objects S (l, q)" if "l \<noteq> k" for l q
      using facts(1) that by (auto simp: chosen_def)
    with k facts(2) [OF k(1)] show ?thesis by (auto simp: aside_def spares_def)
  qed
  show ?thesis
    using assms(1)
  proof cases
    case (created t new ob)
    then have "kobj_kind new \<noteq> KCluster" "kobj_kind new \<noteq> KRancher"
      using assms(2) by (auto simp: spares_clusters_def as_sent_def)
    then have "aside S (add_object new S)"
      using add_steady [OF assms(3), of new] created by (auto simp: aside_def add_objects ref_def)
    then show ?thesis using created by (simp add: add_object_def)
  next
    case (updated t ob old new)
    then have "aside S (put new S)"
      using assms(2) wf [of "ref ob" old]
      by (intro put_aside [of S old]) (auto simp: spares_clusters_def as_sent_def)
    then show ?thesis using updated by simp
  next
    case (patched t n old base new pk)
    have "kobj_kind new = kobj_kind n"
      using patched wf [of "ref n" old] by (simp add: merge_patched_def same_object_def ref_def)
    then have "aside S (put new S)"
      using assms(2) patched wf [of "ref n" old]
      by (intro put_aside [of S old]) (auto simp: spares_clusters_def merge_patched_def)
    then show ?thesis using patched by simp
  qed (auto intro: aside_refl swept)
qed

interpretation import: rely_guarantee "api E" "spares req" "import_step req" "import_inv req" for E req
  by unfold_locales (auto simp: import_step_def intro: import_inv_spared)

end
