(* ===== verification/Import_Worker.thy ===== *)
theory Import_Worker
  imports Import_System Import_Typing
begin

text \<open>
  The handlers of the import controller in the logic of Rely_Guarantee: the contract of
  each, from the request to the whole of Reconcile.
\<close>

abbreviation worker ::
  "'w env \<Rightarrow> key \<Rightarrow> (cluster_state \<Rightarrow> bool) \<Rightarrow> ('w st, 'a) state \<Rightarrow> ('a \<Rightarrow> cluster_state \<Rightarrow> bool) \<Rightarrow> bool" where
  "worker E req \<equiv> sat (api E) (spares req) (import_step req) (import_inv req)"

section \<open>What a worker knows of the server\<close>

definition has_finalizer :: "capi_cluster \<Rightarrow> bool" where
  "has_finalizer c \<longleftrightarrow> CapiClusterFinalizer \<in> set (m_finalizers (cc_meta c))"

abbreviation none_live :: "key \<Rightarrow> cluster_state \<Rightarrow> bool" where
  "none_live req S \<equiv> live req S = {}"

text \<open>The Rancher cluster \<open>r\<close> is being deleted, or gone, or its name is that of another one.\<close>

definition leaving :: "rancher_cluster \<Rightarrow> cluster_state \<Rightarrow> bool" where
  "leaving r S \<longleftrightarrow> m_uid (rc_meta r) \<in> uids S \<and> m_uid (rc_meta r) \<noteq> [] \<and>
     (\<forall>n. objects S (ref (ORancher r)) = Some n \<longrightarrow> m_uid (kobj_meta n) = m_uid (rc_meta r) \<longrightarrow>
        m_deletion (kobj_meta n) \<noteq> None)"

lemma stable_spares [stable_rules]:
  "steadfast (spares req) (guarded_by req)"
  "steadfast (spares req) (\<lambda>S. owned req S \<subseteq> X)"
  "steadfast (spares req) (none_live req)"
  "steadfast (spares req) (leaving r)"
proof -
  show "steadfast (spares req) (leaving r)"
    unfolding steadfast_def leaving_def spares_def steady_def by (metis subsetD)
qed (auto simp: steadfast_def spares_def)

lemma stable_none [stable_rules]: "steadfast (spares req) (\<lambda>S. owned req S = {})"
  by (auto simp: steadfast_def spares_def)

lemma import_step_refl: "import_step req S S"
  by (intro import_step_spares spares_refl)

lemma import_inv_wf: "import_inv req S \<Longrightarrow> well_formed S"
  by (simp add: import_inv_def)

section \<open>Reading\<close>

lemma worker_get:
  assumes "t \<noteq> Remote" "steadfast (spares req) P" "\<And>S. P S \<Longrightarrow> g \<Longrightarrow> guarded_by req S"
  shows "worker E req P (get_obj E cluster_codec t req) (\<lambda>r S. P S \<and> (\<forall>c. r = Inr c \<longrightarrow>
    key_of (cc_meta c) = req \<and> (g \<longrightarrow> has_finalizer c) \<and> (has_finalizer c \<longrightarrow> guarded_by req S)))"
  unfolding get_obj_def
proof (rule import.sat_reply [OF assms(2)], goal_cases)
  case 1
  show ?case by (intro stable_rules assms(2))
next
  case (2 S a T)
  then have T: "T = S" by (auto dest: api_get(1))
  have "key_of (cc_meta c) = req \<and> (g \<longrightarrow> has_finalizer c) \<and> (has_finalizer c \<longrightarrow> guarded_by req S)"
    if c: "reply_obj cluster_codec a = Inr c" for c
  proof -
    obtain ob where a: "a = RObj ob" "decode cluster_codec ob = Some c" using c by (auto simp: reply_obj_Inr)
    then have "ob = OCluster c" by (cases ob) (auto simp: cluster_codec_def)
    then have there: "objects S (KCluster, req) = Some (OCluster c)"
      using api_get(2) [OF 2(3) assms(1) a(1)] by simp
    then have "ref (OCluster c) = (KCluster, req)"
      using well_formedD [OF import_inv_wf [OF 2(1)]] by blast
    then show ?thesis
      using there assms(3) [OF 2(2)] by (auto simp: ref_def guarded_by_def has_finalizer_def)
  qed
  then show ?case using 2(2) by (auto simp: T import_step_refl)
qed

text \<open>The list of the Rancher clusters, and what it tells about them.\<close>

lemma reply_ranchers:
  "\<forall>ob \<in> set obs. kobj_kind ob = KRancher \<Longrightarrow>
   \<exists>rcs. obs = map ORancher rcs \<and> reply_list rancher_codec (RObjs obs) = Inr rcs"
proof (induction obs)
  case (Cons ob obs)
  then obtain rcs where "obs = map ORancher rcs" "reply_list rancher_codec (RObjs obs) = Inr rcs" by auto
  moreover from Cons obtain rc where "ob = ORancher rc" by (auto simp: rancher_kind)
  ultimately show ?case
    by (intro exI [of _ "rc # rcs"]) (auto simp: reply_list_def rancher_codec_def split: option.splits)
qed (simp add: reply_list_def)

lemma known_clusters:
  assumes "import_inv req S" and "set (map ORancher rcs) = {ob. \<exists>x \<in> owned req S. objects S x = Some ob}"
  shows "rcs = [] \<Longrightarrow> owned req S = {}"
    and "rcs = rc # rest \<Longrightarrow> carries (key_labels req) (ORancher rc) \<and> owned req S \<subseteq> {ref (ORancher rc)} \<and>
         (\<not> deletion_is_zero (rc_meta rc) \<longrightarrow> none_live req S \<and> leaving rc S)"
proof -
  note wf = import_inv_wf [OF assms(1)]
  have there: "\<exists>ob. objects S x = Some ob \<and> carries (key_labels req) ob \<and> ob \<in> set (map ORancher rcs)"
    if x: "x \<in> owned req S" for x
  proof -
    obtain ob where "objects S x = Some ob" "carries (key_labels req) ob"
      using x unfolding owned_def chosen_def by blast
    then show ?thesis unfolding assms(2) using x by blast
  qed
  then show "rcs = [] \<Longrightarrow> owned req S = {}" by auto
  assume rc: "rcs = rc # rest"
  then have "ORancher rc \<in> {ob. \<exists>x \<in> owned req S. objects S x = Some ob}"
    unfolding assms(2) [symmetric] by simp
  then obtain x where x: "x \<in> owned req S" "objects S x = Some (ORancher rc)" by blast
  then have id: "ref (ORancher rc) = x" "m_uid (rc_meta rc) \<in> uids S" "m_uid (rc_meta rc) \<noteq> []"
    using well_formedD [OF wf x(2)] by auto
  have only: "owned req S \<subseteq> {x}" using assms(1) x(1) by (auto simp: import_inv_def)
  have "none_live req S \<and> leaving rc S" if "\<not> deletion_is_zero (rc_meta rc)"
  proof -
    have marked: "m_deletion (rc_meta rc) \<noteq> None" using that by (auto simp: deletion_is_zero_def split: option.splits)
    have "y \<notin> live req S" for y
    proof
      assume "y \<in> live req S"
      then obtain ob where "y \<in> owned req S" "objects S y = Some ob" "m_deletion (kobj_meta ob) = None"
        unfolding live_def by blast
      moreover from this(1) have "y = x" using only by blast
      ultimately have "ob = ORancher rc" using x(2) by simp
      then show False using marked \<open>m_deletion (kobj_meta ob) = None\<close> by simp
    qed
    then show ?thesis using x id marked by (auto simp: leaving_def)
  qed
  moreover have "carries (key_labels req) (ORancher rc)"
    using there [OF x(1)] x(2) by auto
  ultimately show "carries (key_labels req) (ORancher rc) \<and> owned req S \<subseteq> {ref (ORancher rc)} \<and>
      (\<not> deletion_is_zero (rc_meta rc) \<longrightarrow> none_live req S \<and> leaving rc S)"
    using only id(1) by simp
qed

lemma worker_list:
  assumes "error_laws E" "steadfast (spares req) P" "key_of (cc_meta c) = req"
  shows "worker E req P (list_obj E rancher_codec Cached [MatchingLabels (owner_labels c)]) (\<lambda>r S. P S \<and>
    (case r of
       Inl err \<Rightarrow> ignore_not_found E (Some err) = None \<longrightarrow> owned req S = {}
     | Inr [] \<Rightarrow> owned req S = {}
     | Inr (rc # rcs) \<Rightarrow> carries (key_labels req) (ORancher rc) \<and> owned req S \<subseteq> {ref (ORancher rc)} \<and>
         (\<not> deletion_is_zero (rc_meta rc) \<longrightarrow> none_live req S \<and> leaving rc S)))"
  unfolding list_obj_def
proof (rule import.sat_reply [OF assms(2)], goal_cases)
  case (1 a)
  show ?case by (intro stable_rules assms(2))
next
  case (2 S a T)
  note list = api_list [OF 2(3) [unfolded owner_labels_key assms(3)]]
  have T: "T = S" by (rule list(1))
  have ownedS: "chosen (ckind rancher_codec) (key_labels req) S = owned req S"
    by (simp add: owned_def rancher_codec_def)
  from list(2) have "(\<exists>obs. a = RObjs obs) \<or> (\<exists>err. a = RErr err)" by simp
  then show ?case
  proof (elim disjE exE)
    fix obs assume a: "a = RObjs obs"
    have all: "set obs = {ob. \<exists>x \<in> owned req S. objects S x = Some ob}"
      using list(3) a ownedS by simp
    have "kobj_kind ob = KRancher" if ob: "ob \<in> set obs" for ob
    proof -
      obtain x where x: "fst x = KRancher" "objects S x = Some ob"
        using ob unfolding all owned_def chosen_def by blast
      then show ?thesis using well_formedD [OF import_inv_wf [OF 2(1)] x(2)] by (auto simp: ref_def)
    qed
    then have "\<forall>ob \<in> set obs. kobj_kind ob = KRancher" by blast
    from reply_ranchers [OF this] obtain rcs where
      "obs = map ORancher rcs" "reply_list rancher_codec a = Inr rcs" using a by auto
    then show ?thesis
      using known_clusters [OF 2(1), of rcs] all 2(2) by (cases rcs) (simp_all add: T import_step_refl)
  next
    fix err assume a: "a = RErr err"
    have "owned req S = {}" if "ignore_not_found E (Some err) = None"
      using list(4) [of "key_labels req" err] a that assms(1) ownedS by (auto simp: error_laws_def split: if_splits)
    then show ?thesis using 2(2) by (simp add: T a reply_list_def import_step_refl)
  qed
qed

section \<open>Writing\<close>

lemma keep_spared:
  "(\<And>k. spares k S T) \<Longrightarrow> steadfast (spares req) P \<Longrightarrow> P S \<Longrightarrow> import_step req S T \<and> P T"
  by (auto intro: import_step_spares simp: steadfast_def)

lemma worker_frame:
  assumes "emits spares_clusters m" "steadfast (spares req) P"
  shows "worker E req P m (\<lambda>_. P)"
proof (rule import.sat_frame [OF assms])
  fix r S a T
  assume "spares_clusters r" "import_inv req S" "P S" "api E S (r, a) T"
  then have "aside S T" by (blast intro: api_spared import_inv_wf)
  with \<open>P S\<close> show "import_step req S T \<and> P T" by (intro keep_spared [OF _ assms(2)] aside_spares)
qed

lemma key_labels_inj: "carries (key_labels a) ob \<Longrightarrow> carries (key_labels b) ob \<Longrightarrow> a = b"
  by (auto simp: carries_def key_labels_def intro: key.equality)

lemma carries_labels: "m_labels (kobj_meta x) = m_labels (kobj_meta y) \<Longrightarrow> carries ls x = carries ls y"
  by (simp add: carries_def)

lemma cluster_answer:
  "answered_by a new \<Longrightarrow> reply_obj cluster_codec a = Inr d \<Longrightarrow> new = OCluster d"
  by (cases new) (auto simp: answered_by_def reply_obj_def cluster_codec_def split: option.splits)

lemma worker_update_cluster:
  "worker E req (\<lambda>S. key_of (cc_meta c) = req \<and> (has_finalizer c \<or> none_live req S) \<and> (nl \<longrightarrow> none_live req S))
     (update_obj E cluster_codec Cached c)
     (\<lambda>r S. (nl \<longrightarrow> none_live req S) \<and> (\<forall>d. r = Inr d \<longrightarrow> key_of (cc_meta d) = req \<and>
        m_finalizers (cc_meta d) = m_finalizers (cc_meta c) \<and> (has_finalizer c \<longrightarrow> guarded_by req S)))"
  unfolding update_obj_def
proof (rule import.sat_reply, goal_cases)
  case 1
  show ?case by (intro stable_rules)
next
  case (2 a)
  show ?case by (intro stable_rules)
next
  case (3 S a T)
  then have pre: "key_of (cc_meta c) = req" "has_finalizer c \<or> none_live req S" "nl \<Longrightarrow> none_live req S" by auto
  have c: "encode cluster_codec c = OCluster c" by (simp add: cluster_codec_def)
  from 3(3) import_inv_wf [OF 3(1)] show ?case
    unfolding c
  proof (cases rule: api_update)
    case 1
    then show ?thesis using pre by (auto simp: import_step_refl reply_obj_def)
  next
    case (2 old new)
    have ref: "ref new = (KCluster, req)" using 2(2,5) pre(1) by (simp add: same_object_def ref_def)
    have fin: "m_finalizers (kobj_meta new) = m_finalizers (cc_meta c)" using 2(3) by (simp add: as_sent_def)
    note facts = put_cluster [OF 2(1,2) ref]
    have "import_step req S T"
      unfolding 2(7) using pre(2) fin
      by (intro step_cluster [OF 2(1,2) ref]) (auto simp: has_finalizer_def)
    moreover have "key_of (cc_meta d) = req \<and> m_finalizers (cc_meta d) = m_finalizers (cc_meta c) \<and>
        (has_finalizer c \<longrightarrow> guarded_by req T)" if "reply_obj cluster_codec a = Inr d" for d
    proof -
      have "new = OCluster d" by (rule cluster_answer [OF 2(4) that])
      moreover have "guarded_by req T \<longleftrightarrow> settled new = Some new \<and> CapiClusterFinalizer \<in> set (m_finalizers (kobj_meta new))"
        using facts(4) by (simp add: 2(7))
      ultimately show ?thesis
        using ref fin by (auto simp: has_finalizer_def ref_def settled_def)
    qed
    ultimately show ?thesis using pre(3) by (simp add: 2(7) facts(2))
  qed
qed

lemma worker_patch_cluster:
  assumes R: "steadfast (spares req) R"
    "\<And>S old new. objects S (ref old) = Some old \<Longrightarrow> same_object new old \<Longrightarrow> ref new = (KCluster, req) \<Longrightarrow>
      R S \<Longrightarrow> R (put new S)"
  shows "worker E req (\<lambda>S. key_of (cc_meta n) = req \<and>
       (m_finalizers (cc_meta n) = m_finalizers (cc_meta base) \<or> has_finalizer n \<or> none_live req S) \<and>
       (nl \<longrightarrow> none_live req S) \<and> R S)
     (patch_obj E cluster_codec pk base n)
     (\<lambda>r S. (nl \<longrightarrow> none_live req S) \<and> R S \<and> (\<forall>d. r = Inr d \<longrightarrow> key_of (cc_meta d) = req))"
  unfolding patch_obj_def
proof (rule import.sat_reply, goal_cases)
  case 1
  show ?case by (intro stable_rules R(1))
next
  case (2 a)
  show ?case by (intro stable_rules R(1))
next
  case (3 S a T)
  then have pre: "key_of (cc_meta n) = req" "nl \<Longrightarrow> none_live req S" "R S"
    "m_finalizers (cc_meta n) = m_finalizers (cc_meta base) \<or> has_finalizer n \<or> none_live req S" by auto
  have c: "encode cluster_codec c = OCluster c" for c by (simp add: cluster_codec_def)
  from 3(3) import_inv_wf [OF 3(1)] show ?case
    unfolding c
  proof (cases rule: api_patch)
    case 1
    then show ?thesis using pre by (auto simp: import_step_refl reply_obj_def)
  next
    case (2 old new)
    have same: "same_object new old" using 2(2) by (simp add: merge_patched_def)
    have ref: "ref new = (KCluster, req)" using 2(4) same pre(1) by (simp add: same_object_def ref_def)
    have "import_step req S T"
      unfolding 2(5) using pre(4) 2(2)
      by (intro step_cluster [OF 2(1) same ref]) (auto simp: has_finalizer_def merge_patched_def)
    moreover have "key_of (cc_meta d) = req" if "reply_obj cluster_codec a = Inr d" for d
      using cluster_answer [OF 2(3) that] ref by (simp add: ref_def)
    moreover have "R T" unfolding 2(5) by (rule R(2) [OF 2(1) same ref pre(3)])
    ultimately show ?thesis using pre(2) by (simp add: 2(5) put_cluster(2) [OF 2(1) same ref])
  qed
qed

lemma worker_create_rancher:
  "worker E req (\<lambda>S. carries (key_labels req) (ORancher rc) \<and> guarded_by req S \<and> owned req S = {})
     (create_obj E rancher_codec Cached rc) (\<lambda>r S. True)"
  unfolding create_obj_def
proof (rule import.sat_reply, goal_cases)
  case 1
  show ?case by (intro stable_rules)
next
  case (2 a)
  show ?case by (intro stable_rules)
next
  case (3 S a T)
  then have pre: "carries (key_labels req) (ORancher rc)" "guarded_by req S" "owned req S = {}" by auto
  have rc: "encode rancher_codec rc = ORancher rc" by (simp add: rancher_codec_def)
  from 3(3) show ?case
    unfolding rc
  proof (cases rule: api_create)
    case 1
    then show ?thesis by (simp add: import_step_refl)
  next
    case (2 new)
    note wf = import_inv_wf [OF 3(1)]
    have kind: "kobj_kind new = KRancher" using 2(4) by (simp add: as_sent_def)
    have labels: "carries (key_labels k) new \<longleftrightarrow> k = req" for k
      using pre(1) 2(4) key_labels_inj [of k new req] carries_labels [of new "ORancher rc"] by (auto simp: as_sent_def)
    have owned: "owned k T = (if k = req then insert (ref new) (owned k S) else owned k S)" for k
    proof (rule set_eqI)
      show "x \<in> owned k T \<longleftrightarrow> x \<in> (if k = req then insert (ref new) (owned k S) else owned k S)" for x
        using kind labels [of k] 2(2) by (cases "x = ref new") (simp_all add: owned_def chosen_def 2(6) add_objects)
    qed
    have guard: "guarded_by k T = guarded_by k S" for k
      using kind by (auto simp: guarded_by_def 2(6) add_objects ref_def)
    have other: "objects T x = objects S x" if "x \<in> owned k S" for x k
      using that 2(2) by (cases "x = ref new") (simp_all add: owned_def chosen_def 2(6) add_objects)
    have live: "live k T = live k S" if "k \<noteq> req" for k
      unfolding live_def owned using that by (simp add: other cong: conj_cong)
    have "spares k S T" if "k \<noteq> req" for k
      using add_steady [OF wf 2(3)] that owned [of k] guard [of k] live [of k]
      by (simp add: spares_def flip: 2(6))
    moreover have "import_inv req T"
      using add_steady(2) [OF wf 2(3)] pre owned [of req] guard [of req]
      by (simp add: import_inv_def flip: 2(6))
    moreover have "keeps_or_advances (import_stage req S) (import_stage req T)"
      using pre(2,3) by (auto simp: import_stage_def guard live_def)
    ultimately show ?thesis by (simp add: import_step_def)
  qed
qed

text \<open>Letting a Rancher cluster go that is being deleted.\<close>

lemma worker_update_rancher:
  "worker E req (\<lambda>S. carries (key_labels req) (ORancher rc) \<and> owned req S \<subseteq> {ref (ORancher rc)} \<and>
       none_live req S \<and> leaving rc S)
     (update_obj E rancher_codec Cached rc) (\<lambda>r. none_live req)"
  unfolding update_obj_def
proof (rule import.sat_reply, goal_cases)
  case 1
  show ?case by (intro stable_rules)
next
  case (2 a)
  show ?case by (intro stable_rules)
next
  case (3 S a T)
  then have pre: "carries (key_labels req) (ORancher rc)" "owned req S \<subseteq> {ref (ORancher rc)}"
    "none_live req S" "leaving rc S" by auto
  have rc: "encode rancher_codec rc = ORancher rc" by (simp add: rancher_codec_def)
  note wf = import_inv_wf [OF 3(1)]
  from 3(3) wf show ?case
    unfolding rc
  proof (cases rule: api_update)
    case 1
    then show ?thesis using pre by (simp add: import_step_refl)
  next
    case (2 old new)
    have kind: "kobj_kind new = KRancher" using 2(3) by (simp add: as_sent_def)
    have ref: "ref new = ref (ORancher rc)" using 2(2,5) by (simp add: same_object_def)
    have marked: "m_deletion (kobj_meta new) \<noteq> None"
      using pre(4) 2(1,2,5,6) by (auto simp: leaving_def same_object_def)
    have labels: "carries (key_labels k) new \<longleftrightarrow> k = req" for k
      using pre(1) 2(3) key_labels_inj [of k new req] carries_labels [of new "ORancher rc"] by (auto simp: as_sent_def)
    have others: "spares k S T" if "k \<noteq> req" for k
      unfolding 2(7) using that labels by (intro put_rancher [OF 2(1,2) kind]) simp
    have guard: "guarded_by req T = guarded_by req S"
      using kind by (auto simp: guarded_by_def 2(7) put_objects ref_def)
    have owned: "owned req T \<subseteq> {ref (ORancher rc)}"
    proof
      show "x \<in> {ref (ORancher rc)}" if "x \<in> owned req T" for x
        using that pre(2) ref by (cases "x = ref new") (auto simp: owned_def chosen_def 2(7) put_objects)
    qed
    have dead: "none_live req T"
    proof -
      have "x \<notin> live req S" for x using pre(3) by blast
      then have "x \<notin> live req T" for x
        using marked by (cases "x = ref new") (auto simp: live_def owned_def chosen_def 2(7) put_objects settled_Some)
      then show ?thesis by blast
    qed
    have "import_inv req T"
      using put_well_formed [OF 2(1,2) wf] owned dead unfolding import_inv_def 2(7) by blast
    moreover have "import_stage req T = import_stage req S"
      using dead pre(3) by (simp add: import_stage_def guard)
    ultimately show ?thesis using others dead by (simp add: import_step_def)
  qed
qed

lemma worker_patch_rancher:
  assumes "steadfast (spares req) P"
    and "\<forall>k \<in> {capiClusterOwner, capiClusterOwnerNamespace, ownedLabelName}.
      mget (m_labels (rc_meta n)) k = mget (m_labels (rc_meta base)) k"
  shows "worker E req P (patch_obj E rancher_codec pk base n) (\<lambda>r. P)"
  unfolding patch_obj_def
proof (rule import.sat_reply [OF assms(1)], goal_cases)
  case (1 a)
  show ?case by (rule assms(1))
next
  case (2 S a T)
  have rc: "encode rancher_codec rc = ORancher rc" for rc by (simp add: rancher_codec_def)
  have "spares k S T" for k
    using 2(3) import_inv_wf [OF 2(1)] unfolding rc
  proof (cases rule: api_patch)
    case 1
    then show ?thesis by (simp add: spares_refl)
  next
    case (2 old new)
    have same: "same_object new old" using 2(2) by (simp add: merge_patched_def)
    have kind: "kobj_kind new = KRancher" using 2(4) same by (simp add: same_object_def ref_def)
    have "carries (key_labels k) old" if "carries (key_labels k) new"
      using that 2(2) assms(2) by (simp add: carries_def key_labels_def merge_patched_def)
    then show ?thesis
      unfolding 2(5) by (rule put_rancher [OF 2(1) same kind])
  qed
  then show ?case by (rule keep_spared [OF _ assms(1) 2(2)])
qed

lemma worker_sweep:
  assumes "error_laws E" "steadfast (spares req) P" "key_of (cc_meta c) = req"
  shows "worker E req P (delete_all_of E rancher_codec [MatchingLabels (owner_labels c)])
    (\<lambda>r S. P S \<and> (ignore_not_found E r = None \<longrightarrow> none_live req S))"
  unfolding delete_all_of_def
proof (rule import.sat_reply [OF assms(2)], goal_cases)
  case (1 a)
  show ?case by (intro stable_rules assms(2))
next
  case (2 S a T)
  note sweep = api_sweep(2,3) [OF 2(3) [unfolded owner_labels_key assms(3)]]
  have "import_step req S T \<and> P T"
    using sweep(1) by (intro keep_spared [OF _ assms(2) 2(2)]) (simp add: rancher_codec_def)
  then show ?case using sweep(2) [OF _ assms(1)] by (simp add: rancher_codec_def)
qed

section \<open>The handlers\<close>

text \<open>The cluster a handler works on is the one of the request, and carries the finalizer.\<close>

definition kept :: "key \<Rightarrow> capi_cluster \<Rightarrow> bool" where
  "kept req c \<longleftrightarrow> key_of (cc_meta c) = req \<and> has_finalizer c"

definition owner_kept :: "rancher_cluster \<Rightarrow> rancher_cluster \<Rightarrow> bool" where
  "owner_kept n base \<longleftrightarrow> (\<forall>k \<in> {capiClusterOwner, capiClusterOwnerNamespace, ownedLabelName}.
     mget (m_labels (rc_meta n)) k = mget (m_labels (rc_meta base)) k)"

lemma prepare_kept:
  assumes "finalizer_laws E" "prepare_rancher_cluster E c mrc = (rc, capi)" "kept req c"
  shows "kept req capi" "mrc = Some base \<Longrightarrow> owner_kept rc base"
    and "mrc = None \<Longrightarrow> carries (key_labels req) (ORancher rc)"
proof -
  have rc: "rc = fst (prepare_rancher_cluster E c mrc)" and capi: "capi = snd (prepare_rancher_cluster E c mrc)"
    using assms(2) by simp_all
  have "set (fst (remove_finalizer E fs FleetAddonFinalizer)) = set fs - {FleetAddonFinalizer}" for fs
    using assms(1) by (simp add: finalizer_laws_def)
  then have "has_finalizer capi = has_finalizer c"
    by (auto simp: capi prepare_rewrite reconcileExternalFleetManagement_def has_finalizer_def Let_def
        CapiClusterFinalizer_def FleetAddonFinalizer_def)
  then show "kept req capi"
    using assms(3) prepare_cluster(1) [of E c mrc] by (simp add: kept_def capi)
  have "\<not> propagated capiClusterOwner" "\<not> propagated capiClusterOwnerNamespace" "\<not> propagated ownedLabelName"
    by code_simp+
  then show "owner_kept rc base" if "mrc = Some base"
    using that unfolding owner_kept_def rc prepare_labels by (auto split: option.split)
  show "carries (key_labels req) (ORancher rc)" if "mrc = None"
    using prepare_new_labelled [of c E] assms(3) that
    by (auto simp: labelled_for_def carries_def rc kept_def simp flip: owner_labels_key)
qed

lemma worker_fresh:
  assumes "kept req c" "steadfast (spares req) P" "\<And>S. P S \<Longrightarrow> guarded_by req S"
  shows "worker E req P (shouldAutoImportUncached E c) (\<lambda>r S. kept req (fst r) \<and> P S)"
proof -
  have key: "key_of (cc_meta c) = req" using assms(1) by (simp add: kept_def)
  have auto: "worker E req (\<lambda>S. kept req d \<and> P S) (ShouldAutoImport E d importLabelName) (\<lambda>r S. kept req d \<and> P S)" for d
    by (intro import.sat_pure worker_frame emits_ShouldAutoImport assms(2)) (simp add: spares_clusters_def)
  show ?thesis
    unfolding shouldAutoImportUncached_def key
  proof (rule import.sat_bind [OF worker_get [where g = True, OF _ assms(2)]])
    fix r
    show "worker E req (\<lambda>S. P S \<and> (\<forall>d. r = Inr d \<longrightarrow> key_of (cc_meta d) = req \<and>
        (True \<longrightarrow> has_finalizer d) \<and> (has_finalizer d \<longrightarrow> guarded_by req S)))
      (case r of
         Inl err \<Rightarrow> ret (c, ignore_not_found E (Some err), False)
       | Inr fresh \<Rightarrow> do {
           s \<leftarrow> ShouldAutoImport E fresh importLabelName;
           case s of
             Inl err \<Rightarrow> ret (fresh, Some err, False)
           | Inr shouldImport \<Rightarrow>
               if \<not> shouldImport then ret (fresh, None, False) else ret (fresh, None, True) })
      (\<lambda>r S. kept req (fst r) \<and> P S)"
    proof (cases r)
      case (Inl err)
      then show ?thesis
        using assms(1) by simp (rule import.sat_ret, intro stable_rules assms(2), simp)
    next
      case (Inr d)
      show ?thesis
        unfolding Inr sum.case
        by (rule import.sat_bind [OF import.sat_pre [OF auto [of d]]])
          (auto simp: kept_def intro!: sat_rules stable_rules assms(2))
    qed
  qed (use assms(3) in auto)
qed

text \<open>What \<open>reconcileNormal\<close> leaves its caller with.\<close>

definition normal_kept :: "key \<Rightarrow> rancher_cluster option \<Rightarrow> normal_result outcome \<Rightarrow> bool" where
  "normal_kept req mrc r \<longleftrightarrow> (\<forall>capi rc res err. r = Ret (capi, rc, res, err) \<longrightarrow>
     kept req capi \<and> (\<forall>base. mrc = Some base \<longrightarrow> owner_kept rc base))"

lemma worker_create_missing:
  assumes "kept req c" "carries (key_labels req) (ORancher rc)"
  shows "worker E req (\<lambda>S. guarded_by req S \<and> owned req S = {}) (create_missing_cluster E c rc)
    (\<lambda>r S. normal_kept req None r)"
proof -
  have fresh: "worker E req (\<lambda>S. guarded_by req S \<and> owned req S = {}) (shouldAutoImportUncached E c)
      (\<lambda>r S. kept req (fst r) \<and> guarded_by req S \<and> owned req S = {})"
    by (rule worker_fresh [OF assms(1)]) (auto intro!: stable_rules)
  have create: "worker E req (\<lambda>S. b \<and> guarded_by req S \<and> owned req S = {}) (create_obj E rancher_codec Cached rc)
      (\<lambda>r S. b \<and> True)" for b
    by (rule import.sat_pure, rule import.sat_pre [OF worker_create_rancher]) (simp add: assms(2))
  show ?thesis
    unfolding create_missing_cluster_def
    by (rule import.sat_bind [OF fresh])
      (auto intro!: sat_rules stable_rules import.sat_bind [OF create] simp: normal_kept_def)
qed

lemma fleet_migration_labels:
  "runs (removeFleetNamespace E rc) (\<lambda>r es. case r of Panic p \<Rightarrow> True
     | Ret (rc', rq, err) \<Rightarrow> m_labels (rc_meta rc') = m_labels (rc_meta rc))"
  unfolding removeFleetNamespace_def check_fleet_migration_def Let_def
  by (rule runsI) (auto intro!: trace_rules)

lemma worker_migrate_fleet:
  assumes "kept req c" "owner_kept rc base"
  shows "worker E req (\<lambda>S. True) (migrate_fleet E c rc) (\<lambda>r S. normal_kept req (Some base) r)"
proof -
  have result: "normal_kept req (Some base) (Ret (c, rc', res, err))"
    if "m_labels (rc_meta rc') = m_labels (rc_meta rc)" for rc' res err
    using assms that by (simp add: normal_kept_def owner_kept_def)
  have panic: "normal_kept req (Some base) (Panic p)" for p by (simp add: normal_kept_def)
  have "runs (migrate_fleet E c rc) (\<lambda>r es. normal_kept req (Some base) r)"
    unfolding migrate_fleet_def remote_client_def
    by (intro runs_bind runsI trace_rules, simp, intro trace_rules runs_use [OF fleet_migration_labels])
      (auto intro!: trace_rules result panic split: outcome.splits)
  from import.sat_runs [OF worker_frame [OF emits_migrate_fleet stable_const] this]
  show ?thesis by (rule import.sat_post) simp
qed

lemma worker_normal:
  assumes "finalizer_laws E" "kept req c"
  shows "worker E req (\<lambda>S. mrc = None \<longrightarrow> guarded_by req S \<and> owned req S = {}) (reconcileNormal E skip c mrc)
    (\<lambda>r S. normal_kept req mrc r)"
proof -
  obtain rc capi where p: "prepare_rancher_cluster E c mrc = (rc, capi)" by fastforce
  note kept = prepare_kept [OF assms(1) p assms(2)]
  show ?thesis
  proof (cases mrc)
    case None
    then show ?thesis
      unfolding reconcileNormal_def p
      using worker_create_missing [OF kept(1) kept(3)] by simp
  next
    case (Some base)
    have agent: "worker E req (\<lambda>S. True) (import_agent E skip capi rc) (\<lambda>r S. True)"
      by (rule worker_frame [OF emits_import_agent stable_const])
    note p' = p [unfolded Some]
    have result: "normal_kept req (Some base) (Ret (capi, rc, res, err))" for res err
      using kept(1) kept(2) [OF Some] by (simp add: normal_kept_def)
    show ?thesis
      unfolding reconcileNormal_def Some p' prod.case
      by (rule import.sat_pre [where P = "\<lambda>S. True"])
        (auto intro!: import.sat_if stable_rules worker_migrate_fleet [OF kept(1) kept(2) [OF Some]]
          import.sat_bind [OF agent] import.sat_ret result)
  qed
qed

lemma worker_reconcile_import:
  assumes "finalizer_laws E" "kept req c"
  shows "worker E req (\<lambda>S. mrc = None \<longrightarrow> guarded_by req S \<and> owned req S = {}) (reconcile_import E skip c mrc)
    (\<lambda>r S. \<forall>capi res err. r = Ret (capi, res, err) \<longrightarrow> kept req capi)"
  unfolding reconcile_import_def
proof (rule import.sat_obind [OF worker_normal [OF assms]], goal_cases)
  case (1 r)
  obtain capi rc res err where r: "r = (capi, rc, res, err)" by (cases r)
  let ?Q = "\<lambda>r S. \<forall>capi res err. r = Ret (capi, res, err) \<longrightarrow> kept req capi"
  have patch: "worker E req (\<lambda>S. True) (patch_obj E rancher_codec MergeFromLock base rc) (\<lambda>r S. True)"
    if "owner_kept rc base" for base
    by (rule worker_patch_rancher) (use that in \<open>auto simp: owner_kept_def intro: stable_rules\<close>)
  show ?case
    unfolding r prod.case
  proof (cases mrc)
    case None
    show "worker E req (\<lambda>S. normal_kept req mrc (Ret (capi, rc, res, err)))
      (case mrc of None \<Rightarrow> ret (Ret (capi, res, err))
       | Some base \<Rightarrow> if err \<noteq> None then ret (Ret (capi, res, err))
           else do { p \<leftarrow> patch_obj E rancher_codec MergeFromLock base rc;
                     ret (Ret (capi, res, (case p of
                       Inl perr \<Rightarrow> Some (EWrap ''failed to patch Rancher cluster'' perr) | Inr _ \<Rightarrow> None))) }) ?Q"
      unfolding None option.case by (rule import.sat_ret) (auto simp: normal_kept_def intro: stable_rules)
  next
    case (Some base)
    show "worker E req (\<lambda>S. normal_kept req mrc (Ret (capi, rc, res, err)))
      (case mrc of None \<Rightarrow> ret (Ret (capi, res, err))
       | Some base \<Rightarrow> if err \<noteq> None then ret (Ret (capi, res, err))
           else do { p \<leftarrow> patch_obj E rancher_codec MergeFromLock base rc;
                     ret (Ret (capi, res, (case p of
                       Inl perr \<Rightarrow> Some (EWrap ''failed to patch Rancher cluster'' perr) | Inr _ \<Rightarrow> None))) }) ?Q"
      unfolding Some option.case
    proof (rule import.sat_if, goal_cases)
      case 1
      show ?case by (rule import.sat_ret) (auto simp: normal_kept_def intro: stable_rules)
    next
      case 2
      have "worker E req (\<lambda>S. normal_kept req (Some base) (Ret (capi, rc, res, err)) \<and> True)
        (do { p \<leftarrow> patch_obj E rancher_codec MergeFromLock base rc;
              ret (Ret (capi, res, (case p of
                Inl perr \<Rightarrow> Some (EWrap ''failed to patch Rancher cluster'' perr) | Inr _ \<Rightarrow> None))) }) ?Q"
        by (rule import.sat_assume [where R = "\<lambda>_. True"])
          (auto simp: normal_kept_def intro!: import.sat_bind [OF patch] import.sat_ret typing_rules stable_rules)
      then show ?case by simp
    qed
  qed
qed (auto intro!: stable_rules)

text \<open>The two deletions: from here on no Rancher cluster of the worker is live.\<close>

abbreviation gone_for :: "key \<Rightarrow> capi_cluster \<Rightarrow> cluster_state \<Rightarrow> bool" where
  "gone_for req c S \<equiv> key_of (cc_meta c) = req \<and> none_live req S"

lemma worker_release_capi:
  "worker E req (gone_for req c) (release_capi_cluster E c) (\<lambda>r. gone_for req (fst r))"
proof -
  obtain fs removed where f: "remove_finalizer E (m_finalizers (cc_meta c)) CapiClusterFinalizer = (fs, removed)"
    by fastforce
  let ?d = "cc_meta_update (m_finalizers_update (\<lambda>_. fs)) c"
  have key: "key_of (cc_meta ?d) = key_of (cc_meta c)" by (simp add: key_of_def)
  have update: "worker E req (gone_for req c) (update_obj E cluster_codec Cached ?d)
      (\<lambda>r S. key_of (cc_meta ?d) = req \<and> none_live req S \<and> (\<forall>x. r = Inr x \<longrightarrow> key_of (cc_meta x) = req))"
    by (rule import.sat_weaken [OF import.sat_pure [where b = "key_of (cc_meta c) = req",
          OF worker_update_cluster [where nl = True]]]) (auto simp: key)
  show ?thesis
    unfolding release_capi_cluster_def f prod.case Let_def
    by (rule import.sat_if, rule import.sat_bind [OF update])
      (auto intro!: import.sat_ret stable_rules simp: key split: sum.split)
qed

lemma worker_mark:
  assumes R: "steadfast (spares req) R"
    "\<And>S old new. objects S (ref old) = Some old \<Longrightarrow> same_object new old \<Longrightarrow> ref new = (KCluster, req) \<Longrightarrow>
      R S \<Longrightarrow> R (put new S)"
  shows "worker E req (\<lambda>S. gone_for req c S \<and> R S) (import_reconcileDelete E c) (\<lambda>r S. gone_for req (fst r) S \<and> R S)"
proof -
  have key: "key_of (cc_meta (imported_and_released E c)) = key_of (cc_meta c)"
    by (simp add: imported_and_released_def key_of_def)
  have patch: "worker E req (\<lambda>S. gone_for req c S \<and> R S)
      (patch_obj E cluster_codec MergeFromLock c (imported_and_released E c))
      (\<lambda>r S. key_of (cc_meta c) = req \<and> none_live req S \<and> R S \<and> (\<forall>x. r = Inr x \<longrightarrow> key_of (cc_meta x) = req))"
    by (rule import.sat_weaken [OF import.sat_pure [OF worker_patch_cluster [where nl = True, OF R]]]) (auto simp: key)
  show ?thesis
    unfolding import_reconcileDelete_def Let_def
    by (rule import.sat_bind [OF patch])
      (auto intro!: import.sat_case_sum import.sat_ret stable_rules R(1) simp: key)
qed

lemma leaving_put: "ref new = (KCluster, k) \<Longrightarrow> leaving rc S \<Longrightarrow> leaving rc (put new S)"
  by (simp add: leaving_def put_objects ref_def)

lemma worker_rancher_deletion:
  assumes "finalizer_laws E"
  shows "worker E req (\<lambda>S. gone_for req c S \<and> carries (key_labels req) (ORancher rc) \<and>
       owned req S \<subseteq> {ref (ORancher rc)} \<and> leaving rc S)
     (reconcile_rancher_deletion E c rc) (\<lambda>r. gone_for req (fst r))"
proof -
  let ?R = "\<lambda>S. carries (key_labels req) (ORancher rc) \<and> owned req S \<subseteq> {ref (ORancher rc)} \<and> leaving rc S"
  have mark: "worker E req (\<lambda>S. gone_for req c S \<and> ?R S) (import_reconcileDelete E c)
      (\<lambda>r S. gone_for req (fst r) S \<and> ?R S)"
    by (rule worker_mark) (auto intro!: stable_rules leaving_put dest: put_cluster(1))
  obtain fs removed where f: "remove_finalizer E (m_finalizers (rc_meta rc)) CapiClusterFinalizer = (fs, removed)"
    by fastforce
  let ?d = "rc_meta_update (m_finalizers_update (\<lambda>_. fs)) rc"
  have same: "ref (ORancher ?d) = ref (ORancher rc)" "carries ls (ORancher ?d) = carries ls (ORancher rc)"
    "leaving ?d S = leaving rc S" for ls S
    by (simp_all add: ref_def carries_def leaving_def)
  have release: "worker E req (\<lambda>S. b \<and> none_live req S \<and> ?R S) (release_rancher_cluster E rc)
      (\<lambda>r S. b \<and> none_live req S)" for b
  proof -
    have update: "worker E req (\<lambda>S. none_live req S \<and> ?R S) (update_obj E rancher_codec Cached ?d) (\<lambda>r. none_live req)"
      by (rule import.sat_pre [OF worker_update_rancher]) (simp add: same)
    have "worker E req (\<lambda>S. none_live req S \<and> ?R S) (release_rancher_cluster E rc) (\<lambda>r. none_live req)"
      unfolding release_rancher_cluster_def f prod.case
      by (rule import.sat_if, rule import.sat_bind [OF update]) (auto intro!: import.sat_ret stable_rules)
    then show ?thesis by (rule import.sat_pure)
  qed
  show ?thesis
    unfolding reconcile_rancher_deletion_def
  proof (rule import.sat_bind [OF mark], rule import.sat_case_prod)
    fix r :: "capi_cluster \<times> go_error option" and capi err
    assume r: "r = (capi, err)"
    show "worker E req (\<lambda>S. gone_for req (fst r) S \<and> ?R S)
      (case err of Some e \<Rightarrow> ret (capi, no_requeue, Some e)
       | None \<Rightarrow> do { u \<leftarrow> release_rancher_cluster E rc; ret (capi, no_requeue, u) }) (\<lambda>r. gone_for req (fst r))"
      by (rule import.sat_case_option)
        (auto intro!: import.sat_bind [OF import.sat_pre [OF release [of "key_of (cc_meta capi) = req"]]]
          import.sat_ret stable_rules simp: r)
  qed
qed

lemma worker_capi_deletion:
  assumes "error_laws E" "key_of (cc_meta c) = req"
  shows "worker E req (\<lambda>S. True) (reconcile_capi_deletion E c)
    (\<lambda>r S. key_of (cc_meta (fst r)) = req \<and> (fst r = c \<or> none_live req S))"
proof -
  have sweep: "worker E req (\<lambda>S. True) (deleteDependentRancherCluster E c) (\<lambda>r S. r = None \<longrightarrow> gone_for req c S)"
    unfolding deleteDependentRancherCluster_def
    by (rule import.sat_bind [OF worker_sweep [OF assms(1) stable_const assms(2)]])
      (auto intro!: import.sat_ret stable_rules simp: assms(2))
  show ?thesis
    unfolding reconcile_capi_deletion_def
    by (rule import.sat_bind [OF sweep])
      (auto intro!: import.sat_case_option import.sat_ret stable_rules
        import.sat_bind [OF import.sat_pre [OF worker_release_capi]] simp: assms(2))
qed

section \<open>Reconcile\<close>

text \<open>
  What \<open>reconcile\<close> leaves for the last patch of \<open>Reconcile\<close>: the cluster of the request,
  with the finalizer unless no Rancher cluster is live or the finalizers are untouched.
\<close>

definition patchable :: "key \<Rightarrow> capi_cluster \<Rightarrow> capi_cluster \<Rightarrow> cluster_state \<Rightarrow> bool" where
  "patchable req base c S \<longleftrightarrow> key_of (cc_meta c) = req \<and>
     (m_finalizers (cc_meta c) = m_finalizers (cc_meta base) \<or> has_finalizer c \<or> none_live req S)"

lemma stable_patchable [stable_rules]: "steadfast (spares req) (patchable req base c)"
  unfolding patchable_def by (intro stable_rules)

definition result_patchable :: "key \<Rightarrow> capi_cluster \<Rightarrow> reconcile_result outcome \<Rightarrow> cluster_state \<Rightarrow> bool" where
  "result_patchable req base r S \<longleftrightarrow> (\<forall>capi res err. r = Ret (capi, res, err) \<longrightarrow> patchable req base capi S)"

lemma stable_result [stable_rules]: "steadfast (spares req) (result_patchable req base r)"
  unfolding result_patchable_def by (intro stable_rules)

text \<open>What the list of the Rancher clusters tells the worker.\<close>

definition listing :: "'w env \<Rightarrow> key \<Rightarrow> (go_error + rancher_cluster list) \<Rightarrow> cluster_state \<Rightarrow> bool" where
  "listing E req r S \<longleftrightarrow>
    (case r of
       Inl err \<Rightarrow> ignore_not_found E (Some err) = None \<longrightarrow> owned req S = {}
     | Inr [] \<Rightarrow> owned req S = {}
     | Inr (rc # rcs) \<Rightarrow> carries (key_labels req) (ORancher rc) \<and> owned req S \<subseteq> {ref (ORancher rc)} \<and>
         (\<not> deletion_is_zero (rc_meta rc) \<longrightarrow> none_live req S \<and> leaving rc S))"

lemma stable_listing [stable_rules]: "steadfast (spares req) (listing E req r)"
  unfolding listing_def by (intro stable_rules)

lemma worker_import_reconcile:
  assumes "finalizer_laws E" "error_laws E" "key_of (cc_meta c) = req"
  shows "worker E req (\<lambda>S. deletion_is_zero (cc_meta c) \<longrightarrow> has_finalizer c \<and> guarded_by req S)
    (import_reconcile E skip c) (result_patchable req c)"
proof -
  let ?b = "deletion_is_zero (cc_meta c) \<longrightarrow> has_finalizer c"
  let ?P = "\<lambda>S. deletion_is_zero (cc_meta c) \<longrightarrow> guarded_by req S"
  have capi: "worker E req (\<lambda>S. True) (lift (reconcile_capi_deletion E c)) (result_patchable req c)"
    by (rule import.sat_lift, rule import.sat_post [OF worker_capi_deletion [OF assms(2,3)]])
      (auto simp: result_patchable_def patchable_def)
  have rancher: "worker E req (\<lambda>S. none_live req S \<and> carries (key_labels req) (ORancher rc) \<and>
      owned req S \<subseteq> {ref (ORancher rc)} \<and> leaving rc S)
      (lift (reconcile_rancher_deletion E c rc)) (result_patchable req c)" for rc
  proof (rule import.sat_lift, rule import.sat_weaken [OF worker_rancher_deletion [OF assms(1)]], goal_cases)
    case (2 r S)
    then show ?case by (cases r) (simp add: result_patchable_def patchable_def)
  qed (simp add: assms(3))
  have import: "worker E req (\<lambda>S. mrc = None \<longrightarrow> guarded_by req S \<and> owned req S = {})
      (reconcile_import E skip c mrc) (result_patchable req c)" if "has_finalizer c" for mrc
    by (rule import.sat_post [OF worker_reconcile_import [OF assms(1)]])
      (auto simp: result_patchable_def patchable_def kept_def assms(3) that)
  have list: "worker E req ?P (list_obj E rancher_codec Cached [MatchingLabels (owner_labels c)])
      (\<lambda>r S. ?P S \<and> listing E req r S)"
    unfolding listing_def by (rule worker_list [OF assms(2) _ assms(3)]) (intro stable_rules)
  have "worker E req ?P (import_reconcile E skip c) (result_patchable req c)" if b: ?b
    unfolding import_reconcile_def Let_def
  proof (rule import.sat_bind [OF list], goal_cases)
    case (1 l)
    show ?case
    proof (cases l)
      case (Inl err)
      then show ?thesis
        using b by (auto intro!: sat_rules stable_rules import.sat_pre [OF capi] import.sat_pre [OF import]
            simp: result_patchable_def listing_def)
    next
      case (Inr rcs)
      then show ?thesis
        using b by (cases rcs)
          (auto intro!: sat_rules import.sat_pre [OF capi] import.sat_pre [OF import] import.sat_pre [OF rancher]
            simp: listing_def)
    qed
  qed
  then have "worker E req (\<lambda>S. ?b \<and> ?P S) (import_reconcile E skip c) (result_patchable req c)"
    by (rule import.sat_assume [OF _ typed_reconcile])
  then show ?thesis by (rule import.sat_pre) auto
qed

text \<open>The retried addition of the finalizer.\<close>

lemma worker_attempts:
  assumes "\<And>d. worker E req (\<lambda>S. key_of (cc_meta d) = req) (f d) (\<lambda>r S. key_of (cc_meta (fst r)) = req \<and> (snd r = None \<longrightarrow> Q (fst r) S))"
    and "\<And>d. steadfast (spares req) (Q d)"
  shows "worker E req (\<lambda>S. key_of (cc_meta d) = req) (attempts p n f d)
    (\<lambda>r S. key_of (cc_meta (fst r)) = req \<and> (snd r = None \<longrightarrow> Q (fst r) S))"
proof (induction n arbitrary: d)
  case (Suc n)
  show ?case
    unfolding attempts.simps
    by (rule import.sat_bind [OF assms(1)])
      (auto intro!: sat_rules import.sat_pre [OF Suc] stable_rules assms(2))
qed (simp add: assms(1))

lemma worker_add_finalizer:
  assumes "finalizer_laws E" "retry_law E"
  shows "worker E req (\<lambda>S. key_of (cc_meta c) = req) (add_import_finalizer E c)
    (\<lambda>r S. key_of (cc_meta (fst r)) = req \<and> (snd r = None \<longrightarrow> has_finalizer (fst r) \<and> guarded_by req S))"
proof -
  obtain n where n: "retry_on_conflict E = attempts (is_conflict E) n"
    using assms(2) by (auto simp: retry_law_def)
  let ?add = "\<lambda>d. cc_meta_update (m_finalizers_update (\<lambda>fs. fst (add_finalizer E fs CapiClusterFinalizer))) d"
  have added: "has_finalizer (?add d)" "key_of (cc_meta (?add d)) = key_of (cc_meta d)" for d
    by (simp_all add: has_finalizer_def finalizer_added [OF assms(1)])
  show ?thesis
    unfolding add_import_finalizer_def n Let_def
  proof (rule worker_attempts, goal_cases)
    case (1 d)
    have get: "worker E req (\<lambda>S. key_of (cc_meta d) = req) (get_obj E cluster_codec Cached (key_of (cc_meta d)))
        (\<lambda>r S. key_of (cc_meta d) = req \<and> (\<forall>x. r = Inr x \<longrightarrow> key_of (cc_meta x) = req))"
    proof -
      have "worker E req (\<lambda>S. key_of (cc_meta d) = req \<and> True) (get_obj E cluster_codec Cached (key_of (cc_meta d)))
          (\<lambda>r S. \<forall>x. r = Inr x \<longrightarrow> key_of (cc_meta x) = req)"
        by (rule import.sat_assume [where R = "\<lambda>_. True"])
          (auto intro!: import.sat_post [OF worker_get [where g = False]] stable_rules typing_rules)
      from import.sat_pure [OF this, of "key_of (cc_meta d) = req"] show ?thesis by simp
    qed
    have update: "worker E req (\<lambda>S. key_of (cc_meta x) = req) (update_obj E cluster_codec Cached (?add x))
        (\<lambda>r S. key_of (cc_meta x) = req \<and> (\<forall>y. r = Inr y \<longrightarrow> key_of (cc_meta y) = req \<and> has_finalizer y \<and> guarded_by req S))" for x
      by (rule import.sat_weaken [OF import.sat_pure [where b = "key_of (cc_meta x) = req",
            OF worker_update_cluster [where nl = False and c = "?add x"]]])
        (use added in \<open>auto simp: has_finalizer_def\<close>)
    show ?case
      by (rule import.sat_bind [OF get])
        (auto intro!: sat_rules import.sat_bind [OF update] import.sat_pre [OF import.sat_bind [OF update]] stable_rules simp: added)
  qed (intro stable_rules)
qed

definition ready_to_import :: "key \<Rightarrow> capi_cluster \<Rightarrow> cluster_state \<Rightarrow> bool" where
  "ready_to_import req c S \<longleftrightarrow> key_of (cc_meta c) = req \<and>
     (deletion_is_zero (cc_meta c) \<longrightarrow> HasClusterImportAnnotation (cc_meta c) \<or> has_finalizer c \<and> guarded_by req S)"

lemma stable_ready [stable_rules]: "steadfast (spares req) (ready_to_import req c)"
  unfolding ready_to_import_def by (intro stable_rules)

lemma worker_after_finalizer:
  assumes "finalizer_laws E" "error_laws E"
  shows "worker E req (ready_to_import req c) (import_after_finalizer E skip c) (\<lambda>r S. True)"
proof -
  have step: "worker E req (\<lambda>S. deletion_is_zero (cc_meta c) \<longrightarrow>
      HasClusterImportAnnotation (cc_meta c) \<or> has_finalizer c \<and> guarded_by req S)
      (import_after_finalizer E skip c) (\<lambda>r S. True)" if key: "key_of (cc_meta c) = req"
  proof -
    have patch: "worker E req (patchable req c x) (patch_obj E cluster_codec MergeFromLock c x) (\<lambda>r S. True)" for x
      by (rule import.sat_weaken [OF worker_patch_cluster [where R = "\<lambda>_. True" and nl = False]])
        (auto simp: patchable_def intro: stable_rules)
    show ?thesis
      unfolding import_after_finalizer_def Let_def
      by (intro import.sat_if import.sat_ret stable_rules TrueI
          import.sat_obind [OF import.sat_pre [OF worker_import_reconcile [OF assms key]]])
        (auto intro!: sat_rules stable_rules import.sat_bind [OF import.sat_pre [OF patch]] simp: result_patchable_def)
  qed
  have "worker E req (\<lambda>S. key_of (cc_meta c) = req \<and> (deletion_is_zero (cc_meta c) \<longrightarrow>
      HasClusterImportAnnotation (cc_meta c) \<or> has_finalizer c \<and> guarded_by req S))
      (import_after_finalizer E skip c) (\<lambda>r S. True)"
    by (rule import.sat_assume [OF step typed_after_finalizer])
  then show ?thesis
    by (rule import.sat_pre) (simp add: ready_to_import_def)
qed

lemma worker_Reconcile:
  assumes "finalizer_laws E" "error_laws E" "retry_law E"
  shows "worker E req (\<lambda>S. True) (import_Reconcile E skip req) (\<lambda>r S. True)"
  unfolding import_Reconcile_def
proof (rule import.sat_bind [OF worker_get [where g = False]], goal_cases)
  case (4 r)
  show ?case
  proof (cases r)
    case (Inl err)
    then show ?thesis by (auto intro!: sat_rules stable_rules)
  next
    case (Inr c)
    have contains: "contains_finalizer E (m_finalizers (cc_meta c)) CapiClusterFinalizer = has_finalizer c"
      using assms(1) by (simp add: finalizer_laws_def has_finalizer_def)
    show ?thesis
      unfolding Inr sum.case contains
      by (auto intro!: sat_rules stable_rules import.sat_pre [OF worker_after_finalizer [OF assms(1,2)]]
          import.sat_bind [OF import.sat_pre [OF worker_add_finalizer [OF assms(1,3)]]]
          simp: ready_to_import_def)
  qed
qed (auto intro: stable_rules)

end
