(* ===== verification/Lifecycle_Behaviour.thy ===== *)
theory Lifecycle_Behaviour
  imports Lifecycle Import_Behaviour
begin

text \<open>
  What the clean-up and the UI plugin controllers promise, and the order of the start-up.
\<close>

section \<open>Clean-up\<close>

definition released_cluster :: "'w env \<Rightarrow> rancher_cluster \<Rightarrow> rancher_cluster" where
  "released_cluster E = rc_meta_update (m_finalizers_update
     (\<lambda>fs. fst (remove_finalizer E fs CapiClusterFinalizer)))"

definition awaits_release :: "rancher_cluster \<Rightarrow> bool" where
  "awaits_release c \<longleftrightarrow>
     \<not> deletion_is_zero (rc_meta c) \<and> CapiClusterFinalizer \<in> set (m_finalizers (rc_meta c))"

lemma runs_cleanup:
  assumes "finalizer_laws E"
  shows "runs (cleanup_Reconcile E c) (\<lambda>r es.
    if awaits_release c
    then \<exists>a. es = [(RPatch Cached MergeFromLock (ORancher c) (ORancher (released_cluster E c)), a)] \<and>
      (snd r = None \<longleftrightarrow> (\<exists>d. a = RObj (ORancher d)))
    else es = [] \<and> r = (no_requeue, None))"
proof -
  have changed: "snd (remove_finalizer E fs f) = (f \<in> set fs)" for fs f
    using assms by (simp add: finalizer_laws_def)
  have found: "(\<exists>p. reply_obj rancher_codec a = Inr p) = (\<exists>d. a = RObj (ORancher d))" for a
    by (auto simp: reply_obj_Inr)
  show ?thesis
    unfolding cleanup_Reconcile_def changed released_cluster_def [symmetric]
    by (rule runsI)
      (auto intro!: trace_rules simp: awaits_release_def found [symmetric])
qed

lemma released_finalizers:
  assumes "finalizer_laws E"
  shows "set (m_finalizers (rc_meta (released_cluster E c))) =
    set (m_finalizers (rc_meta c)) - {CapiClusterFinalizer}"
  using assms by (simp add: released_cluster_def finalizer_laws_def)

section \<open>The UI plugin\<close>

text \<open>\<open>controllerutil.SetOwnerReference\<close> changes the owner references only.\<close>

definition owner_law :: "'w env \<Rightarrow> bool" where
  "owner_law E \<longleftrightarrow> (\<forall>r u v. set_owner_reference E r u = Inr v \<longrightarrow>
     (\<exists>os. v = un_meta_update (m_owners_update (\<lambda>_. os)) u))"

definition copy_of :: "unstructured \<Rightarrow> unstructured \<Rightarrow> bool" where
  "copy_of plugin d \<longleftrightarrow>
     un_gvk d = un_gvk plugin \<and> m_name (un_meta d) = m_name (un_meta plugin) \<and>
     m_namespace (un_meta d) = ''cattle-ui-plugin-system'' \<and>
     un_fields d ''spec'' = Some (case un_fields plugin ''spec'' of None \<Rightarrow> JNull | Some v \<Rightarrow> v)"

lemma copied:
  assumes "owner_law E" "set_owner_reference E r (destination_plugin p) = Inr d"
  shows "copy_of p d"
proof -
  obtain os where "d = un_meta_update (m_owners_update (\<lambda>_. os)) (destination_plugin p)"
    using assms unfolding owner_law_def by blast
  then show ?thesis by (simp add: copy_of_def destination_plugin_def)
qed

text \<open>
  What may happen to plugins: a copy of the one that was read is applied, and that one is
  deleted after its copy was applied without an error.
\<close>

fun plugin_moves :: "key \<Rightarrow> event list \<Rightarrow> event \<Rightarrow> bool" where
  "plugin_moves req us (RApply t (OUnstr d) owner, a) =
     (\<exists>p. (RGet Cached (KUnstr ui_plugin_gvk) req, RObj (OUnstr p)) \<in> set us \<and>
        m_deletion (un_meta p) = None \<and> copy_of p d)"
| "plugin_moves req us (RDelete t (OUnstr p), a) =
     ((RGet Cached (KUnstr ui_plugin_gvk) req, RObj (OUnstr p)) \<in> set us \<and>
      m_deletion (un_meta p) = None \<and>
      (\<exists>d owner b. (RApply Cached (OUnstr d) owner, b) \<in> set us \<and> reply_unit b = None \<and> copy_of p d))"
| "plugin_moves req us (r, a) = read_only r"

lemma runs_uiplugin:
  assumes "owner_law E"
  shows "runs (uiplugin_Reconcile E req) (\<lambda>r es. justified (plugin_moves req) es)"
  unfolding uiplugin_Reconcile_def move_plugin_def
  by (rule runsI)
    (use copied [OF assms] in \<open>auto intro!: trace_rules simp: reply_obj_Inr read_only_def\<close>)

section \<open>Start-up\<close>

text \<open>
  \<open>follows m rs\<close>: the requests of \<open>m\<close> are \<open>rs\<close> up to some point; \<open>m\<close> fails exactly if one
  of them did, and reaches the end if none did.
\<close>

definition healthy :: "event list \<Rightarrow> bool" where
  "healthy es \<longleftrightarrow> (\<forall>e \<in> set es. reply_unit (snd e) = None)"

lemma healthy_simps [simp]:
  "healthy []" "healthy (e # es) \<longleftrightarrow> reply_unit (snd e) = None \<and> healthy es"
  "healthy (es @ fs) \<longleftrightarrow> healthy es \<and> healthy fs"
  by (auto simp: healthy_def)

definition follows :: "('w st, go_error option) state \<Rightarrow> request list \<Rightarrow> bool" where
  "follows m rs \<longleftrightarrow> runs m (\<lambda>e es. \<exists>rest. rs = map fst es @ rest \<and>
     (e = None \<longleftrightarrow> healthy es) \<and> (e = None \<longrightarrow> rest = []))"

lemma follows_step: "follows (manager_step E name args) [RManager name args]"
  unfolding follows_def manager_step_def
  by (rule runsI) (auto intro!: trace_rules)

lemma follows_map:
  assumes "follows m rs"
  shows "follows (do { e \<leftarrow> m; ret (map_option f e) }) rs"
  unfolding follows_def
  by (rule runs_bind, rule runs_mono [OF assms [unfolded follows_def]]) auto

lemma follows_wrapped: "follows (wrapped_step E message name args) [RManager name args]"
  unfolding wrapped_step_def by (rule follows_map [OF follows_step])

lemma follows_in_order:
  "list_all2 follows ms rss \<Longrightarrow> follows (in_order ms) (concat rss)"
proof (induction rule: list_all2_induct)
  case Nil
  then show ?case by (simp add: follows_def)
next
  case (Cons m ms rs rss)
  show ?case
    unfolding follows_def in_order.simps
  proof (rule runs_bind, rule runs_mono [OF Cons.hyps(1) [unfolded follows_def]])
    fix e :: "go_error option" and es
    assume head: "\<exists>rest. rs = map fst es @ rest \<and> (e = None \<longleftrightarrow> healthy es) \<and> (e = None \<longrightarrow> rest = [])"
    show "runs (case e of None \<Rightarrow> in_order ms | Some err \<Rightarrow> ret (Some err))
      (\<lambda>b fs. \<exists>rest. concat (rs # rss) = map fst (es @ fs) @ rest \<and>
        (b = None \<longleftrightarrow> healthy (es @ fs)) \<and> (b = None \<longrightarrow> rest = []))"
    proof (cases e)
      case None
      then show ?thesis
        using head by (auto intro!: runs_mono [OF Cons.IH [unfolded follows_def]])
    qed (use head in auto)
  qed
qed

lemmas follows_steps = follows_step follows_wrapped

text \<open>The indexes are all registered before their errors are looked at.\<close>

definition index_requests :: "request list" where
  "index_requests = map (\<lambda>f. RManager ''IndexField'' [f])
     [configSecretNameField, configSecretNamespaceField, providerTypeField, providerNameField]"

lemma follows_indexFields: "follows (indexFields E) index_requests"
  unfolding follows_def indexFields_def indexField_def index_requests_def
  by (rule runsI) (auto intro!: trace_rules simp: first_error_def split: option.splits)

definition import_requests :: "request list" where
  "import_requests = [RManager ''Build'' [''cluster''],
     RManager ''Watch'' [''management.cattle.io/v3, Cluster''], RManager ''Watch'' [''v1, Namespace'']]"

definition operator_requests :: "request list" where
  "operator_requests = RManager ''GenericProviderReconciler.BuildWithManager'' [] # index_requests
     @ [RManager ''Complete'' [''ProviderReconciler''],
        RManager ''GenericProviderHealthCheckReconciler.SetupWithManager'' []]"

definition complete :: "string \<Rightarrow> request" where
  "complete name = RManager ''Complete'' [name]"

text \<open>Everything that the program asks of the manager, in this order.\<close>

definition startup :: "'w env \<Rightarrow> flags \<Rightarrow> request list" where
  "startup E fl =
     [RManager ''NewManager'' [metricsBindAddr fl, healthAddr fl,
        ''controller-leader-election-rancher-turtles'', format_bool (enableLeaderElection fl)],
      RManager ''AddReadyzCheck'' [''ping''], RManager ''AddHealthzCheck'' [''ping''],
      RManager ''client.New'' [''cluster.x-k8s.io/v1beta2, Cluster'']]
     @ import_requests @ [complete ''cleanup'', complete ''clusterctlconfig''] @ operator_requests
     @ (if gate E UIPlugin then [complete ''ui-plugin''] else [])
     @ (if gate E RancherCCTranslation then [complete ''rancher-credential-translation''] else [])
     @ [RManager ''Start'' []]"

lemma follows_list:
  assumes "list_all2 follows ms rss" "rs = concat rss"
  shows "follows (in_order ms) rs"
  using follows_in_order [OF assms(1)] assms(2) by simp

lemma follows_import: "follows (import_SetupWithManager E) import_requests"
  unfolding import_SetupWithManager_def
  by (rule follows_list [where rss = "map (\<lambda>r. [r]) import_requests"])
    (simp_all add: import_requests_def follows_wrapped)

lemma follows_operator: "follows (operator_SetupWithManager E) operator_requests"
proof -
  have "follows (BuildWithManager E)
      (RManager ''GenericProviderReconciler.BuildWithManager'' [] # index_requests)"
    unfolding BuildWithManager_def
    by (rule follows_list [where rss = "[[RManager ''GenericProviderReconciler.BuildWithManager'' []],
        index_requests]"]) (simp_all add: follows_step follows_indexFields)
  then have "follows (provider_SetupWithManager E)
      (RManager ''GenericProviderReconciler.BuildWithManager'' [] # index_requests
        @ [RManager ''Complete'' [''ProviderReconciler'']])"
    unfolding provider_SetupWithManager_def
    by (intro follows_list [where rss = "[RManager ''GenericProviderReconciler.BuildWithManager'' []
        # index_requests, [RManager ''Complete'' [''ProviderReconciler'']]]"]) (simp_all add: follows_step)
  then show ?thesis
    unfolding operator_SetupWithManager_def operator_requests_def
    by (intro follows_list [where rss = "[RManager ''GenericProviderReconciler.BuildWithManager'' []
          # index_requests @ [RManager ''Complete'' [''ProviderReconciler'']],
        [RManager ''GenericProviderHealthCheckReconciler.SetupWithManager'' []]]"])
      (simp_all add: follows_step)
qed

lemma follows_complete:
  "follows (cleanup_SetupWithManager E) [complete ''cleanup'']"
  "follows (clusterctlconfig_SetupWithManager E) [complete ''clusterctlconfig'']"
  "follows (uiplugin_SetupWithManager E) [complete ''ui-plugin'']"
  "follows (credential_SetupWithManager E) [complete ''rancher-credential-translation'']"
  unfolding cleanup_SetupWithManager_def clusterctlconfig_SetupWithManager_def
    uiplugin_SetupWithManager_def credential_SetupWithManager_def complete_def
  by (intro follows_map follows_steps)+

lemma follows_gated: "follows m rs \<Longrightarrow> follows (gated E f m) (if gate E f then rs else [])"
  by (simp add: gated_def follows_def)

lemma follows_checks:
  "follows (setupChecks E) [RManager ''AddReadyzCheck'' [''ping''], RManager ''AddHealthzCheck'' [''ping'']]"
  unfolding setupChecks_def
  by (rule follows_list [where rss = "[[RManager ''AddReadyzCheck'' [''ping'']],
      [RManager ''AddHealthzCheck'' [''ping'']]]"]) (simp_all add: follows_step)

definition reconciler_requests :: "'w env \<Rightarrow> request list list" where
  "reconciler_requests E =
     [[RManager ''client.New'' [''cluster.x-k8s.io/v1beta2, Cluster'']], import_requests,
      [complete ''cleanup''], [complete ''clusterctlconfig''], operator_requests,
      if gate E UIPlugin then [complete ''ui-plugin''] else [],
      if gate E RancherCCTranslation then [complete ''rancher-credential-translation''] else []]"

lemma follows_reconcilers: "follows (setupReconcilers E) (concat (reconciler_requests E))"
  unfolding setupReconcilers_def reconciler_requests_def
  by (rule follows_in_order)
    (simp del: concat.simps add: follows_step follows_import follows_operator follows_complete follows_gated)

lemma runs_main:
  "runs (main E fl) (\<lambda>n es. \<exists>rest. startup E fl = map fst es @ rest \<and>
     n = (if healthy es then 0 else 1) \<and> (healthy es \<longrightarrow> rest = []))"
proof -
  have steps: "follows (in_order
       [manager_step E ''NewManager'' [mo_metrics (manager_options fl), mo_health (manager_options fl),
          mo_leader_election_id (manager_options fl), format_bool (mo_leader_election (manager_options fl))],
        setupChecks E, setupReconcilers E, manager_step E ''Start'' []]) (startup E fl)"
    by (rule follows_list [where rss = "[[hd (startup E fl)],
        [RManager ''AddReadyzCheck'' [''ping''], RManager ''AddHealthzCheck'' [''ping'']],
        concat (reconciler_requests E), [RManager ''Start'' []]]"],
      simp add: startup_def manager_options_def follows_step follows_checks follows_reconcilers,
      simp add: startup_def reconciler_requests_def)
  show ?thesis
    unfolding main_def
    by (rule runs_bind, rule runs_mono [OF steps [unfolded follows_def]]) (auto split: option.split)
qed


section \<open>Properties\<close>

lemma prepared_new:
  assumes "finalizer_laws E"
  shows "CapiClusterFinalizer \<in> set (m_finalizers (rc_meta (fst (prepare_rancher_cluster E c None))))"
    "cleanup_filter (rc_meta (fst (prepare_rancher_cluster E c None)))"
proof -
  show "CapiClusterFinalizer \<in> set (m_finalizers (rc_meta (fst (prepare_rancher_cluster E c None))))"
    by (simp add: prepare_rewrite Let_def finalizer_added [OF assms])
  show "cleanup_filter (rc_meta (fst (prepare_rancher_cluster E c None)))"
    using prepare_new_labelled [of c E] by (simp add: cleanup_filter_def labelled_for_def owner_labels_def)
qed

text \<open>
  The clean-up controller asks for one thing: for a Rancher cluster that is being
  deleted and carries the import finalizer, a patch that takes this finalizer off and
  changes nothing else; it fails exactly if the patch does, and has nothing left to do on
  the result.  Every Rancher cluster that the import prepares for creation passes the
  controller's filter and is such a cluster once it is deleted.
\<close>

lemma cleanup_releases:
  assumes "finalizer_laws E"
  shows "(if awaits_release c
      then \<exists>a. trace_of (cleanup_Reconcile E c) w =
          [(RPatch Cached MergeFromLock (ORancher c) (ORancher (released_cluster E c)), a)] \<and>
        (snd (result_of (cleanup_Reconcile E c) w) = None \<longleftrightarrow> (\<exists>d. a = RObj (ORancher d)))
      else exec (cleanup_Reconcile E c) w = ((no_requeue, None), [])) \<and>
    set (m_finalizers (rc_meta (released_cluster E c))) =
      set (m_finalizers (rc_meta c)) - {CapiClusterFinalizer} \<and>
    exec (cleanup_Reconcile E (released_cluster E c)) v = ((no_requeue, None), []) \<and>
    (let rc = fst (prepare_rancher_cluster E d None) in
      cleanup_filter (rc_meta rc) \<and>
      (t \<noteq> 0 \<longrightarrow> awaits_release (rc_meta_update (m_deletion_update (\<lambda>_. Some t)) rc)))"
proof (intro conjI)
  show "set (m_finalizers (rc_meta (released_cluster E c))) =
      set (m_finalizers (rc_meta c)) - {CapiClusterFinalizer}"
    by (rule released_finalizers [OF assms])
  then have "\<not> awaits_release (released_cluster E c)" by (simp add: awaits_release_def)
  then show "exec (cleanup_Reconcile E (released_cluster E c)) v = ((no_requeue, None), [])"
    using runs_exec [OF runs_cleanup [OF assms, of "released_cluster E c"], of v]
    by (simp add: prod_eq_iff)
  show "let rc = fst (prepare_rancher_cluster E d None) in
      cleanup_filter (rc_meta rc) \<and>
      (t \<noteq> 0 \<longrightarrow> awaits_release (rc_meta_update (m_deletion_update (\<lambda>_. Some t)) rc))"
    by (simp add: prepared_new [OF assms] awaits_release_def deletion_is_zero_def)
  show "if awaits_release c
      then \<exists>a. trace_of (cleanup_Reconcile E c) w =
          [(RPatch Cached MergeFromLock (ORancher c) (ORancher (released_cluster E c)), a)] \<and>
        (snd (result_of (cleanup_Reconcile E c) w) = None \<longleftrightarrow> (\<exists>d. a = RObj (ORancher d)))
      else exec (cleanup_Reconcile E c) w = ((no_requeue, None), [])"
    using runs_exec [OF runs_cleanup [OF assms, of c], of w]
    by (simp add: prod_eq_iff split: if_splits)
qed

text \<open>
  C36.  A UI plugin is moved, not lost: the controller applies a copy, with the same
  name, kind and spec and in the namespace of the UI plugins, of the plugin it has read
  and that is not being deleted, and deletes that plugin only after its copy was applied
  without an error.  It writes nothing else.
\<close>

theorem plugin_moved:
  assumes "owner_law E"
  shows "justified (plugin_moves req) (trace_of (uiplugin_Reconcile E req) w)"
  by (rule runs_exec [OF runs_uiplugin [OF assms]])

definition demo_plugin :: unstructured where
  "demo_plugin = \<lparr>un_gvk = ui_plugin_gvk,
     un_meta = empty_meta\<lparr>m_name := ''capi'', m_namespace := ''cattle-turtles-system''\<rparr>,
     un_fields = [''spec'' \<mapsto> JStr ''ui'']\<rparr>"

lemma demo_plugin_stays: "m_deletion (un_meta demo_plugin) = None"
  by (simp add: demo_plugin_def empty_meta_def)

lemma demo_plugin_trace:
  "trace_of (uiplugin_Reconcile script_env demo_key)
     [RObj (OUnstr demo_plugin), RObj (ORole \<lparr>role_meta = empty_meta\<rparr>), ROk, ROk] =
   [(RGet Cached (KUnstr ui_plugin_gvk) demo_key, RObj (OUnstr demo_plugin)),
    (RGet Uncached KRole turtles_role, RObj (ORole \<lparr>role_meta = empty_meta\<rparr>)),
    (RApply Cached (OUnstr (destination_plugin demo_plugin)) ''ui-plugin-controller'', ROk),
    (RDelete Cached (OUnstr demo_plugin), ROk)]"
  by (simp add: run_simps uiplugin_Reconcile_def move_plugin_def demo_plugin_stays)

theorem plugin_moved_witness:
  "\<exists>d. copy_of demo_plugin d \<and> (RApply Cached (OUnstr d) ''ui-plugin-controller'', ROk) \<in>
     set (trace_of (uiplugin_Reconcile script_env demo_key)
       [RObj (OUnstr demo_plugin), RObj (ORole \<lparr>role_meta = empty_meta\<rparr>), ROk, ROk])"
proof -
  have "u = un_meta_update (m_owners_update (\<lambda>_. m_owners (un_meta u))) u" for u :: unstructured
    by simp
  then have "owner_law script_env"
    unfolding owner_law_def by (metis script_fields2(14) sum.inject(2))
  from plugin_moved [OF this, of demo_key "[RObj (OUnstr demo_plugin),
      RObj (ORole \<lparr>role_meta = empty_meta\<rparr>), ROk, ROk]"]
  have "copy_of demo_plugin (destination_plugin demo_plugin)"
    by (simp add: demo_plugin_trace)
  then show ?thesis unfolding demo_plugin_trace by auto
qed

text \<open>
  The start-up: the program asks the manager for its probes, its controllers with
  their watches and indexes, the gated controllers exactly if their gate is on, and last
  for its start, in this order and up to the first error; it exits with 0 if nothing has
  failed, after the whole list, and with 1 otherwise.
\<close>

theorem startup_order:
  "\<exists>rest. startup E fl = map fst (trace_of (main E fl) w) @ rest \<and>
     result_of (main E fl) w = (if healthy (trace_of (main E fl) w) then 0 else 1) \<and>
     (result_of (main E fl) w = 1 \<or> rest = [])"
  using runs_exec [OF runs_main [of E fl], of w] by fastforce

end
