(* ===== verification/Import_Interleaving.thy ===== *)
theory Import_Interleaving
  imports Import_Worker Lifecycle_Behaviour
begin

text \<open>
  The import controller with all its workers, the clean-up controller and everybody else
  on one management cluster, as a transition system, and what holds in every state it
  can reach.
\<close>

section \<open>The system\<close>

text \<open>
  The content of the management cluster, and for each CAPI cluster a worker is on the
  events of its run so far.  The work queue gives a key to one worker at a time.
\<close>

record system =
  content :: cluster_state
  working :: "key \<Rightarrow> event list option"

datatype actor = Importer key | Cleaner | Outside

inductive system_step :: "'w env \<Rightarrow> bool \<Rightarrow> actor \<Rightarrow> system \<Rightarrow> system \<Rightarrow> bool" for E skip where
  begins: "working s k = None \<Longrightarrow> system_step E skip (Importer k) s (s\<lparr>working := (working s)(k \<mapsto> [])\<rparr>)"
| requests: "working s k = Some us \<Longrightarrow> trace_of (import_Reconcile E skip k) w = us @ e # vs \<Longrightarrow>
    api E (content s) e S \<Longrightarrow>
    system_step E skip (Importer k) s (s\<lparr>content := S, working := (working s)(k \<mapsto> us @ [e])\<rparr>)"
| ends: "working s k = Some us \<Longrightarrow> system_step E skip (Importer k) s (s\<lparr>working := (working s)(k := None)\<rparr>)"
| cleans: "trace_of (cleanup_Reconcile E rc) w = us @ e # vs \<Longrightarrow> api E (content s) e S \<Longrightarrow>
    system_step E skip Cleaner s (s\<lparr>content := S\<rparr>)"
| others: "\<forall>k. spares k (content s) S \<Longrightarrow> system_step E skip Outside s (s\<lparr>content := S\<rparr>)"

text \<open>At first no Rancher cluster names a CAPI cluster as its owner, and no worker runs.\<close>

definition initial_system :: "system \<Rightarrow> bool" where
  "initial_system s \<longleftrightarrow> well_formed (content s) \<and> (\<forall>k. owned k (content s) = {} \<and> working s k = None)"

inductive reached :: "'w env \<Rightarrow> bool \<Rightarrow> system \<Rightarrow> bool" for E skip where
  at_first: "initial_system s \<Longrightarrow> reached E skip s"
| further: "reached E skip s \<Longrightarrow> system_step E skip a s t \<Longrightarrow> reached E skip t"

section \<open>Every step is allowed for\<close>

lemma cleanup_spares:
  assumes "finalizer_laws E" "trace_of (cleanup_Reconcile E rc) w = us @ e # vs" "api E S e T" "well_formed S"
  shows "spares k S T"
proof -
  have rc: "encode rancher_codec rc = ORancher rc" for rc by (simp add: rancher_codec_def)
  have "runs (cleanup_Reconcile E rc) (\<lambda>r es. \<forall>e \<in> set es.
      fst e = RPatch Cached MergeFromLock (ORancher rc) (ORancher (released_cluster E rc)))"
    by (rule runs_mono [OF runs_cleanup [OF assms(1)]]) (auto split: if_splits)
  from runs_exec [OF this, of w] obtain a where
    e: "e = (RPatch Cached MergeFromLock (ORancher rc) (ORancher (released_cluster E rc)), a)"
    unfolding assms(2) by (cases e) auto
  show ?thesis
    using assms(3,4) unfolding e
  proof (cases rule: api_patch)
    case 1
    then show ?thesis by (simp add: spares_refl)
  next
    case (2 old new)
    have same: "same_object new old" using 2(2) by (simp add: merge_patched_def)
    have kind: "kobj_kind new = KRancher" using 2(4) same by (simp add: same_object_def ref_def)
    have "carries (key_labels k) old" if "carries (key_labels k) new"
      using that 2(2) by (simp add: carries_def merge_patched_def released_cluster_def)
    then show ?thesis unfolding 2(5) by (rule put_rancher [OF 2(1) same kind])
  qed
qed

lemma import_step_other: "import_step j S T \<Longrightarrow> k \<noteq> j \<Longrightarrow> spares k S T"
  by (simp add: import_step_def)

lemma import_step_own:
  "import_step k S T \<Longrightarrow> import_inv k S \<Longrightarrow>
    import_inv k T \<and> keeps_or_advances (import_stage k S) (import_stage k T)"
  unfolding import_step_def by blast

text \<open>
  The invariant: that of every CAPI cluster, and a worker has seen what its triple
  allows for.
\<close>

definition consistent :: "'w env \<Rightarrow> system \<Rightarrow> bool" where
  "consistent E s \<longleftrightarrow> (\<forall>k. import_inv k (content s) \<and>
     (\<forall>us. working s k = Some us \<longrightarrow> (\<exists>S. import_inv k S \<and> play (api E) (spares k) S us (content s))))"

lemma worker_allowed:
  assumes "finalizer_laws E" "error_laws E" "retry_law E"
    and "import_inv k S" "play (api E) (spares k) S us T"
    and "trace_of (import_Reconcile E skip k) w = us @ e # vs" "api E T e U"
  shows "import_step k T U"
  using runs_exec [OF worker_Reconcile [OF assms(1-3), of k skip, unfolded sat_def], of w] assms(4-7) by blast

lemma step_allowed:
  assumes "finalizer_laws E" "error_laws E" "retry_law E" "consistent E s" "system_step E skip a s t"
  shows "(\<exists>j. a = Importer j \<and> import_step j (content s) (content t)) \<or> (\<forall>k. spares k (content s) (content t))"
  using assms(5)
proof cases
  case (requests k us w e vs S)
  then obtain S0 where "import_inv k S0" "play (api E) (spares k) S0 us (content s)"
    using assms(4) by (auto simp: consistent_def)
  from worker_allowed [OF assms(1-3) this requests(4,5)] show ?thesis using requests by simp
next
  case (cleans rc w us e vs S)
  then show ?thesis
    using cleanup_spares [OF assms(1) cleans(3,4)] assms(4) import_inv_wf by (auto simp: consistent_def)
qed (auto intro: spares_refl)

lemma step_consistent:
  assumes "finalizer_laws E" "error_laws E" "retry_law E" "consistent E s" "system_step E skip a s t"
  shows "consistent E t"
proof -
  note step = step_allowed [OF assms]
  have good: "import_inv k (content s)" for k using assms(4) by (simp add: consistent_def)
  have spared: "spares k (content s) (content t)" if "a \<noteq> Importer k" for k
    using step that by (auto dest: import_step_other [of _ _ _ k])
  have "import_inv k (content t)" for k
    using step
  proof
    assume "\<exists>j. a = Importer j \<and> import_step j (content s) (content t)"
    then show ?thesis
      using good spared [of k] by (cases "a = Importer k") (auto dest: import_step_own import_inv_spared [OF good])
  qed (auto intro: import_inv_spared [OF good])
  have seen: "\<exists>S. import_inv k S \<and> play (api E) (spares k) S us (content t)"
    if "working s k = Some us" "a \<noteq> Importer k" for k us
  proof -
    obtain S where "import_inv k S" "play (api E) (spares k) S us (content s)"
      using assms(4) \<open>working s k = Some us\<close> by (auto simp: consistent_def)
    then show ?thesis using spared [OF that(2)] by (auto intro: play.interfere)
  qed
  have "\<exists>S. import_inv k S \<and> play (api E) (spares k) S us (content t)" if run: "working t k = Some us" for k us
    using assms(5)
  proof cases
    case (begins j)
    then show ?thesis
      using run assms(4) by (cases "k = j") (auto simp: consistent_def intro: play.idle)
  next
    case (requests j vs w e ws S)
    show ?thesis
    proof (cases "k = j")
      case True
      then obtain S0 where "import_inv k S0" "play (api E) (spares k) S0 vs (content s)"
        using assms(4) requests(3) by (auto simp: consistent_def)
      then show ?thesis using run requests True by (auto intro: play.answer)
    next
      case False
      then have "working s k = Some us" using run requests by simp
      then show ?thesis using seen False requests(1) by simp
    qed
  next
    case (ends j vs)
    then show ?thesis
      using run assms(4) by (cases "k = j") (auto simp: consistent_def)
  next
    case (cleans rc w vs e ws S)
    then show ?thesis using run seen [of k us] by simp
  next
    case (others S)
    then show ?thesis using run seen [of k us] by simp
  qed
  with \<open>\<And>k. import_inv k (content t)\<close> show ?thesis by (simp add: consistent_def)
qed

lemma initial_consistent: "initial_system s \<Longrightarrow> consistent E s"
  by (auto simp: initial_system_def consistent_def import_inv_def live_def)

lemma reached_consistent:
  assumes "finalizer_laws E" "error_laws E" "retry_law E" "reached E skip s"
  shows "consistent E s"
  using assms(4) by induction (auto intro: initial_consistent step_consistent [OF assms(1-3)])

section \<open>A run for the examples\<close>

definition stored_cluster :: capi_cluster where
  "stored_cluster = cc_meta_update (m_uid_update (\<lambda>_. ''u1'')) demo_cluster"

definition stored_rancher :: rancher_cluster where
  "stored_rancher = rc_meta_update (\<lambda>m. m\<lparr>m_name := ''c-1'', m_uid := ''u2''\<rparr>) demo_rancher"

definition before_import :: cluster_state where
  "before_import = \<lparr>objects = [(KCluster, demo_key) \<mapsto> OCluster stored_cluster], uids = {''u1''}\<rparr>"

definition import_answers :: "response list" where
  "import_answers = [RObj (OCluster stored_cluster), RObjs [], RObj (OCluster stored_cluster),
     RObj (ORancher stored_rancher), RObj (OCluster stored_cluster)]"

definition reading_events :: "event list" where
  "reading_events =
   [(RGet Cached KCluster demo_key, RObj (OCluster stored_cluster)),
    (RList Cached KRancher [MatchingLabels (key_labels demo_key)], RObjs []),
    (RGet Uncached KCluster demo_key, RObj (OCluster stored_cluster))]"

definition creating_event :: event where
  "creating_event = (RCreate Cached (ORancher demo_rancher), RObj (ORancher stored_rancher))"

lemma stored_facts [simp]:
  "m_deletion (cc_meta stored_cluster) = None"
  "deletion_is_zero (cc_meta stored_cluster)"
  "\<not> HasClusterImportAnnotation (cc_meta stored_cluster)"
  "m_finalizers (cc_meta stored_cluster) = [CapiClusterFinalizer]"
  "m_uid (cc_meta stored_cluster) = ''u1''"
  "cc_conditions stored_cluster = cc_conditions demo_cluster"
  "key_of (cc_meta stored_cluster) = demo_key"
  "owner_labels stored_cluster = key_labels demo_key"
  "prepare_rancher_cluster script_env stored_cluster None = (demo_rancher, stored_cluster)"
  "ShouldAutoImport script_env stored_cluster importLabelName = ret (Inr True)"
  by (simp_all add: stored_cluster_def demo_cluster_def demo_key_def empty_meta_def deletion_is_zero_def
      HasClusterImportAnnotation_def HasAnnotation_def script_cond_get_def key_of_def
      demo_rancher_def prepare_rancher_cluster_def reconcileExternalFleetManagement_def
      owner_labels_def key_labels_def new_rancher_cluster_def cluster_description_def propagateLabels_def
      ShouldAutoImport_choice cluster_choice_def parse_bool_def CapiClusterFinalizer_def
      FleetAddonFinalizer_def Let_def)

lemma stored_run:
  "trace_of (import_Reconcile script_env False demo_key) import_answers =
    reading_events @ creating_event #
    [(RPatch Cached MergeFromLock (OCluster stored_cluster) (OCluster stored_cluster), RObj (OCluster stored_cluster))]"
  by (simp add: import_answers_def reading_events_def creating_event_def run_simps import_Reconcile_def
      import_after_finalizer_def import_reconcile_def reconcile_import_def reconcileNormal_def
      create_missing_cluster_def shouldAutoImportUncached_def)

definition after_import :: cluster_state where
  "after_import = add_object (ORancher stored_rancher) before_import"

definition at_work :: "cluster_state \<Rightarrow> event list \<Rightarrow> system" where
  "at_work S us = \<lparr>content = S, working = [demo_key \<mapsto> us]\<rparr>"

lemma before_objects [simp]:
  "objects before_import x = (if x = (KCluster, demo_key) then Some (OCluster stored_cluster) else None)"
  by (simp add: before_import_def)

lemma before_empty: "chosen KRancher ls before_import = {}"
  by (auto simp: chosen_def)

lemma before_initial: "initial_system \<lparr>content = before_import, working = Map.empty\<rparr>"
  unfolding initial_system_def well_formed_def
  by (auto simp: owned_def before_empty ref_def) (simp_all add: before_import_def)

lemma demo_rancher_name [simp]: "m_name (rc_meta demo_rancher) = []" "m_deletion (rc_meta demo_rancher) = None"
  by (simp_all add: demo_rancher_def prepare_rancher_cluster_def optOutOfClusterOwner_def propagateLabels_def
      reconcileExternalFleetManagement_def addFleetAnnotation_def removeFleetAnnotation_def
      new_rancher_cluster_def empty_meta_def Let_def)

lemma demo_rancher_owned: "carries (key_labels demo_key) (ORancher demo_rancher)"
  by (rule prepare_kept(3) [OF script_finalizer_laws, of stored_cluster None demo_rancher stored_cluster])
    (simp_all add: kept_def has_finalizer_def)

lemma stored_rancher_meta [simp]:
  "kobj_kind (ORancher stored_rancher) = KRancher" "m_uid (rc_meta stored_rancher) = ''u2''"
  "m_deletion (rc_meta stored_rancher) = None" "as_sent (ORancher stored_rancher) (ORancher demo_rancher)"
  "m_namespace (rc_meta stored_rancher) = m_namespace (rc_meta demo_rancher)"
  "carries (key_labels demo_key) (ORancher stored_rancher)"
  using demo_rancher_owned by (simp_all add: stored_rancher_def as_sent_def carries_def)

lemma api_reads: "e \<in> set reading_events \<Longrightarrow> api script_env before_import e before_import"
  by (auto simp: reading_events_def intro!: api.found api.listed) (simp add: before_empty)

lemma api_creates: "api script_env before_import creating_event after_import"
  unfolding creating_event_def after_import_def add_object_def
  by (rule api.created) (simp_all add: ref_def answered_by_def, simp add: before_import_def)

lemma works_on:
  assumes "reached E skip (at_work S us)" "trace_of (import_Reconcile E skip demo_key) w = us @ e # vs" "api E S e T"
  shows "reached E skip (at_work T (us @ [e]))"
proof -
  have "system_step E skip (Importer demo_key) (at_work S us)
      ((at_work S us)\<lparr>content := T, working := (working (at_work S us))(demo_key \<mapsto> us @ [e])\<rparr>)"
    by (rule requests [where us = us]) (use assms(2,3) in \<open>simp_all add: at_work_def\<close>)
  from further [OF assms(1) this] show ?thesis by (simp add: at_work_def)
qed

lemma import_reached:
  "reached script_env False (at_work before_import reading_events)"
  "system_step script_env False (Importer demo_key) (at_work before_import reading_events)
     (at_work after_import (reading_events @ [creating_event]))"
proof -
  obtain vs where run: "trace_of (import_Reconcile script_env False demo_key) import_answers =
      reading_events @ creating_event # vs"
    using stored_run by blast
  have start: "reached script_env False (at_work before_import [])"
    using further [OF at_first [OF before_initial] begins [of _ demo_key]] by (simp add: at_work_def)
  obtain e1 e2 e3 where es: "reading_events = [e1, e2, e3]" by (simp add: reading_events_def)
  have "set reading_events = {e1, e2, e3}" unfolding es by simp
  then have "api script_env before_import e1 before_import" "api script_env before_import e2 before_import"
    "api script_env before_import e3 before_import"
    using api_reads by blast+
  with works_on [OF works_on [OF works_on [OF start, where e = e1], where e = e2], where e = e3] run show "reached script_env False (at_work before_import reading_events)"
    unfolding es by simp
  show "system_step script_env False (Importer demo_key) (at_work before_import reading_events)
     (at_work after_import (reading_events @ [creating_event]))"
    using requests [of "at_work before_import reading_events" demo_key reading_events script_env False import_answers
        creating_event vs after_import] run api_creates by (simp add: at_work_def)
qed

lemma import_stages:
  "import_stage demo_key before_import = Guarded" "import_stage demo_key after_import = Imported"
  "owned demo_key after_import = {ref (ORancher stored_rancher)}"
proof -
  have "(KCluster, demo_key) \<noteq> ref (ORancher stored_rancher)" by (simp add: ref_def)
  then have guarded: "guarded_by demo_key before_import" "guarded_by demo_key after_import"
    by (auto simp: guarded_by_def after_import_def add_objects)
  have owned: "owned demo_key before_import = {}" by (simp add: owned_def before_empty)
  show one: "owned demo_key after_import = {ref (ORancher stored_rancher)}"
    by (auto simp: owned_def chosen_def after_import_def add_objects split: if_splits)
  show "import_stage demo_key before_import = Guarded"
    using guarded owned by (simp add: import_stage_def live_def)
  show "import_stage demo_key after_import = Imported"
    using guarded one by (auto simp: import_stage_def live_def after_import_def add_objects)
qed

section \<open>Properties\<close>





end
