(* ===== verification/Import_Progress.thy ===== *)
theory Import_Progress
  imports Import_Interleaving
begin

text \<open>
  What a run of the import controller achieves when nobody disturbs it and the server does
  what it is asked for: the logic of Rely_Guarantee with no interference, which makes it a
  Hoare logic.
\<close>

section \<open>A server that answers\<close>

text \<open>
  No request fails, but for a locked patch computed from a version that is not the stored
  one, which may be refused.
\<close>

fun refusable :: "cluster_state \<Rightarrow> request \<Rightarrow> bool" where
  "refusable S (RPatch t MergeFromLock base n) =
     (case objects S (ref n) of
        None \<Rightarrow> True
      | Some old \<Rightarrow> m_resource_version (kobj_meta base) \<noteq> m_resource_version (kobj_meta old))"
| "refusable S r = False"

definition obliges :: "'w env \<Rightarrow> cluster_state \<Rightarrow> event \<Rightarrow> cluster_state \<Rightarrow> bool" where
  "obliges E S e T \<longleftrightarrow> api E S e T \<and> (\<forall>err. snd e = RErr err \<longrightarrow> refusable S (fst e))"

abbreviation alone :: "'w env \<Rightarrow> (cluster_state \<Rightarrow> bool) \<Rightarrow> ('w st, 'a) state \<Rightarrow> ('a \<Rightarrow> cluster_state \<Rightarrow> bool) \<Rightarrow> bool" where
  "alone E \<equiv> sat (obliges E) (=) (\<lambda>_ _. True) (\<lambda>_. True)"

interpretation quiet: rely_guarantee "obliges E" "(=)" "\<lambda>_ _. True" "\<lambda>_. True" for E
  by unfold_locales simp_all

lemma stable_alone [stable_rules]: "steadfast (=) P"
  by (simp add: steadfast_def)

section \<open>Requests\<close>

lemma alone_get:
  assumes "t \<noteq> Remote"
  shows "alone E (\<lambda>S. P S \<and> objects S (KCluster, k) = Some (OCluster c)) (get_obj E cluster_codec t k)
    (\<lambda>r S. r = Inr c \<and> P S \<and> objects S (KCluster, k) = Some (OCluster c))"
  unfolding get_obj_def
proof (rule quiet.sat_reply, goal_cases)
  case (3 S a T)
  then show ?case
    using assms by (auto simp: obliges_def cluster_codec_def reply_obj_def elim!: api_getE)
qed (rule stable_alone)+

lemma alone_list:
  assumes "key_of (cc_meta c) = k"
  shows "alone E (\<lambda>S. P S \<and> well_formed S) (list_obj E rancher_codec Cached [MatchingLabels (owner_labels c)])
    (\<lambda>r S. P S \<and> well_formed S \<and> (\<exists>rcs. r = Inr rcs \<and>
      set (map ORancher rcs) = {ob. \<exists>x \<in> owned k S. objects S x = Some ob}))"
  unfolding list_obj_def
proof (rule quiet.sat_reply, goal_cases)
  case (3 S a T)
  then have api: "api E S (RList Cached KRancher [MatchingLabels (key_labels k)], a) T"
    and ok: "\<And>err. a \<noteq> RErr err" and S: "P S" "well_formed S"
    using owner_labels_key [of c] assms by (auto simp: obliges_def rancher_codec_def)
  have T: "T = S" by (rule api_list(1) [OF api])
  obtain obs where a: "a = RObjs obs" using api_list(2) [OF api] ok by auto
  have all: "set obs = {ob. \<exists>x \<in> owned k S. objects S x = Some ob}"
    using api_list(3) [OF api _ refl a] by (simp add: owned_def)
  have "kobj_kind ob = KRancher" if ob: "ob \<in> set obs" for ob
  proof -
    obtain x where x: "fst x = KRancher" "objects S x = Some ob"
      using ob unfolding all owned_def chosen_def by blast
    then show ?thesis using well_formedD [OF S(2) x(2)] by (auto simp: ref_def)
  qed
  then have "\<forall>ob \<in> set obs. kobj_kind ob = KRancher" by blast
  from reply_ranchers [OF this] obtain rcs where "obs = map ORancher rcs" "reply_list rancher_codec a = Inr rcs"
    using a by auto
  then show ?case using S all by (auto simp: T)
qed (rule stable_alone)+

lemma alone_sweep:
  assumes "error_laws E" "key_of (cc_meta c) = k"
  shows "alone E (\<lambda>S. well_formed S \<and> objects S (KCluster, k) = Some ob)
    (delete_all_of E rancher_codec [MatchingLabels (owner_labels c)])
    (\<lambda>r S. r = None \<and> well_formed S \<and> objects S (KCluster, k) = Some ob \<and> none_live k S)"
  unfolding delete_all_of_def
proof (rule quiet.sat_reply, goal_cases)
  case (3 S a T)
  then have api: "api E S (RDeleteAllOf Cached KRancher [MatchingLabels (key_labels k)], a) T"
    and ok: "\<And>err. a \<noteq> RErr err" and S: "well_formed S" "objects S (KCluster, k) = Some ob"
    using owner_labels_key [of c] assms by (auto simp: obliges_def rancher_codec_def)
  have a: "reply_unit a = None" using ok by (cases a) (auto simp: reply_unit_def)
  note facts = api_sweep [OF api]
  have "well_formed T" using facts(2) S(1) by (auto simp: spares_def)
  moreover have "objects T (KCluster, k) = Some ob"
    using facts(1) S(2) by (elim disjE conjE) (drule spec [of _ "(KCluster, k)"], simp_all add: chosen_def)
  moreover have "none_live k T"
    using facts(3) [OF _ assms(1)] a assms(1) by (simp add: error_laws_def)
  ultimately show ?case using a by simp
qed (rule stable_alone)+

text \<open>The last thing to know of a CAPI cluster that is let go.\<close>

abbreviation let_go :: "key \<Rightarrow> cluster_state \<Rightarrow> bool" where
  "let_go k S \<equiv> well_formed S \<and> none_live k S \<and> \<not> guarded_by k S"

lemma released_put:
  assumes "objects S (ref old) = Some old" "same_object new old" "ref new = (KCluster, k)"
    and "CapiClusterFinalizer \<notin> set (m_finalizers (kobj_meta new))" "well_formed S" "none_live k S"
  shows "let_go k (put new S)"
  using put_cluster(2,4) [OF assms(1-3)] put_well_formed [OF assms(1,2,5)] assms(4,6) by simp

lemma alone_update_cluster:
  assumes "\<not> has_finalizer c" "key_of (cc_meta c) = k"
  shows "alone E (\<lambda>S. well_formed S \<and> none_live k S) (update_obj E cluster_codec Cached c)
    (\<lambda>r S. let_go k S \<and> (\<exists>d. r = Inr d \<and> key_of (cc_meta d) = k \<and> \<not> has_finalizer d))"
  unfolding update_obj_def
proof (rule quiet.sat_reply, goal_cases)
  case (3 S a T)
  then have api: "api E S (RUpdate Cached (OCluster c), a) T" and ok: "\<And>err. a \<noteq> RErr err"
    and S: "well_formed S" "none_live k S"
    by (auto simp: obliges_def cluster_codec_def)
  from api S(1) show ?case
  proof (cases rule: api_update)
    case 1
    then show ?thesis using ok by simp
  next
    case (2 old new)
    have ref: "ref new = (KCluster, k)" using 2(2,5) assms(2) by (simp add: same_object_def ref_def)
    then obtain d where d: "new = OCluster d" by (auto simp: ref_def cluster_kind)
    have fin: "CapiClusterFinalizer \<notin> set (m_finalizers (kobj_meta new))"
      using 2(3) assms(1) by (simp add: as_sent_def has_finalizer_def)
    have "a = RObj new" using 2(4) ok by (auto simp: answered_by_def)
    then show ?thesis
      using released_put [OF 2(1,2) ref fin S] ref fin d
      by (auto simp: 2(7) reply_obj_def cluster_codec_def ref_def has_finalizer_def)
  qed
qed (rule stable_alone)+

lemma alone_patch_cluster:
  assumes "has_finalizer c" "\<not> has_finalizer n" "key_of (cc_meta n) = k"
    and R: "\<And>S old new. objects S (ref old) = Some old \<Longrightarrow> same_object new old \<Longrightarrow> ref new = (KCluster, k) \<Longrightarrow>
      R S \<Longrightarrow> R (put new S)"
  shows "alone E (\<lambda>S. well_formed S \<and> none_live k S \<and>
      (\<not> guarded_by k S \<or> objects S (KCluster, k) = Some (OCluster c)) \<and> R S)
    (patch_obj E cluster_codec MergeFromLock c n)
    (\<lambda>r S. let_go k S \<and> R S \<and> (\<forall>d. r = Inr d \<longrightarrow> key_of (cc_meta d) = k \<and> \<not> has_finalizer d))"
  unfolding patch_obj_def
proof (rule quiet.sat_reply, goal_cases)
  case (3 S a T)
  then have api: "api E S (RPatch Cached MergeFromLock (OCluster c) (OCluster n), a) T"
    and ok: "\<And>err. a = RErr err \<Longrightarrow> refusable S (RPatch Cached MergeFromLock (OCluster c) (OCluster n))"
    and S: "well_formed S" "none_live k S" "\<not> guarded_by k S \<or> objects S (KCluster, k) = Some (OCluster c)" "R S"
    by (auto simp: obliges_def cluster_codec_def)
  from api S(1) show ?case
  proof (cases rule: api_patch)
    case 1
    then obtain err where a: "a = RErr err" by auto
    then have "\<not> guarded_by k S"
      using ok [OF a] S(3) assms(3) by (auto simp: ref_def)
    then show ?thesis using S a by (simp add: 1 reply_obj_def)
  next
    case (2 old new)
    have same: "same_object new old" using 2(2) by (simp add: merge_patched_def)
    have ref: "ref new = (KCluster, k)" using 2(4) same assms(3) by (simp add: same_object_def ref_def)
    then obtain d where d: "new = OCluster d" by (auto simp: ref_def cluster_kind)
    have "m_finalizers (cc_meta n) \<noteq> m_finalizers (cc_meta c)" using assms(1,2) by (auto simp: has_finalizer_def)
    then have fin: "CapiClusterFinalizer \<notin> set (m_finalizers (kobj_meta new))"
      using 2(2) assms(2) by (simp add: merge_patched_def has_finalizer_def)
    have "\<not> has_finalizer d" "key_of (cc_meta d) = k" using fin ref d by (auto simp: has_finalizer_def ref_def)
    moreover have "R T" unfolding 2(5) by (rule R [OF 2(1) same ref S(4)])
    moreover have "let_go k T" unfolding 2(5) by (rule released_put [OF 2(1) same ref fin S(1,2)])
    moreover have "reply_obj cluster_codec a = Inr d \<or> (\<exists>err. reply_obj cluster_codec a = Inl err)"
      using 2(3) d by (auto simp: answered_by_def reply_obj_def cluster_codec_def)
    ultimately show ?thesis by auto
  qed
qed (rule stable_alone)+

lemma alone_update_rancher:
  "alone E (\<lambda>S. let_go k S \<and> leaving rc S) (update_obj E rancher_codec Cached rc) (\<lambda>r S. let_go k S)"
  unfolding update_obj_def
proof (rule quiet.sat_reply, goal_cases)
  case (3 S a T)
  then have api: "api E S (RUpdate Cached (ORancher rc), a) T" and S: "let_go k S" "leaving rc S"
    by (auto simp: obliges_def rancher_codec_def)
  then have wf: "well_formed S" by simp
  from api wf show ?case
  proof (cases rule: api_update)
    case 1
    then show ?thesis using S by simp
  next
    case (2 old new)
    have kind: "kobj_kind new = KRancher" using 2(3) by (simp add: as_sent_def)
    have marked: "m_deletion (kobj_meta new) \<noteq> None"
      using S(2) 2(1,2,5,6) by (auto simp: leaving_def same_object_def)
    have "x \<notin> live k S" for x using S(1) by blast
    then have "x \<notin> live k T" for x
      using marked by (cases "x = ref new") (auto simp: live_def owned_def chosen_def 2(7) put_objects settled_Some)
    then have "none_live k T" by blast
    moreover have "guarded_by k T = guarded_by k S"
      using kind by (auto simp: guarded_by_def 2(7) put_objects ref_def)
    ultimately show ?thesis using put_well_formed [OF 2(1,2) wf] S(1) by (simp add: 2(7))
  qed
qed (rule stable_alone)+


section \<open>A deletion\<close>

abbreviation handed_back :: "key \<Rightarrow> capi_cluster \<Rightarrow> bool" where
  "handed_back k c \<equiv> key_of (cc_meta c) = k \<and> \<not> has_finalizer c"

lemma released_cluster_facts:
  assumes "finalizer_laws E"
  shows "\<not> has_finalizer (imported_and_released E c)"
    "key_of (cc_meta (imported_and_released E c)) = key_of (cc_meta c)"
  using finalizer_gone [OF assms] by (simp_all add: imported_and_released_def has_finalizer_def key_of_def)

lemma alone_mark:
  assumes "finalizer_laws E" "has_finalizer c" "key_of (cc_meta c) = k"
    and R: "\<And>S old new. objects S (ref old) = Some old \<Longrightarrow> same_object new old \<Longrightarrow> ref new = (KCluster, k) \<Longrightarrow>
      R S \<Longrightarrow> R (put new S)"
  shows "alone E (\<lambda>S. well_formed S \<and> none_live k S \<and> objects S (KCluster, k) = Some (OCluster c) \<and> R S)
    (import_reconcileDelete E c) (\<lambda>r S. let_go k S \<and> R S \<and> handed_back k (fst r))"
proof -
  have patch: "alone E (\<lambda>S. well_formed S \<and> none_live k S \<and> objects S (KCluster, k) = Some (OCluster c) \<and> R S)
      (patch_obj E cluster_codec MergeFromLock c (imported_and_released E c))
      (\<lambda>r S. let_go k S \<and> R S \<and> (\<forall>d. r = Inr d \<longrightarrow> key_of (cc_meta d) = k \<and> \<not> has_finalizer d))"
    by (rule quiet.sat_pre [OF alone_patch_cluster [where R = R, OF assms(2)]])
      (simp_all add: released_cluster_facts [OF assms(1)] assms(3) R)
  show ?thesis
    unfolding import_reconcileDelete_def Let_def
    by (rule quiet.sat_bind [OF patch])
      (auto intro!: quiet.sat_case_sum quiet.sat_ret stable_rules simp: released_cluster_facts [OF assms(1)] assms(3))
qed

lemma alone_rancher_deletion:
  assumes "finalizer_laws E" "has_finalizer c" "key_of (cc_meta c) = k"
  shows "alone E (\<lambda>S. well_formed S \<and> none_live k S \<and> objects S (KCluster, k) = Some (OCluster c) \<and> leaving rc S)
    (reconcile_rancher_deletion E c rc) (\<lambda>r S. let_go k S \<and> handed_back k (fst r))"
proof -
  have mark: "alone E (\<lambda>S. well_formed S \<and> none_live k S \<and> objects S (KCluster, k) = Some (OCluster c) \<and> leaving rc S)
      (import_reconcileDelete E c) (\<lambda>r S. let_go k S \<and> leaving rc S \<and> handed_back k (fst r))"
    by (rule alone_mark [OF assms]) (rule leaving_put)
  obtain fs removed where f: "remove_finalizer E (m_finalizers (rc_meta rc)) CapiClusterFinalizer = (fs, removed)"
    by fastforce
  let ?d = "rc_meta_update (m_finalizers_update (\<lambda>_. fs)) rc"
  have "leaving ?d S = leaving rc S" for S by (simp add: leaving_def ref_def)
  then have update: "alone E (\<lambda>S. let_go k S \<and> leaving rc S) (update_obj E rancher_codec Cached ?d) (\<lambda>r S. let_go k S)"
    using alone_update_rancher [of E k ?d] by simp
  have release: "alone E (\<lambda>S. let_go k S \<and> leaving rc S) (release_rancher_cluster E rc) (\<lambda>r S. let_go k S)"
    unfolding release_rancher_cluster_def f prod.case
    by (rule quiet.sat_if, rule quiet.sat_bind [OF update]) (auto intro!: quiet.sat_ret stable_rules)
  note released = quiet.sat_pure [OF release]
  show ?thesis
    unfolding reconcile_rancher_deletion_def
  proof (rule quiet.sat_bind [OF mark], rule quiet.sat_case_prod)
    fix r :: "capi_cluster \<times> go_error option" and capi err
    assume r: "r = (capi, err)"
    show "alone E (\<lambda>S. let_go k S \<and> leaving rc S \<and> handed_back k (fst r))
      (case err of Some e \<Rightarrow> ret (capi, no_requeue, Some e)
       | None \<Rightarrow> do { u \<leftarrow> release_rancher_cluster E rc; ret (capi, no_requeue, u) })
      (\<lambda>r S. let_go k S \<and> handed_back k (fst r))"
      by (rule quiet.sat_case_option)
        (auto intro!: quiet.sat_bind [OF quiet.sat_pre [OF released [of "handed_back k capi"]]]
          quiet.sat_ret stable_rules simp: r)
  qed
qed

lemma alone_capi_deletion:
  assumes "finalizer_laws E" "error_laws E" "has_finalizer c" "key_of (cc_meta c) = k"
  shows "alone E (\<lambda>S. well_formed S \<and> objects S (KCluster, k) = Some (OCluster c))
    (reconcile_capi_deletion E c) (\<lambda>r S. let_go k S \<and> handed_back k (fst r))"
proof -
  have "snd (remove_finalizer E (m_finalizers (cc_meta c)) CapiClusterFinalizer)"
    using assms(1,3) by (simp add: finalizer_laws_def has_finalizer_def)
  then obtain fs where f: "remove_finalizer E (m_finalizers (cc_meta c)) CapiClusterFinalizer = (fs, True)"
    by (cases "remove_finalizer E (m_finalizers (cc_meta c)) CapiClusterFinalizer") simp
  have gone: "CapiClusterFinalizer \<notin> set fs" using finalizer_gone [OF assms(1)] f by (metis fst_conv)
  let ?d = "cc_meta_update (m_finalizers_update (\<lambda>_. fs)) c"
  have update: "alone E (\<lambda>S. well_formed S \<and> none_live k S) (update_obj E cluster_codec Cached ?d)
      (\<lambda>r S. let_go k S \<and> (\<exists>d. r = Inr d \<and> key_of (cc_meta d) = k \<and> \<not> has_finalizer d))"
    by (rule alone_update_cluster) (simp_all add: has_finalizer_def gone assms(4))
  have release: "alone E (\<lambda>S. well_formed S \<and> none_live k S) (release_capi_cluster E c)
      (\<lambda>r S. let_go k S \<and> handed_back k (fst r))"
    unfolding release_capi_cluster_def f prod.case Let_def if_True
    by (rule quiet.sat_bind [OF update]) (auto intro!: quiet.sat_ret stable_rules)
  have sweep: "alone E (\<lambda>S. well_formed S \<and> objects S (KCluster, k) = Some (OCluster c))
      (deleteDependentRancherCluster E c) (\<lambda>r S. r = None \<and> well_formed S \<and> none_live k S)"
    unfolding deleteDependentRancherCluster_def
    by (rule quiet.sat_bind [OF alone_sweep [OF assms(2,4)]])
      (use assms(2) in \<open>auto intro!: quiet.sat_ret stable_rules simp: error_laws_def\<close>)
  show ?thesis
    unfolding reconcile_capi_deletion_def
  proof (rule quiet.sat_bind [OF sweep], rule quiet.sat_case_option, goal_cases)
    case (1 r)
    then show ?case
      by (auto intro!: quiet.sat_bind [OF quiet.sat_pre [OF release]] quiet.sat_ret stable_rules)
  next
    case (2 r e)
    then show ?case by (auto intro!: quiet.sat_ret stable_rules)
  qed
qed

definition given_back :: "key \<Rightarrow> reconcile_result outcome \<Rightarrow> cluster_state \<Rightarrow> bool" where
  "given_back k r S \<longleftrightarrow> (\<exists>capi res err. r = Ret (capi, res, err) \<and> let_go k S \<and> handed_back k capi)"

lemma alone_deletion:
  assumes "finalizer_laws E" "error_laws E" "has_finalizer c" "key_of (cc_meta c) = k" "\<not> deletion_is_zero (cc_meta c)"
  shows "alone E (\<lambda>S. import_inv k S \<and> objects S (KCluster, k) = Some (OCluster c)) (import_reconcile E skip c)
    (given_back k)"
proof -
  have list: "alone E (\<lambda>S. import_inv k S \<and> objects S (KCluster, k) = Some (OCluster c))
      (list_obj E rancher_codec Cached [MatchingLabels (owner_labels c)])
      (\<lambda>r S. well_formed S \<and> objects S (KCluster, k) = Some (OCluster c) \<and> (\<exists>rcs. r = Inr rcs \<and>
        (\<forall>rc rest. rcs = rc # rest \<longrightarrow> \<not> deletion_is_zero (rc_meta rc) \<longrightarrow> none_live k S \<and> leaving rc S)))"
  proof (rule quiet.sat_weaken [OF alone_list [OF assms(4), where P = "\<lambda>S. import_inv k S \<and> objects S (KCluster, k) = Some (OCluster c)"]], goal_cases)
    case (2 r S)
    then obtain rcs where "r = Inr rcs" "set (map ORancher rcs) = {ob. \<exists>x \<in> owned k S. objects S x = Some ob}"
      "import_inv k S" by blast
    with known_clusters(2) [of k S rcs] 2 show ?case by auto
  qed (auto dest: import_inv_wf)
  have rancher: "alone E (\<lambda>S. well_formed S \<and> none_live k S \<and> objects S (KCluster, k) = Some (OCluster c) \<and> leaving rc S)
      (lift (reconcile_rancher_deletion E c rc)) (given_back k)" for rc
    unfolding given_back_def
    by (rule quiet.sat_lift, rule quiet.sat_post [OF alone_rancher_deletion [OF assms(1,3,4)]]) auto
  have capi: "alone E (\<lambda>S. well_formed S \<and> objects S (KCluster, k) = Some (OCluster c))
      (lift (reconcile_capi_deletion E c)) (given_back k)"
    unfolding given_back_def
    by (rule quiet.sat_lift, rule quiet.sat_post [OF alone_capi_deletion [OF assms(1-4)]]) auto
  show ?thesis
    unfolding import_reconcile_def Let_def
  proof (rule quiet.sat_bind [OF list], goal_cases)
    case (1 l)
    show ?case
    proof (cases l)
      case (Inl err)
      show ?thesis
        unfolding Inl
        by (rule quiet.sat_absurd [where R = well_typed], intro typing_rules typed_branches) (simp_all add: typing_simps)
    next
      case (Inr rcs)
      then show ?thesis
        using assms(5) by (cases rcs)
          (auto intro!: quiet.sat_if quiet.sat_pre [OF capi] quiet.sat_pre [OF rancher])
    qed
  qed
qed

lemma alone_after_deletion:
  assumes "finalizer_laws E" "error_laws E" "has_finalizer c" "key_of (cc_meta c) = k" "\<not> deletion_is_zero (cc_meta c)"
    and "cond_is_true E (cc_conditions c) ClusterControlPlaneAvailableCondition" "\<not> HasClusterImportAnnotation (cc_meta c)"
  shows "alone E (\<lambda>S. import_inv k S \<and> objects S (KCluster, k) = Some (OCluster c)) (import_after_finalizer E skip c)
    (\<lambda>r S. let_go k S)"
proof -
  have patch: "alone E (let_go k) (patch_obj E cluster_codec MergeFromLock c n) (\<lambda>r S. let_go k S)" if "handed_back k n" for n
    by (rule quiet.sat_weaken [OF alone_patch_cluster [where R = "\<lambda>_. True" and k = k, OF assms(3)]])
      (simp_all add: that)
  have last: "alone E (\<lambda>S. handed_back k n \<and> let_go k S) (patch_obj E cluster_codec MergeFromLock c n) (\<lambda>r S. let_go k S)" for n
    by (rule quiet.sat_assume [OF patch emits_client(5) [where R = "\<lambda>_. True"]]) simp_all
  show ?thesis
    unfolding import_after_finalizer_def Let_def
    using assms(6,7)
    by (auto intro!: quiet.sat_obind [OF alone_deletion [OF assms(1-5)]] sat_rules stable_rules
        quiet.sat_bind [OF quiet.sat_pre [OF last]] simp: given_back_def)
qed

lemma alone_Reconcile_deletion:
  assumes "finalizer_laws E" "error_laws E" "has_finalizer c" "key_of (cc_meta c) = k" "\<not> deletion_is_zero (cc_meta c)"
    and "cond_is_true E (cc_conditions c) ClusterControlPlaneAvailableCondition" "\<not> HasClusterImportAnnotation (cc_meta c)"
    and "retry_law E"
  shows "alone E (\<lambda>S. import_inv k S \<and> objects S (KCluster, k) = Some (OCluster c)) (import_Reconcile E skip k)
    (\<lambda>r S. let_go k S)"
  unfolding import_Reconcile_def
proof (rule quiet.sat_bind [OF alone_get], goal_cases)
  case (2 r)
  show ?case
  proof (cases "r = Inr c")
    case True
    then show ?thesis
      using assms(5) by (auto intro!: quiet.sat_pre [OF alone_after_deletion [OF assms(1-7)]])
  next
    case False
    show ?thesis
      by (rule quiet.sat_absurd [where R = well_typed],
          intro typing_rules typed_after_finalizer typed_finalizer [OF assms(8)]) (simp add: False)
  qed
qed simp

section \<open>An import\<close>

abbreviation stores :: "key \<Rightarrow> capi_cluster \<Rightarrow> cluster_state \<Rightarrow> bool" where
  "stores k c S \<equiv> objects S (KCluster, k) = Some (OCluster c)"

lemma alone_fresh:
  assumes "key_of (cc_meta d) = k" "cluster_choice c importLabelName = Import"
  shows "alone E (\<lambda>S. P S \<and> stores k c S) (shouldAutoImportUncached E d)
    (\<lambda>r S. r = (c, None, True) \<and> P S \<and> stores k c S)"
proof -
  have auto: "ShouldAutoImport E c importLabelName = ret (Inr True)"
    using assms(2) by (simp add: ShouldAutoImport_choice)
  show ?thesis
    unfolding shouldAutoImportUncached_def assms(1)
  proof (rule quiet.sat_bind [OF alone_get], simp, goal_cases)
    case (1 r)
    show ?case
    proof (cases "r = Inr c")
      case True
      then show ?thesis by (auto simp: auto intro!: sat_rules stable_rules)
    next
      case False
      show ?thesis
        by (rule quiet.sat_absurd [where R = well_typed], intro typing_rules emits_ShouldAutoImport)
          (simp_all add: False typing_simps)
    qed
  qed
qed

lemma alone_create:
  assumes "carries (key_labels k) (ORancher rc)"
  shows "alone E (\<lambda>S. well_formed S \<and> stores k c S) (create_obj E rancher_codec Cached rc)
    (\<lambda>r S. (\<exists>d. r = Inr d) \<and> well_formed S \<and> stores k c S \<and> live k S \<noteq> {})"
  unfolding create_obj_def
proof (rule quiet.sat_reply, goal_cases)
  case (3 S a T)
  then have api: "api E S (RCreate Cached (ORancher rc), a) T" and ok: "\<And>err. a \<noteq> RErr err"
    and S: "well_formed S" "stores k c S"
    by (auto simp: obliges_def rancher_codec_def)
  from api obtain new where new: "objects S (ref new) = None" "m_uid (kobj_meta new) \<notin> insert [] (uids S)"
    "as_sent new (ORancher rc)" "m_deletion (kobj_meta new) = None" "a = RObj new" "T = add_object new S"
  proof (rule api_createE, goal_cases)
    case (1 new)
    then show ?thesis using ok by (intro that [of new]) (auto simp: add_object_def answered_by_def)
  qed (use ok in auto)
  have kind: "kobj_kind new = KRancher" using new(3) by (simp add: as_sent_def)
  have "carries (key_labels k) new"
    using assms new(3) carries_labels [of new "ORancher rc"] by (simp add: as_sent_def)
  then have "ref new \<in> live k T"
    using kind new(4) by (simp add: live_def owned_def chosen_def new(6) add_objects)
  moreover have "stores k c T" using S(2) new(1) by (auto simp: new(6) add_objects)
  moreover have "\<exists>d. reply_obj rancher_codec a = Inr d"
    using kind by (auto simp: new(5) reply_obj_def rancher_codec_def rancher_kind)
  ultimately show ?case using add_steady(2) [OF S(1) new(2)] by (auto simp: new(6))
qed (rule stable_alone)+

lemma alone_patch_unchanged:
  assumes "has_finalizer c" "key_of (cc_meta c) = k"
  shows "alone E (\<lambda>S. well_formed S \<and> stores k c S \<and> live k S \<noteq> {}) (patch_obj E cluster_codec MergeFromLock c c)
    (\<lambda>r S. guarded_by k S \<and> live k S \<noteq> {})"
  unfolding patch_obj_def
proof (rule quiet.sat_reply, goal_cases)
  case (3 S a T)
  then have api: "api E S (RPatch Cached MergeFromLock (OCluster c) (OCluster c), a) T"
    and S: "well_formed S" "stores k c S" "live k S \<noteq> {}"
    by (auto simp: obliges_def cluster_codec_def)
  have guarded: "guarded_by k S" using S(2) assms(1) by (auto simp: guarded_by_def has_finalizer_def)
  from api S(1) show ?case
  proof (cases rule: api_patch)
    case 1
    then show ?thesis using S(3) guarded by simp
  next
    case (2 old new)
    have same: "same_object new old" using 2(2) by (simp add: merge_patched_def)
    have ref: "ref new = (KCluster, k)" using 2(4) same assms(2) by (simp add: same_object_def ref_def)
    have "old = OCluster c" using 2(1,4) S(2) assms(2) by (simp add: ref_def)
    then have "CapiClusterFinalizer \<in> set (m_finalizers (kobj_meta new))"
      using 2(2) assms(1) by (simp add: merge_patched_def has_finalizer_def)
    then show ?thesis
      using put_cluster(2,4) [OF 2(1) same ref] S(3) by (auto simp: 2(5) settled_def)
  qed
qed (rule stable_alone)+

definition made :: "key \<Rightarrow> capi_cluster \<Rightarrow> capi_cluster \<Rightarrow> go_error option \<Rightarrow> cluster_state \<Rightarrow> bool" where
  "made k c capi err S \<longleftrightarrow> capi = c \<and> err = None \<and> well_formed S \<and> stores k c S \<and> live k S \<noteq> {}"

lemma alone_create_missing:
  assumes "key_of (cc_meta d) = k" "cluster_choice c importLabelName = Import" "carries (key_labels k) (ORancher rc)"
  shows "alone E (\<lambda>S. well_formed S \<and> stores k c S) (create_missing_cluster E d rc)
    (\<lambda>r S. \<exists>capi rc res err. r = Ret (capi, rc, res, err) \<and> made k c capi err S)"
  unfolding create_missing_cluster_def
proof (rule quiet.sat_bind [OF alone_fresh [OF assms(1,2)]], goal_cases)
  case (1 r)
  show ?case
  proof (cases "r = (c, None, True)")
    case True
    show ?thesis
      unfolding True
      by (auto intro!: quiet.sat_bind [OF quiet.sat_pre [OF alone_create [OF assms(3), where c = c]]]
          quiet.sat_case_sum quiet.sat_ret stable_rules simp: made_def)
  next
    case False
    show ?thesis
      by (rule quiet.sat_absurd [where R = well_typed], intro typing_rules) (simp_all add: False typing_simps)
  qed
qed

lemma alone_import:
  assumes "finalizer_laws E" "kept k c" "deletion_is_zero (cc_meta c)" "cluster_choice c importLabelName = Import"
  shows "alone E (\<lambda>S. well_formed S \<and> stores k c S \<and> owned k S = {}) (import_reconcile E skip c)
    (\<lambda>r S. \<exists>capi res err. r = Ret (capi, res, err) \<and> made k c capi err S)"
proof -
  obtain rc d where p: "prepare_rancher_cluster E c None = (rc, d)" by fastforce
  note prepared = prepare_kept [OF assms(1) p assms(2)]
  have key: "key_of (cc_meta c) = k" "key_of (cc_meta d) = k" using assms(2) prepared(1) by (simp_all add: kept_def)
  have normal: "alone E (\<lambda>S. well_formed S \<and> stores k c S) (reconcileNormal E skip c None)
      (\<lambda>r S. \<exists>capi rc res err. r = Ret (capi, rc, res, err) \<and> made k c capi err S)"
    unfolding reconcileNormal_def p using alone_create_missing [OF key(2) assms(4) prepared(3)] by simp
  have import: "alone E (\<lambda>S. well_formed S \<and> stores k c S) (reconcile_import E skip c None)
      (\<lambda>r S. \<exists>capi res err. r = Ret (capi, res, err) \<and> made k c capi err S)"
    unfolding reconcile_import_def option.case
    by (rule quiet.sat_obind [OF normal]) (auto intro!: sat_rules stable_rules)
  have list: "alone E (\<lambda>S. well_formed S \<and> stores k c S \<and> owned k S = {})
      (list_obj E rancher_codec Cached [MatchingLabels (owner_labels c)])
      (\<lambda>r S. r = Inr [] \<and> well_formed S \<and> stores k c S)"
    by (rule quiet.sat_weaken [OF alone_list [OF key(1), where P = "\<lambda>S. stores k c S \<and> owned k S = {}"]]) auto
  show ?thesis
    unfolding import_reconcile_def Let_def
  proof (rule quiet.sat_bind [OF list], goal_cases)
    case (1 l)
    show ?case
    proof (cases "l = Inr []")
      case True
      then show ?thesis using assms(3) by (simp add: quiet.sat_pre [OF import])
    next
      case False
      show ?thesis
        by (rule quiet.sat_absurd [where R = well_typed], intro typing_rules typed_branches) (simp_all add: False)
    qed
  qed
qed

lemma alone_Reconcile_import:
  assumes "finalizer_laws E" "retry_law E" "kept k c" "deletion_is_zero (cc_meta c)" "cluster_choice c importLabelName = Import"
    and "cond_is_true E (cc_conditions c) ClusterControlPlaneAvailableCondition" "\<not> HasClusterImportAnnotation (cc_meta c)"
  shows "alone E (\<lambda>S. well_formed S \<and> stores k c S \<and> owned k S = {}) (import_Reconcile E skip k)
    (\<lambda>r S. guarded_by k S \<and> live k S \<noteq> {})"
proof -
  have c: "has_finalizer c" "key_of (cc_meta c) = k" using assms(3) by (simp_all add: kept_def)
  have patch: "alone E (made k c capi err) (patch_obj E cluster_codec MergeFromLock c capi)
      (\<lambda>r S. guarded_by k S \<and> live k S \<noteq> {})" for capi err
  proof (cases "capi = c")
    case True
    show ?thesis
      unfolding True by (rule quiet.sat_pre [OF alone_patch_unchanged [OF c]]) (auto simp: made_def)
  next
    case False
    show ?thesis
      by (rule quiet.sat_absurd [where R = well_typed], intro typing_rules)
        (simp_all add: False made_def typing_simps)
  qed
  have after: "alone E (\<lambda>S. well_formed S \<and> stores k c S \<and> owned k S = {}) (import_after_finalizer E skip c)
      (\<lambda>r S. guarded_by k S \<and> live k S \<noteq> {})"
    unfolding import_after_finalizer_def Let_def
    using assms(6,7)
    by (auto intro!: quiet.sat_obind [OF alone_import [OF assms(1,3-5)]] sat_rules stable_rules
        quiet.sat_bind [OF quiet.sat_pre [OF patch]])
  show ?thesis
    unfolding import_Reconcile_def
  proof (rule quiet.sat_bind [OF quiet.sat_pre [OF alone_get [where P = "\<lambda>S. well_formed S \<and> owned k S = {}" and c = c]]], goal_cases)
    case (3 r)
    show ?case
    proof (cases "r = Inr c")
      case True
      then show ?thesis
        using assms(1) c(1) by (auto simp: finalizer_laws_def has_finalizer_def intro!: quiet.sat_pre [OF after])
    next
      case False
      show ?thesis
        by (rule quiet.sat_absurd [where R = well_typed],
            intro typing_rules typed_after_finalizer typed_finalizer [OF assms(2)]) (simp add: False)
    qed
  qed auto
qed

section \<open>Properties\<close>

lemma alone_play:
  assumes "alone E P m Q" "P S" "play (obliges E) (=) S (trace_of m w) T"
  shows "Q (result_of m w) T"
  using runs_exec [OF assms(1) [unfolded sat_def], of w] assms(2,3) by blast

text \<open>
  C3.  An import goes through: when the server does what it is asked for and nobody else
  acts during a run, a CAPI cluster with the finalizer and an available control plane that
  asks to be imported and has no Rancher cluster has one after the run, and one that is
  being deleted has no live one and no finalizer.
\<close>

theorem import_run_completes:
  assumes "finalizer_laws E" "error_laws E" "retry_law E" "reached E skip s"
    and "objects (content s) (KCluster, k) = Some (OCluster c)" "CapiClusterFinalizer \<in> set (m_finalizers (cc_meta c))"
    and "cond_is_true E (cc_conditions c) ClusterControlPlaneAvailableCondition" "\<not> HasClusterImportAnnotation (cc_meta c)"
    and "play (obliges E) (=) (content s) (trace_of (import_Reconcile E skip k) w) T"
  shows "if deletion_is_zero (cc_meta c)
    then cluster_choice c importLabelName = Import \<longrightarrow> owned k (content s) = {} \<longrightarrow> import_stage k T = Imported
    else import_stage k T = Unguarded"
proof -
  have good: "import_inv k (content s)"
    using reached_consistent [OF assms(1-4)] by (simp add: consistent_def)
  have c: "has_finalizer c" "key_of (cc_meta c) = k"
    using assms(6) well_formedD [OF import_inv_wf [OF good] assms(5)] by (simp_all add: has_finalizer_def ref_def)
  show ?thesis
  proof (cases "deletion_is_zero (cc_meta c)")
    case True
    have "import_stage k T = Imported" if "cluster_choice c importLabelName = Import" "owned k (content s) = {}"
      using alone_play [OF alone_Reconcile_import [OF assms(1,3) _ True that(1) assms(7,8)] _ assms(9)]
        assms(5) c import_inv_wf [OF good] that(2) by (simp add: kept_def import_stage_def)
    then show ?thesis using True by simp
  next
    case False
    then show ?thesis
      using alone_play [OF alone_Reconcile_deletion [OF assms(1,2) c False assms(7,8,3)] _ assms(9)] good assms(5)
      by (simp add: import_stage_def)
  qed
qed

lemma stored_play:
  "play (obliges script_env) (=) before_import (trace_of (import_Reconcile script_env False demo_key) import_answers) after_import"
proof -
  have reads: "obliges script_env before_import e before_import" if "e \<in> set reading_events" for e
    using api_reads [OF that] that by (auto simp: obliges_def reading_events_def)
  have read: "play (obliges script_env) (=) before_import es before_import" if "set es \<subseteq> set reading_events" for es
    using that by (induction es rule: rev_induct) (auto intro: play.intros reads)
  have create: "obliges script_env before_import creating_event after_import"
    using api_creates by (simp add: obliges_def creating_event_def)
  have cluster: "objects after_import (KCluster, demo_key) = Some (OCluster stored_cluster)"
    by (simp add: after_import_def add_objects ref_def)
  have "put (OCluster stored_cluster) after_import = after_import"
    using cluster by (auto simp: put_def settled_def ref_def fun_upd_idem)
  then have "api script_env after_import
      (RPatch Cached MergeFromLock (OCluster stored_cluster) (OCluster stored_cluster), RObj (OCluster stored_cluster)) after_import"
    using api.patched [of Cached after_import "OCluster stored_cluster" "OCluster stored_cluster" "OCluster stored_cluster"
        "OCluster stored_cluster" "RObj (OCluster stored_cluster)" script_env MergeFromLock] cluster
    by (simp add: ref_def merge_patched_def same_object_def answered_by_def)
  then have "obliges script_env after_import
      (RPatch Cached MergeFromLock (OCluster stored_cluster) (OCluster stored_cluster), RObj (OCluster stored_cluster)) after_import"
    by (simp add: obliges_def)
  from answer [OF answer [OF read create] this]
  show ?thesis by (simp add: stored_run)
qed

theorem import_run_completes_witness:
  "play (obliges script_env) (=) before_import (trace_of (import_Reconcile script_env False demo_key) import_answers) after_import \<and>
   import_stage demo_key before_import = Guarded \<and> import_stage demo_key after_import = Imported"
proof -
  have "reached script_env False \<lparr>content = before_import, working = Map.empty\<rparr>"
    by (rule at_first [OF before_initial])
  moreover have "cluster_choice stored_cluster importLabelName = Import"
    by (simp add: stored_cluster_def demo_cluster_def cluster_choice_def empty_meta_def parse_bool_def
        HasClusterImportAnnotation_def HasAnnotation_def)
  ultimately show ?thesis
    using import_run_completes [OF script_finalizer_laws script_error_laws script_retry_law, of False
        "\<lparr>content = before_import, working = Map.empty\<rparr>" demo_key stored_cluster import_answers after_import]
      stored_play import_stages(1)
    by (simp add: owned_def before_empty)
qed

end
