(* ===== verification/Sync_Behaviour.thy ===== *)
theory Sync_Behaviour
  imports Operator
begin

text \<open>
  What the secret syncers promise: which keys a credential is mapped to, what the
  encoded values decode to, what the condition says, and what is written.
\<close>

section \<open>The mapping\<close>

fun source_keys :: "conversion \<Rightarrow> string list" where
  "source_keys (Raw s) = [s]"
| "source_keys (B64 s) = [s]"
| "source_keys (Template t ss) = ss"

definition required_keys :: "mapping list \<Rightarrow> string set" where
  "required_keys vs = (\<Union>v \<in> set vs. set (source_keys (map_from v)))"

definition has_keys :: "smap \<Rightarrow> mapping list \<Rightarrow> bool" where
  "has_keys data vs \<longleftrightarrow> (\<forall>k \<in> required_keys vs. mget data k \<noteq> None)"

lemma validate_None: "validate c data = None \<longleftrightarrow> (\<forall>k \<in> set (source_keys c). mget data k \<noteq> None)"
  by (cases c) (auto simp: missing_key_None)

lemma map_values_errors: "snd (map_values E from vs to errors) = errors @ map (\<lambda>v. validate (map_from v) from) vs"
  by (induction vs arbitrary: to errors) auto

lemma map_values_same: "k \<notin> map_to ` set vs \<Longrightarrow> fst (map_values E from vs to errors) k = to k"
  by (induction vs arbitrary: to errors) auto

lemma map_values_value:
  "distinct (map map_to vs) \<Longrightarrow> v \<in> set vs \<Longrightarrow>
   fst (map_values E from vs to errors) (map_to v) = Some (convert E (map_from v) from)"
proof (induction vs arbitrary: to errors)
  case (Cons x vs)
  show ?case
  proof (cases "v = x")
    case True
    then have "map_to v \<notin> map_to ` set vs" using Cons.prems(1) by auto
    then show ?thesis using True by (simp add: map_values_same)
  qed (use Cons in auto)
qed simp

definition provider_names :: "string list" where
  "provider_names = [''aws'', ''azure'', ''vsphere'', ''gcp'', ''digitalocean'']"

lemma known_names: "knownProviderRequirements p \<noteq> None \<longleftrightarrow> p \<in> set provider_names"
  by (simp add: knownProviderRequirements_def provider_names_def)

lemma known_tables:
  "list_all (\<lambda>p. case knownProviderRequirements p of None \<Rightarrow> False
     | Some vs \<Rightarrow> distinct (map map_to vs) \<and> vs \<noteq> [] \<and> list_all (\<lambda>v. source_keys (map_from v) \<noteq> []) vs)
     provider_names"
  by (simp add: provider_names_def knownProviderRequirements_def)

lemma known_table:
  assumes "knownProviderRequirements p = Some vs"
  shows "distinct (map map_to vs)" "vs \<noteq> []" "\<And>v. v \<in> set vs \<Longrightarrow> source_keys (map_from v) \<noteq> []"
proof -
  have "p \<in> set provider_names" using assms known_names by auto
  with known_tables assms
  have "distinct (map map_to vs) \<and> vs \<noteq> [] \<and> list_all (\<lambda>v. source_keys (map_from v) \<noteq> []) vs"
    by (auto simp: list_all_iff)
  then show "distinct (map map_to vs)" "vs \<noteq> []" "\<And>v. v \<in> set vs \<Longrightarrow> source_keys (map_from v) \<noteq> []"
    by (auto simp: list_all_iff)
qed

lemma no_data_no_keys: "knownProviderRequirements p = Some vs \<Longrightarrow> \<not> has_keys None vs"
proof -
  assume known: "knownProviderRequirements p = Some vs"
  then obtain v where v: "v \<in> set vs" using known_table(2) by fastforce
  then obtain k where "k \<in> set (source_keys (map_from v))"
    using known_table(3) [OF known v] by fastforce
  with v show ?thesis by (auto simp: has_keys_def required_keys_def)
qed

lemma Into_known:
  "knownProviderRequirements p = Some vs \<Longrightarrow>
   Into E p from to = (fst (map_values E from vs to []),
     aggregate E (map (\<lambda>v. validate (map_from v) from) vs))"
  using map_values_errors [of E "from" vs to "[]"]
  by (simp add: Into_def split_beta)

lemma Into_error:
  assumes "aggregate_law E" "knownProviderRequirements p = Some vs"
  shows "snd (Into E p from to) = None \<longleftrightarrow> has_keys from vs"
  using assms(1) by (auto simp: Into_known [OF assms(2)] aggregate_law_def validate_None
      has_keys_def required_keys_def)

section \<open>Getting and syncing a credential\<close>

text \<open>The secret that the answers of the cluster select, if they do.\<close>

definition selected :: "capi_provider \<Rightarrow> secret \<Rightarrow> event list \<Rightarrow> secret \<Rightarrow> bool" where
  "selected p rancher es src \<longleftrightarrow>
     (if cr_namespace_name (credential_of p) \<noteq> []
      then \<exists>rest. es = (RGet Cached KSecret (key_of (sec_meta rancher)), RObj (OSecret src)) # rest
      else \<exists>a items rest.
        es = (RList Cached KSecret [InNamespace RancherCredentialsNamespace], a) # rest \<and>
        reply_list secret_codec a = Inr items \<and>
        List.find (matches_credential p (m_name (sec_meta rancher))) items = Some src)"

definition mapped_status :: "'w env \<Rightarrow> capi_provider \<Rightarrow> mapping list \<Rightarrow> secret \<Rightarrow> capi_provider \<Rightarrow> bool" where
  "mapped_status E p vs src p' \<longleftrightarrow>
     cp_meta p' = cp_meta p \<and> cp_spec p' = cp_spec p \<and>
     (\<exists>c. cond_get E (cp_GetConditions p') RancherCredentialsSecretCondition = Some c \<and>
        (if has_keys (sec_data src) vs
         then c_status c = CondTrue \<and> c_reason c = ''CredentialsMapped''
         else c_status c = CondFalse \<and> c_reason c = RancherCredentialKeyMissing))"

lemma source_missing_fields [simp]:
  "cp_meta (source_missing E p) = cp_meta p" "cp_spec (source_missing E p) = cp_spec p"
  "ProviderName (source_missing E p) = ProviderName p"
  by (simp_all add: source_missing_def ProviderName_def)

lemma mapper_Sync_status:
  assumes "condition_laws E" "aggregate_law E" "knownProviderRequirements (ProviderName p) = Some vs"
    and "cp_meta q = cp_meta p" "cp_spec q = cp_spec p"
    and "mapper_Sync E q dest src = (s, p', err)"
  shows "mapped_status E p vs src p'" "err = None"
    "s = MapperSyncer (dest\<lparr>sec_string_data := Some (fst (Into E (ProviderName p) (sec_data src) Map.empty))\<rparr>) src"
proof -
  have name: "ProviderName q = ProviderName p" by (simp add: ProviderName_def assms)
  have err: "snd (Into E (ProviderName p) (sec_data src) Map.empty) = None \<longleftrightarrow> has_keys (sec_data src) vs"
    by (rule Into_error [OF assms(2,3)])
  obtain to e where into: "Into E (ProviderName p) (sec_data src) Map.empty = (to, e)" by fastforce
  show "mapped_status E p vs src p'"
    using assms(1,4,5,6) err
    by (auto simp: mapper_Sync_def name into mapped_status_def condition_laws_def split: option.splits)
  show "err = None"
    "s = MapperSyncer (dest\<lparr>sec_string_data := Some (fst (Into E (ProviderName p) (sec_data src) Map.empty))\<rparr>) src"
    using assms(6) by (auto simp: mapper_Sync_def name into Let_def split: option.splits)
qed

definition synced :: "'w env \<Rightarrow> capi_provider \<Rightarrow> mapping list \<Rightarrow> secret
    \<Rightarrow> syncer list \<times> capi_provider \<times> go_error option \<Rightarrow> event list \<Rightarrow> bool" where
  "synced E p vs rancher r es \<longleftrightarrow>
     (\<exists>dest src.
        fst r = [MapperSyncer dest src] \<and>
        sec_string_data dest = Some (fst (Into E (ProviderName p) (sec_data src) Map.empty)) \<and>
        mapped_status E p vs src (fst (snd r)) \<and>
        (selected p rancher es src \<or> src = rancher \<and> snd (snd r) \<noteq> None))"

definition got :: "capi_provider \<Rightarrow> secret
    \<Rightarrow> syncer \<times> capi_provider \<times> go_error option \<Rightarrow> event list \<Rightarrow> bool" where
  "got p rancher r es \<longleftrightarrow>
     (\<exists>dest src. fst r = MapperSyncer dest src \<and>
        cp_meta (fst (snd r)) = cp_meta p \<and> cp_spec (fst (snd r)) = cp_spec p \<and>
        (selected p rancher es src \<or> src = rancher \<and> snd (snd r) \<noteq> None))"

lemma runs_mapper_Get: "runs (mapper_Get E p dest rancher) (got p rancher)"
  unfolding mapper_Get_def find_credential_def default_Get_def
  by (rule runsI) (auto intro!: trace_rules simp: got_def selected_def reply_obj_Inr)

lemma runs_sync_one:
  assumes "condition_laws E" "aggregate_law E" "knownProviderRequirements (ProviderName p) = Some vs"
  shows "runs (sync_all (sync_Get E) (sync_Sync E) [MapperSyncer dest rancher] p)
    (\<lambda>r es. synced E p vs rancher (fst r, fst (snd r), aggregate E (snd (snd r))) es)"
proof -
  have rest: "runs (case r of (s, source, e1) \<Rightarrow> do {
        y \<leftarrow> sync_Sync E s source;
        case y of (s, source, e2) \<Rightarrow> do {
          r \<leftarrow> ret ([], source, []);
          case r of (ss, source, es) \<Rightarrow> ret (s # ss, source, e1 # e2 # es) } })
      (\<lambda>r fs. synced E p vs rancher (fst r, fst (snd r), aggregate E (snd (snd r))) (es @ fs))"
    if got: "got p rancher r es" for r es
  proof -
    obtain d src q e where r: "r = (MapperSyncer d src, q, e)"
      and q: "cp_meta q = cp_meta p" "cp_spec q = cp_spec p"
      and sel: "selected p rancher es src \<or> src = rancher \<and> e \<noteq> None"
      using got by (cases r) (auto simp: got_def)
    obtain s p' e2 where m: "mapper_Sync E q d src = (s, p', e2)"
      by (metis surj_pair)
    note status = mapper_Sync_status [OF assms q m]
    show ?thesis
      using sel status assms(2)
      by (auto simp: r m sync_Sync_def synced_def aggregate_law_def)
  qed
  show ?thesis
    unfolding sync_all.simps sync_Get_def syncer.case
    by (rule runs_bind, rule runs_mono [OF runs_mapper_Get]) (rule rest)
qed

lemma runs_sync_mapper:
  assumes "condition_laws E" "aggregate_law E" "knownProviderRequirements (ProviderName p) = Some vs"
  shows "runs (list_Sync E [MapperSyncer dest rancher] p) (synced E p vs rancher)"
  unfolding list_Sync_def
  by (rule runs_bind, rule runs_mono [OF runs_sync_one [OF assms]]) auto

section \<open>What is written\<close>

text \<open>The data a secret can get from a provider: its variables, or a mapped credential.\<close>

definition allowed_data :: "'w env \<Rightarrow> capi_provider \<Rightarrow> smap \<Rightarrow> bool" where
  "allowed_data E p sd \<longleftrightarrow>
     sd = cpst_variables (cp_status p) \<or>
     (\<exists>data. sd = Some (fst (Into E (ProviderName p) data Map.empty)))"

definition owned_secret :: "'w env \<Rightarrow> capi_provider \<Rightarrow> secret \<Rightarrow> bool" where
  "owned_secret E p s \<longleftrightarrow>
     FinalizerDeleteDependents \<in> set (m_finalizers (sec_meta s)) \<and>
     m_owners (sec_meta s) = m_owners (setOwnerReference (cp_meta p) empty_meta) \<and>
     allowed_data E p (sec_string_data s)"

definition update_not_found :: "'w env \<Rightarrow> response \<Rightarrow> bool" where
  "update_not_found E b \<longleftrightarrow>
     (case reply_obj secret_codec b of Inl err \<Rightarrow> is_not_found E err | Inr s \<Rightarrow> False)"

fun secret_write_ok :: "'w env \<Rightarrow> capi_provider \<Rightarrow> event list \<Rightarrow> event \<Rightarrow> bool" where
  "secret_write_ok E p us (RUpdate t (OSecret s), a) = owned_secret E p s"
| "secret_write_ok E p us (RCreate t (OSecret s), a) =
     (owned_secret E p s \<and>
      (\<exists>(q, b) \<in> set us. q = RUpdate t (OSecret s) \<and> update_not_found E b))"
| "secret_write_ok E p us (r, a) = read_only r"

definition same_source :: "capi_provider \<Rightarrow> capi_provider \<Rightarrow> bool" where
  "same_source p q \<longleftrightarrow> cp_meta q = cp_meta p \<and> cp_spec q = cp_spec p \<and>
     cpst_variables (cp_status q) = cpst_variables (cp_status p)"

lemma same_source_name: "same_source p q \<Longrightarrow> ProviderName q = ProviderName p"
  by (simp add: same_source_def ProviderName_def)

lemma same_source_condition: "same_source p q \<Longrightarrow> same_source p (set_condition E c q)"
  by (simp add: same_source_def)

lemma same_source_missing: "same_source p q \<Longrightarrow> same_source p (source_missing E q)"
  by (simp add: source_missing_def same_source_condition)

fun destination :: "syncer \<Rightarrow> secret" where
  "destination (SecretSyncer d) = d"
| "destination (MapperSyncer d r) = d"

lemma read_only_ok: "read_only r \<Longrightarrow> secret_write_ok E p us (r, a)"
  by (cases "(E, p, us, (r, a))" rule: secret_write_ok.cases) (auto simp: read_only_def)

lemma runs_sync_Get: "same_source p q \<Longrightarrow> runs (sync_Get E s q) (\<lambda>r es. same_source p (fst (snd r)))"
  unfolding sync_Get_def mapper_Get_def find_credential_def default_Get_def
  by (cases s) (auto intro!: runsI trace_rules same_source_missing)

lemma runs_sync_Sync:
  assumes "same_source p q"
  shows "runs (sync_Sync E s q) (\<lambda>r es. same_source p (fst (snd r)) \<and>
    allowed_data E p (sec_string_data (destination (fst r))))"
proof (cases s)
  case (SecretSyncer d)
  with assms show ?thesis
    by (simp add: sync_Sync_def allowed_data_def same_source_def)
next
  case (MapperSyncer d r)
  obtain to e where "Into E (ProviderName p) (sec_data r) Map.empty = (to, e)" by fastforce
  moreover from this have "\<exists>data. to = fst (Into E (ProviderName p) data Map.empty)" by (metis fst_conv)
  ultimately show ?thesis
    using assms MapperSyncer
    by (auto simp: sync_Sync_def mapper_Sync_def same_source_name allowed_data_def
        same_source_condition Let_def split: option.split)
qed

definition prepared :: "'w env \<Rightarrow> capi_provider \<Rightarrow> syncer list \<Rightarrow> bool" where
  "prepared E p ss \<longleftrightarrow> (\<forall>s \<in> set ss. allowed_data E p (sec_string_data (destination s)))"

lemma runs_sync_all:
  "same_source p q \<Longrightarrow> runs (sync_all (sync_Get E) (sync_Sync E) ss q)
     (\<lambda>r es. same_source p (fst (snd r)) \<and> prepared E p (fst r))"
proof (induction ss arbitrary: q)
  case (Cons s ss)
  show ?case
    unfolding sync_all.simps
    by (rule runs_bind, rule runs_mono [OF runs_sync_Get [OF Cons.prems]])
      (auto intro!: runs_bind runs_mono [OF runs_sync_Sync] runs_mono [OF Cons.IH]
        simp: prepared_def split: prod.split)
qed (simp add: prepared_def)

lemma complies_default_Apply:
  assumes "same_source p q" "allowed_data E p (sec_string_data dest)"
  shows "complies (secret_write_ok E p) (default_Apply E q dest None)"
proof -
  define d where "d = sec_meta_update (\<lambda>m. setOwnerReference (cp_meta q) (setFinalizers m)) dest"
  have owned: "owned_secret E p d"
    using assms by (auto simp: d_def owned_secret_def same_source_def setOwnerReference_def
        setFinalizers_def)
  have "complies (secret_write_ok E p) (Patch E d)"
    unfolding Patch_def setKind_def
  proof (intro complies_case_option complies_ret, rule complies_checked)
    show "runs (update_obj E secret_codec Cached d) (\<lambda>a es.
        (\<forall>us. justified (\<lambda>vs. secret_write_ok E p (us @ vs)) es) \<and>
        complies (\<lambda>vs e. \<forall>us. secret_write_ok E p (us @ es @ vs) e)
          (case a of
             Inl err \<Rightarrow> if is_not_found E err
               then create_obj E secret_codec Cached d \<bind>
                 (\<lambda>c. case c of Inl cerr \<Rightarrow> ret (d, Some cerr) | Inr created \<Rightarrow> ret (created, None))
               else ret (d, Some err)
           | Inr updated \<Rightarrow> ret (updated, None)))"
      by (rule runsI) (auto intro!: trace_rules complies_rules simp: owned update_not_found_def)
  qed
  then show ?thesis
    unfolding default_Apply_def d_def [symmetric]
    by (auto intro!: complies_rules)
qed

lemma complies_apply_all:
  assumes "same_source p q" "prepared E p ss"
  shows "complies (secret_write_ok E p) (apply_all (\<lambda>s q. sync_Apply E s q None) ss q)"
  using assms(2)
proof (induction ss)
  case (Cons s ss)
  have one: "complies (secret_write_ok E p) (default_Apply E q (destination s) None)"
    by (rule complies_default_Apply) (use Cons.prems assms(1) in \<open>auto simp: prepared_def\<close>)
  have "complies (secret_write_ok E p) (sync_Apply E s q None)"
    using one by (cases s) (auto simp: sync_Apply_def intro!: complies_rules)
  moreover have "complies (secret_write_ok E p) (apply_all (\<lambda>s q. sync_Apply E s q None) ss q)"
    using Cons by (simp add: prepared_def)
  ultimately show ?case
    unfolding apply_all.simps
    by (elim complies_then, intro runs_mono [OF secret_sync.apply_source])
      (auto intro!: complies_bind complies_ret complies_case_prod)
qed (simp add: complies_ret)

lemma complies_syncSecrets: "complies (secret_write_ok E p) (syncSecrets E p)"
proof (cases "provider_syncers p")
  case (Ret ss)
  have src: "same_source p p" by (simp add: same_source_def)
  have reads: "complies (secret_write_ok E p) (list_Sync E ss p)"
    unfolding list_Sync_def
    by (rule complies_emits [where R = read_only])
      (auto intro!: emits_rules secret_sync.list_reads read_only_ok)
  have synced: "runs (list_Sync E ss p) (\<lambda>r es. same_source p (fst (snd r)) \<and> prepared E p (fst r))"
    unfolding list_Sync_def
    by (rule runs_bind, rule runs_mono [OF runs_sync_all [OF src]]) auto
  have "complies (secret_write_ok E p) (list_Apply E ss q None)"
    if "same_source p q" "prepared E p ss" for ss q
    unfolding list_Apply_def by (auto intro!: complies_rules complies_apply_all that)
  then show ?thesis
    unfolding syncSecrets_def Ret outcome.case
    by (intro complies_then [OF reads] runs_mono [OF synced]) (auto intro!: complies_rules)
qed (simp add: syncSecrets_def complies_ret)

section \<open>References and encodings\<close>

lemma cut_at_char:
  "cut_at [c] s = (if c \<in> set s then Some (takeWhile (\<lambda>x. x \<noteq> c) s, tl (dropWhile (\<lambda>x. x \<noteq> c) s)) else None)"
  by (induction s) (auto simp: has_prefix_def)

text \<open>The INI file that CAPA reads.\<close>

definition aws_ini :: "smap \<Rightarrow> string" where
  "aws_ini data =
     ''[default]'' @ newline
     @ ''aws_access_key_id = '' @ mread data ''amazonec2credentialConfig-accessKey'' @ newline
     @ ''aws_secret_access_key = '' @ mread data ''amazonec2credentialConfig-secretKey'' @ newline
     @ ''region = '' @ mread data ''amazonec2credentialConfig-defaultRegion''"

lemma known_templates:
  assumes "knownProviderRequirements p = Some vs" "v \<in> set vs" "map_from v = Template t ks"
  shows "t = awsDataTemplate" "ks = aws_keys"
  using assms by (auto simp: knownProviderRequirements_def aws_keys_def split: if_splits)

lemma Into_value:
  "knownProviderRequirements p = Some vs \<Longrightarrow> v \<in> set vs \<Longrightarrow>
   fst (Into E p data to) (map_to v) = Some (convert E (map_from v) data)"
  by (simp add: Into_known map_values_value known_table(1))

lemma convert_aws:
  "missing_key data aws_keys = None \<Longrightarrow>
   convert E (Template awsDataTemplate aws_keys) data = base64 (aws_ini data)"
  by (simp only: convert.simps Template_convert_def render_aws aws_ini_def if_False not_not simp_thms option.case)

section \<open>Examples\<close>

definition demo_keys :: smap where
  "demo_keys = Some [
     ''amazonec2credentialConfig-accessKey'' \<mapsto> ''key'',
     ''amazonec2credentialConfig-secretKey'' \<mapsto> ''secret'',
     ''amazonec2credentialConfig-defaultRegion'' \<mapsto> ''us-west''
   ]"

definition demo_table :: "mapping list" where
  "demo_table = the (knownProviderRequirements ''aws'')"

definition demo_template :: mapping where
  "demo_template = \<lparr>map_to = ''AWS_B64ENCODED_CREDENTIALS'',
     map_from = Template awsDataTemplate aws_keys\<rparr>"

lemma demo_known: "knownProviderRequirements ''aws'' = Some demo_table"
  by (simp add: demo_table_def knownProviderRequirements_def)

lemma demo_in_table: "demo_template \<in> set demo_table"
  by (simp add: demo_table_def demo_template_def knownProviderRequirements_def aws_keys_def)

lemma demo_has_keys: "has_keys demo_keys demo_table"
  by (simp add: demo_table_def knownProviderRequirements_def has_keys_def required_keys_def
      demo_keys_def)

text \<open>A provider that names a credential by reference, and the secret is there.\<close>

definition demo_aws :: capi_provider where
  "demo_aws = \<lparr>cp_meta = empty_meta\<lparr>m_name := ''aws'', m_namespace := ''capa''\<rparr>,
     cp_spec = \<lparr>cps_provider = \<lparr>ps_version = [], ps_config_secret = None,
        ps_additional_manifests = None\<rparr>, cps_name = [], cps_type = ''infrastructure'',
        cps_credentials = Some \<lparr>cr_cloud_credential = [], cr_namespace_name = ''ns:cred''\<rparr>,
        cps_features = None, cps_variables = None, cps_auto_update = False\<rparr>,
     cp_status = \<lparr>cpst_provider = \<lparr>pst_conditions = [], pst_installed_version = None\<rparr>,
        cpst_phase = [], cpst_variables = Some Map.empty, cpst_name = []\<rparr>\<rparr>"

definition demo_source :: secret where
  "demo_source = (secret_named ''cred'' ''ns'')\<lparr>sec_data := demo_keys\<rparr>"

definition demo_found :: "response list" where
  "demo_found = [RObj (OSecret demo_source), RErr (EApi ''NotFound'')]"

definition demo_syncer :: syncer where
  "demo_syncer = MapperSyncer (secret_GetSecret demo_aws) (secret_named ''cred'' ''ns'')"

lemma demo_source_name [simp]: "ProviderName demo_aws = ''aws''"
  by (simp add: ProviderName_def demo_aws_def)

section \<open>Properties\<close>

text \<open>
  C29.  Mapping a Rancher credential for a provider with known requirements: it reports
  no error exactly if every key that is needed is in the credential; each key of the
  destination gets the converted value, of a missing key too, for which that is empty or
  the encoding of nothing; all other keys keep their values.
\<close>

theorem credential_mapping:
  assumes "aggregate_law E" and "knownProviderRequirements provider = Some vs"
  shows "(snd (Into E provider data to) = None \<longleftrightarrow> has_keys data vs) \<and>
    (\<forall>v \<in> set vs. fst (Into E provider data to) (map_to v) = Some (convert E (map_from v) data)) \<and>
    (\<forall>k. k \<notin> map_to ` set vs \<longrightarrow> fst (Into E provider data to) k = to k)"
  by (simp add: Into_error [OF assms] Into_value [OF assms(2)])
    (simp add: Into_known [OF assms(2)] map_values_same)

theorem credential_mapping_witness:
  "(snd (Into script_env ''aws'' demo_keys Map.empty) = None \<longleftrightarrow> has_keys demo_keys demo_table) \<and>
   map (\<lambda>v. fst (Into script_env ''aws'' demo_keys Map.empty) (map_to v)) demo_table =
     map (\<lambda>v. Some (convert script_env (map_from v) demo_keys)) demo_table"
  using credential_mapping [OF script_aggregate_law demo_known, of demo_keys Map.empty] by simp

text \<open>
  C30.  What the provider's controllers decode from the secret is the credential: a plain
  value is the credential's, a base64 value decodes to the credential's, and the value of
  the AWS template decodes to an INI file with the three values.
\<close>

theorem encoded_credentials:
  assumes "knownProviderRequirements provider = Some vs" and "has_keys data vs" and "v \<in> set vs"
  shows "\<exists>value. fst (Into E provider data to) (map_to v) = Some value \<and>
    (case map_from v of
       Raw s \<Rightarrow> mget data s = Some value
     | B64 s \<Rightarrow> mget data s = Some (unbase64 value)
     | Template t ks \<Rightarrow> unbase64 value = aws_ini data)"
proof -
  have keys: "\<forall>k \<in> set (source_keys (map_from v)). mget data k \<noteq> None"
    using assms(2,3) by (auto simp: has_keys_def required_keys_def)
  show ?thesis
  proof (cases "map_from v")
    case (Template t ks)
    note table = known_templates [OF assms(1,3) Template]
    have "missing_key data aws_keys = None"
      using keys by (simp add: Template table missing_key_None)
    then show ?thesis
      by (simp add: Into_value [OF assms(1,3)] Template table convert_aws unbase64_base64
          del: convert.simps Template_convert_def)
  qed (use keys in \<open>auto simp: Into_value [OF assms(1,3)] unbase64_base64 mread_def\<close>)
qed

theorem encoded_credentials_witness:
  "\<exists>value. fst (Into script_env ''aws'' demo_keys Map.empty) ''AWS_B64ENCODED_CREDENTIALS'' = Some value \<and>
    unbase64 value = aws_ini demo_keys"
  using encoded_credentials [OF demo_known demo_has_keys demo_in_table, of script_env Map.empty]
  by (simp add: demo_template_def)

text \<open>
  C31.  After a credential was looked up and mapped, the provider's condition says whether
  the secret that was used has all keys the provider needs.  That secret is the one the
  provider refers to, by name in its namespace or by the two annotations among the
  credentials of Rancher; or nothing was found, an error is returned, and the condition
  says that keys are missing.  In no case does it say that the source is missing.
\<close>

theorem credential_condition:
  assumes "condition_laws E" and "aggregate_law E"
    and "knownProviderRequirements (ProviderName p) = Some vs"
    and "result_of (list_Sync E [MapperSyncer dest rancher] p) w = (ss, p', err)"
  shows "\<exists>dest' src c. ss = [MapperSyncer dest' src] \<and>
    sec_string_data dest' = Some (fst (Into E (ProviderName p) (sec_data src) Map.empty)) \<and>
    cond_get E (cp_GetConditions p') RancherCredentialsSecretCondition = Some c \<and>
    (if has_keys (sec_data src) vs
     then c_status c = CondTrue \<and> c_reason c = ''CredentialsMapped''
     else c_status c = CondFalse \<and> c_reason c = RancherCredentialKeyMissing) \<and>
    (selected p rancher (trace_of (list_Sync E [MapperSyncer dest rancher] p) w) src \<or>
     src = rancher \<and> err \<noteq> None)"
proof -
  have "synced E p vs rancher (ss, p', err) (trace_of (list_Sync E [MapperSyncer dest rancher] p) w)"
    using runs_exec [OF runs_sync_mapper [OF assms(1-3)], of rancher dest w] assms(4) by simp
  then show ?thesis
    unfolding synced_def mapped_status_def fst_conv snd_conv by blast
qed

theorem credential_condition_witness:
  "\<exists>ss p' err dest' src c.
    result_of (list_Sync script_env [demo_syncer] demo_aws) demo_found = (ss, p', err) \<and>
    ss = [MapperSyncer dest' src] \<and>
    cond_get script_env (cp_GetConditions p') RancherCredentialsSecretCondition = Some c \<and>
    (if has_keys (sec_data src) demo_table
     then c_status c = CondTrue \<and> c_reason c = ''CredentialsMapped''
     else c_status c = CondFalse \<and> c_reason c = RancherCredentialKeyMissing)"
proof -
  have known: "knownProviderRequirements (ProviderName demo_aws) = Some demo_table"
    by (simp add: demo_known)
  obtain ss p' err where run:
    "result_of (list_Sync script_env [demo_syncer] demo_aws) demo_found = (ss, p', err)"
    by (metis surj_pair)
  show ?thesis
    using credential_condition [OF script_condition_laws script_aggregate_law known,
        of "secret_GetSecret demo_aws" "secret_named ''cred'' ''ns''" demo_found ss p' err] run
    by (fastforce simp: demo_syncer_def)
qed


text \<open>
  The source of a credential: without a reference it is the named credential among
  those of Rancher; a reference without a colon panics; otherwise the part before the
  first colon is the namespace and the rest the name, with the defaults for empty parts.
\<close>

lemma credential_reference:
  "mapper_GetSecret c =
     (let reference = cr_namespace_name c; colon = CHR '':'' in
      if reference = [] then Ret (secret_named (cr_cloud_credential c) RancherCredentialsNamespace)
      else if colon \<notin> set reference then Panic ''index out of range''
      else Ret (secret_named
        (cmp_or (tl (dropWhile (\<lambda>x. x \<noteq> colon) reference)) (cr_cloud_credential c))
        (cmp_or (takeWhile (\<lambda>x. x \<noteq> colon) reference) RancherCredentialsNamespace)))"
  by (auto simp: mapper_GetSecret_def split_two_def cut_at_char cmp_or_def Let_def)

end
