(* ===== verification/Provider_Behaviour.thy ===== *)
theory Provider_Behaviour
  imports Provider
begin

text \<open>
  What the clusterctl configuration and the provider defaults promise: how user
  overrides are merged, what the operator waits for before it installs a provider,
  which version it settles on, and what the defaults write.
\<close>

section \<open>The merged configuration\<close>

definition config_request :: "'w env \<Rightarrow> request" where
  "config_request E = RGet Cached KConfig (key_of (cm_meta (Config E)))"

definition registry_request :: request where
  "registry_request = RGet Cached KSetting \<lparr>k_namespace = [], k_name = ''system-default-registry''\<rparr>"

text \<open>The image of a name: the last user entry, or the embedded one under the registry.\<close>

definition image_reference ::
  "image_entry list \<Rightarrow> string \<Rightarrow> (string \<rightharpoonup> config_image) \<Rightarrow> string \<Rightarrow> config_image option" where
  "image_reference user registry images name =
     (case List.find (\<lambda>i. ie_name i = name) (rev user) of
        Some i \<Rightarrow> Some \<lparr>ci_repository = ie_repository i, ci_tag = ie_tag i\<rparr>
      | None \<Rightarrow> registry_images registry images name)"

definition alloc_images :: "(string \<rightharpoonup> config_image) option \<Rightarrow> (string \<rightharpoonup> config_image)" where
  "alloc_images m = (case m of None \<Rightarrow> Map.empty | Some f \<Rightarrow> f)"

lemma override_images_reference:
  "override_images user (registry_images registry images) name = image_reference user registry images name"
proof -
  have "override_images user m name =
    (case List.find (\<lambda>i. ie_name i = name) (rev user) of
       Some i \<Rightarrow> Some \<lparr>ci_repository = ie_repository i, ci_tag = ie_tag i\<rparr> | None \<Rightarrow> m name)" for m
    unfolding override_images_def
    by (induction user arbitrary: m) (auto simp: find_app split: option.split)
  then show ?thesis by (simp add: image_reference_def)
qed

definition repo_image :: "config_repository \<Rightarrow> string \<Rightarrow> config_image option" where
  "repo_image repo name = (case cfgr_images repo of None \<Rightarrow> None | Some m \<Rightarrow> m name)"

text \<open>The configuration as a function of the three sources.\<close>

definition config_result ::
  "config_repository \<Rightarrow> clusterctl_config \<Rightarrow> string \<Rightarrow> config_repository \<Rightarrow> bool" where
  "config_result embedded user registry repo \<longleftrightarrow>
     cfgr_providers repo = merge_providers (cfgr_providers embedded) (cfg_providers user) \<and>
     (\<forall>name. repo_image repo name = image_reference (cfg_images user) registry
        (case cfgr_images embedded of None \<Rightarrow> Map.empty | Some m \<Rightarrow> m) name)"

lemma config_of_result: "config_result embedded user registry (config_of user registry embedded)"
  by (simp add: config_of_def config_result_def repo_image_def override_images_reference Let_def)

text \<open>What the answer about the user's configuration says: it, or nothing.\<close>

definition user_answer :: "'w env \<Rightarrow> response \<Rightarrow> clusterctl_config \<Rightarrow> bool" where
  "user_answer E a user \<longleftrightarrow>
     (case reply_obj config_codec a of
        Inr c \<Rightarrow> user = c
      | Inl e \<Rightarrow> user = zero_config \<and> ignore_not_found E (Some e) = None)"

definition registry_answer :: "'w env \<Rightarrow> string \<Rightarrow> event list \<Rightarrow> bool" where
  "registry_answer E registry es \<longleftrightarrow>
     (if gate E UseRancherDefaultRegistry
      then \<exists>s. es = [(registry_request, RObj (OSetting s))] \<and> registry = set_value s
      else es = [] \<and> registry = [])"

definition config_run :: "'w env \<Rightarrow> go_error + config_repository \<Rightarrow> event list \<Rightarrow> bool" where
  "config_run E r es \<longleftrightarrow>
     (\<forall>repo. r = Inr repo \<longrightarrow>
        (\<exists>a user embedded registry rest.
           es = (config_request E, a) # rest \<and> user_answer E a user \<and>
           unmarshal_config E (mread (cm_data (Config E)) ''clusterctl.yaml'') = Inr embedded \<and>
           registry_answer E registry rest \<and> config_result embedded user registry repo))"

lemma runs_merge_config:
  "runs (merge_config E user) (\<lambda>r es. \<forall>repo. r = Inr repo \<longrightarrow>
     (\<exists>embedded registry.
        unmarshal_config E (mread (cm_data (Config E)) ''clusterctl.yaml'') = Inr embedded \<and>
        registry_answer E registry es \<and> config_result embedded user registry repo))"
  unfolding merge_config_def
  by (rule runsI) (auto intro!: trace_rules config_of_result
      simp: registry_answer_def reply_obj_Inr registry_request_def)

lemma runs_ClusterConfig: "runs (ClusterConfig E) (config_run E)"
  unfolding ClusterConfig_def
  by (rule runsI) (auto intro!: trace_rules runs_use [OF runs_merge_config]
      simp: config_run_def user_answer_def config_request_def)

section \<open>Writing and waiting for the mounted file\<close>

definition applied_yaml :: "request \<Rightarrow> string option" where
  "applied_yaml r =
     (case r of
        RApply t ob ow \<Rightarrow> (case ob of OConfigMap cm \<Rightarrow> mget (cm_data cm) ''clusterctl.yaml'' | _ \<Rightarrow> None)
      | _ \<Rightarrow> None)"

lemma runs_pure_config:
  "runs (ClusterConfig E) (\<lambda>r es. only (\<lambda>q. applied_yaml q = None) es)"
  unfolding ClusterConfig_def merge_config_def
  by (rule runsI) (auto intro!: trace_rules simp: applied_yaml_def)

lemma exec_bind:
  "exec (State_Monad.bind m f) w =
     (case run_state m \<lparr>world = w, trace = []\<rparr> of (a, s) \<Rightarrow>
        (case run_state (f a) s of (b, u) \<Rightarrow> (b, trace u)))"
  by (simp add: exec_def split: prod.split)

lemma sync_applies:
  assumes "(q, a) \<in> set (trace_of (SyncConfigMap E ow) w)" and "applied_yaml q = Some y"
  shows "\<exists>repo. result_of (ClusterConfig E) w = Inr repo \<and> marshal_config E repo = Inr y"
proof -
  obtain r s where r: "run_state (ClusterConfig E) \<lparr>world = w, trace = []\<rparr> = (r, s)"
    by fastforce
  have "only (\<lambda>q. applied_yaml q = None) (trace s)"
    using runs_exec [OF runs_pure_config, of E w] by (simp add: exec_def r)
  then have none: "(q, a) \<notin> set (trace s)" for a
    using assms(2) by (auto simp: only_def)
  have "result_of (ClusterConfig E) w = r" by (simp add: exec_def r)
  moreover obtain v t where s: "s = \<lparr>world = v, trace = t\<rparr>" by (cases s) auto
  ultimately show ?thesis
    using assms none
    by (auto simp: SyncConfigMap_def exec_bind r run_simps applied_yaml_def
        split: sum.splits prod.splits)
qed

lemma ClusterConfig_trace:
  "fst (run_state (ClusterConfig E) \<lparr>world = v, trace = t\<rparr>) = result_of (ClusterConfig E) v"
  by (simp add: ClusterConfig_def merge_config_def run_simps
      split: prod.split sum.split option.split)

section \<open>Defaults\<close>

text \<open>The writes that need the map of variables in the status to exist.\<close>

definition writes_variables :: "capi_provider \<Rightarrow> bool" where
  "writes_variables p \<longleftrightarrow>
     (\<exists>f. cps_variables (cp_spec p) = Some f \<and> f \<noteq> Map.empty) \<or> cps_features (cp_spec p) \<noteq> None"

definition default_variables :: "capi_provider \<Rightarrow> smap" where
  "default_variables p =
     (let vars = map_option (\<lambda>v. v ++ alloc (cps_variables (cp_spec p))) (cpst_variables (cp_status p)) in
      case cps_features (cp_spec p) of
        None \<Rightarrow> vars
      | Some f \<Rightarrow> map_option (\<lambda>v. v(
          ''EXP_CLUSTER_RESOURCE_SET'' \<mapsto> format_bool (f_cluster_resource_set f),
          ''CLUSTER_TOPOLOGY'' \<mapsto> format_bool (f_cluster_topology f),
          ''EXP_MACHINE_POOL'' \<mapsto> format_bool (f_machine_pool f))) vars)"

definition default_spec :: "capi_provider \<Rightarrow> provider_spec" where
  "default_spec p =
     (let ns = m_namespace (cp_meta p) in
      (GetSpec p)\<lparr>
        ps_config_secret := Some (case ps_config_secret (GetSpec p) of
            Some r \<Rightarrow> r\<lparr>ref_namespace := ns\<rparr>
          | None \<Rightarrow> \<lparr>ref_name = m_name (cp_meta p), ref_namespace = ns\<rparr>),
        ps_additional_manifests := map_option
          (\<lambda>r. if ref_namespace r = [] then r\<lparr>ref_namespace := ns\<rparr> else r)
          (ps_additional_manifests (GetSpec p))\<rparr>)"

lemma SetVariables_id: "cpst_variables (cp_status p) = v \<Longrightarrow> SetVariables p v = p"
  by (auto simp: SetVariables_def)

lemma setVariables_cases:
  "setVariables p =
     (if cpst_variables (cp_status p) = None \<and>
         (\<exists>f. cps_variables (cp_spec p) = Some f \<and> f \<noteq> Map.empty)
      then Panic ''assignment to entry in nil map''
      else Ret (SetVariables p (map_option (\<lambda>v. v ++ alloc (cps_variables (cp_spec p)))
        (cpst_variables (cp_status p)))))"
  by (cases "cps_variables (cp_spec p)"; cases "cpst_variables (cp_status p)")
    (auto simp: setVariables_def SetVariables_id)

lemma SetDefaultProviderSpec_cases:
  "SetDefaultProviderSpec p =
     (if cpst_variables (cp_status p) = None \<and> writes_variables p
      then Panic ''assignment to entry in nil map''
      else Ret (SetSpec (SetVariables p (default_variables p)) (default_spec p)))"
proof (cases "cpst_variables (cp_status p)")
  case None
  then show ?thesis
    by (cases "cps_features (cp_spec p)"; cases "ps_config_secret (GetSpec p)"; cases "GetSpec p")
      (auto simp: SetDefaultProviderSpec_def setVariables_cases setFeatures_def writes_variables_def
        default_variables_def default_spec_def Let_def)
next
  case (Some v)
  then show ?thesis
    by (cases "cps_features (cp_spec p)"; cases "ps_config_secret (GetSpec p)"; cases "GetSpec p")
      (auto simp: SetDefaultProviderSpec_def setVariables_cases setFeatures_def writes_variables_def
        default_variables_def default_spec_def Let_def)
qed

lemma default_fields:
  assumes "q = SetSpec (SetVariables p (default_variables p)) (default_spec p)"
  shows "default_spec q = default_spec p" "default_variables q = default_variables p"
    "writes_variables q = writes_variables p"
proof -
  have "cp_meta q = cp_meta p" "GetSpec q = default_spec p"
    "cpst_variables (cp_status q) = default_variables p"
    "cps_variables (cp_spec q) = cps_variables (cp_spec p)"
    "cps_features (cp_spec q) = cps_features (cp_spec p)"
    by (simp_all add: assms)
  note q = this
  show "default_spec q = default_spec p"
    by (cases "ps_config_secret (GetSpec p)"; cases "ps_additional_manifests (GetSpec p)")
      (simp_all add: default_spec_def [of q] q, simp_all add: default_spec_def Let_def)
  show "default_variables q = default_variables p"
    by (cases "cps_features (cp_spec p)"; cases "cpst_variables (cp_status p)")
      (simp_all add: default_variables_def [of q] q, auto simp: default_variables_def Let_def
        fun_eq_iff map_add_def split: option.split)
  show "writes_variables q = writes_variables p"
    by (simp add: writes_variables_def q)
qed

section \<open>Examples\<close>

definition demo_provider :: capi_provider where
  "demo_provider = \<lparr>cp_meta = empty_meta\<lparr>m_name := ''aws'', m_namespace := ''capi''\<rparr>,
     cp_spec = \<lparr>cps_provider = \<lparr>ps_version = ''v9.9.9'', ps_config_secret = None,
        ps_additional_manifests = None\<rparr>, cps_name = [], cps_type = ''infrastructure'',
        cps_credentials = None, cps_features = Some \<lparr>f_machine_pool = True,
        f_cluster_resource_set = False, f_cluster_topology = True\<rparr>, cps_variables = None,
        cps_auto_update = False\<rparr>,
     cp_status = \<lparr>cpst_provider = \<lparr>pst_conditions = [], pst_installed_version = None\<rparr>,
        cpst_phase = [], cpst_variables = Some Map.empty, cpst_name = []\<rparr>\<rparr>"

definition demo_config :: clusterctl_config where
  "demo_config = \<lparr>cfg_meta = empty_meta, cfg_images = [],
     cfg_providers = [\<lparr>pe_name = ''aws'', pe_url = ''https://x/v2.0.0/a.yaml'',
       pe_type = ''infrastructureProvider''\<rparr>]\<rparr>"

definition demo_registry :: setting where
  "demo_registry = \<lparr>set_meta = empty_meta, set_value = [], set_default = [],
     set_customized = False, set_source = []\<rparr>"

lemma demo_merge:
  "result_of (ClusterConfig script_env) [RObj (OConfig demo_config), RObj (OSetting demo_registry)] =
     Inr (config_of demo_config [] \<lparr>cfgr_providers = [], cfgr_images = None\<rparr>)"
  by (simp add: run_simps ClusterConfig_def merge_config_def demo_registry_def)

section \<open>Properties\<close>

text \<open>
  C25.  The clusterctl configuration the operator works with is the embedded one with
  the user's on top: with distinct embedded keys each embedded provider gives way to
  the last user entry for it and the other user entries follow; an image is the last
  user entry for its name, or the embedded one moved to the default registry.
\<close>

theorem config_merges_overrides:
  assumes "result_of (ClusterConfig E) w = Inr repo"
  shows "\<exists>a user embedded registry rest.
    trace_of (ClusterConfig E) w = (config_request E, a) # rest \<and>
    user_answer E a user \<and> registry_answer E registry rest \<and>
    unmarshal_config E (mread (cm_data (Config E)) ''clusterctl.yaml'') = Inr embedded \<and>
    (distinct (map provider_key (cfgr_providers embedded)) \<longrightarrow>
       cfgr_providers repo = merged_reference (cfgr_providers embedded) (cfg_providers user)) \<and>
    (\<forall>name. repo_image repo name = image_reference (cfg_images user) registry
       (alloc_images (cfgr_images embedded)) name)"
proof -
  obtain a user embedded registry rest where run:
    "trace_of (ClusterConfig E) w = (config_request E, a) # rest" "user_answer E a user"
    "unmarshal_config E (mread (cm_data (Config E)) ''clusterctl.yaml'') = Inr embedded"
    "registry_answer E registry rest" and result: "config_result embedded user registry repo"
    using runs_exec [OF runs_ClusterConfig, of E w] assms by (auto simp: config_run_def)
  have "distinct (map provider_key (cfgr_providers embedded)) \<longrightarrow>
      cfgr_providers repo = merged_reference (cfgr_providers embedded) (cfg_providers user)"
    using result by (simp add: config_result_def merge_providers_reference)
  moreover have "\<forall>name. repo_image repo name = image_reference (cfg_images user) registry
      (alloc_images (cfgr_images embedded)) name"
    using result by (simp add: config_result_def alloc_images_def)
  ultimately show ?thesis
    using run by blast
qed

theorem config_merges_overrides_witness:
  "\<exists>a user embedded registry rest.
    trace_of (ClusterConfig script_env) [RObj (OConfig demo_config), RObj (OSetting demo_registry)] =
      (config_request script_env, a) # rest \<and>
    user_answer script_env a user \<and> registry_answer script_env registry rest \<and>
    unmarshal_config script_env (mread (cm_data (Config script_env)) ''clusterctl.yaml'') = Inr embedded \<and>
    (distinct (map provider_key (cfgr_providers embedded)) \<longrightarrow>
       cfgr_providers (config_of demo_config [] \<lparr>cfgr_providers = [], cfgr_images = None\<rparr>) =
         merged_reference (cfgr_providers embedded) (cfg_providers user)) \<and>
    (\<forall>name. repo_image (config_of demo_config [] \<lparr>cfgr_providers = [], cfgr_images = None\<rparr>) name =
       image_reference (cfg_images user) registry (alloc_images (cfgr_images embedded)) name)"
  by (rule config_merges_overrides [OF demo_merge])

text \<open>
  C26.  The writer and the waiter agree: once the mounted file holds what a sync of the
  ConfigMap applied, and the configuration has not changed since, the wait before a
  provider is installed is over.  It is over in no other case: the file then holds the
  configuration of that moment, byte for byte.
\<close>

theorem sync_then_wait:
  assumes "srv E (RReadFile ConfigPath) u = (RData content, v)"
  shows "(result_of (WaitForClusterctlConfigUpdate E) u = (no_requeue, None) \<longleftrightarrow>
      (\<exists>repo. result_of (ClusterConfig E) v = Inr repo \<and> marshal_config E repo = Inr content)) \<and>
    ((q, a) \<in> set (trace_of (SyncConfigMap E ow) w) \<longrightarrow> applied_yaml q = Some content \<longrightarrow>
      result_of (ClusterConfig E) w = result_of (ClusterConfig E) v \<longrightarrow>
      result_of (WaitForClusterctlConfigUpdate E) u = (no_requeue, None))"
proof -
  have over: "result_of (WaitForClusterctlConfigUpdate E) u = (no_requeue, None) \<longleftrightarrow>
      (\<exists>repo. result_of (ClusterConfig E) v = Inr repo \<and> marshal_config E repo = Inr content)"
    using assms ClusterConfig_trace [of E v "[(RReadFile ConfigPath, RData content)]"]
    by (auto simp: WaitForClusterctlConfigUpdate_def run_simps waitForClusterctlConfigDuration_def
        split: sum.splits prod.splits)
  with sync_applies [of q a E ow w content] show ?thesis by auto
qed

definition demo_answers :: "response list" where
  "demo_answers = [RObj (OConfig demo_config), RObj (OSetting demo_registry)]"

lemma demo_sync:
  "(RApply Cached (OConfigMap \<lparr>cm_meta = empty_meta\<lparr>m_name := ''clusterctl-config'',
        m_namespace := ''cattle-turtles-system''\<rparr>,
      cm_data = Some [''clusterctl.yaml'' \<mapsto> ''config'']\<rparr>) ''c'', RErr (EMsg ''no response'')) \<in>
   set (trace_of (SyncConfigMap script_env ''c'') demo_answers)"
  by (simp add: run_simps SyncConfigMap_def ClusterConfig_def merge_config_def demo_answers_def
      demo_registry_def Config_def cmp_or_def)

theorem sync_then_wait_witness:
  "result_of (WaitForClusterctlConfigUpdate script_env) (RData ''config'' # demo_answers) = (no_requeue, None)"
  using sync_then_wait [of script_env "RData ''config'' # demo_answers" "''config''" demo_answers]
    demo_sync by (force simp: applied_yaml_def)

section \<open>Versions\<close>

lemma setLatestVersion_result:
  "result_of (setLatestVersion E p) w =
     (case result_of (ClusterConfig E) w of
        Inl err \<Rightarrow> Inl err
      | Inr config \<Rightarrow>
          (case GetProviderVersion config (ProviderName p) (ToKind E (cps_type (cp_spec p))) of
             (v, known) \<Rightarrow>
               map_sum id (\<lambda>latest. apply_latest E v known latest p)
                 (IsLatestVersion E v (ps_version (GetSpec p)))))"
  by (simp add: setLatestVersion_def exec_def run_simps split: prod.split sum.split)

text \<open>
  A version that is not newer than the bound, or leaves the choice to the operator.
\<close>

definition within_bound :: "'w env \<Rightarrow> string \<Rightarrow> string \<Rightarrow> bool" where
  "within_bound E bound v \<longleftrightarrow>
     cmp_or v latestVersionKey = latestVersionKey \<or>
     (\<exists>m d. semver_parse E (cut_prefix bound ''v'') = Inr m \<and>
        semver_parse E (cut_prefix v ''v'') = Inr d \<and> semver_lte E d m)"

lemma cmp_or_left: "cmp_or a b \<noteq> b \<Longrightarrow> cmp_or a b = a"
  by (auto simp: cmp_or_def)

lemma IsLatest_False:
  assumes "semver_laws E" "IsLatestVersion E v expected = Inr False"
  shows "within_bound E v expected"
  using assms
  by (auto simp: IsLatestVersion_def within_bound_def semver_laws_def Let_def cmp_or_left
      split: if_splits sum.splits)

lemma IsLatest_bound:
  assumes "semver_laws E" "IsLatestVersion E v expected = Inr l" "v \<noteq> latestVersionKey"
  shows "within_bound E v v"
  using assms
  by (auto simp: IsLatestVersion_def within_bound_def semver_laws_def Let_def
      split: if_splits sum.splits)

lemma set_version_version [simp]: "ps_version (GetSpec (set_version v p)) = v"
  by (simp add: set_version_def)

lemma apply_latest_version:
  "ps_version (GetSpec (apply_latest E v known latest p)) =
     (if known \<and> (latest \<or> cps_auto_update (cp_spec p)) then v else ps_version (GetSpec p))"
  by (simp add: apply_latest_def Let_def)

text \<open>
  C27.  The version the operator settles on for a known provider never goes beyond the
  one of the clusterctl configuration: a newer one in the spec is taken back to it, an
  older one is raised to it exactly if automatic updates are on, and stays otherwise.
  The version of an unknown provider is not touched.
\<close>

theorem version_within_override:
  assumes "semver_laws E" and "result_of (setLatestVersion E p) w = Inr p'"
  shows "\<exists>config v known latest. result_of (ClusterConfig E) w = Inr config \<and>
    GetProviderVersion config (ProviderName p) (ToKind E (cps_type (cp_spec p))) = (v, known) \<and>
    IsLatestVersion E v (ps_version (GetSpec p)) = Inr latest \<and>
    ps_version (GetSpec p') =
      (if known \<and> (latest \<or> cps_auto_update (cp_spec p)) then v else ps_version (GetSpec p)) \<and>
    (known \<longrightarrow> v \<noteq> latestVersionKey \<longrightarrow> within_bound E v (ps_version (GetSpec p')))"
proof -
  obtain config v known latest where c: "result_of (ClusterConfig E) w = Inr config"
    "GetProviderVersion config (ProviderName p) (ToKind E (cps_type (cp_spec p))) = (v, known)"
    "IsLatestVersion E v (ps_version (GetSpec p)) = Inr latest"
    and p': "p' = apply_latest E v known latest p"
    using assms(2) by (auto simp: setLatestVersion_result map_sum_def split: sum.splits prod.splits)
  have "known \<longrightarrow> v \<noteq> latestVersionKey \<longrightarrow> within_bound E v (ps_version (GetSpec p'))"
    using IsLatest_False [OF assms(1)] IsLatest_bound [OF assms(1) c(3)] c(3)
    by (cases latest) (auto simp: p' apply_latest_version)
  with c show ?thesis
    by (auto simp: p' apply_latest_version)
qed

text \<open>The spec asks for 9.9.9 and the configuration has 2.0.0: the provider goes back.\<close>

lemma demo_url_version [simp]: "collectVersion ''https://x/v2.0.0/a.yaml'' = ''v2.0.0''"
  by code_simp

lemma demo_latest [simp]: "IsLatestVersion script_env ''v2.0.0'' ''v9.9.9'' = Inr True"
proof -
  have "script_semver (cut_prefix ''v2.0.0'' ''v'') = Inr (Semver 2 0 0 [])"
    "script_semver (cut_prefix ''v9.9.9'' ''v'') = Inr (Semver 9 9 9 [])" by code_simp+
  then show ?thesis
    by (simp add: IsLatestVersion_def latestVersionKey_def cmp_or_def less_eq_semver_def)
qed

lemma demo_version:
  "result_of (setLatestVersion script_env demo_provider) demo_answers =
     Inr (apply_latest script_env ''v2.0.0'' True True demo_provider)"
proof -
  have "GetProviderVersion (config_of demo_config [] \<lparr>cfgr_providers = [], cfgr_images = None\<rparr>)
      (ProviderName demo_provider) (ToKind script_env (cps_type (cp_spec demo_provider))) = (''v2.0.0'', True)"
    by (simp add: GetProviderVersion_def config_of_def merge_providers_def demo_config_def
        ProviderName_def demo_provider_def ToKind_def equal_fold_def)
  then show ?thesis
    by (simp add: setLatestVersion_result demo_answers_def demo_merge)
      (simp add: demo_provider_def GetSpec_def)
qed

theorem version_within_override_witness:
  "\<exists>config v known latest. result_of (ClusterConfig script_env) demo_answers = Inr config \<and>
    GetProviderVersion config (ProviderName demo_provider)
      (ToKind script_env (cps_type (cp_spec demo_provider))) = (v, known) \<and>
    IsLatestVersion script_env v (ps_version (GetSpec demo_provider)) = Inr latest \<and>
    ps_version (GetSpec (apply_latest script_env ''v2.0.0'' True True demo_provider)) =
      (if known \<and> (latest \<or> cps_auto_update (cp_spec demo_provider)) then v
       else ps_version (GetSpec demo_provider))"
  using version_within_override [OF script_semver_laws demo_version] by blast

text \<open>
  C28.  The defaults of a provider: they panic exactly when the status has no map of
  variables and there is something to write to it; otherwise the map gets the spec's
  variables and on top of them the features, the secret reference is set and points
  into the provider's namespace, a reference to additional manifests without namespace
  is completed, and applying the defaults again changes nothing.
\<close>

theorem provider_defaults:
  "(if cpst_variables (cp_status p) = None \<and> writes_variables p
    then SetDefaultProviderSpec p = Panic ''assignment to entry in nil map''
    else \<exists>q. SetDefaultProviderSpec p = Ret q \<and>
      cpst_variables (cp_status q) = default_variables p \<and> GetSpec q = default_spec p \<and>
      cp_meta q = cp_meta p \<and> SetDefaultProviderSpec q = Ret q)"
proof (cases "cpst_variables (cp_status p) = None \<and> writes_variables p")
  case True
  then show ?thesis by (simp add: SetDefaultProviderSpec_cases)
next
  case False
  define q where "q = SetSpec (SetVariables p (default_variables p)) (default_spec p)"
  have again: "SetSpec (SetVariables q (default_variables q)) (default_spec q) = q"
    by (simp add: default_fields [OF q_def]) (simp add: q_def SetVariables_SetSpec)
  have "\<not> (cpst_variables (cp_status q) = None \<and> writes_variables q)"
    using False by (auto simp: q_def default_variables_def Let_def writes_variables_def
        split: option.splits)
  then have "SetDefaultProviderSpec q = Ret q"
    using again by (simp only: SetDefaultProviderSpec_cases if_False)
  moreover have "SetDefaultProviderSpec p = Ret q"
    using False by (simp only: SetDefaultProviderSpec_cases q_def if_False)
  ultimately show ?thesis
    using False by (simp add: q_def)
qed

end
