(* ===== verification/Operator_Behaviour.thy ===== *)
theory Operator_Behaviour
  imports Sync_Behaviour Provider_Behaviour
begin

text \<open>
  What the manifest patcher, the two clean-ups, the provider reconciler and its phases
  promise.
\<close>

section \<open>The patched manifest\<close>

definition certificate_of :: "'w env \<Rightarrow> unstructured list \<Rightarrow> string \<Rightarrow> string \<Rightarrow> bool" where
  "certificate_of E objs k n \<longleftrightarrow>
     (\<exists>u \<in> set objs. un_kind u = ''Certificate'' \<and>
        k = slash_key (m_namespace (un_meta u)) (m_name (un_meta u)) \<and>
        nested_string E u [''spec'', ''secretName''] = Inr (Some n))"

lemma getCertificates_found:
  "getCertificates E us certs = Inr result \<Longrightarrow> result k = Some n \<Longrightarrow>
   certs k = Some n \<or> certificate_of E us k n"
proof (induction us arbitrary: certs)
  case (Cons u us)
  show ?case
  proof (cases "un_kind u = ''Certificate''")
    case True
    then obtain m where m: "nested_string E u [''spec'', ''secretName''] = Inr (Some m)"
      and rest: "getCertificates E us (certs(slash_key (m_namespace (un_meta u)) (m_name (un_meta u)) \<mapsto> m))
        = Inr result"
      using Cons.prems by (auto split: sum.splits option.splits)
    from Cons.IH [OF rest Cons.prems(2)] show ?thesis
      using True m by (auto simp: certificate_of_def split: if_splits)
  next
    case False
    with Cons show ?thesis by (auto simp: certificate_of_def)
  qed
qed simp

lemma add_services_secret:
  "s \<in> snd ` set (add_services ws n services) \<Longrightarrow> sv_secret s = n \<or> s \<in> snd ` set services"
proof (induction ws services rule: add_services_induct [where n = n])
  case (Some ns name ws services)
  let ?new = "\<lparr>sv_name = name, sv_namespace = ns, sv_secret = n\<rparr>"
  have "sv_secret s = n \<or> s \<in> snd ` set (AList.update (slash_key ns name) ?new services)"
    using Some.IH Some.prems by simp
  moreover have "snd ` set (AList.update (slash_key ns name) ?new services) \<subseteq> insert ?new (snd ` set services)"
    using image_mono [OF update_subset, of snd "slash_key ns name" ?new services] by simp
  ultimately have "sv_secret s = n \<or> s = ?new \<or> s \<in> snd ` set services" by blast
  then show ?case by (elim disjE) simp_all
qed simp_all

lemma getServices_secret:
  "getServices E us certs services = Inr result \<Longrightarrow> s \<in> snd ` set result \<Longrightarrow>
   sv_secret s \<in> ran certs \<or> s \<in> snd ` set services"
proof (induction us arbitrary: services)
  case (Cons u us)
  show ?case
  proof (cases "mget (m_annotations (un_meta u)) CertManagerInjectAnnotationKey")
    case (Some from_value)
    then obtain n found where n: "certs from_value = Some n"
      and found: "webhook_services E u services n = Inr found" "getServices E us certs found = Inr result"
      using Cons.prems by (auto split: option.splits sum.splits)
    obtain ws where ws: "found = add_services ws n services"
      using found(1) by (rule webhook_services_cases)
    from n have "n \<in> ran certs" by (rule ranI)
    with Cons.IH [OF found(2) Cons.prems(2)] add_services_secret [of s ws n services] show ?thesis
      unfolding ws by auto
  qed (use Cons in auto)
qed simp

lemma getServices_inject:
  "getServices E us certs services = Inr result \<Longrightarrow> u \<in> set us \<Longrightarrow>
   mget (m_annotations (un_meta u)) CertManagerInjectAnnotationKey = Some c \<Longrightarrow> certs c \<noteq> None"
  by (induction us arbitrary: services) (auto split: option.splits sum.splits)

definition kept :: "unstructured \<Rightarrow> bool" where
  "kept u \<longleftrightarrow> un_kind u \<noteq> ''Certificate'' \<and> un_kind u \<noteq> ''Issuer''"

text \<open>What becomes of one object, given the services of the webhooks.\<close>

definition wrangled :: "(string \<times> webhook_service) list \<Rightarrow> unstructured \<Rightarrow> unstructured" where
  "wrangled services u =
     drop_inject (case secret_for services u of
       None \<Rightarrow> u | Some n \<Rightarrow> set_annotation CertificateAnnotationKey n u)"

lemma drop_inject_frame [simp]:
  "un_gvk (drop_inject u) = un_gvk u"
  "mget (m_annotations (un_meta (drop_inject u))) k =
     (if k = CertManagerInjectAnnotationKey then None else mget (m_annotations (un_meta u)) k)"
  by (simp_all add: drop_inject_def)

lemma wrangled_gvk [simp]: "un_gvk (wrangled services u) = un_gvk u"
  by (simp add: wrangled_def split: option.split)

lemma drop_inject_id:
  "mget (m_annotations (un_meta u)) CertManagerInjectAnnotationKey = None \<Longrightarrow> drop_inject u = u"
  by (cases u; cases "m_annotations (un_meta u)")
    (auto simp: drop_inject_def mdelete_def fun_upd_idem intro!: unstructured.equality object_meta.equality)

lemma wrangled_patch:
  assumes "keyed services" "set order = set (map snd services)"
  shows "map (\<lambda>u. drop_inject (patch_service order u)) objs = map (wrangled services) objs"
  by (simp add: wrangled_def patch_service_order [OF assms])

lemma filter_kept: "filter kept (map (wrangled services) objs) = map (wrangled services) (filter kept objs)"
  by (induction objs) (auto simp: kept_def)

lemma WranglerPatcher_cases:
  assumes "WranglerPatcher E objs = Inr out"
  obtains certs services where "getCertificates E objs Map.empty = Inr certs"
    "getServices E objs certs [] = Inr services" "keyed services"
    "out = map (wrangled services) (filter kept objs)"
proof (cases "objs = []")
  case True
  with assms that [of Map.empty "[]"] show thesis
    by (simp add: WranglerPatcher_def keyed_def)
next
  case False
  then obtain certs services where parts: "getCertificates E objs Map.empty = Inr certs"
    "getServices E objs certs [] = Inr services"
    and out: "out = filter (\<lambda>u. un_kind u \<noteq> ''Certificate'' \<and> un_kind u \<noteq> ''Issuer'')
      (map (\<lambda>u. drop_inject (patch_service (map snd services) u)) objs)"
    using assms by (auto simp: WranglerPatcher_def split: sum.splits)
  have keyed: "keyed services"
    using keyed_getServices [OF parts(2)] by (simp add: keyed_def)
  have "out = map (wrangled services) (filter kept objs)"
    unfolding out wrangled_patch [OF keyed refl] kept_def [symmetric, abs_def] by (rule filter_kept)
  with that parts keyed show thesis by blast
qed

lemma no_certificates: "(\<And>u. u \<in> set us \<Longrightarrow> kept u) \<Longrightarrow> getCertificates E us certs = Inr certs"
  by (induction us) (auto simp: kept_def)

lemma no_services:
  "(\<And>u. u \<in> set us \<Longrightarrow> mget (m_annotations (un_meta u)) CertManagerInjectAnnotationKey = None) \<Longrightarrow>
   getServices E us certs services = Inr services"
  by (induction us) auto

section \<open>The clean-ups\<close>

text \<open>
  Every object of an answered list that needs it was the subject of a request that
  succeeded.
\<close>

definition listed :: "'a codec \<Rightarrow> response \<Rightarrow> 'a list" where
  "listed c a = (case reply_list c a of Inr xs \<Rightarrow> xs | Inl e \<Rightarrow> [])"

definition all_done ::
  "'a codec \<Rightarrow> selector list \<Rightarrow> ('a \<Rightarrow> bool) \<Rightarrow> ('a \<Rightarrow> event \<Rightarrow> bool) \<Rightarrow> event list \<Rightarrow> bool" where
  "all_done c opts needs good es \<longleftrightarrow>
     (\<exists>a. (RList Cached (ckind c) opts, a) \<in> set es \<and>
        (\<forall>x \<in> set (listed c a). needs x \<longrightarrow> (\<exists>e \<in> set es. good x e)))"

lemma all_done_mono: "all_done c opts needs good es \<Longrightarrow> set es \<subseteq> set fs \<Longrightarrow> all_done c opts needs good fs"
  unfolding all_done_def by blast

lemma all_done_append:
  "all_done c opts needs good es \<Longrightarrow> all_done c opts needs good (es @ fs)"
  "all_done c opts needs good fs \<Longrightarrow> all_done c opts needs good (es @ fs)"
  by (auto elim: all_done_mono)

lemma runs_each:
  assumes "\<And>x. runs (f x) (\<lambda>r es. r = None \<longrightarrow> needs x \<longrightarrow> (\<exists>e \<in> set es. good x e))"
  shows "runs (for_each f xs)
    (\<lambda>r es. r = None \<longrightarrow> (\<forall>x \<in> set xs. needs x \<longrightarrow> (\<exists>e \<in> set es. good x e)))"
  by (rule runs_for_each [where R = "\<lambda>x es. needs x \<longrightarrow> (\<exists>e \<in> set es. good x e)"])
    (use assms in auto)

lemma runs_listed:
  assumes "\<And>x. runs (f x) (\<lambda>r es. r = None \<longrightarrow> needs x \<longrightarrow> (\<exists>e \<in> set es. good x e))"
    and "xs = listed c a"
  shows "runs (for_each f xs)
    (\<lambda>r es. r = None \<longrightarrow> all_done c opts needs good ((RList Cached (ckind c) opts, a) # es))"
  by (rule runs_mono [OF runs_each [OF assms(1)]]) (auto simp: all_done_def assms(2))

definition deleted :: "unstructured \<Rightarrow> event \<Rightarrow> bool" where
  "deleted u e \<longleftrightarrow> fst e = RDelete Cached (OUnstr u) \<and> reply_unit (snd e) = None"

lemma runs_delete_cert_objects:
  "runs (delete_cert_objects E k opts)
     (\<lambda>r es. r = None \<longrightarrow> all_done (unstr_codec (cert_kind k)) opts (\<lambda>u. True) deleted es)"
proof -
  let ?c = "unstr_codec (cert_kind k)"
  define del where "del = (\<lambda>u. do {
    e \<leftarrow> delete_obj E ?c Cached u;
    ret (map_option (EWrap (''deleting '' @ k @ '' '' @ m_name (un_meta u))) e) })"
  have "runs (del u) (\<lambda>r es. r = None \<longrightarrow> True \<longrightarrow> (\<exists>e \<in> set es. deleted u e))" for u
    unfolding del_def by (rule runsI) (auto intro!: trace_rules simp: deleted_def)
  note items = runs_listed [where opts = opts and c = ?c, OF this]
  show ?thesis
    unfolding delete_cert_objects_def Let_def del_def [symmetric]
    by (rule runs_bind, rule runsI)
      (auto intro!: trace_rules items [simplified] simp: listed_def simp del: for_each.simps
        split: sum.split)
qed

definition injected :: "unstructured \<Rightarrow> bool" where
  "injected u \<longleftrightarrow> mget (m_annotations (un_meta u)) CertManagerInjectAnnotationKey \<noteq> None"

definition uninjected :: "unstructured \<Rightarrow> event \<Rightarrow> bool" where
  "uninjected u e \<longleftrightarrow> fst e = RUpdate Cached (OUnstr (drop_inject u)) \<and> (\<exists>v. snd e = RObj (OUnstr v))"

lemma runs_clean_kind:
  "runs (clean_kind E opts g) (\<lambda>r es. r = None \<longrightarrow> all_done (unstr_codec g) opts injected uninjected es)"
proof -
  have "runs (clean_inject E g u) (\<lambda>r es. r = None \<longrightarrow> injected u \<longrightarrow> (\<exists>e \<in> set es. uninjected u e))" for u
    unfolding clean_inject_def
    by (rule runsI) (auto intro!: trace_rules simp: injected_def uninjected_def reply_obj_Inr)
  note items = runs_listed [where opts = opts and c = "unstr_codec g", OF this]
  show ?thesis
    unfolding clean_kind_def
    by (rule runs_bind, rule runsI)
      (auto intro!: trace_rules items [simplified] simp: listed_def simp del: for_each.simps
        split: sum.split)
qed

definition restarted :: "deployment \<Rightarrow> event \<Rightarrow> bool" where
  "restarted d e \<longleftrightarrow>
     (\<exists>v. fst e = RUpdate Cached (ODeployment (d\<lparr>dep_template_annotations :=
        mset (dep_template_annotations d) ''kubectl.kubernetes.io/restartedAt'' v\<rparr>))) \<and>
     (\<exists>v. snd e = RObj (ODeployment v))"

lemma runs_restart:
  assumes "getSelector E p = Inr opts"
  shows "runs (providerDeploymentRestart E p)
    (\<lambda>r es. r = None \<longrightarrow> all_done deployment_codec opts (\<lambda>d. True) restarted es)"
proof -
  have "runs (restart_deployment E d) (\<lambda>r es. r = None \<longrightarrow> True \<longrightarrow> (\<exists>e \<in> set es. restarted d e))" for d
    unfolding restart_deployment_def
    by (rule runsI) (auto intro!: trace_rules simp: restarted_def reply_obj_Inr)
  note items = runs_listed [where opts = opts and c = deployment_codec, OF this]
  show ?thesis
    unfolding providerDeploymentRestart_def assms sum.case
    by (rule runs_bind, rule runsI)
      (auto intro!: trace_rules items [simplified] simp: listed_def simp del: for_each.simps
        split: sum.split)
qed

definition unannotated :: "service_object \<Rightarrow> event \<Rightarrow> bool" where
  "unannotated s e \<longleftrightarrow>
     fst e = RUpdate Cached (OService
       (svc_meta_update (m_annotations_update (\<lambda>a. mdelete a CertificateAnnotationKey)) s)) \<and>
     (\<exists>v. snd e = RObj (OService v))"

definition annotated :: "service_object \<Rightarrow> bool" where
  "annotated s \<longleftrightarrow> mget (m_annotations (svc_meta s)) CertificateAnnotationKey \<noteq> None"

lemma runs_clean_services:
  "xs = listed service_codec a \<Longrightarrow> runs (for_each (clean_service E) xs)
     (\<lambda>r es. r = None \<longrightarrow>
        all_done service_codec opts annotated unannotated ((RList Cached KService opts, a) # es))"
proof -
  assume xs: "xs = listed service_codec a"
  have "runs (clean_service E s) (\<lambda>r es. r = None \<longrightarrow> annotated s \<longrightarrow> (\<exists>e \<in> set es. unannotated s e))" for s
    unfolding clean_service_def
    by (rule runsI) (auto intro!: trace_rules simp: annotated_def unannotated_def reply_obj_Inr)
  from runs_listed [where opts = opts, OF this xs] show ?thesis by simp
qed

definition cleaned :: "selector list \<Rightarrow> event list \<Rightarrow> bool" where
  "cleaned opts es \<longleftrightarrow>
     all_done (unstr_codec (cert_kind ''Certificate'')) opts (\<lambda>u. True) deleted es \<and>
     all_done (unstr_codec (cert_kind ''Issuer'')) opts (\<lambda>u. True) deleted es \<and>
     (\<forall>g \<in> set cleanupKinds. all_done (unstr_codec g) opts injected uninjected es)"

lemma runs_clean_kinds:
  "runs (for_each (clean_kind E opts) gs)
     (\<lambda>r es. r = None \<longrightarrow> (\<forall>g \<in> set gs. all_done (unstr_codec g) opts injected uninjected es))"
  by (rule runs_for_each [where R = "\<lambda>g. all_done (unstr_codec g) opts injected uninjected"])
    (auto intro: all_done_append runs_mono [OF runs_clean_kind])

lemma cleaned_parts:
  assumes "all_done (unstr_codec (cert_kind ''Certificate'')) opts (\<lambda>u. True) deleted es"
    and "all_done (unstr_codec (cert_kind ''Issuer'')) opts (\<lambda>u. True) deleted fs"
    and "\<forall>g \<in> set cleanupKinds. all_done (unstr_codec g) opts injected uninjected gs"
  shows "cleaned opts (es @ fs @ gs)"
  using assms unfolding cleaned_def by (blast intro: all_done_append)

lemma runs_clean_cert_manager: "runs (clean_cert_manager E opts) (\<lambda>r es. r = None \<longrightarrow> cleaned opts es)"
  unfolding clean_cert_manager_def
  by (rule runs_bind, rule runs_mono [OF runs_delete_cert_objects])
    (auto intro!: runs_bind runs_mono [OF runs_delete_cert_objects] runs_mono [OF runs_clean_kinds]
      cleaned_parts split: option.split)

lemma runs_restart_and_mark:
  assumes "getSelector E p = Inr opts"
  shows "runs (restart_and_mark E mark p) (\<lambda>r es. snd (snd r) = None \<longrightarrow>
    r = (mark p, no_requeue, None) \<and> all_done deployment_codec opts (\<lambda>d. True) restarted es)"
  unfolding restart_and_mark_def
  by (rule runs_bind, rule runs_mono [OF runs_restart [OF assms]]) (auto split: option.split)

definition cert_manager_run ::
  "'w env \<Rightarrow> capi_provider \<Rightarrow> capi_provider \<times> ctrl_result \<times> go_error option \<Rightarrow> event list \<Rightarrow> bool" where
  "cert_manager_run E p r es \<longleftrightarrow>
     (snd (snd r) = None \<longrightarrow>
       (\<exists>opts. getSelector E p = Inr opts \<and> r = (wrangler_managed E p, no_requeue, None) \<and>
          cleaned opts es \<and> all_done deployment_codec opts (\<lambda>d. True) restarted es))"

lemma runs_cert_manager:
  assumes "\<not> cond_is_true E (cp_GetConditions p) WranglerManagedCertificates"
  shows "runs (CleanupCertManagerResources E p) (cert_manager_run E p)"
proof (cases "getSelector E p")
  case (Inr opts)
  have "runs (restart_and_mark E (wrangler_managed E) p) (\<lambda>r fs. cert_manager_run E p r (es @ fs))"
    if "cleaned opts es" for es
    by (rule runs_mono [OF runs_restart_and_mark [OF Inr]])
      (use that Inr in \<open>auto simp: cert_manager_run_def cleaned_def elim!: all_done_mono\<close>)
  then show ?thesis
    using assms unfolding CleanupCertManagerResources_def Inr sum.case
    by (auto intro!: runs_bind runs_mono [OF runs_clean_cert_manager] split: option.split
        simp: cert_manager_run_def)
qed (use assms in \<open>simp add: CleanupCertManagerResources_def cert_manager_run_def\<close>)

definition wrangler_run ::
  "'w env \<Rightarrow> capi_provider \<Rightarrow> capi_provider \<times> ctrl_result \<times> go_error option \<Rightarrow> event list \<Rightarrow> bool" where
  "wrangler_run E p r es \<longleftrightarrow>
     (snd (snd r) = None \<longrightarrow>
       (\<exists>opts. getSelector E p = Inr opts \<and> r = (wrangler_unmanaged E p, no_requeue, None) \<and>
          all_done service_codec opts annotated unannotated es \<and>
          all_done deployment_codec opts (\<lambda>d. True) restarted es))"

lemma wrangler_run_error [simp]: "wrangler_run E p (q, res, Some err) es"
  by (simp add: wrangler_run_def)

lemma runs_wrangler:
  assumes "\<not> cond_is_false E (cp_GetConditions p) WranglerManagedCertificates"
  shows "runs (CleanupWranglerResources E p) (wrangler_run E p)"
proof (cases "getSelector E p")
  case (Inr opts)
  have mark: "runs (restart_and_mark E (wrangler_unmanaged E) p) (\<lambda>r fs. wrangler_run E p r (es @ fs))"
    if "all_done service_codec opts annotated unannotated es" for es
    by (rule runs_mono [OF runs_restart_and_mark [OF Inr]])
      (use that Inr in \<open>auto simp: wrangler_run_def elim!: all_done_mono\<close>)
  have "runs (do {
      e \<leftarrow> for_each (clean_service E) xs;
      case e of
        Some err \<Rightarrow> ret (p, no_requeue, Some err)
      | None \<Rightarrow> restart_and_mark E (wrangler_unmanaged E) p })
    (\<lambda>r fs. wrangler_run E p r ((RList Cached KService opts, a) # fs))"
    if "reply_list service_codec a = Inr xs" for xs a
    by (rule runs_bind, rule runs_mono [OF runs_clean_services [of xs a E opts]])
      (use that mark [of "(RList Cached KService opts, a) # _"] in
        \<open>auto simp: listed_def split: option.split\<close>)
  then show ?thesis
    using assms unfolding CleanupWranglerResources_def Inr sum.case
    by (simp, intro runs_bind runsI)
      (auto intro!: trace_rules split: sum.split)
qed (use assms in \<open>simp add: CleanupWranglerResources_def wrangler_run_def\<close>)

lemma wrangled_clean [simp]: "kept (wrangled services u) = kept u" "\<not> injected (wrangled services u)"
  by (simp add: kept_def) (simp add: injected_def wrangled_def)

lemma getSelector_same:
  "cp_meta q = cp_meta p \<Longrightarrow> cp_spec q = cp_spec p \<Longrightarrow> getSelector E q = getSelector E p"
  by (auto simp: getSelector_def selector_names_def Let_def split: option.split)

section \<open>Examples\<close>

definition demo_crd :: unstructured where
  "demo_crd = \<lparr>un_gvk = \<lparr>gvk_group = [], gvk_version = ''v1'', gvk_kind = ''Service''\<rparr>,
     un_meta = empty_meta\<lparr>m_name := ''webhook'', m_namespace := ''capa''\<rparr>, un_fields = Map.empty\<rparr>"

lemma demo_patched: "WranglerPatcher script_env [demo_crd] = Inr [demo_crd]"
  by (simp add: WranglerPatcher_def demo_crd_def drop_inject_def mdelete_def empty_meta_def)

definition demo_opts :: "selector list" where
  "demo_opts = [InNamespace ''capa'', LabelIn CAPIProviderLabel (selector_names demo_aws)]"

lemma demo_selector: "getSelector script_env demo_aws = Inr demo_opts"
  by (simp add: getSelector_def demo_opts_def demo_aws_def)

lemma demo_conditions: "cp_GetConditions demo_aws = []"
  by (simp add: cp_GetConditions_def demo_aws_def)

definition demo_empty :: "response list" where
  "demo_empty = replicate 6 (RObjs [])"

lemma demo_cert_manager:
  "result_of (CleanupCertManagerResources script_env demo_aws) demo_empty =
     (wrangler_managed script_env demo_aws, no_requeue, None)"
  by (simp add: run_simps CleanupCertManagerResources_def clean_cert_manager_def
      delete_cert_objects_def clean_kind_def restart_and_mark_def providerDeploymentRestart_def
      demo_selector demo_conditions script_cond_get_def cleanupKinds_def demo_empty_def numeral_eq_Suc)

lemma demo_wrangler:
  "result_of (CleanupWranglerResources script_env demo_aws) demo_empty =
     (wrangler_unmanaged script_env demo_aws, no_requeue, None)"
  by (simp add: run_simps CleanupWranglerResources_def
      restart_and_mark_def providerDeploymentRestart_def
      demo_selector demo_conditions script_cond_get_def demo_empty_def numeral_eq_Suc)

section \<open>Properties\<close>



text \<open>Patching a patched manifest again changes nothing.\<close>

theorem patcher_idempotent:
  assumes "WranglerPatcher E objs = Inr out"
  shows "WranglerPatcher E out = Inr out"
proof -
  obtain certs services where out: "out = map (wrangled services) (filter kept objs)"
    using assms by (rule WranglerPatcher_cases)
  have "kept u \<and> \<not> injected u" if "u \<in> set out" for u
    using that by (auto simp: out)
  then have clean: "kept u" "mget (m_annotations (un_meta u)) CertManagerInjectAnnotationKey = None"
    if "u \<in> set out" for u
    using that by (auto simp: injected_def)
  have "map drop_inject out = out"
    by (rule map_idI) (simp add: drop_inject_id clean(2))
  moreover have "filter (\<lambda>u. un_kind u \<noteq> ''Certificate'' \<and> un_kind u \<noteq> ''Issuer'') out = out"
    using clean(1) by (auto simp: kept_def intro!: filter_True)
  ultimately show ?thesis
    using no_certificates [of out E Map.empty] no_services [of out E Map.empty "[]"] clean
    by (simp add: WranglerPatcher_def)
qed

theorem patcher_idempotent_witness: "WranglerPatcher script_env [demo_crd] = Inr [demo_crd]"
  by (rule patcher_idempotent [OF demo_patched])

text \<open>
  C34.  The clean-up of cert-manager resources, when it succeeds on a provider that was
  not converted: every listed Certificate and Issuer was deleted, every listed object with
  the annotation was updated without it, every listed deployment was restarted, the
  provider is marked as converted, and the next clean-up does nothing at all.
\<close>

theorem cert_manager_cleanup:
  assumes "condition_laws E"
    and "\<not> cond_is_true E (cp_GetConditions p) WranglerManagedCertificates"
    and "result_of (CleanupCertManagerResources E p) w = (p', res, None)"
  shows "\<exists>opts. getSelector E p = Inr opts \<and>
    cleaned opts (trace_of (CleanupCertManagerResources E p) w) \<and>
    all_done deployment_codec opts (\<lambda>d. True) restarted (trace_of (CleanupCertManagerResources E p) w) \<and>
    cond_is_true E (cp_GetConditions p') WranglerManagedCertificates \<and>
    CleanupCertManagerResources E p' = ret (p', no_requeue, None)"
proof -
  obtain opts where run: "getSelector E p = Inr opts" "p' = wrangler_managed E p"
    "cleaned opts (trace_of (CleanupCertManagerResources E p) w)"
    "all_done deployment_codec opts (\<lambda>d. True) restarted (trace_of (CleanupCertManagerResources E p) w)"
    using runs_exec [OF runs_cert_manager [OF assms(2)], of w] assms(3)
    by (auto simp: cert_manager_run_def)
  moreover have "cond_is_true E (cp_GetConditions p') WranglerManagedCertificates"
    using assms(1) by (simp add: run(2) wrangler_managed_def condition_laws_def)
  ultimately show ?thesis
    by (auto simp: CleanupCertManagerResources_def)
qed

theorem cert_manager_cleanup_witness:
  "\<exists>opts. getSelector script_env demo_aws = Inr opts \<and>
    cleaned opts (trace_of (CleanupCertManagerResources script_env demo_aws) demo_empty) \<and>
    CleanupCertManagerResources script_env (wrangler_managed script_env demo_aws) =
      ret (wrangler_managed script_env demo_aws, no_requeue, None)"
proof -
  have "\<not> cond_is_true script_env (cp_GetConditions demo_aws) WranglerManagedCertificates"
    by (simp add: demo_conditions script_cond_get_def)
  from cert_manager_cleanup [OF script_condition_laws this demo_cert_manager] show ?thesis
    by blast
qed

text \<open>
  C35.  The clean-up of wrangler resources takes the annotation off every listed service
  that has it, and restarts every listed deployment.  Nothing it does makes the next
  clean-up skip: the mark is deleted, not set to false, so the provider is again one that
  is not known to be unconverted, and the next reconciliation restarts the deployments
  again.
\<close>

theorem wrangler_cleanup_repeats:
  assumes "condition_laws E"
    and "\<not> cond_is_false E (cp_GetConditions p) WranglerManagedCertificates"
    and "result_of (CleanupWranglerResources E p) w = (p', res, None)"
  shows "\<exists>opts. getSelector E p = Inr opts \<and>
    all_done service_codec opts annotated unannotated (trace_of (CleanupWranglerResources E p) w) \<and>
    all_done deployment_codec opts (\<lambda>d. True) restarted (trace_of (CleanupWranglerResources E p) w) \<and>
    (\<forall>v p'' res'. result_of (CleanupWranglerResources E p') v = (p'', res', None) \<longrightarrow>
       all_done deployment_codec opts (\<lambda>d. True) restarted (trace_of (CleanupWranglerResources E p') v))"
proof -
  obtain opts where run: "getSelector E p = Inr opts" "p' = wrangler_unmanaged E p"
    "all_done service_codec opts annotated unannotated (trace_of (CleanupWranglerResources E p) w)"
    "all_done deployment_codec opts (\<lambda>d. True) restarted (trace_of (CleanupWranglerResources E p) w)"
    using runs_exec [OF runs_wrangler [OF assms(2)], of w] assms(3)
    by (auto simp: wrangler_run_def)
  have again: "\<not> cond_is_false E (cp_GetConditions p') WranglerManagedCertificates"
    using assms(1) by (simp add: run(2) wrangler_unmanaged_def condition_laws_def
        provider_conds.get_set)
  have same: "getSelector E p' = Inr opts"
    using run(1) getSelector_same [of p' p E]
    by (simp add: run(2) wrangler_unmanaged_def cp_SetConditions_def)
  have "all_done deployment_codec opts (\<lambda>d. True) restarted (trace_of (CleanupWranglerResources E p') v)"
    if "result_of (CleanupWranglerResources E p') v = (p'', res', None)" for v p'' res'
    using runs_exec [OF runs_wrangler [OF again], of v] that same by (auto simp: wrangler_run_def)
  with run show ?thesis by blast
qed

theorem wrangler_cleanup_repeats_witness:
  "\<exists>opts. getSelector script_env demo_aws = Inr opts \<and>
    all_done service_codec opts annotated unannotated
      (trace_of (CleanupWranglerResources script_env demo_aws) demo_empty) \<and>
    all_done deployment_codec opts (\<lambda>d. True) restarted
      (trace_of (CleanupWranglerResources script_env (wrangler_unmanaged script_env demo_aws)) demo_empty)"
proof -
  have unmarked: "\<not> cond_is_false script_env (cp_GetConditions demo_aws) WranglerManagedCertificates"
    by (simp add: demo_conditions script_cond_get_def)
  have "wrangler_unmanaged script_env demo_aws = demo_aws"
    by (simp add: wrangler_unmanaged_def demo_conditions) (simp add: demo_aws_def cp_SetConditions_def)
  then have again: "result_of (CleanupWranglerResources script_env (wrangler_unmanaged script_env demo_aws)) demo_empty
      = (wrangler_unmanaged script_env demo_aws, no_requeue, None)"
    by (simp add: demo_wrangler)
  from wrangler_cleanup_repeats [OF script_condition_laws unmarked demo_wrangler] again show ?thesis
    by blast
qed

end
