(* ===== verification/Phase_Behaviour.thy ===== *)
theory Phase_Behaviour
  imports Operator_Behaviour
begin

text \<open>
  What the reconciler of a provider promises: the finalizer comes first, nothing of the
  CAPI operator runs before the phases of this repository are through, and the field
  indexes find what they are asked for.
\<close>

section \<open>The driver of the phases\<close>

text \<open>
  \<open>GenericProviderReconciler\<close> of the CAPI operator runs the phases in order and stops at
  the first that fails or asks to be called again.
\<close>

definition go_on ::
  "(capi_provider \<Rightarrow> ('w st, phase_result) state) \<Rightarrow> capi_provider \<times> ctrl_result \<times> go_error option
     \<Rightarrow> ('w st, phase_result) state" where
  "go_on k r = (case r of (p, res, err) \<Rightarrow>
     if err \<noteq> None \<or> res \<noteq> no_requeue then ret (Ret (p, res, err)) else k p)"

definition phase_driver ::
  "(phase \<Rightarrow> capi_provider \<Rightarrow> ('w st, phase_result) state)
     \<Rightarrow> (phase list \<Rightarrow> capi_provider \<Rightarrow> ('w st, phase_result) state) \<Rightarrow> bool" where
  "phase_driver step run \<longleftrightarrow>
     (\<forall>p. run [] p = ret (Ret (p, no_requeue, None))) \<and>
     (\<forall>ph phs p. run (ph # phs) p = obind (step ph p) (go_on (run phs)))"

fun documented_run ::
  "(phase \<Rightarrow> capi_provider \<Rightarrow> ('w st, phase_result) state) \<Rightarrow> phase list \<Rightarrow> capi_provider
     \<Rightarrow> ('w st, phase_result) state" where
  "documented_run step [] p = ret (Ret (p, no_requeue, None))"
| "documented_run step (ph # phs) p = obind (step ph p) (go_on (documented_run step phs))"

lemma documented_driver: "phase_driver step (documented_run step)"
  by (simp add: phase_driver_def)

lemma driver_documented: "phase_driver step run \<Longrightarrow> run phs = documented_run step phs"
proof (induction phs)
  case (Cons ph phs)
  then have "run phs = documented_run step phs" by simp
  with Cons.prems show ?case
    by (intro ext) (simp add: phase_driver_def)
qed (simp add: phase_driver_def fun_eq_iff)

lemma obind_assoc: "obind (obind m f) g = obind m (\<lambda>a. obind (f a) g)"
  by (simp add: obind_def) (rule arg_cong [where f = "State_Monad.bind m"],
    auto simp: fun_eq_iff split: outcome.split)

lemma obind_Ret [simp]: "obind (ret (Ret a)) f = f a"
  by (simp add: obind_def)

lemma go_on_go_on: "obind (go_on k r) (go_on l) = go_on (\<lambda>p. obind (k p) (go_on l)) r"
  by (auto simp: go_on_def split: prod.split)

lemma documented_append:
  "documented_run step (phs @ qhs) p =
     obind (documented_run step phs p) (go_on (documented_run step qhs))"
proof (induction phs arbitrary: p)
  case (Cons ph phs)
  have "documented_run step (phs @ qhs) =
      (\<lambda>p. obind (documented_run step phs p) (go_on (documented_run step qhs)))"
    by (rule ext) (rule Cons.IH)
  then show ?case
    by (simp add: obind_assoc go_on_go_on)
qed (simp add: go_on_def)

section \<open>The phases of this repository\<close>

definition own_phases :: "'w env \<Rightarrow> phase list" where
  "own_phases E = [waitForClusterctlConfigUpdate, setProviderSpec, syncSecrets_phase,
     if gate E NoCertManager then cleanupCertManagerResources else cleanupWranglerResources]"

definition upstream_phases :: "phase list" where
  "upstream_phases = [Upstream ''ApplyFromCache'', Upstream ''PreflightChecks'',
     Upstream ''InitializePhaseReconciler'', Upstream ''DownloadManifests'', Upstream ''Load'',
     Upstream ''Fetch'', Upstream ''Store'', Upstream ''Upgrade'', Upstream ''Install'',
     Upstream ''ReportStatus'', setConditions_phase, Upstream ''Finalize'']"

lemma phases_split: "ReconcilePhases E = own_phases E @ upstream_phases"
  by (simp add: ReconcilePhases_def own_phases_def upstream_phases_def)

text \<open>What has happened when the phases of this repository are through.\<close>

definition config_mounted :: "'w env \<Rightarrow> event list \<Rightarrow> bool" where
  "config_mounted E es \<longleftrightarrow>
     (\<exists>content repo. (RReadFile ConfigPath, RData content) \<in> set es \<and> marshal_config E repo = Inr content)"

lemma runs_wait:
  "runs (WaitForClusterctlConfigUpdate E) (\<lambda>r es. r = (no_requeue, None) \<longrightarrow> config_mounted E es)"
  unfolding WaitForClusterctlConfigUpdate_def
  by (rule runsI) (fastforce intro!: trace_rules runs_use [OF runs_pure_config]
      simp: config_mounted_def waitForClusterctlConfigDuration_def reply_data_def
      split: response.splits)

lemma apply_latest_secret [simp]:
  "ps_config_secret (GetSpec (apply_latest E v known latest p)) = ps_config_secret (GetSpec p)"
  by (auto simp: apply_latest_def set_version_def Let_def split: option.split)

lemma provider_variables_spec [simp]: "GetSpec (provider_variables p) = GetSpec p"
  by (simp add: provider_variables_def set_variable_def)

lemma runs_config_True: "runs (ClusterConfig E) (\<lambda>r es. True)"
  by (rule runs_mono [OF runs_pure_config]) simp

lemma runs_SetProviderSpec:
  "runs (SetProviderSpec E p) (\<lambda>r es. \<forall>q. r = Ret (q, None) \<longrightarrow> ps_config_secret (GetSpec q) \<noteq> None)"
proof (cases "SetDefaultProviderSpec p")
  case (Ret q)
  then have q: "ps_config_secret (GetSpec q) \<noteq> None"
    by (auto simp: SetDefaultProviderSpec_cases default_spec_def Let_def split: if_splits)
  have "runs (setLatestVersion E q) (\<lambda>r es. \<forall>u. r = Inr u \<longrightarrow> ps_config_secret (GetSpec u) \<noteq> None)"
    unfolding setLatestVersion_def
    by (rule runs_bind, rule runs_mono [OF runs_config_True])
      (use q in \<open>auto split: sum.split prod.split\<close>)
  then show ?thesis
    unfolding SetProviderSpec_def Ret outcome.case
    by (auto intro!: runs_bind elim!: runs_mono split: sum.split)
qed (simp add: SetProviderSpec_def)

definition stored :: "'w env \<Rightarrow> capi_provider \<Rightarrow> smap \<Rightarrow> event list \<Rightarrow> bool" where
  "stored E p data es \<longleftrightarrow>
     (\<exists>s v. owned_secret E p s \<and> sec_string_data s = data \<and>
        ((RUpdate Cached (OSecret s), RObj (OSecret v)) \<in> set es \<or>
         (RCreate Cached (OSecret s), RObj (OSecret v)) \<in> set es))"

lemma stored_append: "stored E p data es \<Longrightarrow> stored E p data (us @ es @ vs)"
  unfolding stored_def by fastforce

lemma runs_default_Apply:
  assumes "aggregate_law E" "same_source p q" "allowed_data E p (sec_string_data d)"
  shows "runs (default_Apply E q d None) (\<lambda>r es. snd r = None \<longrightarrow> stored E p (sec_string_data d) es)"
proof -
  define s where "s = sec_meta_update (\<lambda>m. setOwnerReference (cp_meta q) (setFinalizers m)) d"
  have s: "owned_secret E p s" "sec_string_data s = sec_string_data d"
    using assms(2,3) by (auto simp: s_def owned_secret_def same_source_def setOwnerReference_def
        setFinalizers_def)
  have "runs (Patch E s) (\<lambda>r es. snd r = None \<longrightarrow> stored E p (sec_string_data d) es)"
    unfolding Patch_def
    by (rule runsI) (use s in \<open>fastforce intro!: trace_rules simp: stored_def reply_obj_Inr\<close>)
  then show ?thesis
    unfolding default_Apply_def s_def [symmetric]
    by (auto intro!: runs_bind elim!: runs_mono split: option.split
        simp: assms(1) [unfolded aggregate_law_def])
qed

lemma runs_emits: "emits R m \<Longrightarrow> runs m (\<lambda>r es. only R es)"
  by (rule runsI) (auto elim!: emits_use)

lemma runs_after:
  "emits (\<lambda>q. True) m \<Longrightarrow> (\<And>a es. runs (f a) (\<lambda>b fs. R b (es @ fs))) \<Longrightarrow> runs (State_Monad.bind m f) R"
  by (rule runs_bind, rule runs_mono [OF runs_emits])

lemma runs_first_apply:
  assumes "aggregate_law E" "same_source p q" "allowed_data E p (sec_string_data d)"
  shows "runs (list_Apply E (SecretSyncer d # ss) q None) (\<lambda>r es.
    fst (snd r) = q \<and> (snd (snd r) = None \<longrightarrow> stored E p (sec_string_data d) es))"
proof -
  let ?app = "\<lambda>s q. sync_Apply E s q None"
  have first: "runs (sync_Apply E (SecretSyncer d) q None)
      (\<lambda>r es. fst (snd r) = q \<and> (snd (snd r) = None \<longrightarrow> stored E p (sec_string_data d) es))"
    unfolding sync_Apply_def syncer.case
    by (rule runs_bind, rule runs_mono [OF runs_default_Apply [OF assms]]) auto
  have rest: "runs (apply_all ?app ss q) (\<lambda>r es. fst (snd r) = q)"
    by (rule secret_sync.list_source)
  have all: "runs (apply_all ?app (SecretSyncer d # ss) q) (\<lambda>r es. fst (snd r) = q \<and>
      ((\<forall>e \<in> set (snd (snd r)). e = None) \<longrightarrow> stored E p (sec_string_data d) es))"
    unfolding apply_all.simps
    by (rule runs_bind, rule runs_mono [OF first])
      (auto intro!: runs_bind runs_mono [OF rest] stored_append [where us = "[]", simplified]
        split: prod.split)
  show ?thesis
    unfolding list_Apply_def
    by (rule runs_bind, rule runs_mono [OF all])
      (auto simp: assms(1) [unfolded aggregate_law_def])
qed

lemma runs_first_sync:
  "runs (list_Sync E (SecretSyncer d # ss) p) (\<lambda>r es. same_source p (fst (snd r)) \<and>
     GetSpec (fst (snd r)) = GetSpec p \<and>
     (\<exists>d' ss'. fst r = SecretSyncer d' # ss' \<and> sec_string_data d' = cpst_variables (cp_status p)))"
proof -
  have src: "same_source p p" by (simp add: same_source_def)
  have all: "runs (sync_all (sync_Get E) (sync_Sync E) (SecretSyncer d # ss) p) (\<lambda>r es.
      same_source p (fst (snd r)) \<and>
      (\<exists>d' ss'. fst r = SecretSyncer d' # ss' \<and> sec_string_data d' = cpst_variables (cp_status p)))"
    unfolding sync_all.simps sync_Get_def [of E "SecretSyncer d"] default_Get_def syncer.case
    by (rule runsI) (auto intro!: trace_rules runs_use [OF runs_sync_all [OF src]] simp: sync_Sync_def)
  show ?thesis
    unfolding list_Sync_def
    by (rule runs_bind, rule runs_mono [OF all]) (auto simp: GetSpec_def same_source_def)
qed

lemma syncers_first:
  "provider_syncers p = Ret ss \<Longrightarrow> \<exists>ss'. ss = SecretSyncer (secret_GetSecret p) # ss'"
  by (auto simp: provider_syncers_def NewList_def NewSecretSync_def List.map_filter_simps
      split: outcome.splits option.splits)

lemma runs_syncSecrets:
  assumes "aggregate_law E" "error_laws E"
  shows "runs (syncSecrets E p) (\<lambda>r es. \<forall>q res. r = Ret (q, res, None) \<longrightarrow>
    res = no_requeue \<and> same_source p q \<and> stored E p (cpst_variables (cp_status p)) es)"
proof (cases "provider_syncers p")
  case (Ret ss)
  then obtain ss' where ss: "ss = SecretSyncer (secret_GetSecret p) # ss'"
    using syncers_first by blast
  have data: "allowed_data E p (cpst_variables (cp_status p))"
    by (simp add: allowed_data_def)
  have app: "runs (list_Apply E (SecretSyncer d # ss) q None) (\<lambda>r es.
      fst (snd r) = q \<and> (snd (snd r) = None \<longrightarrow> stored E p (cpst_variables (cp_status p)) es))"
    if "same_source p q" "sec_string_data d = cpst_variables (cp_status p)" for d ss q
    using runs_first_apply [OF assms(1) that(1), of d ss] data that(2) by simp
  show ?thesis
    unfolding syncSecrets_def Ret outcome.case ss
    by (rule runs_bind, rule runs_mono [OF runs_first_sync])
      (use assms(2) in \<open>auto intro!: runs_bind runs_mono [OF app]
        stored_append [where vs = "[]", simplified] simp: error_laws_def\<close>)
qed (simp add: syncSecrets_def)

lemma same_source_refl [simp]: "same_source p p"
  by (simp add: same_source_def)

lemma same_source_trans: "same_source p q \<Longrightarrow> same_source q r \<Longrightarrow> same_source p r"
  by (simp add: same_source_def)

lemma runs_mark:
  assumes "getSelector E p = Inr opts" "same_source p (mark p)"
  shows "runs (restart_and_mark E mark p) (\<lambda>r es. same_source p (fst r))"
  unfolding restart_and_mark_def
  by (rule runs_bind, rule runs_mono [OF runs_restart [OF assms(1)]])
    (use assms(2) in \<open>auto split: option.split\<close>)

lemma mark_same [simp]:
  "same_source p (wrangler_managed E p)" "same_source p (wrangler_unmanaged E p)"
  by (simp_all add: wrangler_managed_def wrangler_unmanaged_def same_source_def cp_SetConditions_def)

lemma runs_clean_same:
  "runs (CleanupCertManagerResources E p) (\<lambda>r es. same_source p (fst r))"
  "runs (CleanupWranglerResources E p) (\<lambda>r es. same_source p (fst r))"
proof -
  show "runs (CleanupCertManagerResources E p) (\<lambda>r es. same_source p (fst r))"
  proof (cases "getSelector E p")
    case (Inr opts)
    show ?thesis
      unfolding CleanupCertManagerResources_def Inr sum.case
      by (auto intro!: runs_bind runs_mono [OF runs_clean_cert_manager] runs_mark [OF Inr]
          split: option.split)
  qed (simp add: CleanupCertManagerResources_def)
  show "runs (CleanupWranglerResources E p) (\<lambda>r es. same_source p (fst r))"
  proof (cases "getSelector E p")
    case (Inr opts)
    have "runs (do {
        e \<leftarrow> for_each (clean_service E) xs;
        case e of
          Some err \<Rightarrow> ret (p, no_requeue, Some err)
        | None \<Rightarrow> restart_and_mark E (wrangler_unmanaged E) p })
      (\<lambda>r es. same_source p (fst r))" for xs
      by (rule runs_after)
        (auto intro!: emits_rules runs_mark [OF Inr] split: option.split simp: clean_service_def)
    then have "runs (do {
        l \<leftarrow> list_obj E service_codec Cached opts;
        case l of
          Inl err \<Rightarrow> ret (p, no_requeue, Some (EWrap ''listing Services'' err))
        | Inr xs \<Rightarrow> do {
            e \<leftarrow> for_each (clean_service E) xs;
            case e of
              Some err \<Rightarrow> ret (p, no_requeue, Some err)
            | None \<Rightarrow> restart_and_mark E (wrangler_unmanaged E) p } })
      (\<lambda>r es. same_source p (fst r))"
      by (intro runs_after emits_client) (simp_all split: sum.split)
    then show ?thesis
      by (simp add: CleanupWranglerResources_def Inr)
  qed (simp add: CleanupWranglerResources_def)
qed

text \<open>The own phases do not depend on what the CAPI operator's phases do.\<close>

definition own_run :: "'w env \<Rightarrow> capi_provider \<Rightarrow> ('w st, phase_result) state" where
  "own_run E = documented_run (run_phase E (\<lambda>name p. ret (Ret (p, no_requeue, None)))) (own_phases E)"

lemma documented_cong:
  "(\<And>ph. ph \<in> set phs \<Longrightarrow> step ph = step' ph) \<Longrightarrow> documented_run step phs = documented_run step' phs"
proof (induction phs)
  case (Cons ph phs)
  then have "documented_run step phs = documented_run step' phs" "step ph = step' ph" by simp_all
  then show ?case by (intro ext) simp
qed (simp add: fun_eq_iff)

lemma own_run_any: "documented_run (run_phase E up) (own_phases E) = own_run E"
  unfolding own_run_def
  by (rule documented_cong) (auto simp: own_phases_def run_phase_def fun_eq_iff)

definition own_done :: "'w env \<Rightarrow> capi_provider \<Rightarrow> event list \<Rightarrow> bool" where
  "own_done E q es \<longleftrightarrow>
     config_mounted E es \<and> stored E q (cpst_variables (cp_status q)) es \<and>
     ps_config_secret (GetSpec q) \<noteq> None"

lemma stored_same:
  assumes "same_source p q" "stored E p data es"
  shows "stored E q data es"
proof -
  have "owned_secret E q = owned_secret E p"
    using assms(1) same_source_name [OF assms(1)]
    by (simp add: owned_secret_def allowed_data_def same_source_def fun_eq_iff)
  with assms(2) show ?thesis by (simp add: stored_def)
qed

lemma same_spec: "same_source p q \<Longrightarrow> GetSpec q = GetSpec p"
  by (simp add: same_source_def GetSpec_def)

lemma runs_go_on:
  assumes "runs m (\<lambda>r es. \<forall>q. r = Ret (q, no_requeue, None) \<longrightarrow>
    runs (k q) (\<lambda>s fs. \<forall>u. s = Ret (u, no_requeue, None) \<longrightarrow> R u (es @ fs)))"
  shows "runs (obind m (go_on k)) (\<lambda>s fs. \<forall>u. s = Ret (u, no_requeue, None) \<longrightarrow> R u fs)"
  by (rule runs_obind, rule runs_mono [OF assms]) (auto simp: go_on_def split: outcome.split)

lemma config_mounted_append: "config_mounted E es \<Longrightarrow> config_mounted E (es @ fs)"
  by (auto simp: config_mounted_def)

lemma runs_last:
  assumes "config_mounted E es" "ps_config_secret (GetSpec p) \<noteq> None"
    and "stored E p (cpst_variables (cp_status p)) es" "ph \<in> {cleanupCertManagerResources, cleanupWranglerResources}"
  shows "runs (documented_run (run_phase E up) [ph] p)
    (\<lambda>s fs. \<forall>u. s = Ret (u, no_requeue, None) \<longrightarrow> own_done E u (es @ fs))"
proof -
  have "own_done E u (es @ fs)" if "same_source p u" for u fs
    using assms(1-3) that same_spec [OF that] stored_same [OF that, of E "cpst_variables (cp_status p)" "es @ fs"]
      stored_append [of E p _ es "[]" fs]
    by (simp add: own_done_def config_mounted_append same_source_def)
  then show ?thesis
    using assms(4) unfolding documented_run.simps
    by (intro runs_go_on)
      (auto simp: run_phase_def intro!: runs_lift runs_mono [OF runs_clean_same(1)]
        runs_mono [OF runs_clean_same(2)])
qed

text \<open>One rule per phase, for whatever comes after it.\<close>

lemma runs_wait_phase:
  assumes "\<And>fs. config_mounted E fs \<Longrightarrow>
    runs (k p) (\<lambda>s gs. \<forall>u. s = Ret (u, no_requeue, None) \<longrightarrow> R u (fs @ gs))"
  shows "runs (obind (run_phase E up waitForClusterctlConfigUpdate p) (go_on k))
    (\<lambda>s fs. \<forall>u. s = Ret (u, no_requeue, None) \<longrightarrow> R u fs)"
proof (rule runs_go_on)
  show "runs (run_phase E up waitForClusterctlConfigUpdate p) (\<lambda>r es. \<forall>q. r = Ret (q, no_requeue, None) \<longrightarrow>
      runs (k q) (\<lambda>s fs. \<forall>u. s = Ret (u, no_requeue, None) \<longrightarrow> R u (es @ fs)))"
    unfolding run_phase_def phase.case
    by (rule runs_bind, rule runs_mono [OF runs_wait]) (use assms in auto)
qed

lemma runs_spec_phase:
  assumes "\<And>q fs. ps_config_secret (GetSpec q) \<noteq> None \<Longrightarrow>
    runs (k q) (\<lambda>s gs. \<forall>u. s = Ret (u, no_requeue, None) \<longrightarrow> R u (fs @ gs))"
  shows "runs (obind (run_phase E up setProviderSpec p) (go_on k))
    (\<lambda>s fs. \<forall>u. s = Ret (u, no_requeue, None) \<longrightarrow> R u fs)"
proof (rule runs_go_on)
  show "runs (run_phase E up setProviderSpec p) (\<lambda>r es. \<forall>q. r = Ret (q, no_requeue, None) \<longrightarrow>
      runs (k q) (\<lambda>s fs. \<forall>u. s = Ret (u, no_requeue, None) \<longrightarrow> R u (es @ fs)))"
    unfolding run_phase_def phase.case
    by (rule runs_obind, rule runs_mono [OF runs_SetProviderSpec])
      (use assms in \<open>auto split: outcome.split prod.split\<close>)
qed

lemma runs_sync_phase:
  assumes "aggregate_law E" "error_laws E"
    and "\<And>q fs. same_source p q \<Longrightarrow> stored E p (cpst_variables (cp_status p)) fs \<Longrightarrow>
      runs (k q) (\<lambda>s gs. \<forall>u. s = Ret (u, no_requeue, None) \<longrightarrow> R u (fs @ gs))"
  shows "runs (obind (run_phase E up syncSecrets_phase p) (go_on k))
    (\<lambda>s fs. \<forall>u. s = Ret (u, no_requeue, None) \<longrightarrow> R u fs)"
proof (rule runs_go_on)
  show "runs (run_phase E up syncSecrets_phase p) (\<lambda>r es. \<forall>q. r = Ret (q, no_requeue, None) \<longrightarrow>
      runs (k q) (\<lambda>s fs. \<forall>u. s = Ret (u, no_requeue, None) \<longrightarrow> R u (es @ fs)))"
    unfolding run_phase_def phase.case
    by (rule runs_mono [OF runs_syncSecrets [OF assms(1,2)]], intro allI impI, rule assms(3)) simp_all
qed

lemma runs_own:
  assumes "aggregate_law E" "error_laws E"
  shows "runs (own_run E p) (\<lambda>s es. \<forall>u. s = Ret (u, no_requeue, None) \<longrightarrow> own_done E u es)"
proof -
  let ?last = "if gate E NoCertManager then cleanupCertManagerResources else cleanupWranglerResources"
  let ?step = "run_phase E (\<lambda>name p. ret (Ret (p, no_requeue, None)))"
  have last: "runs (documented_run ?step [?last] q)
      (\<lambda>s gs. \<forall>u. s = Ret (u, no_requeue, None) \<longrightarrow> own_done E u (es @ ds @ fs @ gs))"
    if "config_mounted E es" "ps_config_secret (GetSpec p) \<noteq> None" "same_source p q"
      "stored E p (cpst_variables (cp_status p)) fs" for es ds fs p q
  proof -
    have "runs (documented_run ?step [?last] q)
        (\<lambda>s gs. \<forall>u. s = Ret (u, no_requeue, None) \<longrightarrow> own_done E u ((es @ ds @ fs) @ gs))"
    proof (rule runs_last)
      show "config_mounted E (es @ ds @ fs)" by (rule config_mounted_append [OF that(1)])
      show "ps_config_secret (GetSpec q) \<noteq> None" using that(2) by (simp add: same_spec [OF that(3)])
      show "stored E q (cpst_variables (cp_status q)) (es @ ds @ fs)"
        using stored_append [OF stored_same [OF that(3,4)], of "es @ ds" "[]"] that(3)
        by (simp add: same_source_def)
    qed simp
    then show ?thesis by (simp only: append_assoc)
  qed
  show ?thesis
    unfolding own_run_def own_phases_def documented_run.simps(2) [of _ waitForClusterctlConfigUpdate]
      documented_run.simps(2) [of _ setProviderSpec] documented_run.simps(2) [of _ syncSecrets_phase]
    by (rule runs_wait_phase, rule runs_spec_phase, rule runs_sync_phase [OF assms]) (rule last)
qed

section \<open>The finalizer\<close>

definition with_finalizer :: "'w env \<Rightarrow> capi_provider \<Rightarrow> capi_provider" where
  "with_finalizer E p =
     cp_meta_update (m_finalizers_update (\<lambda>fs. fst (add_finalizer E fs (operator_finalizer E)))) p"

section \<open>Properties\<close>

text \<open>
  C22.  The reconciler of the CAPI operator is called exactly for a provider that has the
  finalizer or is being deleted.  For any other provider the one request is a patch that
  adds the finalizer and changes nothing else, and with it written the next
  reconciliation calls the reconciler.
\<close>

theorem finalizer_before_install:
  assumes "finalizer_laws E"
  shows "if operator_finalizer E \<in> set (m_finalizers (cp_meta p)) \<or> \<not> deletion_is_zero (cp_meta p)
    then provider_Reconcile E generic p = generic (key_of (cp_meta p))
    else fst (result_of (provider_Reconcile E generic p) w) = no_requeue \<and>
      (trace_of (provider_Reconcile E generic p) w = [] \<or>
       (\<exists>a. trace_of (provider_Reconcile E generic p) w =
          [(RPatch Cached HelperPatch (OProvider p) (OProvider (with_finalizer E p)), a)])) \<and>
      set (m_finalizers (cp_meta (with_finalizer E p))) =
        insert (operator_finalizer E) (set (m_finalizers (cp_meta p))) \<and>
      provider_Reconcile E generic (with_finalizer E p) = generic (key_of (cp_meta p))"
proof -
  have laws: "contains_finalizer E fs f = (f \<in> set fs)"
    "set (fst (add_finalizer E fs f)) = insert f (set fs)" for fs f
    using assms by (simp_all add: finalizer_laws_def)
  have "runs (provider_Reconcile E generic p) (\<lambda>r es. fst r = no_requeue \<and>
      (es = [] \<or> (\<exists>a. es = [(RPatch Cached HelperPatch (OProvider p) (OProvider (with_finalizer E p)), a)])))"
    if "\<not> (operator_finalizer E \<in> set (m_finalizers (cp_meta p)) \<or> \<not> deletion_is_zero (cp_meta p))"
    using that unfolding provider_Reconcile_def with_finalizer_def
    by (auto intro!: runsI trace_rules simp: laws)
  from runs_exec [OF this, of w] show ?thesis
    by (auto simp: provider_Reconcile_def laws with_finalizer_def key_of_def)
qed

text \<open>An operator that is told the key and asks to be called again.\<close>

definition demo_operator :: "key \<Rightarrow> (response list st, ctrl_result \<times> go_error option) state" where
  "demo_operator k = ret (requeue (length (k_name k)), None)"

theorem finalizer_before_install_witness:
  "set (m_finalizers (cp_meta (with_finalizer script_env demo_aws))) = {operator_finalizer script_env} \<and>
   provider_Reconcile script_env demo_operator (with_finalizer script_env demo_aws) =
     demo_operator (key_of (cp_meta demo_aws))"
  using finalizer_before_install [OF script_finalizer_laws, of demo_aws demo_operator "[]"]
  by (simp add: demo_aws_def empty_meta_def deletion_is_zero_def)

text \<open>
  C23.  With a driver that runs phases in order and stops at the first that fails or is to
  be called again, a reconciliation is the phases of this repository and then, only if
  they are through, those of the CAPI operator, whatever these do.  They are through only
  when the mounted clusterctl configuration was read and is the serialization of a
  merged configuration, a secret with the provider's variables was written, and the
  provider refers to a secret.
\<close>

theorem install_waits:
  assumes "aggregate_law E" and "error_laws E" and "phase_driver (run_phase E up) run"
  shows "run (ReconcilePhases E) p = obind (own_run E p) (go_on (run upstream_phases)) \<and>
    (result_of (own_run E p) w = Ret (q, no_requeue, None) \<longrightarrow>
       own_done E q (trace_of (own_run E p) w))"
proof
  show "run (ReconcilePhases E) p = obind (own_run E p) (go_on (run upstream_phases))"
    by (simp add: driver_documented [OF assms(3)] phases_split documented_append own_run_any)
  show "result_of (own_run E p) w = Ret (q, no_requeue, None) \<longrightarrow> own_done E q (trace_of (own_run E p) w)"
    using runs_exec [OF runs_own [OF assms(1,2)], of p w] by blast
qed

definition demo_phases ::
  "string \<Rightarrow> capi_provider \<Rightarrow> (response list st, phase_result) state" where
  "demo_phases name p = ret (Ret (p, no_requeue, None))"

theorem install_waits_witness:
  "documented_run (run_phase script_env demo_phases) (ReconcilePhases script_env) demo_aws =
     obind (own_run script_env demo_aws)
       (go_on (documented_run (run_phase script_env demo_phases) upstream_phases))"
  using install_waits [OF script_aggregate_law script_error_laws documented_driver, of demo_phases] by blast



text \<open>
  The secret of a provider is found through the indexes once the defaults are set:
  the name index sets them and gives the name of the secret that the sync writes, and
  after that the namespace index gives its namespace.  Before that, the namespace index
  has no entry for a provider without a secret reference.
\<close>

lemma secret_indexed:
  assumes "configSecretNameIndexFunc p = Ret (q, names)"
  shows "names = [m_name (sec_meta (secret_GetSecret p))] \<and>
    configSecretNamespaceIndexFunc q = [m_namespace (sec_meta (secret_GetSecret p))] \<and>
    (ps_config_secret (GetSpec p) = None \<longrightarrow> configSecretNamespaceIndexFunc p = [])"
proof -
  have q: "q = SetSpec (SetVariables p (default_variables p)) (default_spec p)"
    and names: "names = (case ps_config_secret (GetSpec q) of None \<Rightarrow> [] | Some r \<Rightarrow> [ref_name r])"
    using assms by (auto simp: configSecretNameIndexFunc_def SetDefaultProviderSpec_cases split: if_splits)
  show ?thesis
    by (cases "ps_config_secret (GetSpec p)")
      (simp_all add: names q default_spec_def Let_def secret_GetSecret_def secret_named_def
        configSecretNamespaceIndexFunc_def cmp_or_def)
qed

end
