(* ===== verification/Credential_Behaviour.thy ===== *)
theory Credential_Behaviour
  imports Credential Phase_Behaviour
begin

text \<open>
  What the credential translation promises, proved once for any translator that keeps
  the contract of the interface, and for the AWS translator by interpretation.
\<close>

section \<open>What a run knows\<close>

text \<open>The provider of the translator was seen ready.\<close>

definition provider_ready :: "'w translator \<Rightarrow> event list \<Rightarrow> bool" where
  "provider_ready t us \<longleftrightarrow>
     (\<exists>p. (RGet Cached KProvider (provider_key_of t), RObj (OProvider p)) \<in> set us \<and>
        cpst_phase (cp_status p) = Ready)"

text \<open>The credential carries the finalizer: it was read with it, or a patch wrote it.\<close>

definition protected :: "'w translator \<Rightarrow> key \<Rightarrow> event list \<Rightarrow> bool" where
  "protected t req us \<longleftrightarrow>
     (\<exists>c. (RGet Cached KSecret req, RObj (OSecret c)) \<in> set us \<and>
        t_Finalizer t \<in> set (m_finalizers (sec_meta c))) \<or>
     (\<exists>b n v. (RPatch Cached MergeFrom (OSecret b) (OSecret n), RObj (OSecret v)) \<in> set us \<and>
        t_Finalizer t \<in> set (m_finalizers (sec_meta n)))"

fun is_write :: "request \<Rightarrow> bool" where
  "is_write (RCreate t ob) = True"
| "is_write (RUpdate t ob) = True"
| "is_write r = False"

fun is_delete :: "request \<Rightarrow> bool" where
  "is_delete (RDelete t ob) = True"
| "is_delete r = False"

fun is_patch :: "request \<Rightarrow> bool" where
  "is_patch (RPatch t pk b n) = True"
| "is_patch r = False"

text \<open>A patch that takes the finalizer off.\<close>

fun releases :: "'w translator \<Rightarrow> request \<Rightarrow> bool" where
  "releases t (RPatch g pk (OSecret b) (OSecret n)) =
     (t_Finalizer t \<in> set (m_finalizers (sec_meta b)) \<and> t_Finalizer t \<notin> set (m_finalizers (sec_meta n)))"
| "releases t r = False"

text \<open>
  The order of events: writes only with the finalizer in place, deletes only for a
  credential that is being deleted, the finalizer released only after a clean-up, and
  all of it only with the provider ready.
\<close>

definition ordered ::
  "'w translator \<Rightarrow> (secret \<Rightarrow> event list \<Rightarrow> bool) \<Rightarrow> key \<Rightarrow> event list \<Rightarrow> event \<Rightarrow> bool" where
  "ordered t clean req us e \<longleftrightarrow>
     (read_only (fst e) \<or> provider_ready t us) \<and>
     (is_write (fst e) \<longrightarrow> protected t req us) \<and>
     (is_delete (fst e) \<longrightarrow>
        (\<exists>c. (RGet Cached KSecret req, RObj (OSecret c)) \<in> set us \<and> \<not> deletion_is_zero (sec_meta c))) \<and>
     (releases t (fst e) \<longrightarrow>
        (\<exists>c vs ws. (RGet Cached KSecret req, RObj (OSecret c)) \<in> set us \<and> us = vs @ ws \<and> clean c ws))"

lemma protected_append: "protected t req us \<Longrightarrow> protected t req (us @ vs)"
  unfolding protected_def set_append by blast

lemma protected_patched:
  "t_Finalizer t \<in> set (m_finalizers (sec_meta n)) \<Longrightarrow>
   protected t req (us @ [(RPatch Cached MergeFrom (OSecret b) (OSecret n), RObj (OSecret v))])"
  unfolding protected_def by force

lemma protected_read:
  "(RGet Cached KSecret req, RObj (OSecret c)) \<in> set us \<Longrightarrow>
   t_Finalizer t \<in> set (m_finalizers (sec_meta c)) \<Longrightarrow> protected t req us"
  unfolding protected_def by blast

lemma provider_ready_append: "provider_ready t us \<Longrightarrow> provider_ready t (us @ vs)"
  unfolding provider_ready_def set_append by blast

section \<open>The contract of a translator\<close>

text \<open>
  Translating creates and updates, cleaning up deletes, and neither patches, so the
  credential itself is written by the reconciler alone.  \<open>clean c es\<close> says that the
  events of a successful clean-up have left nothing of the credential \<open>c\<close>.
\<close>

locale credential_translator =
  fixes E :: "'w env" and t :: "'w translator" and clean :: "secret \<Rightarrow> event list \<Rightarrow> bool"
  assumes finalizers: "finalizer_laws E"
    and translate_frame: "emits (\<lambda>r. read_only r \<or> is_write r) (t_Translate t c)"
    and cleanup_frame: "emits (\<lambda>r. read_only r \<or> is_delete r) (t_Cleanup t c)"
    and cleanup_clean: "runs (t_Cleanup t c) (\<lambda>r es. r = None \<longrightarrow> clean c es)"
begin

lemma laws:
  "contains_finalizer E fs f = (f \<in> set fs)"
  "set (fst (add_finalizer E fs f)) = insert f (set fs)"
  "set (fst (remove_finalizer E fs f)) = set fs - {f}"
  using finalizers by (simp_all add: finalizer_laws_def)

lemma frame_ordered:
  assumes "only (\<lambda>r. read_only r \<or> is_write r) es" "protected t req us" "provider_ready t us"
  shows "justified (\<lambda>vs. ordered t clean req (us @ vs)) es"
proof (rule justified_all)
  fix vs e
  assume "e \<in> set es"
  then have "read_only (fst e) \<or> is_write (fst e)" using assms(1) by (simp add: only_def)
  moreover have "\<not> is_delete r \<and> \<not> releases t r" if "read_only r \<or> is_write r" for r
    using that by (cases r) (auto simp: read_only_def)
  ultimately show "ordered t clean req (us @ vs) e"
    by (simp add: ordered_def protected_append [OF assms(2)] provider_ready_append [OF assms(3)])
qed

lemma delete_ordered:
  assumes "only (\<lambda>r. read_only r \<or> is_delete r) es" "provider_ready t us"
    and "(RGet Cached KSecret req, RObj (OSecret c)) \<in> set us" "\<not> deletion_is_zero (sec_meta c)"
  shows "justified (\<lambda>vs. ordered t clean req (us @ vs)) es"
proof (rule justified_all)
  fix vs e
  assume "e \<in> set es"
  then have "read_only (fst e) \<or> is_delete (fst e)" using assms(1) by (simp add: only_def)
  moreover have "\<not> is_write r \<and> \<not> releases t r" if "read_only r \<or> is_delete r" for r
    using that by (cases r) (auto simp: read_only_def)
  ultimately show "ordered t clean req (us @ vs) e"
    using assms(3,4) by (auto simp: ordered_def provider_ready_append [OF assms(2)])
qed

lemma read_ordered: "read_only r \<Longrightarrow> ordered t clean req us (r, a)"
  by (cases r) (auto simp: ordered_def read_only_def)

text \<open>The two ways of the reconciler, after the credential and the ready provider were read.\<close>

definition context_ok :: "key \<Rightarrow> secret \<Rightarrow> event list \<Rightarrow> bool" where
  "context_ok req c us \<longleftrightarrow>
     provider_ready t us \<and> (RGet Cached KSecret req, RObj (OSecret c)) \<in> set us"

lemma context_append: "context_ok req c us \<Longrightarrow> context_ok req c (us @ vs)"
  unfolding context_ok_def by (auto simp: provider_ready_append)

lemma runs_ensure:
  assumes "context_ok req c us"
  shows "runs (ensure_finalizer E t c) (\<lambda>r es. justified (\<lambda>vs. ordered t clean req (us @ vs)) es \<and>
    (\<forall>d. r = Inr d \<longrightarrow> protected t req (us @ es)))"
  unfolding ensure_finalizer_def patch_credential_def
  by (rule runsI) (use assms in \<open>auto intro!: trace_rules
      simp: laws ordered_def context_ok_def reply_obj_Inr protected_patched protected_read\<close>)

lemma runs_annotate:
  assumes "context_ok req c us"
  shows "runs (annotate_credential E n d) (\<lambda>r es. justified (\<lambda>vs. ordered t clean req (us @ vs)) es)"
  unfolding annotate_credential_def patch_credential_def
  by (rule runsI) (use assms in \<open>auto intro!: trace_rules
      simp: ordered_def context_ok_def identity_annotation_def\<close>)

lemma runs_normal:
  assumes "context_ok req c us"
  shows "runs (credential_reconcileNormal E c t) (\<lambda>r es. justified (\<lambda>vs. ordered t clean req (us @ vs)) es)"
  unfolding credential_reconcileNormal_def
proof (rule runs_bind, rule runs_mono [OF runs_ensure [OF assms]])
  fix f :: "go_error + secret" and es
  assume ensure: "justified (\<lambda>vs. ordered t clean req (us @ vs)) es \<and>
    (\<forall>d. f = Inr d \<longrightarrow> protected t req (us @ es))"
  have translate: "runs (t_Translate t d) (\<lambda>r fs. justified (\<lambda>vs. ordered t clean req (us @ es @ vs)) fs)"
    if "protected t req (us @ es)" for d
    by (rule runs_mono [OF runs_emits [OF translate_frame]])
      (use frame_ordered [OF _ that] assms in \<open>auto simp: context_ok_def provider_ready_append\<close>)
  have annotate: "runs (annotate_credential E n d)
      (\<lambda>r gs. justified (\<lambda>vs. ordered t clean req (us @ es @ fs @ vs)) gs)" for n d fs
    using runs_annotate [OF context_append [OF assms], of n d "es @ fs"] by simp
  show "runs (case f of
        Inl err \<Rightarrow> ret (no_requeue, Some err)
      | Inr credential \<Rightarrow> do {
          i \<leftarrow> t_Translate t credential;
          case i of
            Inl err \<Rightarrow> ret (no_requeue, Some err)
          | Inr identityName \<Rightarrow>
              if identityName = [] then ret (no_requeue, None)
              else annotate_credential E identityName credential })
    (\<lambda>r fs. justified (\<lambda>vs. ordered t clean req (us @ vs)) (es @ fs))"
    using ensure
    by (auto intro!: runs_bind runs_mono [OF translate] runs_mono [OF annotate] split: sum.split)
qed

lemma runs_release:
  assumes "context_ok req c us" "\<not> deletion_is_zero (sec_meta c)"
  shows "runs (credential_reconcileDelete E c t) (\<lambda>r es. justified (\<lambda>vs. ordered t clean req (us @ vs)) es)"
proof -
  have cleaned: "runs (t_Cleanup t c) (\<lambda>r es. (r = None \<longrightarrow> clean c es) \<and>
      justified (\<lambda>vs. ordered t clean req (us @ vs)) es)"
    by (rule runs_conj [OF cleanup_clean], rule runs_mono [OF runs_emits [OF cleanup_frame]])
      (use delete_ordered assms in \<open>auto simp: context_ok_def\<close>)
  have patch: "ordered t clean req (us @ es) (RPatch Cached MergeFrom (OSecret c) (OSecret n), a)"
    if "clean c es" for es n a
    using assms(1) that by (auto simp: ordered_def context_ok_def provider_ready_append)
  show ?thesis
    unfolding credential_reconcileDelete_def patch_credential_def
    by (rule runsI) (auto intro!: trace_rules runs_use [OF cleaned] patch)
qed

lemma runs_with:
  assumes "(RGet Cached KSecret req, RObj (OSecret c)) \<in> set us"
  shows "runs (reconcile_with E c t) (\<lambda>r es. justified (\<lambda>vs. ordered t clean req (us @ vs)) es)"
proof -
  have ready_ctx: "context_ok req c (us @ [(RGet Cached KProvider (provider_key_of t), RObj (OProvider p))])"
    if "cpst_phase (cp_status p) = Ready" for p
    using assms that by (auto simp: context_ok_def provider_ready_def)
  show ?thesis
    unfolding reconcile_with_def
    by (rule runsI)
      (auto intro!: trace_rules read_ordered runs_use [OF runs_release [OF ready_ctx]]
        runs_use [OF runs_normal [OF ready_ctx]] simp: reply_obj_Inr read_only_def)
qed

lemma runs_credential:
  "runs (credential_Reconcile E [(k, t)] req) (\<lambda>r es. justified (ordered t clean req) es)"
proof -
  have go: "runs (reconcile_with E c t) (\<lambda>r es. justified (\<lambda>vs. ordered t clean req
      ((RGet Cached KSecret req, RObj (OSecret c)) # vs)) es)" for c
    using runs_with [of req c "[(RGet Cached KSecret req, RObj (OSecret c))]"] by simp
  show ?thesis
    unfolding credential_Reconcile_def
    by (rule runsI)
      (auto intro!: trace_rules read_ordered runs_use [OF go] simp: reply_obj_Inr read_only_def
        split: if_splits)
qed

end

section \<open>The AWS translator keeps the contract\<close>

text \<open>
  Nothing of the credential is left at a key: the object there is gone, is another
  credential's, or was deleted.
\<close>

definition deleted_or_gone :: "'w env \<Rightarrow> response \<Rightarrow> bool" where
  "deleted_or_gone E b \<longleftrightarrow> (case reply_unit b of None \<Rightarrow> True | Some err \<Rightarrow> is_not_found E err)"

definition not_left ::
  "'w env \<Rightarrow> 'a codec \<Rightarrow> ('a \<Rightarrow> object_meta) \<Rightarrow> secret \<Rightarrow> event list \<Rightarrow> response \<Rightarrow> bool" where
  "not_left E c meta s es a \<longleftrightarrow>
     (case reply_obj c a of
        Inl err \<Rightarrow> is_not_found E err
      | Inr x \<Rightarrow> \<not> isObjectOwnedBySecret (meta x) s \<or>
          (\<exists>b. (RDelete Cached (encode c x), b) \<in> set es \<and> deleted_or_gone E b))"

definition gone :: "'w env \<Rightarrow> 'a codec \<Rightarrow> ('a \<Rightarrow> object_meta) \<Rightarrow> key \<Rightarrow> secret \<Rightarrow> event list \<Rightarrow> bool" where
  "gone E c meta k s es \<longleftrightarrow>
     (\<exists>a. (RGet Cached (ckind c) k, a) \<in> set es \<and> not_left E c meta s es a)"

definition aws_clean :: "'w env \<Rightarrow> secret \<Rightarrow> event list \<Rightarrow> bool" where
  "aws_clean E c es \<longleftrightarrow>
     gone E (unstr_codec aws_gvk) un_meta \<lparr>k_namespace = [], k_name = m_name (sec_meta c)\<rparr> c es \<and>
     gone E secret_codec sec_meta \<lparr>k_namespace = aws_namespace, k_name = m_name (sec_meta c)\<rparr> c es"

lemma not_left_mono: "not_left E c meta s es a \<Longrightarrow> set es \<subseteq> set fs \<Longrightarrow> not_left E c meta s fs a"
  unfolding not_left_def by (cases "reply_obj c a") auto

lemma gone_append:
  "gone E c meta k s es \<Longrightarrow> gone E c meta k s (es @ fs)"
  "gone E c meta k s fs \<Longrightarrow> gone E c meta k s (es @ fs)"
  unfolding gone_def
  by (auto dest: not_left_mono [where fs = "es @ fs"])

lemma runs_cleanup_owned:
  "runs (cleanup_owned E c meta k s) (\<lambda>r es. r = None \<longrightarrow> gone E c meta k s es)"
  unfolding cleanup_owned_def
  by (rule runsI) (auto intro!: trace_rules simp: gone_def not_left_def deleted_or_gone_def
      split: if_splits option.splits)

lemma runs_aws_Cleanup: "runs (aws_Cleanup E c) (\<lambda>r es. r = None \<longrightarrow> aws_clean E c es)"
  unfolding aws_Cleanup_def aws_clean_def
  by (rule runs_bind, rule runs_mono [OF runs_cleanup_owned])
    (auto intro!: runs_mono [OF runs_cleanup_owned] intro: gone_append split: option.split)

lemma emits_documented:
  assumes "\<And>k q. R (RGet Cached k q)" "\<And>ob. R (RCreate Cached ob)" "\<And>ob. R (RUpdate Cached ob)"
  shows "emits R (documented_create_or_update E ob f)"
  unfolding documented_create_or_update_def
  by (auto intro!: emits_rules assms split: response.split)

lemma aws_contract:
  assumes "finalizer_laws E" "create_or_update_law E"
  shows "credential_translator E (AWSTranslator E) (aws_clean E)"
proof
  show "finalizer_laws E" by fact
  have "emits (\<lambda>r. read_only r \<or> is_write r) (create_or_update E ob f)" for ob f
    using assms(2) by (auto simp: create_or_update_law_def read_only_def intro!: emits_documented)
  then show "emits (\<lambda>r. read_only r \<or> is_write r) (t_Translate (AWSTranslator E) c)" for c
    by (auto simp: AWSTranslator_def aws_Translate_def createOrUpdateCredentialSecret_def
        createOrUpdateAWSClusterStaticIdentity_def Let_def intro!: emits_rules)
  show "emits (\<lambda>r. read_only r \<or> is_delete r) (t_Cleanup (AWSTranslator E) c)" for c
    by (auto simp: AWSTranslator_def aws_Cleanup_def cleanup_owned_def read_only_def intro!: emits_rules)
  show "runs (t_Cleanup (AWSTranslator E) c) (\<lambda>r es. r = None \<longrightarrow> aws_clean E c es)" for c
    using runs_aws_Cleanup by (simp add: AWSTranslator_def)
qed

interpretation aws_scripted: credential_translator script_env "AWSTranslator script_env" "aws_clean script_env"
  by (rule aws_contract [OF script_finalizer_laws script_create_or_update_law])

section \<open>Whose objects are written\<close>

fun owned_only :: "secret \<Rightarrow> event list \<Rightarrow> event \<Rightarrow> bool" where
  "owned_only c us (RCreate t ob, a) = isObjectOwnedBySecret (kobj_meta ob) c"
| "owned_only c us (RUpdate t ob, a) =
     (isObjectOwnedBySecret (kobj_meta ob) c \<and>
      (\<exists>(q, b) \<in> set us. \<exists>k old. q = RGet Cached (kobj_kind ob) k \<and> b = RObj old \<and>
         key_of (kobj_meta old) = key_of (kobj_meta ob) \<and>
         (m_resource_version (kobj_meta old) = [] \<or> isObjectOwnedBySecret (kobj_meta old) c)))"
| "owned_only c us (RDelete t ob, a) = isObjectOwnedBySecret (kobj_meta ob) c"
| "owned_only c us (r, a) = read_only r"

lemma verify_ok:
  assumes "verifySecretOwnership knd m c = Inr m'"
  shows "isObjectOwnedBySecret m' c" "key_of m' = key_of m"
    "m_resource_version m = [] \<or> isObjectOwnedBySecret m c"
  using assms by (auto simp: verifySecretOwnership_def isObjectOwnedBySecret_def key_of_def mread_def
      mset_def split: if_splits)

text \<open>The objects the translator builds, from an object that is there or from a template.\<close>

definition claiming :: "secret \<Rightarrow> (kobj \<Rightarrow> go_error + kobj) \<Rightarrow> bool" where
  "claiming c f \<longleftrightarrow> (\<forall>old new. f old = Inr new \<longrightarrow>
     isObjectOwnedBySecret (kobj_meta new) c \<and> key_of (kobj_meta new) = key_of (kobj_meta old) \<and>
     kobj_kind new = kobj_kind old \<and>
     (m_resource_version (kobj_meta old) = [] \<or> isObjectOwnedBySecret (kobj_meta old) c))"

lemma claiming_secret: "claiming c (mutate_secret c ak sk)"
  unfolding claiming_def mutate_secret_def
  by (auto split: kobj.splits sum.splits dest: verify_ok)

lemma claiming_identity: "claiming c (mutate_identity c)"
  unfolding claiming_def mutate_identity_def
  by (auto split: kobj.splits sum.splits dest: verify_ok)

definition settled :: "kobj \<Rightarrow> event list \<Rightarrow> bool" where
  "settled new es \<longleftrightarrow>
     (\<exists>a. reply_unit a = None \<and> ((RCreate Cached new, a) \<in> set es \<or> (RUpdate Cached new, a) \<in> set es)) \<or>
     (\<exists>q. (q, RObj new) \<in> set es)"

definition established :: "(kobj \<Rightarrow> go_error + kobj) \<Rightarrow> event list \<Rightarrow> bool" where
  "established f es \<longleftrightarrow> (\<exists>old new. f old = Inr new \<and> settled new es)"

lemma settled_append: "settled new es \<Longrightarrow> settled new (us @ es @ vs)"
  unfolding settled_def by auto

lemma established_append:
  "established f es \<Longrightarrow> established f (es @ fs)" "established f fs \<Longrightarrow> established f (es @ fs)"
proof -
  show "established f es \<Longrightarrow> established f (es @ fs)"
    unfolding established_def using settled_append [of _ es "[]" fs, unfolded append_Nil] by blast
  show "established f fs \<Longrightarrow> established f (es @ fs)"
    unfolding established_def using settled_append [of _ fs es "[]", unfolded append_Nil2] by blast
qed

lemma runs_update_found:
  assumes "claiming c f"
  shows "runs (case f old of
      Inl err \<Rightarrow> ret (Some err)
    | Inr new \<Rightarrow> if new = old then ret None else do { a \<leftarrow> call E (RUpdate Cached new); ret (reply_unit a) })
    (\<lambda>r fs. justified (\<lambda>vs. owned_only c ((RGet Cached (kobj_kind old) k, RObj old) # vs)) fs \<and>
      (r = None \<longrightarrow> established f ((RGet Cached (kobj_kind old) k, RObj old) # fs)))"
proof (cases "f old")
  case (Inr new)
  then have new: "isObjectOwnedBySecret (kobj_meta new) c" "key_of (kobj_meta old) = key_of (kobj_meta new)"
    "kobj_kind old = kobj_kind new"
    "m_resource_version (kobj_meta old) = [] \<or> isObjectOwnedBySecret (kobj_meta old) c"
    using assms unfolding claiming_def by metis+
  have est: "established f ((RGet Cached (kobj_kind old) k, RObj old) # (RUpdate Cached new, a) # [])"
    if "reply_unit a = None" for a
    using Inr that unfolding established_def settled_def by auto
  have ok: "owned_only c [(RGet Cached (kobj_kind old) k, RObj old)] (RUpdate Cached new, a)" for a
    using new by simp
  have step: "runs (do { a \<leftarrow> call E (RUpdate Cached new); ret (reply_unit a) })
    (\<lambda>r fs. justified (\<lambda>vs. owned_only c ((RGet Cached (kobj_kind old) k, RObj old) # vs)) fs \<and>
      (r = None \<longrightarrow> established f ((RGet Cached (kobj_kind old) k, RObj old) # fs)))"
    by (rule runsI, rule twp_bind, rule twp_call)
      (simp del: owned_only.simps add: ok est)
  show ?thesis
  proof (cases "new = old")
    case True
    then have "established f [(RGet Cached (kobj_kind old) k, RObj old)]"
      using Inr unfolding established_def settled_def by auto
    then show ?thesis by (simp add: Inr True)
  qed (simp add: Inr step)
qed simp

lemma runs_create_missing:
  assumes "claiming c f"
  shows "runs (case f ob of
      Inl err \<Rightarrow> ret (Some err)
    | Inr new \<Rightarrow> do { a \<leftarrow> call E (RCreate Cached new); ret (reply_unit a) })
    (\<lambda>r fs. justified (\<lambda>vs. owned_only c (us @ vs)) fs \<and> (r = None \<longrightarrow> established f (us @ fs)))"
proof (cases "f ob")
  case (Inr new)
  then have new: "isObjectOwnedBySecret (kobj_meta new) c"
    using assms unfolding claiming_def by blast
  have "established f (us @ [(RCreate Cached new, a)])" if "reply_unit a = None" for a
    using Inr that unfolding established_def settled_def by auto
  then show ?thesis
    unfolding Inr sum.case
    by (intro runsI) (auto intro!: trace_rules simp: new)
qed simp

lemma runs_documented:
  assumes "claiming c f"
  shows "runs (documented_create_or_update E ob f) (\<lambda>r es.
    justified (owned_only c) es \<and> (r = None \<longrightarrow> established f es))"
  unfolding documented_create_or_update_def
proof (rule runs_bind, rule runsI, rule twp_call)
  fix a and t :: "event list"
  let ?get = "RGet Cached (kobj_kind ob) (key_of (kobj_meta ob))"
  show "\<exists>es. t @ [(?get, a)] = t @ es \<and>
    runs (case a of
        RErr e \<Rightarrow>
          if is_not_found E e then
            (case f ob of
               Inl err \<Rightarrow> ret (Some err)
             | Inr new \<Rightarrow> do { a \<leftarrow> call E (RCreate Cached new); ret (reply_unit a) })
          else ret (Some e)
      | RObj old \<Rightarrow>
          if kobj_kind old = kobj_kind ob then
            (case f old of
               Inl err \<Rightarrow> ret (Some err)
             | Inr new \<Rightarrow> if new = old then ret None
                 else do { a \<leftarrow> call E (RUpdate Cached new); ret (reply_unit a) })
          else ret (Some decode_error)
      | _ \<Rightarrow> ret (Some decode_error))
     (\<lambda>b fs. justified (owned_only c) (es @ fs) \<and> (b = None \<longrightarrow> established f (es @ fs)))"
  proof (cases a)
    case (RObj old)
    show ?thesis
      using runs_update_found [OF assms, where old = old and E = E and k = "key_of (kobj_meta ob)"]
      by (auto simp: RObj read_only_def)
  next
    case (RErr e)
    show ?thesis
      using runs_create_missing [OF assms, where ob = ob and E = E and us = "[(?get, a)]"]
      by (auto simp: RErr read_only_def)
  qed (simp_all add: read_only_def)
qed

definition translated :: "secret \<Rightarrow> go_error + string \<Rightarrow> event list \<Rightarrow> bool" where
  "translated c r es \<longleftrightarrow>
     (let ak = mread (sec_data c) rancherAWSAccessKeyField;
          sk = mread (sec_data c) rancherAWSSecretKeyField in
      r = Inr [] \<and> (ak = [] \<or> sk = []) \<or>
      ak \<noteq> [] \<and> sk \<noteq> [] \<and>
      (\<forall>n. r = Inr n \<longrightarrow> n = m_name (sec_meta c) \<and>
         established (mutate_secret c ak sk) es \<and> established (mutate_identity c) es))"

lemma runs_translate:
  assumes "create_or_update_law E"
  shows "runs (aws_Translate E c) (\<lambda>r es. justified (owned_only c) es \<and> translated c r es)"
proof -
  let ?ak = "mread (sec_data c) rancherAWSAccessKeyField"
  let ?sk = "mread (sec_data c) rancherAWSSecretKeyField"
  have doc: "create_or_update E = documented_create_or_update E"
    using assms by (simp add: create_or_update_law_def)
  have later: "justified (\<lambda>vs. owned_only c (es @ vs)) fs" if "justified (owned_only c) fs" for es fs
    using that
  proof (rule justified_mono)
    fix us and e :: event
    assume "owned_only c us e"
    then show "owned_only c (es @ us) e"
      by (cases "(c, us, e)" rule: owned_only.cases) auto
  qed
  have first: "runs (createOrUpdateCredentialSecret E c ?ak ?sk aws_namespace)
      (\<lambda>r es. justified (owned_only c) es \<and> (r = None \<longrightarrow> established (mutate_secret c ?ak ?sk) es))"
    unfolding createOrUpdateCredentialSecret_def doc
    by (rule runs_bind, rule runs_mono [OF runs_documented [OF claiming_secret]]) auto
  have second: "runs (createOrUpdateAWSClusterStaticIdentity E c)
      (\<lambda>r es. justified (owned_only c) es \<and> (r = None \<longrightarrow> established (mutate_identity c) es))"
    unfolding createOrUpdateAWSClusterStaticIdentity_def doc
    by (rule runs_bind, rule runs_mono [OF runs_documented [OF claiming_identity]]) auto
  show ?thesis
  proof (cases "?ak = [] \<or> ?sk = []")
    case True
    then show ?thesis by (simp add: aws_Translate_def translated_def Let_def)
  next
    case False
    then show ?thesis
      unfolding aws_Translate_def Let_def translated_def
      by (simp, intro runs_bind runs_mono [OF first])
        (auto intro!: runs_bind runs_mono [OF second] later intro: established_append split: option.split)
  qed
qed

lemma runs_cleanup_owned_only:
  assumes "\<And>x. kobj_meta (encode cd x) = meta x"
  shows "runs (cleanup_owned E cd meta k c) (\<lambda>r es. \<forall>us. justified (\<lambda>vs. owned_only c (us @ vs)) es)"
  unfolding cleanup_owned_def
  by (rule runsI) (auto intro!: trace_rules simp: assms read_only_def)

lemma runs_aws_Cleanup_owned: "runs (aws_Cleanup E c) (\<lambda>r es. justified (owned_only c) es)"
proof -
  have parts: "runs (cleanup_owned E (unstr_codec aws_gvk) un_meta k c)
      (\<lambda>r es. \<forall>us. justified (\<lambda>vs. owned_only c (us @ vs)) es)"
    "runs (cleanup_owned E secret_codec sec_meta k c)
      (\<lambda>r es. \<forall>us. justified (\<lambda>vs. owned_only c (us @ vs)) es)" for k
    by (rule runs_cleanup_owned_only, simp)+
  show ?thesis
    unfolding aws_Cleanup_def
    by (rule runs_bind, rule runs_mono [OF parts(1)])
      (auto intro!: runs_mono [OF parts(2)] split: option.split dest: spec [of _ "[]"])
qed

section \<open>Examples\<close>

definition demo_credential :: secret where
  "demo_credential = \<lparr>sec_meta = empty_meta\<lparr>m_name := ''cc'', m_namespace := ''cattle-global-data'',
       m_uid := ''u1'', m_annotations := Some [driverNameAnnotation \<mapsto> ''aws'']\<rparr>,
     sec_data = Some [rancherAWSAccessKeyField \<mapsto> ''key'', rancherAWSSecretKeyField \<mapsto> ''secret''],
     sec_string_data = None\<rparr>"

definition demo_request :: key where
  "demo_request = \<lparr>k_namespace = ''cattle-global-data'', k_name = ''cc''\<rparr>"

lemma demo_fields:
  "mread (sec_data demo_credential) rancherAWSAccessKeyField = ''key''"
  "mread (sec_data demo_credential) rancherAWSSecretKeyField = ''secret''"
  by (simp_all add: demo_credential_def mread_def rancherAWSAccessKeyField_def
      rancherAWSSecretKeyField_def)

text \<open>Nothing is there yet, and both objects are created.\<close>

definition demo_create :: "response list" where
  "demo_create = [RErr (EApi ''NotFound''), ROk, RErr (EApi ''NotFound''), ROk]"

lemma demo_translate: "result_of (aws_Translate script_env demo_credential) demo_create = Inr ''cc''"
proof -
  have new: "m_resource_version (sec_meta (secret_named n ns)) = []"
    "m_resource_version (un_meta (awsClusterStaticIdentity n)) = []" for n ns
    by (simp_all add: secret_named_def awsClusterStaticIdentity_def empty_meta_def)
  obtain s where s: "mutate_secret demo_credential ''key'' ''secret''
      (OSecret (secret_named ''cc'' aws_namespace)) = Inr s"
    by (simp add: mutate_secret_def verifySecretOwnership_def new)
  obtain u where u: "mutate_identity demo_credential (OUnstr (awsClusterStaticIdentity ''cc'')) = Inr u"
    by (simp add: mutate_identity_def verifySecretOwnership_def new)
  have name: "m_name (sec_meta demo_credential) = ''cc''" by (simp add: demo_credential_def)
  show ?thesis
    by (simp add: run_simps aws_Translate_def createOrUpdateCredentialSecret_def demo_fields name s u
        createOrUpdateAWSClusterStaticIdentity_def script_create_or_update
        documented_create_or_update_def demo_create_def)
qed

section \<open>Properties\<close>

text \<open>
  C19.  The order in which a credential is translated and released: nothing is written,
  deleted or patched unless the provider was seen ready; identity objects are written only
  for a credential that carries the finalizer; they are deleted only for a credential that
  is being deleted; and the finalizer is taken off only after a clean-up that left nothing
  of the credential.
\<close>

theorem credential_order:
  assumes "finalizer_laws E" and "create_or_update_law E"
  shows "justified (ordered (AWSTranslator E) (aws_clean E) req)
    (trace_of (credential_Reconcile E [(''aws'', AWSTranslator E)] req) w)"
  by (rule runs_exec [OF credential_translator.runs_credential [OF aws_contract [OF assms]]])

theorem credential_order_witness:
  "justified (ordered (AWSTranslator script_env) (aws_clean script_env) demo_request)
    (trace_of (credential_Reconcile script_env [(''aws'', AWSTranslator script_env)] demo_request)
      (RObj (OSecret demo_credential) # demo_create))"
  by (rule credential_order [OF script_finalizer_laws script_create_or_update_law])

text \<open>
  C20.  The AWS translator touches only what belongs to the credential: what it creates
  and updates names the credential as its source, an existing object is updated only if it
  named it before and keeps its name, and only such objects are deleted.
\<close>

theorem aws_ownership:
  assumes "create_or_update_law E"
  shows "justified (owned_only c) (trace_of (aws_Translate E c) w) \<and>
    justified (owned_only c) (trace_of (aws_Cleanup E c) v)"
proof
  show "justified (owned_only c) (trace_of (aws_Translate E c) w)"
    by (rule runs_exec [OF runs_translate [OF assms], THEN conjunct1])
  show "justified (owned_only c) (trace_of (aws_Cleanup E c) v)"
    by (rule runs_exec [OF runs_aws_Cleanup_owned])
qed

theorem aws_ownership_witness:
  "justified (owned_only demo_credential) (trace_of (aws_Translate script_env demo_credential) demo_create) \<and>
   justified (owned_only demo_credential) (trace_of (aws_Cleanup script_env demo_credential) demo_create)"
  by (rule aws_ownership [OF script_create_or_update_law])



end
