(* ===== verification/Credential_System.thy ===== *)
theory Credential_System
  imports Credential_Behaviour Store
begin

text \<open>
  The credential controller, the API server and everybody else as one transition system.
  The state is the content of the server; a run of the reconciler may stop after any
  request, any request may fail, and others may act between two requests.  The abstract
  machine of the identities of a credential is refined by the runs, so that no identity
  is ever left behind by a credential that is gone.
\<close>

section \<open>The identities of a credential\<close>

definition identity_ids :: "string \<Rightarrow> object_id set" where
  "identity_ids n =
     {(KUnstr aws_gvk, \<lparr>k_namespace = [], k_name = n\<rparr>),
      (KSecret, \<lparr>k_namespace = aws_namespace, k_name = n\<rparr>)}"

definition aws_finalizer :: string where
  "aws_finalizer = ''cloudcredential.cattle.io/aws-identity-finalizer''"

lemma finalizer_of_aws [simp]: "t_Finalizer (AWSTranslator E) = aws_finalizer"
  by (simp add: AWSTranslator_def aws_finalizer_def)

text \<open>An object that names the credential with the id \<open>u\<close>, and is not being deleted.\<close>

definition names_owner :: "string \<Rightarrow> kobj \<Rightarrow> bool" where
  "names_owner u ob \<longleftrightarrow> mread (m_annotations (kobj_meta ob)) cloudCredentialSecretAnnotation = u"

definition owned_live :: "string \<Rightarrow> kobj \<Rightarrow> bool" where
  "owned_live u ob \<longleftrightarrow> names_owner u ob \<and> m_deletion (kobj_meta ob) = None"

definition in_use :: "string \<Rightarrow> key \<Rightarrow> store \<Rightarrow> bool" where
  "in_use u req S \<longleftrightarrow> (\<exists>x \<in> identity_ids (k_name req). \<exists>ob. S x = Some ob \<and> owned_live u ob)"

text \<open>The credential is there, is the one with the id \<open>u\<close>, and carries the finalizer.\<close>

definition secured :: "string \<Rightarrow> key \<Rightarrow> store \<Rightarrow> bool" where
  "secured u req S \<longleftrightarrow>
     (\<exists>c. S (KSecret, req) = Some (OSecret c) \<and> m_uid (sec_meta c) = u \<and>
        aws_finalizer \<in> set (m_finalizers (sec_meta c)))"

section \<open>The server\<close>

text \<open>
  The server keeps the annotations of what it is sent and may fill in the rest.  A merge
  patch replaces the list of finalizers if the two objects it was computed from differ
  there; the id and the deletion mark are the server's.
\<close>

definition stored :: "kobj \<Rightarrow> kobj \<Rightarrow> bool" where
  "stored new ob \<longleftrightarrow> ref new = ref ob \<and> m_annotations (kobj_meta new) = m_annotations (kobj_meta ob)"

definition patched :: "kobj \<Rightarrow> kobj \<Rightarrow> kobj \<Rightarrow> kobj \<Rightarrow> bool" where
  "patched base n old new \<longleftrightarrow> ref new = ref n \<and>
     m_uid (kobj_meta new) = m_uid (kobj_meta old) \<and>
     m_deletion (kobj_meta new) = m_deletion (kobj_meta old) \<and>
     m_finalizers (kobj_meta new) =
       (if m_finalizers (kobj_meta n) = m_finalizers (kobj_meta base)
        then m_finalizers (kobj_meta old) else m_finalizers (kobj_meta n))"

text \<open>
  \<open>serves E S e T\<close>: the server may answer the event \<open>e\<close> and go from \<open>S\<close> to \<open>T\<close>.  A write
  may be done and its answer lost.  An object with finalizers is only marked by a delete.
\<close>

inductive serves :: "'w env \<Rightarrow> store \<Rightarrow> event \<Rightarrow> store \<Rightarrow> bool" for E where
  found: "S (k, q) = Some ob \<Longrightarrow> ref ob = (k, q) \<Longrightarrow> serves E S (RGet t k q, RObj ob) S"
| absent: "S (k, q) = None \<Longrightarrow> is_not_found E err \<Longrightarrow> serves E S (RGet t k q, RErr err) S"
| unread: "\<not> is_not_found E err \<Longrightarrow> serves E S (RGet t k q, RErr err) S"
| created: "S (ref ob) = None \<Longrightarrow> stored new ob \<Longrightarrow> serves E S (RCreate t ob, a) (S(ref ob \<mapsto> new))"
| updated: "S (ref ob) = Some old \<Longrightarrow> stored new ob \<Longrightarrow> serves E S (RUpdate t ob, a) (S(ref ob \<mapsto> new))"
| merged: "S (ref n) = Some old \<Longrightarrow> patched base n old new \<Longrightarrow> a = RObj new \<or> (\<exists>err. a = RErr err) \<Longrightarrow>
    serves E S (RPatch t pk base n, a) (S(ref n \<mapsto> new))"
| removed: "serves E S (RDelete t ob, a) (S(ref ob := None))"
| doomed: "S (ref ob) = Some old \<Longrightarrow> m_deletion (kobj_meta new) \<noteq> None \<Longrightarrow>
    serves E S (RDelete t ob, a) (S(ref ob \<mapsto> new))"
| refused: "\<not> read_only r \<Longrightarrow>
    \<forall>t ob. r = RDelete t ob \<longrightarrow> is_not_found E err \<longrightarrow> S (ref ob) = None \<Longrightarrow>
    serves E S (r, RErr err) S"

inductive_cases serves_getE: "serves E S (RGet t k q, a) T"
inductive_cases serves_createE: "serves E S (RCreate t ob, a) T"
inductive_cases serves_updateE: "serves E S (RUpdate t ob, a) T"
inductive_cases serves_patchE: "serves E S (RPatch t pk base n, a) T"
inductive_cases serves_deleteE: "serves E S (RDelete t ob, a) T"

text \<open>
  Everybody else: no one takes the finalizer off, and no one claims an object for a
  credential.
\<close>

definition others :: "key \<Rightarrow> store \<Rightarrow> store \<Rightarrow> bool" where
  "others req S T \<longleftrightarrow>
     (\<forall>u. secured u req S \<longrightarrow> secured u req T) \<and>
     (\<forall>x \<in> identity_ids (k_name req). \<forall>ob u. T x = Some ob \<longrightarrow> owned_live u ob \<longrightarrow> u \<noteq> [] \<longrightarrow>
        (\<exists>old. S x = Some old \<and> owned_live u old))"

inductive plays :: "'w env \<Rightarrow> key \<Rightarrow> store \<Rightarrow> event list \<Rightarrow> store \<Rightarrow> bool" for E req S where
  start: "plays E req S [] S"
| serve: "plays E req S es T \<Longrightarrow> serves E T e U \<Longrightarrow> plays E req S (es @ [e]) U"
| outside: "plays E req S es T \<Longrightarrow> others req T U \<Longrightarrow> plays E req S es U"

section \<open>The abstract machine\<close>

datatype stage = Unprotected | Protected | InUse | Orphaned

inductive moves :: "stage \<Rightarrow> stage \<Rightarrow> bool" where
  protect: "moves Unprotected Protected"
| translate: "moves Protected InUse"
| clean: "moves InUse Protected"
| release: "moves Protected Unprotected"

inductive_simps moves_from [simp]:
  "moves Unprotected s" "moves Protected s" "moves InUse s" "moves Orphaned s"

definition stage_of :: "string \<Rightarrow> key \<Rightarrow> store \<Rightarrow> stage" where
  "stage_of u req S =
     (if in_use u req S then if secured u req S then InUse else Orphaned
      else if secured u req S then Protected else Unprotected)"

lemma stage_of_Orphaned: "stage_of u req S = Orphaned \<longleftrightarrow> in_use u req S \<and> \<not> secured u req S"
  by (simp add: stage_of_def)

lemma moves_safe: "moves\<^sup>*\<^sup>* s s' \<Longrightarrow> s \<noteq> Orphaned \<Longrightarrow> s' \<noteq> Orphaned"
  by (induction rule: rtranclp_induct) (auto elim: moves.cases)

text \<open>The three ways in which a step of the store is one of the machine, or none.\<close>

lemma moves_kept:
  assumes "stage_of u req T \<noteq> Orphaned" "secured u req T \<Longrightarrow> secured u req U"
    and "in_use u req U \<Longrightarrow> in_use u req T \<or> secured u req T"
  shows "moves\<^sup>*\<^sup>* (stage_of u req T) (stage_of u req U)"
  using assms by (auto simp: stage_of_def split: if_splits intro!: r_into_rtranclp)

lemma moves_released:
  assumes "stage_of u req T \<noteq> Orphaned" "\<not> in_use u req T" "\<not> in_use u req U"
  shows "moves\<^sup>*\<^sup>* (stage_of u req T) (stage_of u req U)"
  using assms by (auto simp: stage_of_def split: if_splits intro!: r_into_rtranclp)

section \<open>What a run promises about its requests\<close>

text \<open>The responses are about the objects that were asked for.\<close>

fun target_id :: "request \<Rightarrow> object_id option" where
  "target_id (RGet t k q) = Some (k, q)"
| "target_id (RPatch t pk b n) = Some (ref n)"
| "target_id r = None"

fun answers :: "object_id \<Rightarrow> response \<Rightarrow> bool" where
  "answers x (RObj ob) = (ref ob = x)"
| "answers x (RErr err) = True"
| "answers x a = False"

definition addressed :: "event list \<Rightarrow> bool" where
  "addressed es \<longleftrightarrow> (\<forall>e \<in> set es. \<forall>x. target_id (fst e) = Some x \<longrightarrow> answers x (snd e))"

lemma addressed_simps [simp]:
  "addressed []" "addressed (es @ fs) \<longleftrightarrow> addressed es \<and> addressed fs"
  "addressed (e # es) \<longleftrightarrow>
     (\<forall>x. target_id (fst e) = Some x \<longrightarrow> answers x (snd e)) \<and> addressed es"
  unfolding addressed_def by (simp_all only: set_simps set_append ball_simps ball_Un)

text \<open>The credential \<open>d\<close> is known to carry the finalizer.\<close>

definition holds :: "key \<Rightarrow> event list \<Rightarrow> secret \<Rightarrow> bool" where
  "holds req us d \<longleftrightarrow>
     (RGet Cached KSecret req, RObj (OSecret d)) \<in> set us \<and> aws_finalizer \<in> set (m_finalizers (sec_meta d)) \<or>
     (\<exists>b n. (RPatch Cached MergeFrom (OSecret b) (OSecret n), RObj (OSecret d)) \<in> set us \<and>
        key_of (sec_meta n) = req \<and> m_finalizers (sec_meta n) \<noteq> m_finalizers (sec_meta b) \<and>
        aws_finalizer \<in> set (m_finalizers (sec_meta n)))"

fun lets_go :: "request \<Rightarrow> bool" where
  "lets_go (RPatch g pk (OSecret b) (OSecret n)) =
     (aws_finalizer \<in> set (m_finalizers (sec_meta b)) \<and> aws_finalizer \<notin> set (m_finalizers (sec_meta n)))"
| "lets_go r = False"

definition unreleased :: "event list \<Rightarrow> bool" where
  "unreleased us \<longleftrightarrow> (\<forall>e \<in> set us. \<not> lets_go (fst e))"

definition unwritten :: "event list \<Rightarrow> bool" where
  "unwritten us \<longleftrightarrow> (\<forall>e \<in> set us. \<not> is_write (fst e))"

definition writes_for :: "key \<Rightarrow> event list \<Rightarrow> kobj \<Rightarrow> bool" where
  "writes_for req us ob \<longleftrightarrow> ref ob \<in> identity_ids (k_name req) \<and>
     (\<exists>d. holds req us d \<and> isObjectOwnedBySecret (kobj_meta ob) d)"

text \<open>A patch keeps the finalizers, adds this one, or takes it off after a clean-up.\<close>

definition patches_for :: "'w env \<Rightarrow> key \<Rightarrow> event list \<Rightarrow> secret \<Rightarrow> secret \<Rightarrow> bool" where
  "patches_for E req us b n \<longleftrightarrow> key_of (sec_meta n) = req \<and>
     (m_finalizers (sec_meta n) = m_finalizers (sec_meta b) \<or>
      aws_finalizer \<in> set (m_finalizers (sec_meta n)) \<or>
      aws_finalizer \<in> set (m_finalizers (sec_meta b)) \<and> holds req us b \<and> unwritten us \<and>
      m_name (sec_meta b) = k_name req \<and> aws_clean E b us)"

fun careful :: "'w env \<Rightarrow> key \<Rightarrow> event list \<Rightarrow> event \<Rightarrow> bool" where
  "careful E req us (RCreate t ob, a) = (addressed us \<longrightarrow> unreleased us \<and> writes_for req us ob)"
| "careful E req us (RUpdate t ob, a) = (addressed us \<longrightarrow> unreleased us \<and> writes_for req us ob)"
| "careful E req us (RDelete t ob, a) =
     (addressed us \<longrightarrow> unreleased us \<and> ref ob \<in> identity_ids (k_name req))"
| "careful E req us (RPatch t pk (OSecret b) (OSecret n), a) =
     (addressed us \<longrightarrow> unreleased us \<and> t = Cached \<and> pk = MergeFrom \<and> patches_for E req us b n)"
| "careful E req us (RGet t k q, a) = True"
| "careful E req us (r, a) = False"


lemma unwritten_simps [simp]:
  "unwritten []" "unwritten (e # es) \<longleftrightarrow> \<not> is_write (fst e) \<and> unwritten es"
  "unwritten (es @ fs) \<longleftrightarrow> unwritten es \<and> unwritten fs"
  "unreleased []" "unreleased (e # es) \<longleftrightarrow> \<not> lets_go (fst e) \<and> unreleased es"
  "unreleased (es @ fs) \<longleftrightarrow> unreleased es \<and> unreleased fs"
  by (auto simp: unwritten_def unreleased_def)

section \<open>Runs against the server\<close>

text \<open>The clean-up has seen that the object at \<open>x\<close> is not one of the credential \<open>u\<close>, or has deleted it.\<close>

fun clearing :: "'w env \<Rightarrow> string \<Rightarrow> object_id \<Rightarrow> event \<Rightarrow> bool" where
  "clearing E u x (RGet t k q, RErr err) = ((k, q) = x \<and> is_not_found E err)"
| "clearing E u x (RGet t k q, RObj ob) = ((k, q) = x \<and> \<not> names_owner u ob)"
| "clearing E u x (RDelete t ob, b) = (ref ob = x \<and> deleted_or_gone E b)"
| "clearing E u x e = False"

definition seen_clear :: "'w env \<Rightarrow> string \<Rightarrow> object_id \<Rightarrow> event list \<Rightarrow> bool" where
  "seen_clear E u x es \<longleftrightarrow> (\<exists>e \<in> set es. clearing E u x e)"

definition used_at :: "string \<Rightarrow> object_id \<Rightarrow> store \<Rightarrow> bool" where
  "used_at u x S \<longleftrightarrow> (\<exists>ob. S x = Some ob \<and> owned_live u ob)"

lemma in_use_at: "in_use u req S \<longleftrightarrow> (\<exists>x \<in> identity_ids (k_name req). used_at u x S)"
  by (simp add: in_use_def used_at_def)

text \<open>What the events so far say about the store, however others have acted since.\<close>

definition informed :: "'w env \<Rightarrow> key \<Rightarrow> event list \<Rightarrow> store \<Rightarrow> bool" where
  "informed E req es T \<longleftrightarrow> addressed es \<and>
     (unreleased es \<longrightarrow> (\<forall>d. holds req es d \<longrightarrow> secured (m_uid (sec_meta d)) req T)) \<and>
     (unwritten es \<longrightarrow> (\<forall>x \<in> identity_ids (k_name req). \<forall>u. u \<noteq> [] \<longrightarrow>
        seen_clear E u x es \<longrightarrow> \<not> used_at u x T))"

lemma informedI:
  assumes "addressed es"
    and "\<And>d. unreleased es \<Longrightarrow> holds req es d \<Longrightarrow> secured (m_uid (sec_meta d)) req T"
    and "\<And>x u. unwritten es \<Longrightarrow> x \<in> identity_ids (k_name req) \<Longrightarrow> u \<noteq> [] \<Longrightarrow>
      seen_clear E u x es \<Longrightarrow> \<not> used_at u x T"
  shows "informed E req es T"
  using assms unfolding informed_def by blast

lemma informedD:
  assumes "informed E req es T"
  shows "addressed es"
    and "unreleased es \<Longrightarrow> holds req es d \<Longrightarrow> secured (m_uid (sec_meta d)) req T"
    and "unwritten es \<Longrightarrow> x \<in> identity_ids (k_name req) \<Longrightarrow> u \<noteq> [] \<Longrightarrow>
      seen_clear E u x es \<Longrightarrow> \<not> used_at u x T"
  using assms unfolding informed_def by blast+

lemma informed_outside:
  assumes "informed E req es T" "others req T U"
  shows "informed E req es U"
proof (rule informedI)
  show "addressed es" by (rule informedD [OF assms(1)])
  show "secured (m_uid (sec_meta d)) req U" if "unreleased es" "holds req es d" for d
    using informedD(2) [OF assms(1) that] assms(2) by (simp add: others_def)
  show "\<not> used_at u x U" if "unwritten es" "x \<in> identity_ids (k_name req)" "u \<noteq> []" "seen_clear E u x es" for x u
    using informedD(3) [OF assms(1) that] assms(2) that(2,3)
    unfolding others_def used_at_def by blast
qed

lemma moves_outside:
  assumes "others req T U" "u \<noteq> []" "stage_of u req T \<noteq> Orphaned"
  shows "moves\<^sup>*\<^sup>* (stage_of u req T) (stage_of u req U)"
  using assms by (intro moves_kept) (auto simp: others_def in_use_def, blast)

text \<open>The objects of the identities are not the credential.\<close>

lemma identity_not_credential:
  "x \<in> identity_ids (k_name req) \<Longrightarrow> k_namespace req \<noteq> aws_namespace \<Longrightarrow> x \<noteq> (KSecret, req)"
  unfolding identity_ids_def by (auto simp: prod_eq_iff) (metis key.select_convs(1))

lemma secured_upd: "x \<noteq> (KSecret, req) \<Longrightarrow> secured u req (T(x := y)) = secured u req T"
  by (simp add: secured_def)

lemma used_at_upd:
  "used_at u x (T(y := z)) \<longleftrightarrow> (if x = y then \<exists>ob. z = Some ob \<and> owned_live u ob else used_at u x T)"
  by (simp add: used_at_def)

lemma holds_append: "holds req (es @ fs) d \<longleftrightarrow> holds req es d \<or> holds req fs d"
  unfolding holds_def set_append by blast

lemma seen_clear_snoc:
  "seen_clear E u x (es @ [e]) \<longleftrightarrow> seen_clear E u x es \<or> clearing E u x e"
  by (auto simp: seen_clear_def)

lemma informed_step:
  assumes inf: "informed E req es T"
    and addr: "addressed [e]"
    and keep: "\<And>v. \<not> lets_go (fst e) \<Longrightarrow> secured v req T \<Longrightarrow> secured v req U"
    and gain: "\<And>d. holds req [e] d \<Longrightarrow> secured (m_uid (sec_meta d)) req U"
    and less: "\<And>v x. \<not> is_write (fst e) \<Longrightarrow> x \<in> identity_ids (k_name req) \<Longrightarrow> used_at v x U \<Longrightarrow> used_at v x T"
    and clear: "\<And>v x. \<not> is_write (fst e) \<Longrightarrow> x \<in> identity_ids (k_name req) \<Longrightarrow> v \<noteq> [] \<Longrightarrow>
      clearing E v x e \<Longrightarrow> \<not> used_at v x U"
  shows "informed E req (es @ [e]) U"
proof (rule informedI)
  show "addressed (es @ [e])" using addr informedD(1) [OF inf] by simp
  show "secured (m_uid (sec_meta d)) req U" if "unreleased (es @ [e])" "holds req (es @ [e]) d" for d
    using that keep gain informedD(2) [OF inf] unfolding holds_append by auto
  show "\<not> used_at u x U"
    if "unwritten (es @ [e])" "x \<in> identity_ids (k_name req)" "u \<noteq> []" "seen_clear E u x (es @ [e])" for u x
    using that(4) unfolding seen_clear_snoc
  proof
    assume "seen_clear E u x es"
    then have "\<not> used_at u x T" using informedD(3) [OF inf _ that(2,3)] that(1) by simp
    then show ?thesis using less [OF _ that(2)] that(1) by auto
  next
    assume "clearing E u x e"
    then show ?thesis using clear [OF _ that(2,3)] that(1) by simp
  qed
qed

lemma holds_single [simp]:
  "holds req [(RCreate t ob, a)] d = False" "holds req [(RUpdate t ob, a)] d = False"
  "holds req [(RDelete t ob, a)] d = False"
  "holds req [(RGet t k q, a)] d \<longleftrightarrow> t = Cached \<and> k = KSecret \<and> q = req \<and> a = RObj (OSecret d) \<and>
     aws_finalizer \<in> set (m_finalizers (sec_meta d))"
  "holds req [(RPatch t pk b n, a)] d \<longleftrightarrow> (\<exists>b' n'. t = Cached \<and> pk = MergeFrom \<and> b = OSecret b' \<and> n = OSecret n' \<and>
     a = RObj (OSecret d) \<and> key_of (sec_meta n') = req \<and>
     m_finalizers (sec_meta n') \<noteq> m_finalizers (sec_meta b') \<and>
     aws_finalizer \<in> set (m_finalizers (sec_meta n')))"
  by (auto simp: holds_def)

lemma step_read:
  assumes inf: "informed E req es T" and serves: "serves E T (RGet t k q, a) U"
  shows "U = T" "informed E req (es @ [(RGet t k q, a)]) U"
proof -
  show T: "U = T" using serves by (rule serves_getE) simp_all
  show "informed E req (es @ [(RGet t k q, a)]) U"
    unfolding T using inf
  proof (rule informed_step)
    show "addressed [(RGet t k q, a)]" using serves by (rule serves_getE) simp_all
    show "secured (m_uid (sec_meta d)) req T" if "holds req [(RGet t k q, a)] d" for d
      using that serves by (auto elim!: serves_getE simp: secured_def)
    show "\<not> used_at v x T" if "clearing E v x (RGet t k q, a)" for v x
      using that serves by (auto elim!: serves_getE simp: used_at_def owned_live_def read_only_def)
  qed simp_all
qed

text \<open>A write for the credential: the finalizer is in place.\<close>

lemma step_write:
  assumes inf: "informed E req es T" and ns: "k_namespace req \<noteq> aws_namespace"
    and r: "r = RCreate t ob \<or> r = RUpdate t ob"
    and careful: "careful E req es (r, a)" and serves: "serves E T (r, a) U"
  shows "informed E req (es @ [(r, a)]) U"
    and "u \<noteq> [] \<Longrightarrow> stage_of u req T \<noteq> Orphaned \<Longrightarrow> moves\<^sup>*\<^sup>* (stage_of u req T) (stage_of u req U)"
proof -
  have id: "ref ob \<in> identity_ids (k_name req)" and rel: "unreleased es"
    and "\<exists>d. holds req es d \<and> isObjectOwnedBySecret (kobj_meta ob) d"
    using careful r informedD(1) [OF inf] by (auto simp: writes_for_def)
  then obtain d where d: "holds req es d" "isObjectOwnedBySecret (kobj_meta ob) d" by blast
  note other = identity_not_credential [OF id ns]
  have sec: "secured (m_uid (sec_meta d)) req T" by (rule informedD(2) [OF inf rel d(1)])
  have U: "U = T \<or> (\<exists>new. stored new ob \<and> U = T(ref ob \<mapsto> new))"
    using r
  proof
    assume "r = RCreate t ob"
    with serves show ?thesis by (auto elim: serves_createE)
  next
    assume "r = RUpdate t ob"
    with serves show ?thesis by (auto elim: serves_updateE)
  qed
  have keep: "secured v req U = secured v req T" for v
    using U other by (auto simp: secured_upd)
  have new: "used_at v x U \<Longrightarrow> used_at v x T \<or> v = m_uid (sec_meta d)" for v x
    using U d(2) by (auto simp: used_at_upd stored_def owned_live_def names_owner_def
        isObjectOwnedBySecret_def split: if_splits)
  show "informed E req (es @ [(r, a)]) U"
    using inf by (rule informed_step) (use r in \<open>auto simp: keep\<close>)
  show "moves\<^sup>*\<^sup>* (stage_of u req T) (stage_of u req U)" if "u \<noteq> []" "stage_of u req T \<noteq> Orphaned"
    using that(2) by (rule moves_kept) (use new sec in \<open>auto simp: keep in_use_at\<close>)
qed

text \<open>A delete: it only takes identities away.\<close>

lemma step_delete:
  assumes inf: "informed E req es T" and ns: "k_namespace req \<noteq> aws_namespace"
    and careful: "careful E req es (RDelete t ob, a)" and serves: "serves E T (RDelete t ob, a) U"
  shows "informed E req (es @ [(RDelete t ob, a)]) U"
    and "u \<noteq> [] \<Longrightarrow> stage_of u req T \<noteq> Orphaned \<Longrightarrow> moves\<^sup>*\<^sup>* (stage_of u req T) (stage_of u req U)"
proof -
  have id: "ref ob \<in> identity_ids (k_name req)"
    using careful informedD(1) [OF inf] by simp
  note other = identity_not_credential [OF id ns]
  have keep: "secured v req U = secured v req T" for v
    using serves other by (auto elim!: serves_deleteE simp: secured_upd)
  have less: "used_at v x U \<Longrightarrow> used_at v x T" for v x
    using serves by (auto elim!: serves_deleteE simp: used_at_upd owned_live_def split: if_splits)
  have clear: "\<not> used_at v (ref ob) U" if "deleted_or_gone E a" for v
    using serves that
    by (auto elim!: serves_deleteE simp: used_at_upd owned_live_def deleted_or_gone_def)
      (simp_all add: used_at_def)
  show "informed E req (es @ [(RDelete t ob, a)]) U"
    using inf by (rule informed_step) (use less clear in \<open>auto simp: keep\<close>)
  show "moves\<^sup>*\<^sup>* (stage_of u req T) (stage_of u req U)" if "u \<noteq> []" "stage_of u req T \<noteq> Orphaned"
    using that(2) by (rule moves_kept) (use less in \<open>auto simp: keep in_use_at\<close>)
qed


text \<open>A patch of the credential: its identities stay as they are.\<close>

lemma secret_ref: "ref ob = (KSecret, req) \<longleftrightarrow> (\<exists>s. ob = OSecret s \<and> key_of (sec_meta s) = req)"
  by (cases ob) (auto simp: ref_def)

lemma gone_clear:
  assumes "gone E cd meta q c es" "addressed es"
    and "\<And>ob. ref ob = (ckind cd, q) \<Longrightarrow> \<exists>y. decode cd ob = Some y \<and> encode cd y = ob \<and> kobj_meta ob = meta y"
    and "m_uid (sec_meta c) \<noteq> []"
  shows "seen_clear E (m_uid (sec_meta c)) (ckind cd, q) es"
proof -
  obtain a where a: "(RGet Cached (ckind cd) q, a) \<in> set es" "not_left E cd meta c es a"
    using assms(1) unfolding gone_def by blast
  then have "answers (ckind cd, q) a" using assms(2) by (force simp: addressed_def)
  then show ?thesis
  proof (cases a)
    case (RObj ob)
    with \<open>answers (ckind cd, q) a\<close> assms(3) obtain y where
      y: "ref ob = (ckind cd, q)" "decode cd ob = Some y" "encode cd y = ob" "kobj_meta ob = meta y" by auto
    have "\<not> names_owner (m_uid (sec_meta c)) ob \<or> (\<exists>b. (RDelete Cached ob, b) \<in> set es \<and> deleted_or_gone E b)"
      using a(2) assms(4) y
      by (auto simp: not_left_def RObj isObjectOwnedBySecret_def names_owner_def mread_def split: option.splits)
    then show ?thesis
    proof
      assume "\<not> names_owner (m_uid (sec_meta c)) ob"
      then show ?thesis
        unfolding seen_clear_def by (intro bexI [OF _ a(1)]) (simp add: RObj)
    next
      assume "\<exists>b. (RDelete Cached ob, b) \<in> set es \<and> deleted_or_gone E b"
      then obtain b where "(RDelete Cached ob, b) \<in> set es" "deleted_or_gone E b" by blast
      then show ?thesis
        unfolding seen_clear_def by (intro bexI [of _ "(RDelete Cached ob, b)"]) (simp_all add: y(1))
    qed
  next
    case (RErr err)
    then have "is_not_found E err" using a(2) by (simp add: not_left_def)
    then show ?thesis
      unfolding seen_clear_def by (intro bexI [OF _ a(1)]) (simp add: RErr)
  qed simp_all
qed

lemma cleaned_clear:
  assumes "aws_clean E c es" "addressed es" "m_name (sec_meta c) = n" "m_uid (sec_meta c) \<noteq> []"
    and "x \<in> identity_ids n"
  shows "seen_clear E (m_uid (sec_meta c)) x es"
proof -
  have unstr: "\<exists>y. decode (unstr_codec aws_gvk) ob = Some y \<and> encode (unstr_codec aws_gvk) y = ob \<and>
      kobj_meta ob = un_meta y" if "ref ob = (ckind (unstr_codec aws_gvk), q)" for ob q
    using that by (cases ob) (auto simp: ref_def)
  have secret: "\<exists>y. decode secret_codec ob = Some y \<and> encode secret_codec y = ob \<and>
      kobj_meta ob = sec_meta y" if "ref ob = (ckind secret_codec, q)" for ob q
    using that by (cases ob) (auto simp: ref_def)
  have "seen_clear E (m_uid (sec_meta c)) (KUnstr aws_gvk, q) es"
    if "gone E (unstr_codec aws_gvk) un_meta q c es" for q
    using gone_clear [OF that assms(2) unstr assms(4)] by simp
  moreover have "seen_clear E (m_uid (sec_meta c)) (KSecret, q) es"
    if "gone E secret_codec sec_meta q c es" for q
    using gone_clear [OF that assms(2) secret assms(4)] by simp
  ultimately show ?thesis
    using assms(1,3,5) unfolding aws_clean_def identity_ids_def by auto
qed

lemma step_patch:
  assumes inf: "informed E req es T" and ns: "k_namespace req \<noteq> aws_namespace"
    and careful: "careful E req es (RPatch t pk b n, a)" and serves: "serves E T (RPatch t pk b n, a) U"
  shows "informed E req (es @ [(RPatch t pk b n, a)]) U"
    and "u \<noteq> [] \<Longrightarrow> stage_of u req T \<noteq> Orphaned \<Longrightarrow> moves\<^sup>*\<^sup>* (stage_of u req T) (stage_of u req U)"
proof -
  obtain c d where cd: "b = OSecret c" "n = OSecret d"
    using careful by (cases b; cases n) auto
  have rel: "unreleased es" and patch: "patches_for E req es c d"
    using careful informedD(1) [OF inf] by (auto simp: cd)
  have ref: "ref n = (KSecret, req)" using patch by (simp add: cd secret_ref patches_for_def)
  have "U = T \<and> (\<exists>err. a = RErr err) \<or>
      (\<exists>old new. T (KSecret, req) = Some old \<and> patched b n old new \<and>
        (a = RObj new \<or> (\<exists>err. a = RErr err)) \<and> U = T((KSecret, req) \<mapsto> new))"
    by (rule serves_patchE [OF serves]; simp add: ref; blast?)
  then have U: "U = T \<and> (\<exists>err. a = RErr err) \<or>
      (\<exists>old s. T (KSecret, req) = Some old \<and> patched b n old (OSecret s) \<and>
        (a = RObj (OSecret s) \<or> (\<exists>err. a = RErr err)) \<and> U = T((KSecret, req) \<mapsto> OSecret s))"
  proof
    assume "\<exists>old new. T (KSecret, req) = Some old \<and> patched b n old new \<and>
      (a = RObj new \<or> (\<exists>err. a = RErr err)) \<and> U = T((KSecret, req) \<mapsto> new)"
    then obtain old new where new: "T (KSecret, req) = Some old" "patched b n old new"
      "a = RObj new \<or> (\<exists>err. a = RErr err)" "U = T((KSecret, req) \<mapsto> new)" by blast
    then obtain s where "new = OSecret s"
      using ref by (auto simp: patched_def secret_ref)
    with new show ?thesis by blast
  qed simp
  have same: "used_at v x U = used_at v x T" if "x \<in> identity_ids (k_name req)" for v x
    using U identity_not_credential [OF that ns] by (auto simp: used_at_upd)
  have keep: "secured v req U" if v: "secured v req T" "\<not> lets_go (RPatch t pk b n)" for v
    using U
  proof
    assume "\<exists>old s. T (KSecret, req) = Some old \<and> patched b n old (OSecret s) \<and>
        (a = RObj (OSecret s) \<or> (\<exists>err. a = RErr err)) \<and> U = T((KSecret, req) \<mapsto> OSecret s)"
    then obtain old s where s: "T (KSecret, req) = Some old" "patched b n old (OSecret s)"
      "U = T((KSecret, req) \<mapsto> OSecret s)" by blast
    obtain l where l: "old = OSecret l" "m_uid (sec_meta l) = v" "aws_finalizer \<in> set (m_finalizers (sec_meta l))"
      using v(1) s(1) by (auto simp: secured_def)
    have "patches_for E req es c d" by fact
    then have "aws_finalizer \<in> set (m_finalizers (sec_meta s)) \<and> m_uid (sec_meta s) = v"
      using s(2) l v(2) by (auto simp: patched_def cd patches_for_def)
    then show ?thesis by (simp add: secured_def s(3))
  qed (use v in simp)
  show "informed E req (es @ [(RPatch t pk b n, a)]) U"
    using inf
  proof (rule informed_step)
    show "addressed [(RPatch t pk b n, a)]"
      using U ref by (auto simp: patched_def)
    show "secured (m_uid (sec_meta s)) req U" if "holds req [(RPatch t pk b n, a)] s" for s
      using that U by (auto simp: secured_def patched_def cd)
  qed (use same keep in auto)
  show "moves\<^sup>*\<^sup>* (stage_of u req T) (stage_of u req U)" if u: "u \<noteq> []" "stage_of u req T \<noteq> Orphaned"
  proof (cases "lets_go (RPatch t pk b n)")
    case False
    show ?thesis
      using u(2) by (rule moves_kept) (use keep False same in \<open>auto simp: in_use_at\<close>)
  next
    case True
    then have rls: "holds req es c" "unwritten es" "m_name (sec_meta c) = k_name req" "aws_clean E c es"
      using patch by (auto simp: cd patches_for_def)
    have "\<not> in_use u req T"
    proof (cases "u = m_uid (sec_meta c)")
      case True
      then show ?thesis
        using informedD(3) [OF inf rls(2) _ u(1)] cleaned_clear [OF rls(4) informedD(1) [OF inf] rls(3)] u(1)
        by (auto simp: in_use_at)
    next
      case False
      have "secured (m_uid (sec_meta c)) req T" by (rule informedD(2) [OF inf rel rls(1)])
      then have "\<not> secured u req T" using False by (auto simp: secured_def)
      with u(2) show ?thesis by (simp add: stage_of_Orphaned)
    qed
    then show ?thesis
      using u(2) same by (intro moves_released) (auto simp: in_use_at)
  qed
qed


lemma step_event:
  assumes inf: "informed E req es T" and ns: "k_namespace req \<noteq> aws_namespace"
    and careful: "careful E req es e" and serves: "serves E T e U"
  shows "informed E req (es @ [e]) U \<and>
    (u \<noteq> [] \<longrightarrow> stage_of u req T \<noteq> Orphaned \<longrightarrow> moves\<^sup>*\<^sup>* (stage_of u req T) (stage_of u req U))"
proof -
  obtain r a where e: "e = (r, a)" by (cases e)
  note facts = careful [unfolded e] serves [unfolded e]
  show ?thesis
  proof (cases r)
    case (RGet t k q)
    show ?thesis
      using step_read [OF inf facts(2) [unfolded RGet]] by (simp add: e RGet)
  next
    case (RCreate t ob)
    then show ?thesis
      using step_write [OF inf ns disjI1 facts] by (simp add: e)
  next
    case (RUpdate t ob)
    then show ?thesis
      using step_write [OF inf ns disjI2 facts] by (simp add: e)
  next
    case (RDelete t ob)
    show ?thesis
      using step_delete [OF inf ns facts [unfolded RDelete]] by (simp add: e RDelete)
  next
    case (RPatch t pk b n)
    show ?thesis
      using step_patch [OF inf ns facts [unfolded RPatch]] by (simp add: e RPatch)
  qed (use facts in simp_all)
qed

lemma plays_machine:
  assumes "plays E req S es T" "justified (careful E req) es" "k_namespace req \<noteq> aws_namespace"
  shows "informed E req es T"
    and "u \<noteq> [] \<Longrightarrow> stage_of u req S \<noteq> Orphaned \<Longrightarrow> moves\<^sup>*\<^sup>* (stage_of u req S) (stage_of u req T)"
proof -
  have "informed E req es T \<and> (u \<noteq> [] \<longrightarrow> stage_of u req S \<noteq> Orphaned \<longrightarrow>
    moves\<^sup>*\<^sup>* (stage_of u req S) (stage_of u req T))" for u
    using assms(1,2)
  proof (induction rule: plays.induct)
    case start
    show ?case by (auto intro: informedI simp: holds_def seen_clear_def)
  next
    case (serve es T e U)
    then have IH: "informed E req es T" "careful E req es e"
      "u \<noteq> [] \<Longrightarrow> stage_of u req S \<noteq> Orphaned \<Longrightarrow> moves\<^sup>*\<^sup>* (stage_of u req S) (stage_of u req T)" by auto
    show ?case
      using step_event [OF IH(1) assms(3) IH(2) serve.hyps(2)] IH(3)
      by (auto dest: moves_safe intro: rtranclp_trans)
  next
    case (outside es T U)
    then show ?case
      by (auto intro: informed_outside dest: moves_safe intro!: rtranclp_trans
          [OF _ moves_outside [OF outside.hyps(2)]])
  qed
  then show "informed E req es T"
    and "u \<noteq> [] \<Longrightarrow> stage_of u req S \<noteq> Orphaned \<Longrightarrow> moves\<^sup>*\<^sup>* (stage_of u req S) (stage_of u req T)" by auto
qed

section \<open>The reconciler is careful\<close>

lemma careful_get [simp]: "careful E req us (RGet t k q, a)"
  by simp


text \<open>The credential that a step works on, after the events \<open>us\<close>.\<close>

definition working :: "key \<Rightarrow> event list \<Rightarrow> secret \<Rightarrow> bool" where
  "working req us c \<longleftrightarrow> unreleased us \<and> (addressed us \<longrightarrow> key_of (sec_meta c) = req)"

definition careful_run :: "'w env \<Rightarrow> key \<Rightarrow> event list \<Rightarrow> event list \<Rightarrow> bool" where
  "careful_run E req us es \<longleftrightarrow> justified (\<lambda>vs. careful E req (us @ vs)) es"

lemma careful_run_simps [simp]:
  "careful_run E req us []"
  "careful_run E req us (es @ fs) \<longleftrightarrow> careful_run E req us es \<and> careful_run E req (us @ es) fs"
  "careful_run E req us [e] \<longleftrightarrow> careful E req us e"
  "careful_run E req us (e # f # es) \<longleftrightarrow> careful E req us e \<and> careful_run E req (us @ [e]) (f # es)"
  by (simp_all add: careful_run_def)

lemma working_append: "working req us c \<Longrightarrow> unreleased es \<Longrightarrow> working req (us @ es) c"
  by (simp add: working_def)

lemma identity_of:
  "key_of (sec_meta c) = req \<Longrightarrow> (KUnstr aws_gvk, \<lparr>k_namespace = [], k_name = m_name (sec_meta c)\<rparr>) \<in> identity_ids (k_name req)"
  "key_of (sec_meta c) = req \<Longrightarrow> (KSecret, \<lparr>k_namespace = aws_namespace, k_name = m_name (sec_meta c)\<rparr>) \<in> identity_ids (k_name req)"
  by (auto simp: identity_ids_def key_of_def)

lemma runs_cleanup_owned_careful:
  assumes "unreleased us" "addressed us \<Longrightarrow> (ckind cd, q) \<in> identity_ids (k_name req)"
    and "\<And>ob x. decode cd ob = Some x \<Longrightarrow> encode cd x = ob"
  shows "runs (cleanup_owned E cd meta q c) (\<lambda>r es. careful_run E req us es \<and> unreleased es \<and> unwritten es)"
  unfolding cleanup_owned_def
  by (rule runsI) (use assms in \<open>auto intro!: trace_rules simp: reply_obj_Inr\<close>)

lemma runs_aws_cleanup_careful:
  assumes "working req us c"
  shows "runs (aws_Cleanup E c) (\<lambda>r es. careful_run E req us es \<and> unreleased es \<and> unwritten es)"
proof -
  have first: "runs (cleanup_owned E (unstr_codec aws_gvk) un_meta
        \<lparr>k_namespace = [], k_name = m_name (sec_meta c)\<rparr> c)
      (\<lambda>r es. careful_run E req us es \<and> unreleased es \<and> unwritten es)"
    by (rule runs_cleanup_owned_careful) (use assms in \<open>auto simp: working_def identity_of\<close>)
  have second: "runs (cleanup_owned E secret_codec sec_meta
        \<lparr>k_namespace = aws_namespace, k_name = m_name (sec_meta c)\<rparr> c)
      (\<lambda>r fs. careful_run E req (us @ es) fs \<and> unreleased fs \<and> unwritten fs)" if "unreleased es" for es
    by (rule runs_cleanup_owned_careful) (use assms that in \<open>auto simp: working_def identity_of\<close>)
  show ?thesis
    unfolding aws_Cleanup_def
    by (rule runs_bind, rule runs_mono [OF first])
      (auto intro!: runs_mono [OF second] split: option.split)
qed

lemma claiming_ref:
  "claiming c f \<Longrightarrow> f old = Inr new \<Longrightarrow> ref new = ref old \<and> isObjectOwnedBySecret (kobj_meta new) c"
  by (auto simp: claiming_def ref_def)

lemma runs_documented_careful:
  assumes "claiming c f" "unreleased us" "addressed us \<Longrightarrow> ref ob \<in> identity_ids (k_name req)"
    and "addressed us \<Longrightarrow> holds req us c"
  shows "runs (documented_create_or_update E ob f) (\<lambda>r es. careful_run E req us es \<and> unreleased es)"
proof -
  let ?get = "\<lambda>a. (RGet Cached (kobj_kind ob) (key_of (kobj_meta ob)), a)"
  have puts: "unreleased (us @ [?get a]) \<and> writes_for req (us @ [?get a]) new"
    if "addressed (us @ [?get a])" "f old = Inr new" "old = ob \<or> a = RObj old" for a old new
  proof -
    have old: "ref old = ref ob" using that by (auto simp: ref_def)
    have "ref new = ref old" "isObjectOwnedBySecret (kobj_meta new) c"
      using claiming_ref [OF assms(1) that(2)] by auto
    then show ?thesis
      using assms(2-4) that(1) by (auto simp: writes_for_def old holds_append)
  qed
  show ?thesis
    unfolding documented_create_or_update_def
  proof (rule runsI, intro twp_bind twp_call)
    fix t :: "event list" and a
    show "twp (case a of
        RErr e \<Rightarrow>
          if is_not_found E e then
            (case f ob of
               Inl err \<Rightarrow> ret (Some err)
             | Inr new \<Rightarrow> do { a \<leftarrow> call E (RCreate Cached new); ret (reply_unit a) })
          else ret (Some e)
      | RObj old \<Rightarrow>
          if kobj_kind old = kobj_kind ob then
            (case f old of
               Inl err \<Rightarrow> ret (Some err)
             | Inr new \<Rightarrow> if new = old then ret None
                 else do { a \<leftarrow> call E (RUpdate Cached new); ret (reply_unit a) })
          else ret (Some decode_error)
      | _ \<Rightarrow> ret (Some decode_error))
     (\<lambda>r u. \<exists>es. u = t @ es \<and> careful_run E req us es \<and> unreleased es) (t @ [?get a])"
      by (cases a) (use puts in \<open>auto intro!: trace_rules simp del: addressed_simps unwritten_simps(6)\<close>)
  qed
qed

lemma runs_translate_careful:
  assumes "create_or_update_law E" "working req us c" "addressed us \<Longrightarrow> holds req us c"
  shows "runs (aws_Translate E c) (\<lambda>r es. careful_run E req us es \<and> unreleased es)"
proof -
  let ?ak = "mread (sec_data c) rancherAWSAccessKeyField"
  let ?sk = "mread (sec_data c) rancherAWSSecretKeyField"
  have doc: "create_or_update E = documented_create_or_update E"
    using assms(1) by (simp add: create_or_update_law_def)
  have first: "runs (createOrUpdateCredentialSecret E c ?ak ?sk aws_namespace)
      (\<lambda>r es. careful_run E req us es \<and> unreleased es)"
    unfolding createOrUpdateCredentialSecret_def doc
    by (rule runs_bind, rule runs_mono [OF runs_documented_careful [OF claiming_secret]])
      (use assms(2,3) identity_of in \<open>auto simp: working_def ref_def secret_named_def key_of_def empty_meta_def\<close>)
  have second: "runs (createOrUpdateAWSClusterStaticIdentity E c)
      (\<lambda>r fs. careful_run E req (us @ es) fs \<and> unreleased fs)" if "unreleased es" for es
    unfolding createOrUpdateAWSClusterStaticIdentity_def doc
    by (rule runs_bind, rule runs_mono [OF runs_documented_careful [OF claiming_identity]])
      (use assms(2,3) that identity_of in \<open>auto simp: working_def ref_def awsClusterStaticIdentity_def
        key_of_def empty_meta_def holds_append\<close>)
  show ?thesis
    unfolding aws_Translate_def Let_def
    by (intro runsI) (auto intro!: trace_rules runs_use [OF first] runs_use [OF second])
qed

text \<open>A patch that keeps the key.\<close>

lemma runs_ensure_careful:
  assumes "finalizer_laws E" "working req us c" "(RGet Cached KSecret req, RObj (OSecret c)) \<in> set us"
  shows "runs (ensure_finalizer E (AWSTranslator E) c) (\<lambda>r es. careful_run E req us es \<and> unreleased es \<and>
    (\<forall>d. r = Inr d \<longrightarrow> working req (us @ es) d \<and> (addressed (us @ es) \<longrightarrow> holds req (us @ es) d)))"
proof -
  have laws: "contains_finalizer E fs f = (f \<in> set fs)"
    "set (fst (add_finalizer E fs f)) = insert f (set fs)" for fs f
    using assms(1) by (simp_all add: finalizer_laws_def)
  have differs: "aws_finalizer \<notin> set fs \<Longrightarrow> fst (add_finalizer E fs aws_finalizer) \<noteq> fs" for fs
    using laws(2) [of fs aws_finalizer] by auto
  have key: "key_of (m_finalizers_update g m) = key_of m" for g m by (simp add: key_of_def)
  show ?thesis
    unfolding ensure_finalizer_def patch_credential_def laws
    by (rule runsI)
      (use assms(2,3) in \<open>auto intro!: trace_rules simp: reply_obj_Inr working_def patches_for_def laws
        differs key holds_append ref_def holds_def [of req us]\<close>)
qed

lemma runs_annotate_careful:
  assumes "working req us c"
  shows "runs (annotate_credential E n c) (\<lambda>r es. careful_run E req us es)"
  unfolding annotate_credential_def patch_credential_def
  by (rule runsI) (use assms in \<open>auto intro!: trace_rules
      simp: working_def patches_for_def identity_annotation_def key_of_def\<close>)

lemma runs_normal_careful:
  assumes "finalizer_laws E" "create_or_update_law E" "working req us c"
    and "(RGet Cached KSecret req, RObj (OSecret c)) \<in> set us"
  shows "runs (credential_reconcileNormal E c (AWSTranslator E)) (\<lambda>r es. careful_run E req us es)"
proof -
  have translate: "runs (aws_Translate E d) (\<lambda>r fs. careful_run E req (us @ es) fs \<and> unreleased fs)"
    if "working req (us @ es) d" "addressed (us @ es) \<longrightarrow> holds req (us @ es) d" for d es
    by (rule runs_translate_careful) (use assms(2) that in auto)
  have annotate: "runs (annotate_credential E n d) (\<lambda>r gs. careful_run E req (us @ es @ fs) gs)"
    if "working req (us @ es) d" "unreleased fs" for n d es fs
    by (rule runs_annotate_careful) (use that in \<open>simp add: working_def\<close>)
  have t: "t_Translate (AWSTranslator E) = aws_Translate E" by (simp add: AWSTranslator_def)
  show ?thesis
    unfolding credential_reconcileNormal_def t
    by (rule runs_bind, rule runs_mono [OF runs_ensure_careful [OF assms(1,3,4)]])
      (auto intro!: runs_bind runs_mono [OF translate] runs_mono [OF annotate] split: sum.split)
qed

lemma runs_delete_careful:
  assumes "finalizer_laws E" "working req us c" "unwritten us"
    and "(RGet Cached KSecret req, RObj (OSecret c)) \<in> set us"
  shows "runs (credential_reconcileDelete E c (AWSTranslator E)) (\<lambda>r es. careful_run E req us es)"
proof -
  have laws: "contains_finalizer E fs f = (f \<in> set fs)" for fs f
    using assms(1) by (simp add: finalizer_laws_def)
  have key: "key_of (m_finalizers_update g m) = key_of m" for g m by (simp add: key_of_def)
  have clean: "runs (aws_Cleanup E c) (\<lambda>r es. (careful_run E req us es \<and> unreleased es \<and> unwritten es) \<and>
      (r = None \<longrightarrow> aws_clean E c es))"
    by (rule runs_conj [OF runs_aws_cleanup_careful [OF assms(2)] runs_aws_Cleanup])
  have more: "aws_clean E c es \<Longrightarrow> aws_clean E c (us @ es)" for es
    by (auto simp: aws_clean_def intro: gone_append)
  have t: "t_Cleanup (AWSTranslator E) = aws_Cleanup E" by (simp add: AWSTranslator_def)
  have held: "(RGet Cached KSecret r, RObj (OSecret c)) \<in> set us \<Longrightarrow>
      aws_finalizer \<in> set (m_finalizers (sec_meta c)) \<Longrightarrow> holds r us c" for r
    by (simp add: holds_def)
  have name: "addressed us \<Longrightarrow> m_name (sec_meta c) = k_name req"
    using assms(2) by (auto simp: working_def key_of_def)
  show ?thesis
    unfolding credential_reconcileDelete_def patch_credential_def laws t
    by (rule runsI)
      (use assms(2-4) name in \<open>auto intro!: trace_rules runs_use [OF clean]
        simp: working_def patches_for_def key more holds_append held\<close>)
qed

lemma runs_with_careful:
  assumes "finalizer_laws E" "create_or_update_law E" "working req us c" "unwritten us"
    and "(RGet Cached KSecret req, RObj (OSecret c)) \<in> set us"
  shows "runs (reconcile_with E c (AWSTranslator E)) (\<lambda>r es. careful_run E req us es)"
proof -
  let ?get = "\<lambda>a. (RGet Cached KProvider (provider_key_of (AWSTranslator E)), a)"
  have delete: "runs (credential_reconcileDelete E c (AWSTranslator E))
      (\<lambda>r es. careful_run E req (us @ [?get a]) es)" for a
    by (rule runs_delete_careful) (use assms in \<open>auto simp: working_def\<close>)
  have normal: "runs (credential_reconcileNormal E c (AWSTranslator E))
      (\<lambda>r es. careful_run E req (us @ [?get a]) es)" for a
    by (rule runs_normal_careful) (use assms in \<open>auto simp: working_def\<close>)
  have cons: "careful_run E req us (?get a # es) = careful_run E req (us @ [?get a]) es" for a es
    by (simp add: careful_run_def)
  show ?thesis
    unfolding reconcile_with_def
    by (rule runsI) (auto intro!: trace_rules runs_use [OF delete] runs_use [OF normal] simp: cons)
qed

lemma runs_credential_careful:
  assumes "finalizer_laws E" "create_or_update_law E"
  shows "runs (credential_Reconcile E [(''aws'', AWSTranslator E)] req) (\<lambda>r es. justified (careful E req) es)"
proof -
  let ?get = "\<lambda>a. (RGet Cached KSecret req, a)"
  have go: "runs (reconcile_with E c (AWSTranslator E))
      (\<lambda>r es. careful_run E req [?get (RObj (OSecret c))] es)" for c
    by (rule runs_with_careful) (use assms in \<open>auto simp: working_def ref_def\<close>)
  have cons: "justified (careful E req) (?get a # es) = careful_run E req [?get a] es" for a es
    by (simp add: careful_run_def)
  show ?thesis
    unfolding credential_Reconcile_def
    by (rule runsI)
      (auto intro!: trace_rules runs_use [OF go] simp: reply_obj_Inr cons simp del: justified.simps split: if_splits)
qed

end
