(* ===== verification/System_Behaviour.thy ===== *)
theory System_Behaviour
  imports Credential_System
begin

text \<open>
  What holds of the credential controller together with the server and everybody else:
  its runs refine the abstract machine, no identity is ever orphaned, and a run that is
  answered completes a deletion.
\<close>

section \<open>Reachable stores\<close>

abbreviation credential_run :: "'w env \<Rightarrow> key \<Rightarrow> ('w st, ctrl_result \<times> go_error option) state" where
  "credential_run E req \<equiv> credential_Reconcile E [(''aws'', AWSTranslator E)] req"

text \<open>Runs one after the other, each of which may stop after any of its requests.\<close>

inductive reachable :: "'w env \<Rightarrow> key \<Rightarrow> store \<Rightarrow> store \<Rightarrow> bool" for E req S where
  here: "reachable E req S S"
| run: "reachable E req S T \<Longrightarrow> trace_of (credential_run E req) w = es @ fs \<Longrightarrow>
    plays E req T es U \<Longrightarrow> reachable E req S U"

lemma prefix_machine:
  assumes "finalizer_laws E" "create_or_update_law E" "k_namespace req \<noteq> aws_namespace" "u \<noteq> []"
    and "trace_of (credential_run E req) w = es @ fs" "plays E req S es T" "stage_of u req S \<noteq> Orphaned"
  shows "moves\<^sup>*\<^sup>* (stage_of u req S) (stage_of u req T)"
proof -
  have "justified (careful E req) es"
    using runs_exec [OF runs_credential_careful [OF assms(1,2)], of req w] by (simp add: assms(5))
  then show ?thesis by (rule plays_machine(2) [OF assms(6) _ assms(3,4,7)])
qed

lemma reachable_safe:
  assumes "finalizer_laws E" "create_or_update_law E" "k_namespace req \<noteq> aws_namespace" "u \<noteq> []"
    and "reachable E req S T" "stage_of u req S \<noteq> Orphaned"
  shows "stage_of u req T \<noteq> Orphaned"
  using assms(5,6)
proof (induction rule: reachable.induct)
  case (run T w es fs U)
  then show ?case
    using prefix_machine [OF assms(1-4) run.hyps(2,3)] moves_safe by blast
qed

section \<open>Runs that are answered\<close>

definition answered :: "'w env \<Rightarrow> event \<Rightarrow> bool" where
  "answered E e \<longleftrightarrow>
     (case e of (r, a) \<Rightarrow>
       (case r of
          RGet t k q \<Rightarrow> (\<exists>ob. a = RObj ob \<and> ref ob = (k, q)) \<or> (\<exists>err. a = RErr err \<and> is_not_found E err)
        | RPatch t pk b n \<Rightarrow> (\<exists>ob. a = RObj ob \<and> ref ob = ref n)
        | RDelete t ob \<Rightarrow> deleted_or_gone E a
        | _ \<Rightarrow> reply_unit a = None))"

definition all_answered :: "'w env \<Rightarrow> event list \<Rightarrow> bool" where
  "all_answered E es \<longleftrightarrow> (\<forall>e \<in> set es. answered E e)"

lemma all_answered_simps [simp]:
  "all_answered E []" "all_answered E (e # es) \<longleftrightarrow> answered E e \<and> all_answered E es"
  "all_answered E (es @ fs) \<longleftrightarrow> all_answered E es \<and> all_answered E fs"
  by (auto simp: all_answered_def)

lemma runs_cleanup_owned_answered:
  assumes "\<And>ob. ref ob = (ckind cd, q) \<Longrightarrow> decode cd ob \<noteq> None"
  shows "runs (cleanup_owned E cd meta q c) (\<lambda>r es. all_answered E es \<longrightarrow> r = None)"
proof -
  have get: False if "answered E (RGet t (ckind cd) q, a)" "\<not> is_not_found E err"
    "reply_obj cd a = Inl err" for a t err
    using that(1) unfolding answered_def prod.case request.case
  proof
    assume "\<exists>ob. a = RObj ob \<and> ref ob = (ckind cd, q)"
    then obtain ob where ob: "a = RObj ob" "ref ob = (ckind cd, q)" by blast
    then show False using assms [OF ob(2)] that(3) by (auto simp: reply_obj_def)
  qed (use that(2,3) in auto)
  show ?thesis
    unfolding cleanup_owned_def
    by (rule runsI)
      (auto intro!: trace_rules dest: get simp: answered_def [of _ "(RDelete t ob, b)" for t ob b]
        deleted_or_gone_def split: option.splits)
qed

lemma runs_aws_Cleanup_answered: "runs (aws_Cleanup E c) (\<lambda>r es. all_answered E es \<longrightarrow> r = None)"
proof -
  have parts: "runs (cleanup_owned E (unstr_codec aws_gvk) un_meta q c) (\<lambda>r es. all_answered E es \<longrightarrow> r = None)"
    "runs (cleanup_owned E secret_codec sec_meta q c) (\<lambda>r es. all_answered E es \<longrightarrow> r = None)" for q
    by (rule runs_cleanup_owned_answered; auto simp: ref_def split: kobj.splits elim!: kobj_kind.elims)+
  show ?thesis
    unfolding aws_Cleanup_def
    by (rule runs_bind, rule runs_mono [OF parts(1)])
      (auto intro!: runs_mono [OF parts(2)] split: option.split)
qed

definition without_finalizer :: "'w env \<Rightarrow> secret \<Rightarrow> secret" where
  "without_finalizer E = sec_meta_update (m_finalizers_update
     (\<lambda>fs. fst (remove_finalizer E fs aws_finalizer)))"

definition completes :: "'w env \<Rightarrow> secret \<Rightarrow> ctrl_result \<times> go_error option \<Rightarrow> event list \<Rightarrow> bool" where
  "completes E c r es \<longleftrightarrow> r = (no_requeue, None) \<and>
     (\<exists>us v. es = us @ [(RPatch Cached MergeFrom (OSecret c) (OSecret (without_finalizer E c)), RObj (OSecret v))] \<and>
       aws_clean E c us)"

lemma completesI:
  "aws_clean E c us \<Longrightarrow> reply_obj secret_codec a = Inr v \<Longrightarrow>
   completes E c (no_requeue, None) (us @ [(RPatch Cached MergeFrom (OSecret c) (OSecret (without_finalizer E c)), a)])"
  by (auto simp: completes_def reply_obj_Inr)

lemma runs_delete_completes:
  assumes "finalizer_laws E" "aws_finalizer \<in> set (m_finalizers (sec_meta c))"
  shows "runs (credential_reconcileDelete E c (AWSTranslator E)) (\<lambda>r es. all_answered E es \<longrightarrow> completes E c r es)"
proof -
  have laws: "contains_finalizer E fs f = (f \<in> set fs)" for fs f
    using assms(1) by (simp add: finalizer_laws_def)
  have clean: "runs (aws_Cleanup E c) (\<lambda>r es. (all_answered E es \<longrightarrow> r = None) \<and> (r = None \<longrightarrow> aws_clean E c es))"
    by (rule runs_conj [OF runs_aws_Cleanup_answered runs_aws_Cleanup])
  have t: "t_Cleanup (AWSTranslator E) = aws_Cleanup E" by (simp add: AWSTranslator_def)
  have reply: "reply_obj secret_codec a \<noteq> Inl err" if "answered E (RPatch t pk b (OSecret n), a)" for t pk b n a err
  proof -
    have "\<exists>ob. a = RObj ob \<and> ref ob = (KSecret, key_of (sec_meta n))"
      using that by (simp add: answered_def ref_def)
    then obtain ob where "a = RObj ob" "ref ob = (KSecret, key_of (sec_meta n))" by blast
    then show ?thesis by (cases ob) (auto simp: ref_def reply_obj_def)
  qed
  show ?thesis
    unfolding credential_reconcileDelete_def patch_credential_def laws t
    by (rule runsI)
      (use assms(2) in \<open>auto intro!: trace_rules runs_use [OF clean] dest: reply
        intro: completesI simp: without_finalizer_def [symmetric]\<close>)
qed


text \<open>The run for a credential that is being deleted, with its provider ready.\<close>

definition deletion_pending :: "secret \<Rightarrow> capi_provider \<Rightarrow> bool" where
  "deletion_pending c p \<longleftrightarrow>
     \<not> deletion_is_zero (sec_meta c) \<and> aws_finalizer \<in> set (m_finalizers (sec_meta c)) \<and>
     mread (m_annotations (sec_meta c)) driverNameAnnotation = ''aws'' \<and>
     cpst_phase (cp_status p) = Ready"

lemma runs_credential_completes:
  assumes "finalizer_laws E" "create_or_update_law E" "deletion_pending c p"
  shows "runs (credential_run E req) (\<lambda>r tr. \<forall>es.
    tr = (RGet Cached KSecret req, RObj (OSecret c)) #
      (RGet Cached KProvider (provider_key_of (AWSTranslator E)), RObj (OProvider p)) # es \<longrightarrow>
    all_answered E es \<longrightarrow> completes E c r es)"
proof -
  let ?c = "(RGet Cached KSecret req, RObj (OSecret c))"
  let ?p = "(RGet Cached KProvider (provider_key_of (AWSTranslator E)), RObj (OProvider p))"
  have delete: "runs (credential_reconcileDelete E d (AWSTranslator E))
      (\<lambda>r es. d = c \<longrightarrow> all_answered E es \<longrightarrow> completes E c r es)" for d
  proof (cases "d = c")
    case True
    then show ?thesis
      using runs_delete_completes [OF assms(1)] assms(3) by (simp add: deletion_pending_def)
  next
    case False
    have "runs (credential_reconcileDelete E d (AWSTranslator E)) (\<lambda>r es. careful_run E (key_of (sec_meta d))
        [(RGet Cached KSecret (key_of (sec_meta d)), RObj (OSecret d))] es)"
      by (rule runs_delete_careful [OF assms(1)]) (simp_all add: working_def)
    then show ?thesis by (rule runs_mono) (simp add: False)
  qed
  have normal: "runs (credential_reconcileNormal E d (AWSTranslator E)) (\<lambda>r es. True)" for d
    by (rule runs_mono [OF runs_normal_careful [OF assms(1,2), of "key_of (sec_meta d)"
          "[(RGet Cached KSecret (key_of (sec_meta d)), RObj (OSecret d))]"]])
      (simp_all add: working_def)
  have run: "runs (reconcile_with E d (AWSTranslator E)) (\<lambda>r tr. \<forall>es. d = c \<longrightarrow> tr = ?p # es \<longrightarrow>
      all_answered E es \<longrightarrow> completes E c r es)" for d
    unfolding reconcile_with_def
    by (rule runsI)
      (use assms(3) in \<open>auto intro!: trace_rules runs_use [OF delete] runs_use [OF normal]
        simp: deletion_pending_def\<close>)
  show ?thesis
    unfolding credential_Reconcile_def
    by (rule runsI)
      (use assms(3) in \<open>auto intro!: trace_rules runs_use [OF run] simp: reply_obj_Inr deletion_pending_def
        split: if_splits\<close>)
qed


section \<open>Examples\<close>

lemma demo_namespace [simp]: "k_namespace demo_request = rancherCredentialsNamespace"
  by (simp add: demo_request_def rancherCredentialsNamespace_def)

lemma credentials_elsewhere [simp]: "rancherCredentialsNamespace \<noteq> aws_namespace"
  by (simp add: aws_namespace_def rancherCredentialsNamespace_def)

definition ready_provider :: capi_provider where
  "ready_provider = demo_provider
     \<lparr>cp_meta := empty_meta\<lparr>m_name := ''aws'', m_namespace := aws_namespace\<rparr>,
      cp_status := (cp_status demo_provider)\<lparr>cpst_phase := Ready\<rparr>\<rparr>"

lemma ready_provider_facts [simp]:
  "cpst_phase (cp_status ready_provider) = Ready"
  "ref (OProvider ready_provider) = (KProvider, provider_key_of (AWSTranslator E))"
  "key_of (cp_meta ready_provider) = provider_key_of (AWSTranslator E)"
  by (simp_all add: ready_provider_def ref_def key_of_def provider_key_of_def AWSTranslator_def)

text \<open>The credential with the finalizer, and what is created for it.\<close>

definition secured_credential :: secret where
  "secured_credential = sec_meta_update (m_finalizers_update (\<lambda>_. [aws_finalizer])) demo_credential"

definition created_secret :: kobj where
  "created_secret = OSecret \<lparr>sec_meta = empty_meta\<lparr>m_name := ''cc'', m_namespace := aws_namespace,
       m_annotations := Some [cloudCredentialSecretAnnotation \<mapsto> ''u1'']\<rparr>,
     sec_data = credential_data ''key'' ''secret'', sec_string_data = None\<rparr>"

lemma demo_credential_facts [simp]:
  "m_name (sec_meta demo_credential) = ''cc''" "m_name (sec_meta secured_credential) = ''cc''"
  "m_uid (sec_meta demo_credential) = ''u1''" "m_uid (sec_meta secured_credential) = ''u1''"
  "m_finalizers (sec_meta demo_credential) = []" "m_finalizers (sec_meta secured_credential) = [aws_finalizer]"
  "deletion_is_zero (sec_meta demo_credential)" "m_deletion (sec_meta secured_credential) = None"
  "m_deletion (sec_meta demo_credential) = None"
  "mread (m_annotations (sec_meta demo_credential)) driverNameAnnotation = ''aws''"
  "key_of (sec_meta demo_credential) = demo_request" "key_of (sec_meta secured_credential) = demo_request"
  "sec_data secured_credential = sec_data demo_credential"
  by (simp_all add: demo_credential_def secured_credential_def empty_meta_def deletion_is_zero_def mread_def
      key_of_def demo_request_def)

lemma created_for_demo:
  "mutate_secret secured_credential ''key'' ''secret'' (OSecret (secret_named ''cc'' aws_namespace)) = Inr created_secret"
  by (simp add: mutate_secret_def verifySecretOwnership_def secret_named_def empty_meta_def mset_def
      created_secret_def)

text \<open>The answers, up to the point where the server is gone; the events; the stores.\<close>

definition demo_answers :: "response list" where
  "demo_answers = [RObj (OSecret demo_credential), RObj (OProvider ready_provider),
     RObj (OSecret secured_credential), RErr (EApi ''NotFound''), ROk]"

definition secret_id :: key where
  "secret_id = \<lparr>k_namespace = aws_namespace, k_name = ''cc''\<rparr>"

definition demo_events :: "event list" where
  "demo_events =
     [(RGet Cached KSecret demo_request, RObj (OSecret demo_credential)),
      (RGet Cached KProvider (provider_key_of (AWSTranslator script_env)), RObj (OProvider ready_provider)),
      (RPatch Cached MergeFrom (OSecret demo_credential) (OSecret secured_credential), RObj (OSecret secured_credential)),
      (RGet Cached KSecret secret_id, RErr (EApi ''NotFound'')),
      (RCreate Cached created_secret, ROk)]"

lemma demo_ensured:
  "sec_meta_update (m_finalizers_update (\<lambda>fs. fst (if aws_finalizer \<in> set fs then (fs, False)
      else (fs @ [aws_finalizer], True)))) demo_credential = secured_credential"
  by (simp add: secured_credential_def demo_credential_def empty_meta_def)

lemma demo_keys:
  "secret_named ''cc'' aws_namespace = \<lparr>sec_meta = empty_meta\<lparr>m_name := ''cc'', m_namespace := aws_namespace\<rparr>,
     sec_data = None, sec_string_data = None\<rparr>"
  "key_of (sec_meta (secret_named ''cc'' aws_namespace)) = secret_id"
  by (simp_all add: secret_named_def key_of_def secret_id_def)

lemma demo_trace: "\<exists>fs. trace_of (credential_run script_env demo_request) demo_answers = demo_events @ fs"
proof -
  have t: "t_Translate (AWSTranslator script_env) = aws_Translate script_env"
    by (simp add: AWSTranslator_def)
  show ?thesis
    by (simp add: run_simps credential_Reconcile_def reconcile_with_def credential_reconcileNormal_def
        ensure_finalizer_def patch_credential_def demo_ensured t aws_Translate_def demo_fields
        createOrUpdateCredentialSecret_def script_create_or_update documented_create_or_update_def
        created_for_demo demo_keys(2) createOrUpdateAWSClusterStaticIdentity_def demo_answers_def demo_events_def)
qed

definition demo_store :: store where
  "demo_store = [(KSecret, demo_request) \<mapsto> OSecret demo_credential,
     (KProvider, provider_key_of (AWSTranslator script_env)) \<mapsto> OProvider ready_provider]"

definition demo_store' :: store where
  "demo_store' = demo_store((KSecret, demo_request) \<mapsto> OSecret secured_credential,
     (KSecret, secret_id) \<mapsto> created_secret)"

lemma created_ref: "ref created_secret = (KSecret, secret_id)"
  by (simp add: ref_def created_secret_def secret_id_def key_of_def)

lemma secret_id_other [simp]: "secret_id \<noteq> demo_request" "demo_request \<noteq> secret_id"
  by (auto simp: secret_id_def demo_request_def aws_namespace_def)

lemma demo_plays: "plays script_env demo_request demo_store demo_events demo_store'"
proof -
  let ?S = "demo_store((KSecret, demo_request) \<mapsto> OSecret secured_credential)"
  let ?e = "\<lambda>i. demo_events ! i"
  have "serves script_env demo_store (?e 0) demo_store" "serves script_env demo_store (?e 1) demo_store"
    unfolding demo_events_def
    by (auto simp: demo_store_def ref_def intro!: serves.found)
  moreover have "serves script_env demo_store (?e 2) ?S"
    unfolding demo_events_def
    using merged [of demo_store "OSecret secured_credential" "OSecret demo_credential" "OSecret demo_credential"
        "OSecret secured_credential" "RObj (OSecret secured_credential)" script_env Cached MergeFrom]
    by (simp add: demo_store_def ref_def patched_def)
  moreover have "serves script_env ?S (?e 3) ?S"
    unfolding demo_events_def by (auto simp: demo_store_def intro!: serves.absent)
  moreover have "serves script_env ?S (?e 4) demo_store'"
    using created [of ?S created_secret created_secret script_env Cached ROk]
    by (simp add: demo_events_def demo_store'_def created_ref demo_store_def stored_def)
  ultimately have "plays script_env demo_request demo_store ((((([] @ [?e 0]) @ [?e 1]) @ [?e 2]) @ [?e 3]) @ [?e 4]) demo_store'"
    by (intro plays.serve) (rule plays.start, assumption+)
  then show ?thesis by (simp add: demo_events_def)
qed

lemma demo_stages:
  "stage_of ''u1'' demo_request demo_store = Unprotected"
  "stage_of ''u1'' demo_request demo_store' = InUse"
proof -
  show "stage_of ''u1'' demo_request demo_store = Unprotected"
    by (auto simp: stage_of_def in_use_def identity_ids_def secured_def demo_store_def demo_request_def
        aws_namespace_def)
  have "(KSecret, secret_id) \<in> identity_ids (k_name demo_request)"
    by (simp add: identity_ids_def secret_id_def demo_request_def)
  moreover have "owned_live ''u1'' created_secret"
    by (simp add: owned_live_def names_owner_def created_secret_def mread_def empty_meta_def)
  ultimately have "in_use ''u1'' demo_request demo_store'"
    unfolding in_use_def by (intro bexI [of _ "(KSecret, secret_id)"]) (auto simp: demo_store'_def)
  moreover have "secured ''u1'' demo_request demo_store'"
    by (simp add: secured_def demo_store'_def)
  ultimately show "stage_of ''u1'' demo_request demo_store' = InUse" by (simp add: stage_of_def)
qed


text \<open>The credential being deleted, and nothing of it left.\<close>

definition leaving_credential :: secret where
  "leaving_credential = sec_meta_update (m_deletion_update (\<lambda>_. Some 1)) secured_credential"

lemma leaving_facts [simp]:
  "\<not> deletion_is_zero (sec_meta leaving_credential)"
  "m_finalizers (sec_meta leaving_credential) = [aws_finalizer]"
  "mread (m_annotations (sec_meta leaving_credential)) driverNameAnnotation = ''aws''"
  "m_name (sec_meta leaving_credential) = ''cc''"
  "key_of (sec_meta leaving_credential) = demo_request"
  by (simp_all add: leaving_credential_def deletion_is_zero_def secured_credential_def demo_credential_def
      mread_def key_of_def demo_request_def)

definition leaving_answers :: "response list" where
  "leaving_answers = [RObj (OSecret leaving_credential), RObj (OProvider ready_provider),
     RErr (EApi ''NotFound''), RErr (EApi ''NotFound''), RObj (OSecret demo_credential)]"

definition identity_id :: key where
  "identity_id = \<lparr>k_namespace = [], k_name = ''cc''\<rparr>"

lemma leaving_trace:
  "trace_of (credential_run script_env demo_request) leaving_answers =
     (RGet Cached KSecret demo_request, RObj (OSecret leaving_credential)) #
     (RGet Cached KProvider (provider_key_of (AWSTranslator script_env)), RObj (OProvider ready_provider)) #
     [(RGet Cached (KUnstr aws_gvk) identity_id, RErr (EApi ''NotFound'')),
      (RGet Cached KSecret secret_id, RErr (EApi ''NotFound'')),
      (RPatch Cached MergeFrom (OSecret leaving_credential)
        (OSecret (without_finalizer script_env leaving_credential)), RObj (OSecret demo_credential))]"
proof -
  have t: "t_Cleanup (AWSTranslator script_env) = aws_Cleanup script_env"
    by (simp add: AWSTranslator_def)
  show ?thesis
    by (simp add: run_simps credential_Reconcile_def reconcile_with_def credential_reconcileDelete_def
        patch_credential_def t aws_Cleanup_def cleanup_owned_def leaving_answers_def
        identity_id_def secret_id_def without_finalizer_def)
qed

section \<open>Properties\<close>

text \<open>
  C16.  The runs of the credential controller refine the machine of an identity's life:
  whatever part of a run the server has seen, whichever of its requests were refused or
  whose answers were lost, and however others acted in between, the store moves along
  Unprotected, Protected, InUse and back, one step at a time.
\<close>

theorem credential_refines:
  assumes "finalizer_laws E" and "create_or_update_law E"
    and "k_namespace req = rancherCredentialsNamespace" and "u \<noteq> []"
    and "trace_of (credential_run E req) w = es @ fs" and "plays E req S es T"
    and "stage_of u req S \<noteq> Orphaned"
  shows "moves\<^sup>*\<^sup>* (stage_of u req S) (stage_of u req T)"
  using assms by (intro prefix_machine) simp_all

theorem credential_refines_witness:
  "stage_of ''u1'' demo_request demo_store = Unprotected \<and>
   stage_of ''u1'' demo_request demo_store' = InUse \<and>
   moves\<^sup>*\<^sup>* (stage_of ''u1'' demo_request demo_store) (stage_of ''u1'' demo_request demo_store')"
proof -
  obtain fs where "trace_of (credential_run script_env demo_request) demo_answers = demo_events @ fs"
    using demo_trace by blast
  then show ?thesis
    using credential_refines [OF script_finalizer_laws script_create_or_update_law demo_namespace _ _ demo_plays,
        of "''u1''"] by (simp add: demo_stages)
qed

text \<open>
  C17.  No orphans: from a store where the finalizer protects what is in use, whatever
  runs of the controller and acts of others follow, an object that names the credential
  as its owner and is not being deleted has its credential in the store, with the
  finalizer on it.
\<close>

theorem no_orphans:
  assumes "finalizer_laws E" and "create_or_update_law E"
    and "k_namespace req = rancherCredentialsNamespace" and "u \<noteq> []"
    and "reachable E req S T" and "in_use u req S \<Longrightarrow> secured u req S"
    and "x \<in> identity_ids (k_name req)" and "T x = Some ob" and "owned_live u ob"
  shows "\<exists>c. T (KSecret, req) = Some (OSecret c) \<and> m_uid (sec_meta c) = u \<and>
    aws_finalizer \<in> set (m_finalizers (sec_meta c))"
proof -
  have "stage_of u req T \<noteq> Orphaned"
    by (rule reachable_safe [OF assms(1,2) _ assms(4,5)]) (use assms(3,6) in \<open>auto simp: stage_of_Orphaned\<close>)
  moreover have "in_use u req T" using assms(7-9) by (auto simp: in_use_def)
  ultimately show ?thesis by (auto simp: stage_of_Orphaned secured_def)
qed

theorem no_orphans_witness:
  "\<exists>c. demo_store' (KSecret, demo_request) = Some (OSecret c) \<and> m_uid (sec_meta c) = ''u1'' \<and>
     aws_finalizer \<in> set (m_finalizers (sec_meta c))"
proof -
  obtain fs where "trace_of (credential_run script_env demo_request) demo_answers = demo_events @ fs"
    using demo_trace by blast
  then have reach: "reachable script_env demo_request demo_store demo_store'"
    by (rule run [OF here _ demo_plays])
  have free: "in_use ''u1'' demo_request demo_store \<Longrightarrow> secured ''u1'' demo_request demo_store"
    using demo_stages(1) by (simp add: stage_of_def split: if_splits)
  have id: "(KSecret, secret_id) \<in> identity_ids (k_name demo_request)"
    by (simp add: identity_ids_def secret_id_def demo_request_def)
  have owned: "owned_live ''u1'' created_secret"
    by (simp add: owned_live_def names_owner_def created_secret_def mread_def empty_meta_def)
  have there: "demo_store' (KSecret, secret_id) = Some created_secret"
    by (simp add: demo_store'_def)
  show ?thesis
    by (rule no_orphans [OF script_finalizer_laws script_create_or_update_law demo_namespace _ reach free id there owned])
      simp
qed

text \<open>
  C18.  Deletion completes: a run for a credential that is being deleted and carries the
  finalizer, with its provider ready, ends without an error if the server answers its
  requests, and its last request is the patch that takes the finalizer off and changes
  nothing else, after a clean-up that left nothing of the credential.
\<close>

theorem deletion_completes:
  assumes "finalizer_laws E" and "create_or_update_law E" and "deletion_pending c p"
    and "trace_of (credential_run E req) w = (RGet Cached KSecret req, RObj (OSecret c)) #
      (RGet Cached KProvider (provider_key_of (AWSTranslator E)), RObj (OProvider p)) # es"
    and "all_answered E es"
  shows "result_of (credential_run E req) w = (no_requeue, None) \<and>
    (\<exists>us v. es = us @ [(RPatch Cached MergeFrom (OSecret c) (OSecret (without_finalizer E c)), RObj (OSecret v))] \<and>
      aws_clean E c us)"
  using runs_exec [OF runs_credential_completes [OF assms(1-3), of req], of w] assms(4,5)
  by (simp add: completes_def)

theorem deletion_completes_witness:
  "result_of (credential_run script_env demo_request) leaving_answers = (no_requeue, None)"
proof -
  have pending: "deletion_pending leaving_credential ready_provider"
    by (simp add: deletion_pending_def)
  have "key_of (sec_meta (without_finalizer script_env leaving_credential)) = demo_request"
    by (simp add: without_finalizer_def key_of_def demo_request_def leaving_credential_def
        secured_credential_def demo_credential_def)
  then show ?thesis
    using deletion_completes [OF script_finalizer_laws script_create_or_update_law pending leaving_trace]
    by (simp add: answered_def ref_def)
qed

end
