(* ===== verification/Memory.thy ===== *)
theory Memory
  imports Go_Lib "HOL-Library.AList"
begin

text \<open>
  The memory of a Go program, as far as the generated deep copies of src/api depend on
  it: cells with addresses, pointers to a cell or into one (a field of a struct, an element
  of an array), slices, maps, and the statements those functions consist of.

  The rest of the development works on values.  A layout relates the two: what value the
  struct that lies in memory stands for (its view), which cells it reaches (its footprint),
  and when its slices are within their arrays.  \<open>copies\<close> says of a function that it
  makes a copy with the same view, in cells that did not exist before, and touches nothing else.
\<close>

section \<open>Cells and pointers\<close>

type_synonym addr = nat

text \<open>Every address from \<open>fresh\<close> on is free; what lies there does not matter.\<close>

record 'c memory =
  cells :: "addr \<Rightarrow> 'c"
  fresh :: addr

text \<open>
  How a Go type lies in a cell, and its zero value.  Reading a cell of another type gives
  the zero value as well: the type checker of Go excludes it.
\<close>

record ('c, 'a) cell_type =
  from_cell :: "'c \<Rightarrow> 'a"
  to_cell :: "'a \<Rightarrow> 'c"
  zero_value :: 'a

locale cell_laws =
  fixes t :: "('c, 'a) cell_type"
  assumes from_to: "from_cell t (to_cell t x) = x"

text \<open>A pointer that is not nil: the cell, and where in the cell it points.\<close>

record ('c, 'a) ptr =
  base :: addr
  rd :: "'c \<Rightarrow> 'a"
  wr :: "'a \<Rightarrow> 'c \<Rightarrow> 'c"

definition deref :: "('c, 'a) cell_type \<Rightarrow> addr \<Rightarrow> ('c, 'a) ptr" where
  "deref t a = \<lparr>base = a, rd = from_cell t, wr = \<lambda>x _. to_cell t x\<rparr>"

text \<open>\<open>&p.f\<close>, for a field with its selector and its update.\<close>

definition field :: "('s \<Rightarrow> 'a) \<Rightarrow> (('a \<Rightarrow> 'a) \<Rightarrow> 's \<Rightarrow> 's) \<Rightarrow> ('c, 's) ptr \<Rightarrow> ('c, 'a) ptr" where
  "field g u p = \<lparr>base = base p, rd = \<lambda>c. g (rd p c),
     wr = \<lambda>x c. wr p (u (\<lambda>_. x) (rd p c)) c\<rparr>"

text \<open>\<open>&p[i]\<close>, for an index within the array.\<close>

definition element :: "nat \<Rightarrow> ('c, 'a list) ptr \<Rightarrow> ('c, 'a) ptr" where
  "element i p = \<lparr>base = base p, rd = \<lambda>c. rd p c ! i,
     wr = \<lambda>x c. wr p ((rd p c)[i := x]) c\<rparr>"

definition value_at :: "('c, 'a) ptr \<Rightarrow> 'c memory \<Rightarrow> 'a" where
  "value_at p m = rd p (cells m (base p))"

section \<open>Statements\<close>

definition load :: "('c, 'a) ptr \<Rightarrow> ('c memory, 'a) state" where
  "load p = do { m \<leftarrow> State_Monad.get; ret (rd p (cells m (base p))) }"

definition write_cell :: "addr \<Rightarrow> 'c \<Rightarrow> 'c memory \<Rightarrow> 'c memory" where
  "write_cell a c m = m\<lparr>cells := (cells m)(a := c)\<rparr>"

definition add_cell :: "'c \<Rightarrow> 'c memory \<Rightarrow> 'c memory" where
  "add_cell c m = m\<lparr>cells := (cells m)(fresh m := c), fresh := Suc (fresh m)\<rparr>"

definition store_at :: "('c, 'a) ptr \<Rightarrow> 'a \<Rightarrow> ('c memory, unit) state" where
  "store_at p x = do {
     m \<leftarrow> State_Monad.get;
     State_Monad.set (write_cell (base p) (wr p x (cells m (base p))) m) }"

definition alloc_cell :: "'c \<Rightarrow> ('c memory, addr) state" where
  "alloc_cell c = do {
     m \<leftarrow> State_Monad.get;
     State_Monad.set (add_cell c m);
     ret (fresh m) }"

text \<open>\<open>new(T)\<close>, and \<open>make\<close> for a map, whose zero value in a cell is the empty map.\<close>

definition new_cell :: "('c, 'a) cell_type \<Rightarrow> ('c memory, addr) state" where
  "new_cell t = alloc_cell (to_cell t (zero_value t))"

text \<open>\<open>*out = *in\<close>\<close>

definition assign :: "('c, 'a) ptr \<Rightarrow> ('c, 'a) ptr \<Rightarrow> ('c memory, unit) state" where
  "assign src dst = do { v \<leftarrow> load src; store_at dst v }"

text \<open>
  The pointer that a variable holds.  At every use the variable is not nil; the address of
  the nil case stands for the panic that does not happen.
\<close>

definition pointee :: "('c, 'a) cell_type \<Rightarrow> ('c, addr option) ptr \<Rightarrow> ('c memory, ('c, 'a) ptr) state" where
  "pointee t p = do {
     r \<leftarrow> load p;
     ret (deref t (case r of None \<Rightarrow> 0 | Some a \<Rightarrow> a)) }"

text \<open>A slice: the array it is a part of, where the part begins and how long it is.\<close>

record slice =
  sl_array :: addr
  sl_off :: nat
  sl_len :: nat

definition slice_at :: "('c, 'a list) cell_type \<Rightarrow> slice \<Rightarrow> nat \<Rightarrow> ('c, 'a) ptr" where
  "slice_at t s i = element (sl_off s + i) (deref t (sl_array s))"

text \<open>\<open>make([]T, n)\<close>: \<open>z\<close> is the zero value of an element.\<close>

definition make_slice :: "('c, 'a list) cell_type \<Rightarrow> 'a \<Rightarrow> nat \<Rightarrow> ('c memory, slice) state" where
  "make_slice t z n = do {
     a \<leftarrow> alloc_cell (to_cell t (replicate n z));
     ret \<lparr>sl_array = a, sl_off = 0, sl_len = n\<rparr> }"

definition slice_len :: "slice option \<Rightarrow> nat" where
  "slice_len s = (case s of None \<Rightarrow> 0 | Some s \<Rightarrow> sl_len s)"

text \<open>\<open>copy(dst, src)\<close> copies as many elements as both have, as if all were read first.\<close>

definition copy_elements :: "('c, 'a list) cell_type \<Rightarrow> slice \<Rightarrow> slice \<Rightarrow> ('c memory, unit) state" where
  "copy_elements t d s = do {
     xs \<leftarrow> load (deref t (sl_array s));
     ys \<leftarrow> load (deref t (sl_array d));
     let n = min (sl_len d) (sl_len s);
     store_at (deref t (sl_array d))
       (take (sl_off d) ys @ take n (drop (sl_off s) xs) @ drop (sl_off d + n) ys) }"

text \<open>\<open>for _, x := range xs\<close> without an early return.\<close>

fun for_do :: "('a \<Rightarrow> ('s, unit) state) \<Rightarrow> 'a list \<Rightarrow> ('s, unit) state" where
  "for_do f [] = ret ()"
| "for_do f (x # xs) = do { f x; for_do f xs }"

section \<open>The statements of a generated deep copy\<close>

text \<open>
  One definition per statement that the generator writes.  \<open>in\<close> and \<open>out\<close> are
  pointers to the same field of the two structs; \<open>*out = *in\<close> has been done before, so
  where the field is nil there is nothing left to do.

  \<open>if in.F != nil { *out = new(T); **out = **in }\<close>
\<close>

definition copy_pointer :: "('c, 'a) cell_type \<Rightarrow> ('c, addr option) ptr \<Rightarrow> ('c, addr option) ptr
    \<Rightarrow> ('c memory, unit) state" where
  "copy_pointer t src dst = do {
     p \<leftarrow> load src;
     if p = None then ret ()
     else do {
       q \<leftarrow> new_cell t;
       store_at dst (Some q);
       i \<leftarrow> pointee t src;
       out \<leftarrow> pointee t dst;
       assign i out } }"

text \<open>\<open>if in.F != nil { *out = new(T); ( *in).DeepCopyInto( *out) }\<close>\<close>

definition copy_pointer_into :: "('c, 'a) cell_type \<Rightarrow>
    (('c, 'a) ptr \<Rightarrow> ('c, 'a) ptr \<Rightarrow> ('c memory, unit) state) \<Rightarrow>
    ('c, addr option) ptr \<Rightarrow> ('c, addr option) ptr \<Rightarrow> ('c memory, unit) state" where
  "copy_pointer_into t into src dst = do {
     p \<leftarrow> load src;
     if p = None then ret ()
     else do {
       q \<leftarrow> new_cell t;
       store_at dst (Some q);
       i \<leftarrow> pointee t src;
       out \<leftarrow> pointee t dst;
       into i out } }"

text \<open>\<open>if in.F != nil { *out = ( *in).DeepCopy() }\<close>\<close>

definition copy_pointer_by :: "('c, 'a) cell_type \<Rightarrow>
    (('c, 'a) ptr option \<Rightarrow> ('c memory, addr option) state) \<Rightarrow>
    ('c, addr option) ptr \<Rightarrow> ('c, addr option) ptr \<Rightarrow> ('c memory, unit) state" where
  "copy_pointer_by t dc src dst = do {
     p \<leftarrow> load src;
     if p = None then ret ()
     else do {
       i \<leftarrow> pointee t src;
       q \<leftarrow> dc (Some i);
       store_at dst q } }"

text \<open>
  \<open>if in.F != nil { *out = make(map[K]V, n); for k, v := range *in { ( *out)[k] = v } }\<close>

  A map lies in its cell as the list of its entries, in the order in which \<open>range\<close>
  gives them, whatever that order is.
\<close>

definition copy_map :: "('c, ('k \<times> 'v) list) cell_type \<Rightarrow> ('c, addr option) ptr \<Rightarrow> ('c, addr option) ptr
    \<Rightarrow> ('c memory, unit) state" where
  "copy_map t src dst = do {
     p \<leftarrow> load src;
     if p = None then ret ()
     else do {
       q \<leftarrow> new_cell t;
       store_at dst (Some q);
       i \<leftarrow> pointee t src;
       entries \<leftarrow> load i;
       for_do (\<lambda>(k, v). do {
         out \<leftarrow> pointee t dst;
         h \<leftarrow> load out;
         store_at out (AList.update k v h) }) entries } }"

text \<open>\<open>if in.F != nil { *out = make([]T, len( *in)); copy( *out, *in) }\<close>\<close>

definition copy_slice :: "('c, 'a list) cell_type \<Rightarrow> 'a \<Rightarrow> ('c, slice option) ptr \<Rightarrow> ('c, slice option) ptr
    \<Rightarrow> ('c memory, unit) state" where
  "copy_slice t z src dst = do {
     p \<leftarrow> load src;
     if p = None then ret ()
     else do {
       d \<leftarrow> make_slice t z (slice_len p);
       store_at dst (Some d);
       i \<leftarrow> load src;
       out \<leftarrow> load dst;
       case (out, i) of
         (Some d, Some s) \<Rightarrow> copy_elements t d s
       | _ \<Rightarrow> ret () } }"

text \<open>
  \<open>if in.F != nil { *out = make([]T, len( *in));
    for i := range *in { ( *in)[i].DeepCopyInto(&( *out)[i]) } }\<close>
\<close>

definition copy_items :: "('c, 'a list) cell_type \<Rightarrow> 'a \<Rightarrow>
    (('c, 'a) ptr \<Rightarrow> ('c, 'a) ptr \<Rightarrow> ('c memory, unit) state) \<Rightarrow>
    ('c, slice option) ptr \<Rightarrow> ('c, slice option) ptr \<Rightarrow> ('c memory, unit) state" where
  "copy_items t z into src dst = do {
     p \<leftarrow> load src;
     if p = None then ret ()
     else do {
       d \<leftarrow> make_slice t z (slice_len p);
       store_at dst (Some d);
       r \<leftarrow> load src;
       for_do (\<lambda>k. do {
         i \<leftarrow> load src;
         out \<leftarrow> load dst;
         case (out, i) of
           (Some d, Some s) \<Rightarrow> into (slice_at t s k) (slice_at t d k)
         | _ \<Rightarrow> ret () }) [0..<slice_len r] } }"

text \<open>
  \<open>func (in *T) DeepCopy() *T\<close>: nil for nil, else a new struct that \<open>DeepCopyInto\<close>
  fills; and \<open>func (in *T) DeepCopyObject() runtime.Object\<close>, where an interface that is
  not nil has a type and a pointer, so that a nil pointer must not be put into one.
\<close>

definition deep_copy :: "('c, 'a) cell_type \<Rightarrow>
    (('c, 'a) ptr \<Rightarrow> ('c, 'a) ptr \<Rightarrow> ('c memory, unit) state) \<Rightarrow>
    ('c, 'a) ptr option \<Rightarrow> ('c memory, addr option) state" where
  "deep_copy t into p = (case p of
     None \<Rightarrow> ret None
   | Some i \<Rightarrow> do {
       a \<leftarrow> new_cell t;
       into i (deref t a);
       ret (Some a) })"

definition deep_copy_object :: "'k \<Rightarrow> ('p \<Rightarrow> ('m, addr option) state) \<Rightarrow> 'p
    \<Rightarrow> ('m, ('k \<times> addr) option) state" where
  "deep_copy_object k dc p = do {
     c \<leftarrow> dc p;
     case c of
       Some a \<Rightarrow> ret (Some (k, a))
     | None \<Rightarrow> ret None }"

end
