(* ===== verification/Layout.thy ===== *)
theory Layout
  imports Memory
begin

text \<open>
  What a struct in memory stands for, and what it means to copy it: layouts, their
  combinators, and the rule for each statement of a generated deep copy.
\<close>

section \<open>Layouts\<close>

text \<open>
  The view of a struct, the cells it reaches, and whether its slices are within their
  arrays.
\<close>

record ('c, 'a, 'v) layout =
  view :: "'c memory \<Rightarrow> 'a \<Rightarrow> 'v"
  foot :: "'c memory \<Rightarrow> 'a \<Rightarrow> addr set"
  ok :: "'c memory \<Rightarrow> 'a \<Rightarrow> bool"

definition agree :: "addr set \<Rightarrow> 'c memory \<Rightarrow> 'c memory \<Rightarrow> bool" where
  "agree A m n = (\<forall>a\<in>A. cells n a = cells m a)"

lemma agree_simps [simp]:
  "agree {} m n" "agree (insert a A) m n \<longleftrightarrow> cells n a = cells m a \<and> agree A m n"
  "agree (A \<union> B) m n \<longleftrightarrow> agree A m n \<and> agree B m n" "agree A m m"
  by (auto simp: agree_def)

lemma agree_UN [simp]: "agree (\<Union>x\<in>X. f x) m n \<longleftrightarrow> (\<forall>x\<in>X. agree (f x) m n)"
  by (auto simp: agree_def)

lemma agree_mono: "agree B m n \<Longrightarrow> A \<subseteq> B \<Longrightarrow> agree A m n"
  by (auto simp: agree_def)

text \<open>The law: only the cells of the footprint matter.\<close>

locale layout_laws =
  fixes L :: "('c, 'a, 'v) layout"
  assumes frame: "agree (foot L m x) m n \<Longrightarrow>
    view L n x = view L m x \<and> foot L n x = foot L m x \<and> ok L n x = ok L m x"

text \<open>A struct without references.\<close>

definition flat :: "('a \<Rightarrow> 'v) \<Rightarrow> ('c, 'a, 'v) layout" where
  "flat f = \<lparr>view = \<lambda>_. f, foot = \<lambda>_ _. {}, ok = \<lambda>_ _. True\<rparr>"

text \<open>A pointer, nil or not, to a struct.\<close>

definition pointer_to :: "('c, 'a) cell_type \<Rightarrow> ('c, 'a, 'v) layout \<Rightarrow> ('c, addr option, 'v option) layout" where
  "pointer_to t L =
     \<lparr>view = \<lambda>m. map_option (\<lambda>a. view L m (from_cell t (cells m a))),
      foot = \<lambda>m p. (case p of None \<Rightarrow> {} | Some a \<Rightarrow> insert a (foot L m (from_cell t (cells m a)))),
      ok = \<lambda>m p. (case p of None \<Rightarrow> True | Some a \<Rightarrow> ok L m (from_cell t (cells m a)))\<rparr>"

text \<open>A map with values that are no references: no key has two entries.\<close>

definition entries :: "('c, ('k \<times> 'w) list, 'k \<rightharpoonup> 'w) layout" where
  "entries = \<lparr>view = \<lambda>_. map_of, foot = \<lambda>_ _. {}, ok = \<lambda>_ es. distinct (map fst es)\<rparr>"

definition map_in :: "('c, ('k \<times> 'w) list) cell_type \<Rightarrow> ('c, addr option, ('k \<rightharpoonup> 'w) option) layout" where
  "map_in t = pointer_to t entries"

text \<open>A slice, nil or not.\<close>

definition items :: "('c, 'a list) cell_type \<Rightarrow> 'c memory \<Rightarrow> slice \<Rightarrow> 'a list" where
  "items t m s = take (sl_len s) (drop (sl_off s) (from_cell t (cells m (sl_array s))))"

definition slice_of :: "('c, 'a list) cell_type \<Rightarrow> ('c, 'a, 'v) layout \<Rightarrow> ('c, slice option, 'v list option) layout" where
  "slice_of t L =
     \<lparr>view = \<lambda>m. map_option (\<lambda>s. map (view L m) (items t m s)),
      foot = \<lambda>m p. (case p of None \<Rightarrow> {} | Some s \<Rightarrow>
        insert (sl_array s) (\<Union>x\<in>set (items t m s). foot L m x)),
      ok = \<lambda>m p. (case p of None \<Rightarrow> True | Some s \<Rightarrow>
        sl_off s + sl_len s \<le> length (from_cell t (cells m (sl_array s))) \<and>
        (\<forall>x\<in>set (items t m s). ok L m x))\<rparr>"

text \<open>Two parts of a struct side by side.\<close>

definition beside :: "('c, 'a, 'v) layout \<Rightarrow> ('c, 'b, 'w) layout \<Rightarrow> ('c, 'a \<times> 'b, 'v \<times> 'w) layout" where
  "beside L K =
     \<lparr>view = \<lambda>m (x, y). (view L m x, view K m y), foot = \<lambda>m (x, y). foot L m x \<union> foot K m y,
      ok = \<lambda>m (x, y). ok L m x \<and> ok K m y\<rparr>"

text \<open>
  A struct: \<open>f\<close> gives its fields that have references, \<open>g\<close> its value from the struct and
  the values of these.
\<close>

definition struct_of :: "('s \<Rightarrow> 'a) \<Rightarrow> ('s \<Rightarrow> 'v \<Rightarrow> 'w) \<Rightarrow> ('c, 'a, 'v) layout \<Rightarrow> ('c, 's, 'w) layout" where
  "struct_of f g L =
     \<lparr>view = \<lambda>m x. g x (view L m (f x)), foot = \<lambda>m x. foot L m (f x), ok = \<lambda>m x. ok L m (f x)\<rparr>"

lemma struct_simps [simp]:
  "view (struct_of f g L) m x = g x (view L m (f x))" "foot (struct_of f g L) m x = foot L m (f x)"
  "ok (struct_of f g L) m x \<longleftrightarrow> ok L m (f x)"
  by (auto simp: struct_of_def)

lemma flat_simps [simp]: "view (flat f) m = f" "foot (flat f) m x = {}" "ok (flat f) m x"
  by (auto simp: flat_def)

lemma beside_simps [simp]:
  "view (beside L K) m (x, y) = (view L m x, view K m y)"
  "foot (beside L K) m (x, y) = foot L m x \<union> foot K m y"
  "ok (beside L K) m (x, y) \<longleftrightarrow> ok L m x \<and> ok K m y"
  by (auto simp: beside_def)

lemma pointer_simps [simp]:
  "view (pointer_to t L) m None = None" "foot (pointer_to t L) m None = {}"
  "ok (pointer_to t L) m None"
  "view (pointer_to t L) m (Some a) = Some (view L m (from_cell t (cells m a)))"
  "foot (pointer_to t L) m (Some a) = insert a (foot L m (from_cell t (cells m a)))"
  "ok (pointer_to t L) m (Some a) \<longleftrightarrow> ok L m (from_cell t (cells m a))"
  by (auto simp: pointer_to_def)

lemma slice_simps [simp]:
  "view (slice_of t L) m None = None" "foot (slice_of t L) m None = {}"
  "ok (slice_of t L) m None"
  "view (slice_of t L) m (Some s) = Some (map (view L m) (items t m s))"
  "foot (slice_of t L) m (Some s) = insert (sl_array s) (\<Union>x\<in>set (items t m s). foot L m x)"
  "ok (slice_of t L) m (Some s) \<longleftrightarrow>
     sl_off s + sl_len s \<le> length (from_cell t (cells m (sl_array s))) \<and>
     (\<forall>x\<in>set (items t m s). ok L m x)"
  by (auto simp: slice_of_def)

lemma items_cong: "cells n (sl_array s) = cells m (sl_array s) \<Longrightarrow> items t n s = items t m s"
  by (simp add: items_def)

lemma entries_simps [simp]:
  "view entries m es = map_of es" "foot entries m es = {}" "ok entries m es \<longleftrightarrow> distinct (map fst es)"
  by (auto simp: entries_def)

lemma flat_laws: "layout_laws (flat f)"
  by unfold_locales simp

lemma pointer_laws: "layout_laws L \<Longrightarrow> layout_laws (pointer_to t L)"
  unfolding layout_laws_def by (auto simp: pointer_to_def split: option.splits)

lemma entries_laws: "layout_laws entries"
  by unfold_locales simp

lemma map_in_laws: "layout_laws (map_in t)"
  by (simp add: map_in_def pointer_laws entries_laws)

lemma slice_laws:
  assumes "layout_laws L"
  shows "layout_laws (slice_of t L)"
proof
  fix m p n
  assume a: "agree (foot (slice_of t L) m p) m n"
  show "view (slice_of t L) n p = view (slice_of t L) m p \<and>
    foot (slice_of t L) n p = foot (slice_of t L) m p \<and> ok (slice_of t L) n p = ok (slice_of t L) m p"
  proof (cases p)
    case None
    then show ?thesis by simp
  next
    case (Some s)
    from a Some have c: "cells n (sl_array s) = cells m (sl_array s)"
      and e: "\<And>x. x \<in> set (items t m s) \<Longrightarrow> agree (foot L m x) m n" by auto
    have "view L n x = view L m x \<and> foot L n x = foot L m x \<and> ok L n x = ok L m x"
      if "x \<in> set (items t m s)" for x
      using layout_laws.frame [OF assms e [OF that]] .
    with c items_cong [OF c, of t] Some show ?thesis by simp
  qed
qed

lemma beside_laws: "layout_laws L \<Longrightarrow> layout_laws K \<Longrightarrow> layout_laws (beside L K)"
  unfolding layout_laws_def by (auto simp: beside_def)

lemma struct_laws: "layout_laws L \<Longrightarrow> layout_laws (struct_of f g L)"
  unfolding layout_laws_def by auto

lemmas layout_intros = flat_laws pointer_laws map_in_laws slice_laws beside_laws struct_laws

section \<open>Copies\<close>

definition sound :: "('c, 'a, 'v) layout \<Rightarrow> 'c memory \<Rightarrow> 'a \<Rightarrow> bool" where
  "sound L m x = (ok L m x \<and> foot L m x \<subseteq> {..<fresh m})"

text \<open>\<open>x\<close> stands for \<open>v\<close> and reaches only cells that exist since \<open>r\<close>.\<close>

definition is_copy :: "('c, 'a, 'v) layout \<Rightarrow> 'v \<Rightarrow> addr \<Rightarrow> 'c memory \<Rightarrow> 'a \<Rightarrow> bool" where
  "is_copy L v r m x = (view L m x = v \<and> ok L m x \<and> foot L m x \<subseteq> {r..<fresh m})"

text \<open>From \<open>m\<close> to \<open>n\<close> cells may be added, and \<open>d\<close> may be written.\<close>

definition evolves :: "addr \<Rightarrow> 'c memory \<Rightarrow> 'c memory \<Rightarrow> bool" where
  "evolves d m n = (fresh m \<le> fresh n \<and> (\<forall>a<fresh m. a \<noteq> d \<longrightarrow> cells n a = cells m a))"

lemma evolves_refl [simp]: "evolves d m m"
  by (simp add: evolves_def)

lemma evolves_trans: "evolves d m n \<Longrightarrow> evolves d n k \<Longrightarrow> evolves d m k"
  by (auto simp: evolves_def)

lemma evolves_cell: "evolves d m n \<Longrightarrow> a < fresh m \<Longrightarrow> a \<noteq> d \<Longrightarrow> cells n a = cells m a"
  by (simp add: evolves_def)

lemma evolves_fresh: "evolves d m n \<Longrightarrow> fresh m \<le> fresh n"
  by (simp add: evolves_def)

lemma evolves_agree: "evolves d m n \<Longrightarrow> A \<subseteq> {..<fresh m} \<Longrightarrow> d \<notin> A \<Longrightarrow> agree A m n"
  by (auto simp: evolves_def agree_def)

lemma is_copy_beside [simp]:
  "is_copy (beside L K) (v, w) r m (x, y) \<longleftrightarrow> is_copy L v r m x \<and> is_copy K w r m y"
  by (auto simp: is_copy_def)

lemma is_copy_flat [simp]: "is_copy (flat f) v r m x \<longleftrightarrow> v = f x"
  by (auto simp: is_copy_def)

context layout_laws
begin

lemma sound_later:
  assumes "sound L m x" "evolves d m n" "d \<notin> foot L m x"
  shows "sound L n x" "view L n x = view L m x" "foot L n x = foot L m x"
proof -
  from assms have "agree (foot L m x) m n"
    by (auto intro: evolves_agree simp: sound_def)
  from frame [OF this] evolves_fresh [OF assms(2)] assms(1)
  show "sound L n x" "view L n x = view L m x" "foot L n x = foot L m x"
    by (auto simp: sound_def)
qed

lemma copy_later:
  assumes "is_copy L v r m x" "evolves d m n" "d < r"
  shows "is_copy L v r n x"
proof -
  from assms have "agree (foot L m x) m n"
    by (auto intro!: evolves_agree simp: is_copy_def)
  from frame [OF this] evolves_fresh [OF assms(2)] assms(1) show ?thesis
    by (auto simp: is_copy_def)
qed

end

lemma copy_weaken: "is_copy L v r m x \<Longrightarrow> q \<le> r \<Longrightarrow> is_copy L v q m x"
  by (auto simp: is_copy_def)

lemma copy_weaken_Suc: "is_copy L v (Suc r) m x \<Longrightarrow> is_copy L v r m x"
  by (erule copy_weaken) simp

lemma is_copy_pointer [simp]:
  "is_copy (pointer_to t L) (Some v) r m (Some a) \<longleftrightarrow>
     r \<le> a \<and> a < fresh m \<and> is_copy L v r m (from_cell t (cells m a))"
  by (auto simp: is_copy_def)

lemma is_copy_struct:
  "is_copy L w r m (f y) \<Longrightarrow> g y w = v \<Longrightarrow> is_copy (struct_of f g L) v r m y"
  by (auto simp: is_copy_def)

section \<open>Pointers behave like variables\<close>

definition lawful :: "('c, 'a) ptr \<Rightarrow> 'c \<Rightarrow> bool" where
  "lawful p c \<longleftrightarrow> (\<forall>x. rd p (wr p x c) = x) \<and> (\<forall>x y. wr p y (wr p x c) = wr p y c) \<and>
     wr p (rd p c) c = c"

definition lens :: "('s \<Rightarrow> 'a) \<Rightarrow> (('a \<Rightarrow> 'a) \<Rightarrow> 's \<Rightarrow> 's) \<Rightarrow> bool" where
  "lens g u \<longleftrightarrow> (\<forall>x s. g (u (\<lambda>_. x) s) = x) \<and> (\<forall>x y s. u (\<lambda>_. y) (u (\<lambda>_. x) s) = u (\<lambda>_. y) s) \<and>
     (\<forall>s. u (\<lambda>_. g s) s = s)"

lemma lawful_wr: "lawful p c \<Longrightarrow> lawful p (wr p x c)"
  by (simp add: lawful_def)

lemma lawful_field: "lens g u \<Longrightarrow> lawful p c \<Longrightarrow> lawful (field g u p) c"
  by (simp add: lawful_def lens_def field_def)

lemma lawful_element: "lawful p c \<Longrightarrow> i < length (rd p c) \<Longrightarrow> lawful (element i p) c"
  by (auto simp: lawful_def element_def list_update_overwrite)

lemma lawful_deref: "cell_laws t \<Longrightarrow> c = to_cell t x \<Longrightarrow> lawful (deref t a) c"
  by (simp add: lawful_def deref_def cell_laws_def)

lemma ptr_simps [simp]:
  "base (field g u p) = base p" "rd (field g u p) c = g (rd p c)"
  "wr (field g u p) x c = wr p (u (\<lambda>_. x) (rd p c)) c"
  "base (element i q) = base q" "rd (element i q) c = rd q c ! i"
  "wr (element i q) x c = wr q ((rd q c)[i := x]) c"
  "base (deref t a) = a" "rd (deref t a) c = from_cell t c" "wr (deref t a) y c = to_cell t y"
  by (auto simp: field_def element_def deref_def)

lemma value_at_simps [simp]:
  "value_at (field g u p) m = g (value_at p m)"
  "value_at (deref t a) m = from_cell t (cells m a)"
  by (auto simp: value_at_def)

section \<open>Weakest preconditions of the statements\<close>

lemma write_cell_simps [simp]:
  "cells (write_cell a c m) b = (if b = a then c else cells m b)" "fresh (write_cell a c m) = fresh m"
  by (auto simp: write_cell_def)

lemma add_cell_simps [simp]:
  "cells (add_cell c m) b = (if b = fresh m then c else cells m b)"
  "fresh (add_cell c m) = Suc (fresh m)"
  by (auto simp: add_cell_def)

lemma wp_load [simp, wp_rules]: "wp (load p) Q m = Q (rd p (cells m (base p))) m"
  by (simp add: load_def wp_def)

lemma wp_store_at [simp, wp_rules]:
  "wp (store_at p x) Q m = Q () (write_cell (base p) (wr p x (cells m (base p))) m)"
  by (simp add: store_at_def wp_def)

lemma wp_alloc_cell [simp, wp_rules]: "wp (alloc_cell c) Q m = Q (fresh m) (add_cell c m)"
  by (simp add: alloc_cell_def wp_def)

lemma wp_new_cell [simp, wp_rules]:
  "wp (new_cell t) Q m = Q (fresh m) (add_cell (to_cell t (zero_value t)) m)"
  by (simp add: new_cell_def)

lemma wp_assign [simp, wp_rules]:
  "wp (assign p q) Q m =
     Q () (write_cell (base q) (wr q (rd p (cells m (base p))) (cells m (base q))) m)"
  by (simp add: assign_def)

lemma wp_pointee [simp, wp_rules]:
  "wp (pointee t p) Q m =
     Q (deref t (case rd p (cells m (base p)) of None \<Rightarrow> 0 | Some a \<Rightarrow> a)) m"
  by (simp add: pointee_def)

lemma wp_make_slice [simp, wp_rules]:
  "wp (make_slice t z n) Q m =
     Q \<lparr>sl_array = fresh m, sl_off = 0, sl_len = n\<rparr> (add_cell (to_cell t (replicate n z)) m)"
  by (simp add: make_slice_def)

lemma wp_for_do_Nil [simp, wp_rules]: "wp (for_do f []) Q m = Q () m"
  by simp

lemma wp_for_do:
  assumes "I 0 m"
    and "\<And>k n. k < length xs \<Longrightarrow> I k n \<Longrightarrow> wp (f (xs ! k)) (\<lambda>_. I (Suc k)) n"
  shows "wp (for_do f xs) (\<lambda>_. I (length xs)) m"
  using assms
proof (induction xs arbitrary: I m)
  case Nil
  then show ?case by simp
next
  case (Cons x xs)
  have "wp (f x) (\<lambda>_. I (Suc 0)) m" using Cons.prems(2) [of 0 m] Cons.prems(1) by simp
  moreover have "wp (for_do f xs) (\<lambda>_. I (Suc (length xs))) n" if "I (Suc 0) n" for n
    using Cons.IH [of "\<lambda>k. I (Suc k)" n] that Cons.prems(2) [of "Suc k" for k] by simp
  ultimately show ?case by (auto elim: wp_mono)
qed

section \<open>What it is to copy\<close>

definition copied :: "('c, 'a, 'v) layout \<Rightarrow> 'v \<Rightarrow> ('c, 'a) ptr \<Rightarrow> 'c memory \<Rightarrow> 'c memory \<Rightarrow> bool" where
  "copied L v dst m n = (evolves (base dst) m n \<and>
     (\<exists>z. cells n (base dst) = wr dst z (cells m (base dst)) \<and> is_copy L v (fresh m) n z))"

text \<open>
  What a caller owes: two places in different cells, the first sound and not reaching the second.
\<close>

definition apart :: "('c, 'a, 'v) layout \<Rightarrow> ('c, 'a) ptr \<Rightarrow> ('c, 'a) ptr \<Rightarrow> 'c memory \<Rightarrow> bool" where
  "apart L src dst m = (base src < fresh m \<and> base dst < fresh m \<and> base src \<noteq> base dst \<and>
     lawful dst (cells m (base dst)) \<and> sound L m (value_at src m) \<and>
     base dst \<notin> foot L m (value_at src m))"

definition copies :: "('c, 'a, 'v) layout \<Rightarrow>
    (('c, 'a) ptr \<Rightarrow> ('c, 'a) ptr \<Rightarrow> ('c memory, unit) state) \<Rightarrow> bool" where
  "copies L into = (\<forall>m src dst. apart L src dst m \<longrightarrow>
     wp (into src dst) (\<lambda>_. copied L (view L m (value_at src m)) dst m) m)"

text \<open>The same after \<open>*out = *in\<close>: what \<open>out\<close> has is what \<open>in\<close> has, references included.\<close>

definition refreshes :: "('c, 'a, 'v) layout \<Rightarrow>
    (('c, 'a) ptr \<Rightarrow> ('c, 'a) ptr \<Rightarrow> ('c memory, unit) state) \<Rightarrow> bool" where
  "refreshes L step = (\<forall>m src dst. apart L src dst m \<longrightarrow> value_at dst m = value_at src m \<longrightarrow>
     wp (step src dst) (\<lambda>_. copied L (view L m (value_at src m)) dst m) m)"

lemma copies_refreshes: "copies L into \<Longrightarrow> refreshes L into"
  by (simp add: copies_def refreshes_def)

lemma copiesD: "copies L into \<Longrightarrow> apart L src dst m \<Longrightarrow>
    wp (into src dst) (\<lambda>_. copied L (view L m (value_at src m)) dst m) m"
  by (simp add: copies_def)

lemma refreshesD: "refreshes L step \<Longrightarrow> apart L src dst m \<Longrightarrow> value_at dst m = value_at src m \<Longrightarrow>
    wp (step src dst) (\<lambda>_. copied L (view L m (value_at src m)) dst m) m"
  by (simp add: refreshes_def)

lemma copied_same:
  assumes "lawful dst (cells m (base dst))" "is_copy L v (fresh m) m (value_at dst m)"
  shows "copied L v dst m m"
  using assms by (auto simp: copied_def lawful_def value_at_def intro!: exI [of _ "rd dst (cells m (base dst))"])

end
