(* ===== verification/Copy_Rules.thy ===== *)
theory Copy_Rules
  imports Layout
begin

text \<open>
  The rule for each statement of a generated deep copy, for a struct field by field, and for
  \<open>DeepCopy\<close> itself.
\<close>

section \<open>Pointers\<close>

text \<open>The state in which \<open>out\<close> has been given a new cell \<open>q\<close>.\<close>

definition retarget :: "('c, 'a) ptr \<Rightarrow> 'a \<Rightarrow> 'c \<Rightarrow> 'c memory \<Rightarrow> 'c memory" where
  "retarget dst y c m = write_cell (base dst) (wr dst y (cells m (base dst))) (add_cell c m)"

lemma retarget_simps [simp]:
  "fresh (retarget dst y c m) = Suc (fresh m)"
  "cells (retarget dst y c m) a = (if a = base dst then wr dst y (cells m (base dst))
     else if a = fresh m then c else cells m a)"
  by (auto simp: retarget_def)

lemma wp_retarget:
  assumes "apart L src dst m" "lawful dst (cells m (base dst))"
  shows "wp (store_at dst y) Q (add_cell c m) = Q () (retarget dst y c m)"
    and "evolves (base dst) m (retarget dst y c m)"
    and "rd dst (wr dst y (cells m (base dst))) = y"
    and "value_at src (retarget dst y c m) = value_at src m"
    and "value_at dst (retarget dst y c m) = y"
  using assms by (auto simp: apart_def retarget_def evolves_def lawful_def value_at_def)

lemma apartD:
  assumes "apart L src dst m"
  shows "base src < fresh m" "base dst < fresh m" "base src \<noteq> base dst"
    "lawful dst (cells m (base dst))" "sound L m (value_at src m)"
    "base dst \<notin> foot L m (value_at src m)"
  using assms by (auto simp: apart_def)

text \<open>What a statement has done when it put a new cell \<open>q\<close> there and then only wrote \<open>q\<close>.\<close>

lemma copied_retarget:
  assumes d: "base dst < fresh m"
    and e: "evolves (fresh m) (retarget dst y c m) n"
    and z: "is_copy L v (fresh m) n y"
  shows "copied L v dst m n"
proof -
  have "evolves (base dst) m n" using e d by (auto simp: evolves_def)
  moreover have "cells n (base dst) = wr dst y (cells m (base dst))"
    using e d by (auto simp: evolves_def)
  ultimately show ?thesis using z by (auto simp: copied_def)
qed

lemma copied_nil:
  assumes "apart L src dst m" "value_at dst m = value_at src m"
    "foot L m (value_at src m) = {}"
  shows "copied L (view L m (value_at src m)) dst m m"
  using assms by (intro copied_same) (auto simp: apart_def is_copy_def sound_def)

lemma copy_pointer_into_refreshes:
  assumes t: "cell_laws t" and L: "layout_laws L" and into: "copies L into"
  shows "refreshes (pointer_to t L) (copy_pointer_into t into)"
  unfolding refreshes_def
proof (intro allI impI)
  fix m src dst
  assume ap: "apart (pointer_to t L) src dst m" and same: "value_at dst m = value_at src m"
  note d = apartD [OF ap]
  show "wp (copy_pointer_into t into src dst)
    (\<lambda>_. copied (pointer_to t L) (view (pointer_to t L) m (value_at src m)) dst m) m"
  proof (cases "value_at src m")
    case None
    with copied_nil [OF ap same] show ?thesis by (simp add: copy_pointer_into_def value_at_def)
  next
    case (Some a)
    let ?q = "fresh m" and ?x = "from_cell t (cells m a)"
    let ?n = "retarget dst (Some ?q) (to_cell t (zero_value t)) m"
    note r = wp_retarget [OF ap d(4)]
    from d Some have a: "a < ?q" "a \<noteq> base dst" and x: "sound L m ?x" "base dst \<notin> foot L m ?x"
      by (auto simp: sound_def)
    note x' = layout_laws.sound_later [OF L x(1) r(2) x(2)]
    have "apart L (deref t a) (deref t ?q) ?n"
      using d a x x' lawful_deref [OF t refl] by (auto simp: apart_def sound_def)
    from copiesD [OF into this] have
      w: "wp (into (deref t a) (deref t ?q)) (\<lambda>_. copied L (view L m ?x) (deref t ?q) ?n) ?n"
      using x' a d by simp
    have "copied (pointer_to t L) (Some (view L m ?x)) dst m k"
      if "copied L (view L m ?x) (deref t ?q) ?n k" for k
      using that t d by (intro copied_retarget) (auto simp: copied_def cell_laws_def evolves_def
        intro: copy_weaken_Suc)
    then have "wp (into (deref t a) (deref t ?q)) (\<lambda>_. copied (pointer_to t L) (Some (view L m ?x)) dst m) ?n"
      by (rule wp_mono [OF w])
    with Some d r(3) show ?thesis by (simp add: copy_pointer_into_def value_at_def retarget_def)
  qed
qed

lemma assign_copies: "copies (flat f) assign"
  by (auto simp: copies_def copied_def apart_def evolves_def value_at_def)

lemma copy_pointer_refreshes: "cell_laws t \<Longrightarrow> refreshes (pointer_to t (flat f)) (copy_pointer t)"
proof -
  have "copy_pointer t = copy_pointer_into t assign"
    by (simp add: fun_eq_iff copy_pointer_def copy_pointer_into_def)
  then show "cell_laws t \<Longrightarrow> refreshes (pointer_to t (flat f)) (copy_pointer t)"
    by (simp add: copy_pointer_into_refreshes flat_laws assign_copies)
qed

section \<open>Maps\<close>

lemma map_of_updates:
  "distinct (map fst es) \<Longrightarrow> map_of (fold (\<lambda>(k, v). AList.update k v) es h) = map_of h ++ map_of es"
proof (induction es arbitrary: h)
  case Nil
  then show ?case by simp
next
  case (Cons e es)
  obtain k v where e: "e = (k, v)" by fastforce
  with Cons.prems have k: "map_of es k = None" by (simp add: map_of_eq_None_iff)
  from Cons e have "map_of (fold (\<lambda>(k, v). AList.update k v) (e # es) h) =
      map_of (AList.update k v h) ++ map_of es" by simp
  also have "\<dots> = map_of h ++ map_of (e # es)"
    using k e by (auto simp: update_conv map_add_def fun_eq_iff split: option.splits)
  finally show ?case .
qed

lemma distinct_updates:
  "distinct (map fst h) \<Longrightarrow> distinct (map fst (fold (\<lambda>(k, v). AList.update k v) es h))"
  by (induction es arbitrary: h) (auto simp: distinct_update split: prod.splits)

lemma wp_map_loop:
  assumes t: "cell_laws t" and q: "rd dst (cells m (base dst)) = Some q" "base dst \<noteq> q"
    and Q: "Q () (write_cell q (to_cell t (fold (\<lambda>(k, v). AList.update k v) es (from_cell t (cells m q)))) m)"
  shows "es = [] \<longrightarrow> cells m q = to_cell t (from_cell t (cells m q)) \<Longrightarrow>
    wp (for_do (\<lambda>(k, v). do { out \<leftarrow> pointee t dst; h \<leftarrow> load out; store_at out (AList.update k v h) }) es) Q m"
  using q Q
proof (induction es arbitrary: m)
  case Nil
  then have "write_cell q (to_cell t (from_cell t (cells m q))) m = m"
    by (simp add: write_cell_def)
  with Nil show ?case by simp
next
  case (Cons e es)
  obtain k v where e: "e = (k, v)" by fastforce
  have "write_cell q c (write_cell q b m) = write_cell q c m" for b c
    by (simp add: write_cell_def)
  with Cons e t show ?case by (simp add: cell_laws_def)
qed

lemma copy_map_refreshes:
  assumes t: "cell_laws t" and z: "zero_value t = []"
  shows "refreshes (map_in t) (copy_map t)"
  unfolding refreshes_def
proof (intro allI impI)
  fix m src dst
  assume ap: "apart (map_in t) src dst m" and same: "value_at dst m = value_at src m"
  note d = apartD [OF ap]
  show "wp (copy_map t src dst)
    (\<lambda>_. copied (map_in t) (view (map_in t) m (value_at src m)) dst m) m"
  proof (cases "value_at src m")
    case None
    with copied_nil [OF ap same] show ?thesis by (simp add: copy_map_def value_at_def map_in_def)
  next
    case (Some a)
    let ?q = "fresh m" and ?es = "from_cell t (cells m a)"
    let ?n = "retarget dst (Some ?q) (to_cell t []) m"
    let ?us = "fold (\<lambda>(k, v). AList.update k v) ?es []"
    note r = wp_retarget [OF ap d(4)]
    from d Some have a: "a < ?q" "a \<noteq> base dst" and es: "distinct (map fst ?es)"
      by (auto simp: sound_def map_in_def)
    have "copied (map_in t) (Some (map_of ?es)) dst m (write_cell ?q (to_cell t ?us) ?n)"
      using t es d map_of_updates [OF es, of "[]"] distinct_updates [of "[]" ?es]
      by (intro copied_retarget)
        (auto simp: map_in_def is_copy_def cell_laws_def evolves_def)
    then have "wp (for_do (\<lambda>(k, v). do { out \<leftarrow> pointee t dst; h \<leftarrow> load out; store_at out (AList.update k v h) }) ?es)
        (\<lambda>_. copied (map_in t) (Some (map_of ?es)) dst m) ?n"
      using t d r(3) by (intro wp_map_loop) (auto simp: cell_laws_def)
    with Some d a z r(3) show ?thesis
      by (simp add: copy_map_def value_at_def retarget_def map_in_def)
  qed
qed

section \<open>Slices\<close>

lemma items_fresh:
  assumes "cell_laws t" "cells m a = to_cell t ys"
  shows "items t m \<lparr>sl_array = a, sl_off = 0, sl_len = length ys\<rparr> = ys"
  using assms by (simp add: items_def cell_laws_def)

lemma items_nth:
  assumes "sl_off s + sl_len s \<le> length (from_cell t (cells m (sl_array s)))" "k < sl_len s"
  shows "items t m s ! k = from_cell t (cells m (sl_array s)) ! (sl_off s + k)"
  using assms by (simp add: items_def)

lemma items_length:
  assumes "sl_off s + sl_len s \<le> length (from_cell t (cells m (sl_array s)))"
  shows "length (items t m s) = sl_len s"
  using assms by (simp add: items_def)

text \<open>The new slice, when all its elements are copies.\<close>

lemma is_copy_slice:
  assumes t: "cell_laws t" and a: "r \<le> a" "a < fresh m" "cells m a = to_cell t ys"
    and len: "length ys = length xs"
    and e: "\<And>k. k < length xs \<Longrightarrow> is_copy L (f (xs ! k)) r m (ys ! k)"
  shows "is_copy (slice_of t L) (Some (map f xs)) r m
    (Some \<lparr>sl_array = a, sl_off = 0, sl_len = length xs\<rparr>)"
proof -
  have i: "items t m \<lparr>sl_array = a, sl_off = 0, sl_len = length xs\<rparr> = ys"
    using items_fresh [OF t a(3)] len by simp
  have "map (view L m) ys = map f xs"
    using e len by (auto simp: is_copy_def intro: nth_equalityI)
  moreover have "ok L m y \<and> foot L m y \<subseteq> {r..<fresh m}" if "y \<in> set ys" for y
    using that e len by (metis in_set_conv_nth is_copy_def)
  ultimately show ?thesis
    using a t len by (auto simp: is_copy_def i cell_laws_def)
qed

text \<open>
  The loop over the elements: \<open>I k\<close> says that the first \<open>k\<close> elements of the new array
  are copies.
\<close>

definition item_inv :: "('c, 'a list) cell_type \<Rightarrow> ('c, 'a, 'v) layout \<Rightarrow> 'a list \<Rightarrow> 'c memory \<Rightarrow>
    'c memory \<Rightarrow> nat \<Rightarrow> 'c memory \<Rightarrow> bool" where
  "item_inv t L xs m p k n = (evolves (fresh m) p n \<and> (\<exists>ys. cells n (fresh m) = to_cell t ys \<and>
     length ys = length xs \<and> (\<forall>j<k. is_copy L (view L m (xs ! j)) (Suc (fresh m)) n (ys ! j))))"

lemma copy_items_step:
  assumes t: "cell_laws t" and L: "layout_laws L" and into: "copies L into"
    and ap: "apart (slice_of t L) src dst m" and s: "value_at src m = Some s"
    and k: "k < sl_len s"
    and n: "item_inv t L (items t m s) m (retarget dst y c m) k n"
  shows "wp (into (slice_at t s k) (slice_at t \<lparr>sl_array = fresh m, sl_off = 0, sl_len = l\<rparr> k))
    (\<lambda>_. item_inv t L (items t m s) m (retarget dst y c m) (Suc k)) n"
proof -
  let ?q = "fresh m" and ?a = "sl_array s" and ?p = "retarget dst y c m" and ?xs = "items t m s"
  note d = apartD [OF ap] and r = wp_retarget [OF ap apartD(4) [OF ap]]
  from d s have a: "?a < ?q" "?a \<noteq> base dst"
    and len: "sl_off s + sl_len s \<le> length (from_cell t (cells m ?a))"
    and xs: "\<And>x. x \<in> set ?xs \<Longrightarrow> sound L m x \<and> base dst \<notin> foot L m x"
    by (auto simp: sound_def)
  let ?x = "?xs ! k"
  have kx: "k < length ?xs" using items_length [OF len] k by simp
  then have x: "sound L m ?x" "base dst \<notin> foot L m ?x" using xs by auto
  note xp = layout_laws.sound_later [OF L x(1) r(2) x(2)]
  from n obtain ys where e: "evolves ?q ?p n" and ys: "cells n ?q = to_cell t ys" "length ys = length ?xs"
    and old: "\<And>j. j < k \<Longrightarrow> is_copy L (view L m (?xs ! j)) (Suc ?q) n (ys ! j)"
    by (auto simp: item_inv_def)
  have "?q \<notin> foot L ?p ?x" using xp x by (auto simp: sound_def)
  note xn = layout_laws.sound_later [OF L xp(1) e this]
  have "cells n ?a = cells m ?a" using evolves_cell [OF e, of ?a] a by simp
  then have v: "value_at (slice_at t s k) n = ?x"
    using items_nth [OF len k] by (simp add: slice_at_def value_at_def)
  let ?d = "slice_at t \<lparr>sl_array = ?q, sl_off = 0, sl_len = l\<rparr> k"
  have lw: "lawful ?d (cells n ?q)"
    using t kx ys lawful_deref [OF t ys(1)]
    by (auto simp: slice_at_def cell_laws_def intro!: lawful_element)
  have b: "base (slice_at t s k) = ?a" "base ?d = ?q" by (auto simp: slice_at_def)
  have "apart L (slice_at t s k) ?d n"
    using a e xn xp x v lw b evolves_fresh [OF e] by (auto simp: apart_def sound_def)
  from copiesD [OF into this] have
    w: "wp (into (slice_at t s k) ?d) (\<lambda>_. copied L (view L m ?x) ?d n) n"
    using v xn xp by simp
  have "item_inv t L ?xs m ?p (Suc k) o'" if o: "copied L (view L m ?x) ?d n o'" for o'
  proof -
    from o b obtain z where eo: "evolves ?q n o'" and z: "is_copy L (view L m ?x) (fresh n) o' z"
      and co: "cells o' ?q = to_cell t (ys[k := z])"
      using ys t by (auto simp: copied_def slice_at_def cell_laws_def)
    have "is_copy L (view L m (?xs ! j)) (Suc ?q) o' (ys[k := z] ! j)" if "j < Suc k" for j
    proof (cases "j = k")
      case True
      then show ?thesis
        using copy_weaken [OF z, of "Suc ?q"] evolves_fresh [OF e] kx ys by simp
    next
      case False
      then show ?thesis
        using layout_laws.copy_later [OF L old eo] that by simp
    qed
    with co ys evolves_trans [OF e eo] show ?thesis by (auto simp: item_inv_def)
  qed
  then show ?thesis by (rule wp_mono [OF w])
qed

lemma copy_items_refreshes:
  assumes t: "cell_laws t" and L: "layout_laws L" and into: "copies L into"
  shows "refreshes (slice_of t L) (copy_items t z into)"
  unfolding refreshes_def
proof (intro allI impI)
  fix m src dst
  assume ap: "apart (slice_of t L) src dst m" and same: "value_at dst m = value_at src m"
  note d = apartD [OF ap]
  show "wp (copy_items t z into src dst)
    (\<lambda>_. copied (slice_of t L) (view (slice_of t L) m (value_at src m)) dst m) m"
  proof (cases "value_at src m")
    case None
    with copied_nil [OF ap same] show ?thesis by (simp add: copy_items_def value_at_def)
  next
    case (Some s)
    let ?q = "fresh m" and ?xs = "items t m s"
    let ?d = "\<lparr>sl_array = ?q, sl_off = 0, sl_len = sl_len s\<rparr>"
    let ?p = "retarget dst (Some ?d) (to_cell t (replicate (sl_len s) z)) m"
    let ?I = "\<lambda>k n. item_inv t L ?xs m ?p k n"
    let ?body = "\<lambda>k. do { i \<leftarrow> load src; out \<leftarrow> load dst;
      case (out, i) of (Some d, Some s) \<Rightarrow> into (slice_at t s k) (slice_at t d k) | _ \<Rightarrow> ret () }"
    note r = wp_retarget [OF ap d(4)]
    from d Some have len: "length ?xs = sl_len s" by (auto simp: sound_def intro: items_length)
    have step: "wp (?body k) (\<lambda>_. ?I (Suc k)) n" if k: "k < sl_len s" and n: "?I k n" for k n
    proof -
      from n have "evolves ?q ?p n" by (simp add: item_inv_def)
      with d r Some have "rd src (cells n (base src)) = Some s" "rd dst (cells n (base dst)) = Some ?d"
        by (auto simp: evolves_def value_at_def)
      then show ?thesis using copy_items_step [OF t L into ap Some k n] by simp
    qed
    have loop: "wp (for_do ?body [0..<sl_len s]) (\<lambda>_. ?I (sl_len s)) ?p"
    proof -
      have start: "?I 0 ?p" using len d by (auto simp: item_inv_def)
      have "wp (?body ([0..<sl_len s] ! k)) (\<lambda>_. ?I (Suc k)) n"
        if "k < length [0..<sl_len s]" "?I k n" for k n
      proof -
        from that have "[0..<sl_len s] ! k = k" "k < sl_len s" by simp_all
        with step [OF _ that(2)] show ?thesis by (simp only:)
      qed
      from wp_for_do [OF start this] show ?thesis by simp
    qed
    have fin: "copied (slice_of t L) (Some (map (view L m) ?xs)) dst m n" if "?I (sl_len s) n" for n
    proof -
      from that obtain ys where e: "evolves ?q ?p n" and ys: "cells n ?q = to_cell t ys" "length ys = length ?xs"
        and c: "\<And>j. j < sl_len s \<Longrightarrow> is_copy L (view L m (?xs ! j)) (Suc ?q) n (ys ! j)"
        by (auto simp: item_inv_def)
      have "is_copy (slice_of t L) (Some (map (view L m) ?xs)) ?q n (Some ?d)"
        using is_copy_slice [OF t _ _ ys, of ?q L "view L m"] evolves_fresh [OF e] c len
        by (simp add: copy_weaken_Suc)
      then show ?thesis by (rule copied_retarget [OF d(2) e])
    qed
    have "wp (for_do ?body [0..<sl_len s])
        (\<lambda>_. copied (slice_of t L) (Some (map (view L m) ?xs)) dst m) ?p"
      by (rule wp_mono [OF loop]) (rule fin)
    with Some d r(3) show ?thesis
      by (simp add: copy_items_def value_at_def retarget_def slice_len_def)
  qed
qed

lemma copy_slice_refreshes:
  assumes t: "cell_laws t"
  shows "refreshes (slice_of t (flat f)) (copy_slice t z)"
  unfolding refreshes_def
proof (intro allI impI)
  fix m src dst
  assume ap: "apart (slice_of t (flat f)) src dst m" and same: "value_at dst m = value_at src m"
  note d = apartD [OF ap]
  show "wp (copy_slice t z src dst)
    (\<lambda>_. copied (slice_of t (flat f)) (view (slice_of t (flat f)) m (value_at src m)) dst m) m"
  proof (cases "value_at src m")
    case None
    with copied_nil [OF ap same] show ?thesis by (simp add: copy_slice_def value_at_def)
  next
    case (Some s)
    let ?q = "fresh m" and ?xs = "items t m s"
    let ?d = "\<lparr>sl_array = ?q, sl_off = 0, sl_len = sl_len s\<rparr>"
    let ?p = "retarget dst (Some ?d) (to_cell t (replicate (sl_len s) z)) m"
    note r = wp_retarget [OF ap d(4)]
    from d Some have len: "length ?xs = sl_len s" and a: "sl_array s < ?q" "sl_array s \<noteq> base dst"
      by (auto simp: sound_def intro: items_length)
    have c: "is_copy (slice_of t (flat f)) (Some (map f ?xs)) ?q (write_cell ?q (to_cell t ?xs) ?p) (Some ?d)"
      using is_copy_slice [OF t, of ?q ?q "write_cell ?q (to_cell t ?xs) ?p" ?xs ?xs "flat f" f] len d
      by simp
    have "copied (slice_of t (flat f)) (Some (map f ?xs)) dst m (write_cell ?q (to_cell t ?xs) ?p)"
      by (rule copied_retarget [OF d(2) _ c]) (simp add: evolves_def)
    moreover have "wp (copy_elements t ?d s) Q ?p = Q () (write_cell ?q (to_cell t ?xs) ?p)" for Q
      using t a d by (simp add: copy_elements_def items_def cell_laws_def)
    ultimately show ?thesis
      using Some d r(3) by (simp add: copy_slice_def value_at_def retarget_def slice_len_def)
  qed
qed

section \<open>DeepCopy\<close>

text \<open>
  The contract of \<open>DeepCopy\<close>: nil for nil, and otherwise a pointer to a new cell with the
  same view, all of whose cells are new, while no cell that was there before has changed.
\<close>

definition deep_copies :: "('c, 'a) cell_type \<Rightarrow> ('c, 'a, 'v) layout \<Rightarrow>
    (('c, 'a) ptr option \<Rightarrow> ('c memory, addr option) state) \<Rightarrow> bool" where
  "deep_copies t L dc =
     ((\<forall>m. run_state (dc None) m = (None, m)) \<and>
      (\<forall>m i. base i < fresh m \<longrightarrow> sound L m (value_at i m) \<longrightarrow>
        wp (dc (Some i)) (\<lambda>r n. fresh m \<le> fresh n \<and> (\<forall>a<fresh m. cells n a = cells m a) \<and>
          (\<exists>b. r = Some b \<and> b \<in> {fresh m..<fresh n} \<and>
            is_copy L (view L m (value_at i m)) (fresh m) n (value_at (deref t b) n))) m))"

lemma deep_copy_copies:
  assumes t: "cell_laws t" and L: "layout_laws L" and into: "copies L into"
  shows "deep_copies t L (deep_copy t into)"
  unfolding deep_copies_def
proof (intro conjI allI impI)
  show "run_state (deep_copy t into None) m = (None, m)" for m
    by (simp add: deep_copy_def)
next
  fix m i
  assume i: "base i < fresh m" and s: "sound L m (value_at i m)"
  let ?q = "fresh m" and ?n = "add_cell (to_cell t (zero_value t)) m"
  have ev: "evolves ?q m ?n" by (simp add: evolves_def)
  have nq: "?q \<notin> foot L m (value_at i m)" using s by (auto simp: sound_def)
  note s' = layout_laws.sound_later [OF L s ev nq]
  have v: "value_at i ?n = value_at i m" using i by (simp add: value_at_def)
  have "apart L i (deref t ?q) ?n"
    using i s' v nq lawful_deref [OF t refl] by (simp add: apart_def)
  from copiesD [OF into this] have
    w: "wp (into i (deref t ?q)) (\<lambda>_. copied L (view L m (value_at i m)) (deref t ?q) ?n) ?n"
    using s' v by simp
  show "wp (deep_copy t into (Some i)) (\<lambda>r n. fresh m \<le> fresh n \<and> (\<forall>a<fresh m. cells n a = cells m a) \<and>
          (\<exists>b. r = Some b \<and> b \<in> {fresh m..<fresh n} \<and>
            is_copy L (view L m (value_at i m)) (fresh m) n (value_at (deref t b) n))) m"
    using t by (auto simp: deep_copy_def copied_def evolves_def cell_laws_def
      intro!: wp_mono [OF w]) (rule copy_weaken_Suc)
qed

lemma deep_copiesD:
  assumes "deep_copies t L dc" "base i < fresh m" "sound L m (value_at i m)"
  shows "wp (dc (Some i)) (\<lambda>r n. fresh m \<le> fresh n \<and> (\<forall>a<fresh m. cells n a = cells m a) \<and>
    (\<exists>b. r = Some b \<and> b \<in> {fresh m..<fresh n} \<and>
      is_copy L (view L m (value_at i m)) (fresh m) n (value_at (deref t b) n))) m"
  using assms unfolding deep_copies_def by blast

lemma copy_pointer_by_refreshes:
  assumes t: "cell_laws t" and L: "layout_laws L" and dc: "deep_copies t L dc"
  shows "refreshes (pointer_to t L) (copy_pointer_by t dc)"
  unfolding refreshes_def
proof (intro allI impI)
  fix m src dst
  assume ap: "apart (pointer_to t L) src dst m" and same: "value_at dst m = value_at src m"
  note d = apartD [OF ap]
  show "wp (copy_pointer_by t dc src dst)
    (\<lambda>_. copied (pointer_to t L) (view (pointer_to t L) m (value_at src m)) dst m) m"
  proof (cases "value_at src m")
    case None
    with copied_nil [OF ap same] show ?thesis by (simp add: copy_pointer_by_def value_at_def)
  next
    case (Some a)
    let ?x = "from_cell t (cells m a)"
    from d Some have "base (deref t a) < fresh m" "sound L m (value_at (deref t a) m)"
      by (auto simp: sound_def)
    from deep_copiesD [OF dc this] have w: "wp (dc (Some (deref t a))) (\<lambda>r n. fresh m \<le> fresh n \<and>
        (\<forall>a<fresh m. cells n a = cells m a) \<and> (\<exists>b. r = Some b \<and> b \<in> {fresh m..<fresh n} \<and>
          is_copy L (view L m ?x) (fresh m) n (from_cell t (cells n b)))) m"
      by simp
    have "copied (pointer_to t L) (Some (view L m ?x)) dst m
        (write_cell (base dst) (wr dst (Some b) (cells n (base dst))) n)"
      if "fresh m \<le> fresh n" "\<forall>a<fresh m. cells n a = cells m a" "b \<in> {fresh m..<fresh n}"
        "is_copy L (view L m ?x) (fresh m) n (from_cell t (cells n b))" for n b
    proof -
      let ?k = "write_cell (base dst) (wr dst (Some b) (cells n (base dst))) n"
      have e: "evolves (base dst) n ?k" by (simp add: evolves_def)
      from layout_laws.copy_later [OF L that(4) e d(2)] that(3) d(2)
      have "is_copy (pointer_to t L) (Some (view L m ?x)) (fresh m) ?k (Some b)" by simp
      with that(1,2) d show ?thesis
        by (auto simp: copied_def evolves_def)
    qed
    then show ?thesis
      using Some by (auto simp: copy_pointer_by_def value_at_def intro!: wp_mono [OF w])
  qed
qed

section \<open>Structs, field by field\<close>

text \<open>
  After \<open>*out = *in\<close> and the copies of some fields: \<open>out\<close> has \<open>y\<close>, and nothing else has
  changed since \<open>m\<close>.
\<close>

definition stage :: "('c, 's) ptr \<Rightarrow> ('c, 's) ptr \<Rightarrow> 'c memory \<Rightarrow> 'c memory \<Rightarrow> 's \<Rightarrow> bool" where
  "stage src dst m n y = (evolves (base dst) m n \<and>
     cells n (base dst) = wr dst y (cells m (base dst)))"

lemma wp_assign_stage:
  assumes "apart L src dst m" "\<And>n. stage src dst m n (value_at src m) \<Longrightarrow> Q () n"
  shows "wp (assign src dst) Q m"
  using assms by (simp add: apart_def stage_def evolves_def value_at_def)

text \<open>
  A statement on the next field: what has been copied before stays a copy, and one more field
  becomes one.
\<close>

lemma wp_field_step:
  assumes step: "refreshes L step" and laws: "layout_laws A" "layout_laws L" and lens: "lens g u"
    and ap: "apart S src dst m" and st: "stage src dst m n y" and old: "is_copy A v (fresh m) n z"
    and g: "g y = g (value_at src m)"
    and sound: "sound L m (g (value_at src m))" "base dst \<notin> foot L m (g (value_at src m))"
    and Q: "\<And>k x. stage src dst m k (u (\<lambda>_. x) y) \<Longrightarrow>
      is_copy (beside A L) (v, view L m (g (value_at src m))) (fresh m) k (z, x) \<Longrightarrow> Q () k"
  shows "wp (step (field g u src) (field g u dst)) Q n"
proof -
  let ?x = "g (value_at src m)"
  note d = apartD [OF ap]
  from st have e: "evolves (base dst) m n" and c: "cells n (base dst) = wr dst y (cells m (base dst))"
    by (auto simp: stage_def)
  note s = layout_laws.sound_later [OF laws(2) sound(1) e sound(2)]
  have v: "value_at src n = value_at src m"
    using evolves_cell [OF e] d by (simp add: value_at_def)
  have y: "value_at dst n = y" using c d by (simp add: value_at_def lawful_def)
  have a: "apart L (field g u src) (field g u dst) n"
    using d v s sound(2) lens evolves_fresh [OF e] lawful_wr [OF d(4), of y]
    by (auto simp: apart_def c lawful_field)
  from refreshesD [OF step a] v y g s have w: "wp (step (field g u src) (field g u dst))
      (\<lambda>_. copied L (view L m ?x) (field g u dst) n) n"
    by simp
  have fin: "Q () k" if k: "copied L (view L m ?x) (field g u dst) n k" for k
  proof -
    from k obtain x where ek: "evolves (base dst) n k" and x: "is_copy L (view L m ?x) (fresh n) k x"
      and ck: "cells k (base dst) = wr dst (u (\<lambda>_. x) (rd dst (cells n (base dst)))) (cells n (base dst))"
      by (auto simp: copied_def)
    from ck c d have "cells k (base dst) = wr dst (u (\<lambda>_. x) y) (cells m (base dst))"
      by (simp add: lawful_def)
    then have "stage src dst m k (u (\<lambda>_. x) y)"
      using evolves_trans [OF e ek] by (simp add: stage_def)
    moreover have "is_copy A v (fresh m) k z"
      by (rule layout_laws.copy_later [OF laws(1) old ek d(2)])
    moreover have "is_copy L (view L m ?x) (fresh m) k x"
      by (rule copy_weaken [OF x evolves_fresh [OF e]])
    ultimately show ?thesis by (intro Q) simp_all
  qed
  show ?thesis by (rule wp_mono [OF w]) (simp add: fin)
qed

lemma wp_first_step:
  assumes "refreshes L step" "layout_laws L" "lens g u" "apart S src dst m" "stage src dst m n y"
    "g y = g (value_at src m)" "sound L m (g (value_at src m))" "base dst \<notin> foot L m (g (value_at src m))"
    "\<And>k x. stage src dst m k (u (\<lambda>_. x) y) \<Longrightarrow>
      is_copy L (view L m (g (value_at src m))) (fresh m) k x \<Longrightarrow> Q () k"
  shows "wp (step (field g u src) (field g u dst)) Q n"
  by (rule wp_field_step [where A = "flat (\<lambda>_. ())" and v = "()", OF assms(1) flat_laws assms(2-5)])
    (use assms(6-9) in auto)

text \<open>\<open>out.F = in.F\<close>, after \<open>*out = *in\<close>, does nothing.\<close>

lemma wp_same_step:
  assumes "lens g u" "apart S src dst m" "stage src dst m n y" "g y = g (value_at src m)" "Q () n"
  shows "wp (assign (field g u src) (field g u dst)) Q n"
proof -
  note d = apartD [OF assms(2)]
  from assms(3) d have v: "rd src (cells n (base src)) = value_at src m"
    "rd dst (cells n (base dst)) = y" "wr dst y (cells n (base dst)) = cells n (base dst)"
    by (auto simp: stage_def evolves_def value_at_def lawful_def)
  have "u (\<lambda>_. g y) y = y" using assms(1) by (simp add: lens_def)
  moreover have "write_cell a (cells n a) n = n" for a by (simp add: write_cell_def)
  ultimately show ?thesis using v assms(4,5) by simp
qed

lemma copied_stage:
  "stage src dst m n y \<Longrightarrow> is_copy L v (fresh m) n y \<Longrightarrow> copied L v dst m n"
  by (auto simp: stage_def copied_def)

lemma copiesI:
  assumes "\<And>m src dst. apart L src dst m \<Longrightarrow>
    wp (into src dst) (\<lambda>_. copied L (view L m (value_at src m)) dst m) m"
  shows "copies L into"
  using assms by (simp add: copies_def)

lemma apart_part:
  assumes "apart (struct_of f h L) src dst m"
  shows "sound L m (f (value_at src m))" "base dst \<notin> foot L m (f (value_at src m))"
  using assms by (auto simp: apart_def sound_def)

lemma sound_beside [simp]: "sound (beside L K) m (x, y) \<longleftrightarrow> sound L m x \<and> sound K m y"
  by (auto simp: sound_def)

text \<open>\<open>out.TypeMeta = in.TypeMeta\<close> after \<open>*out = *in\<close>.\<close>

lemma copies_same:
  assumes "copies L (\<lambda>src dst. do { assign src dst; body src dst })" "lens g u"
  shows "copies L (\<lambda>src dst. do { assign src dst; assign (field g u src) (field g u dst); body src dst })"
proof (rule copiesI)
  fix m src dst
  assume ap: "apart L src dst m"
  let ?v = "view L m (value_at src m)"
  let ?n = "write_cell (base dst) (wr dst (rd src (cells m (base src))) (cells m (base dst))) m"
  have st: "stage src dst m ?n (value_at src m)"
    by (simp add: stage_def evolves_def value_at_def)
  have "wp (body src dst) (\<lambda>_. copied L ?v dst m) ?n"
    using copiesD [OF assms(1) ap] by simp
  then have "wp (assign (field g u src) (field g u dst)) (\<lambda>_. wp (body src dst) (\<lambda>_. copied L ?v dst m)) ?n"
    by (rule wp_same_step [OF assms(2) ap st refl])
  then show "wp (do { assign src dst; assign (field g u src) (field g u dst); body src dst })
      (\<lambda>_. copied L ?v dst m) m"
    by (simp only: wp_bind wp_assign)
qed

text \<open>Structs with one to five fields that have references.\<close>

lemma copies_struct1:
  assumes 1: "refreshes L step1" "layout_laws L" "lens g1 u1"
    and f: "\<And>s. f s = g1 s" "\<And>s x w. h (u1 (\<lambda>_. x) s) w = h s w"
  shows "copies (struct_of f h L)
    (\<lambda>src dst. do { assign src dst; step1 (field g1 u1 src) (field g1 u1 dst) })"
proof (rule copiesI)
  fix m src dst
  assume ap: "apart (struct_of f h L) src dst m"
  note part = apart_part [OF ap, unfolded f]
  show "wp (do { assign src dst; step1 (field g1 u1 src) (field g1 u1 dst) })
      (\<lambda>_. copied (struct_of f h L) (view (struct_of f h L) m (value_at src m)) dst m) m"
    unfolding wp_bind
    by (rule wp_assign_stage [OF ap], rule wp_first_step [OF 1 ap _ refl part], assumption,
      erule copied_stage, rule is_copy_struct) (use 1(3) in \<open>auto simp: f lens_def\<close>)
qed

lemma copies_struct2:
  assumes 1: "refreshes L1 step1" "layout_laws L1" "lens g1 u1"
    and 2: "refreshes L2 step2" "layout_laws L2" "lens g2 u2"
    and f: "\<And>s. f s = (g1 s, g2 s)"
    and h: "\<And>s x w. h (u1 (\<lambda>_. x) s) w = h s w" "\<And>s x w. h (u2 (\<lambda>_. x) s) w = h s w"
    and i: "\<And>s x. g2 (u1 (\<lambda>_. x) s) = g2 s" "\<And>s x. g1 (u2 (\<lambda>_. x) s) = g1 s"
  shows "copies (struct_of f h (beside L1 L2))
    (\<lambda>src dst. do { assign src dst; step1 (field g1 u1 src) (field g1 u1 dst);
       step2 (field g2 u2 src) (field g2 u2 dst) })"
proof (rule copiesI)
  fix m src dst
  assume ap: "apart (struct_of f h (beside L1 L2)) src dst m"
  let ?x = "value_at src m"
  have part: "sound L1 m (g1 ?x)" "base dst \<notin> foot L1 m (g1 ?x)" "sound L2 m (g2 ?x)" "base dst \<notin> foot L2 m (g2 ?x)"
    using apart_part [OF ap] by (auto simp: f)
  show "wp (do { assign src dst; step1 (field g1 u1 src) (field g1 u1 dst);
       step2 (field g2 u2 src) (field g2 u2 dst) })
      (\<lambda>_. copied (struct_of f h (beside L1 L2)) (view (struct_of f h (beside L1 L2)) m ?x) dst m) m"
    unfolding wp_bind
    by (rule wp_assign_stage [OF ap], rule wp_first_step [OF 1 ap _ refl part(1,2)], assumption,
      rule wp_field_step [OF 2(1) 1(2) 2(2,3) ap _ _ _ part(3,4)], assumption, assumption, simp add: i,
      erule copied_stage, rule is_copy_struct) (use 1(3) 2(3) in \<open>auto simp: f h i lens_def\<close>)
qed

lemma copies_struct3:
  assumes 1: "refreshes L1 step1" "layout_laws L1" "lens g1 u1"
    and 2: "refreshes L2 step2" "layout_laws L2" "lens g2 u2"
    and 3: "refreshes L3 step3" "layout_laws L3" "lens g3 u3"
    and f: "\<And>s. f s = ((g1 s, g2 s), g3 s)"
    and h: "\<And>s x w. h (u1 (\<lambda>_. x) s) w = h s w" "\<And>s x w. h (u2 (\<lambda>_. x) s) w = h s w"
      "\<And>s x w. h (u3 (\<lambda>_. x) s) w = h s w"
    and i: "\<And>s x. g2 (u1 (\<lambda>_. x) s) = g2 s" "\<And>s x. g3 (u1 (\<lambda>_. x) s) = g3 s"
      "\<And>s x. g1 (u2 (\<lambda>_. x) s) = g1 s" "\<And>s x. g3 (u2 (\<lambda>_. x) s) = g3 s"
      "\<And>s x. g1 (u3 (\<lambda>_. x) s) = g1 s" "\<And>s x. g2 (u3 (\<lambda>_. x) s) = g2 s"
  shows "copies (struct_of f h (beside (beside L1 L2) L3))
    (\<lambda>src dst. do { assign src dst; step1 (field g1 u1 src) (field g1 u1 dst);
       step2 (field g2 u2 src) (field g2 u2 dst); step3 (field g3 u3 src) (field g3 u3 dst) })"
proof (rule copiesI)
  fix m src dst
  assume ap: "apart (struct_of f h (beside (beside L1 L2) L3)) src dst m"
  let ?L = "struct_of f h (beside (beside L1 L2) L3)" and ?x = "value_at src m"
  have part: "sound L1 m (g1 ?x)" "base dst \<notin> foot L1 m (g1 ?x)" "sound L2 m (g2 ?x)"
    "base dst \<notin> foot L2 m (g2 ?x)" "sound L3 m (g3 ?x)" "base dst \<notin> foot L3 m (g3 ?x)"
    using apart_part [OF ap] by (auto simp: f)
  show "wp (do { assign src dst; step1 (field g1 u1 src) (field g1 u1 dst);
       step2 (field g2 u2 src) (field g2 u2 dst); step3 (field g3 u3 src) (field g3 u3 dst) })
      (\<lambda>_. copied ?L (view ?L m ?x) dst m) m"
    unfolding wp_bind
    by (rule wp_assign_stage [OF ap], rule wp_first_step [OF 1 ap _ refl part(1,2)], assumption,
      rule wp_field_step [OF 2(1) 1(2) 2(2,3) ap _ _ _ part(3,4)], assumption, assumption, simp add: i,
      rule wp_field_step [OF 3(1) beside_laws [OF 1(2) 2(2)] 3(2,3) ap _ _ _ part(5,6)],
      assumption, assumption, simp add: i,
      erule copied_stage, rule is_copy_struct) (use 1(3) 2(3) 3(3) in \<open>auto simp: f h i lens_def\<close>)
qed

lemma copies_struct4:
  assumes 1: "refreshes L1 step1" "layout_laws L1" "lens g1 u1"
    and 2: "refreshes L2 step2" "layout_laws L2" "lens g2 u2"
    and 3: "refreshes L3 step3" "layout_laws L3" "lens g3 u3"
    and 4: "refreshes L4 step4" "layout_laws L4" "lens g4 u4"
    and f: "\<And>s. f s = (((g1 s, g2 s), g3 s), g4 s)"
    and h: "\<And>s x w. h (u1 (\<lambda>_. x) s) w = h s w" "\<And>s x w. h (u2 (\<lambda>_. x) s) w = h s w"
      "\<And>s x w. h (u3 (\<lambda>_. x) s) w = h s w" "\<And>s x w. h (u4 (\<lambda>_. x) s) w = h s w"
    and i: "\<And>s x. g2 (u1 (\<lambda>_. x) s) = g2 s" "\<And>s x. g3 (u1 (\<lambda>_. x) s) = g3 s"
      "\<And>s x. g4 (u1 (\<lambda>_. x) s) = g4 s"
      "\<And>s x. g1 (u2 (\<lambda>_. x) s) = g1 s" "\<And>s x. g3 (u2 (\<lambda>_. x) s) = g3 s"
      "\<And>s x. g4 (u2 (\<lambda>_. x) s) = g4 s"
      "\<And>s x. g1 (u3 (\<lambda>_. x) s) = g1 s" "\<And>s x. g2 (u3 (\<lambda>_. x) s) = g2 s"
      "\<And>s x. g4 (u3 (\<lambda>_. x) s) = g4 s"
      "\<And>s x. g1 (u4 (\<lambda>_. x) s) = g1 s" "\<And>s x. g2 (u4 (\<lambda>_. x) s) = g2 s"
      "\<And>s x. g3 (u4 (\<lambda>_. x) s) = g3 s"
  shows "copies (struct_of f h (beside (beside (beside L1 L2) L3) L4))
    (\<lambda>src dst. do { assign src dst; step1 (field g1 u1 src) (field g1 u1 dst);
       step2 (field g2 u2 src) (field g2 u2 dst); step3 (field g3 u3 src) (field g3 u3 dst);
       step4 (field g4 u4 src) (field g4 u4 dst) })"
proof (rule copiesI)
  fix m src dst
  assume ap: "apart (struct_of f h (beside (beside (beside L1 L2) L3) L4)) src dst m"
  let ?L = "struct_of f h (beside (beside (beside L1 L2) L3) L4)" and ?x = "value_at src m"
  have part: "sound L1 m (g1 ?x)" "base dst \<notin> foot L1 m (g1 ?x)" "sound L2 m (g2 ?x)"
    "base dst \<notin> foot L2 m (g2 ?x)" "sound L3 m (g3 ?x)" "base dst \<notin> foot L3 m (g3 ?x)"
    "sound L4 m (g4 ?x)" "base dst \<notin> foot L4 m (g4 ?x)"
    using apart_part [OF ap] by (auto simp: f)
  show "wp (do { assign src dst; step1 (field g1 u1 src) (field g1 u1 dst);
       step2 (field g2 u2 src) (field g2 u2 dst); step3 (field g3 u3 src) (field g3 u3 dst);
       step4 (field g4 u4 src) (field g4 u4 dst) })
      (\<lambda>_. copied ?L (view ?L m ?x) dst m) m"
    unfolding wp_bind
    by (rule wp_assign_stage [OF ap], rule wp_first_step [OF 1 ap _ refl part(1,2)], assumption,
      rule wp_field_step [OF 2(1) 1(2) 2(2,3) ap _ _ _ part(3,4)], assumption, assumption, simp add: i,
      rule wp_field_step [OF 3(1) beside_laws [OF 1(2) 2(2)] 3(2,3) ap _ _ _ part(5,6)],
      assumption, assumption, simp add: i,
      rule wp_field_step [OF 4(1) beside_laws [OF beside_laws [OF 1(2) 2(2)] 3(2)] 4(2,3) ap _ _ _ part(7,8)],
      assumption, assumption, simp add: i,
      erule copied_stage, rule is_copy_struct)
      (use 1(3) 2(3) 3(3) 4(3) in \<open>auto simp: f h i lens_def\<close>)
qed

lemma copies_struct5:
  assumes 1: "refreshes L1 step1" "layout_laws L1" "lens g1 u1"
    and 2: "refreshes L2 step2" "layout_laws L2" "lens g2 u2"
    and 3: "refreshes L3 step3" "layout_laws L3" "lens g3 u3"
    and 4: "refreshes L4 step4" "layout_laws L4" "lens g4 u4"
    and 5: "refreshes L5 step5" "layout_laws L5" "lens g5 u5"
    and f: "\<And>s. f s = ((((g1 s, g2 s), g3 s), g4 s), g5 s)"
    and h: "\<And>s x w. h (u1 (\<lambda>_. x) s) w = h s w"
      "\<And>s x w. h (u2 (\<lambda>_. x) s) w = h s w"
      "\<And>s x w. h (u3 (\<lambda>_. x) s) w = h s w"
      "\<And>s x w. h (u4 (\<lambda>_. x) s) w = h s w"
      "\<And>s x w. h (u5 (\<lambda>_. x) s) w = h s w"
    and i: "\<And>s x. g2 (u1 (\<lambda>_. x) s) = g2 s" "\<And>s x. g3 (u1 (\<lambda>_. x) s) = g3 s" "\<And>s x. g4 (u1 (\<lambda>_. x) s) = g4 s" "\<And>s x. g5 (u1 (\<lambda>_. x) s) = g5 s"
      "\<And>s x. g1 (u2 (\<lambda>_. x) s) = g1 s" "\<And>s x. g3 (u2 (\<lambda>_. x) s) = g3 s" "\<And>s x. g4 (u2 (\<lambda>_. x) s) = g4 s" "\<And>s x. g5 (u2 (\<lambda>_. x) s) = g5 s"
      "\<And>s x. g1 (u3 (\<lambda>_. x) s) = g1 s" "\<And>s x. g2 (u3 (\<lambda>_. x) s) = g2 s" "\<And>s x. g4 (u3 (\<lambda>_. x) s) = g4 s" "\<And>s x. g5 (u3 (\<lambda>_. x) s) = g5 s"
      "\<And>s x. g1 (u4 (\<lambda>_. x) s) = g1 s" "\<And>s x. g2 (u4 (\<lambda>_. x) s) = g2 s" "\<And>s x. g3 (u4 (\<lambda>_. x) s) = g3 s" "\<And>s x. g5 (u4 (\<lambda>_. x) s) = g5 s"
      "\<And>s x. g1 (u5 (\<lambda>_. x) s) = g1 s" "\<And>s x. g2 (u5 (\<lambda>_. x) s) = g2 s" "\<And>s x. g3 (u5 (\<lambda>_. x) s) = g3 s" "\<And>s x. g4 (u5 (\<lambda>_. x) s) = g4 s"
  shows "copies (struct_of f h (beside (beside (beside (beside L1 L2) L3) L4) L5))
    (\<lambda>src dst. do { assign src dst; step1 (field g1 u1 src) (field g1 u1 dst);
       step2 (field g2 u2 src) (field g2 u2 dst);
       step3 (field g3 u3 src) (field g3 u3 dst);
       step4 (field g4 u4 src) (field g4 u4 dst);
       step5 (field g5 u5 src) (field g5 u5 dst) })"
proof (rule copiesI)
  fix m src dst
  assume ap: "apart (struct_of f h (beside (beside (beside (beside L1 L2) L3) L4) L5)) src dst m"
  let ?L = "struct_of f h (beside (beside (beside (beside L1 L2) L3) L4) L5)" and ?x = "value_at src m"
  have part: "sound L1 m (g1 ?x)" "base dst \<notin> foot L1 m (g1 ?x)"
    "sound L2 m (g2 ?x)" "base dst \<notin> foot L2 m (g2 ?x)"
    "sound L3 m (g3 ?x)" "base dst \<notin> foot L3 m (g3 ?x)"
    "sound L4 m (g4 ?x)" "base dst \<notin> foot L4 m (g4 ?x)"
    "sound L5 m (g5 ?x)" "base dst \<notin> foot L5 m (g5 ?x)"
    using apart_part [OF ap] by (auto simp: f)
  show "wp (do { assign src dst; step1 (field g1 u1 src) (field g1 u1 dst);
       step2 (field g2 u2 src) (field g2 u2 dst);
       step3 (field g3 u3 src) (field g3 u3 dst);
       step4 (field g4 u4 src) (field g4 u4 dst);
       step5 (field g5 u5 src) (field g5 u5 dst) })
      (\<lambda>_. copied ?L (view ?L m ?x) dst m) m"
    unfolding wp_bind
    by (rule wp_assign_stage [OF ap], rule wp_first_step [OF 1 ap _ refl part(1,2)], assumption,
      rule wp_field_step [OF 2(1) 1(2) 2(2,3) ap _ _ _ part(3,4)], assumption, assumption, simp add: i,
      rule wp_field_step [OF 3(1) beside_laws [OF 1(2) 2(2)] 3(2,3) ap _ _ _ part(5,6)],
      assumption, assumption, simp add: i,
      rule wp_field_step [OF 4(1) beside_laws [OF beside_laws [OF 1(2) 2(2)] 3(2)] 4(2,3) ap _ _ _ part(7,8)],
      assumption, assumption, simp add: i,
      rule wp_field_step [OF 5(1) beside_laws [OF beside_laws [OF beside_laws [OF 1(2) 2(2)] 3(2)] 4(2)] 5(2,3)
        ap _ _ _ part(9,10)], assumption, assumption, simp add: i,
      erule copied_stage, rule is_copy_struct)
      (use 1(3) 2(3) 3(3) 4(3) 5(3) in \<open>auto simp: f h i lens_def\<close>)
qed

end
