(* ===== verification/Api_Memory.thy ===== *)
theory Api_Memory
  imports Copy_Rules Objects
begin

text \<open>
  The API types of src/api as they lie in memory: the structs with their pointers, maps and
  slices, the cells they lie in, and the layout of each, whose view is a value of Objects.

  Of the structs of other modules (\<open>metav1.ObjectMeta\<close>, \<open>operatorv1.ProviderSpec\<close>, ...)
  the fields are those of Objects; their deep copies are parameters.
\<close>

section \<open>Structs of other modules\<close>

record type_meta =
  tm_kind :: string
  tm_api_version :: string

record h_owner =
  ho_api_version :: string
  ho_kind :: string
  ho_name :: string
  ho_uid :: string
  ho_controller :: "addr option"
  ho_block_deletion :: "addr option"

record h_meta =
  hm_name :: string
  hm_namespace :: string
  hm_generate_name :: string
  hm_labels :: "addr option"
  hm_annotations :: "addr option"
  hm_finalizers :: "slice option"
  hm_deletion :: "addr option"
  hm_uid :: string
  hm_resource_version :: string
  hm_owners :: "slice option"

record 'r list_meta_of =
  lm_resource_version :: string
  lm_continue :: string
  lm_remaining :: 'r

type_synonym h_list_meta = "addr option list_meta_of"
type_synonym list_meta = "int option list_meta_of"

record h_provider_spec =
  hps_version :: string
  hps_config_secret :: "addr option"
  hps_additional_manifests :: "addr option"

record h_provider_status =
  hpst_conditions :: "slice option"
  hpst_installed_version :: "addr option"

text \<open>\<open>corev1.ObjectReference\<close>\<close>

record object_reference =
  oref_kind :: string
  oref_namespace :: string
  oref_name :: string
  oref_uid :: string
  oref_api_version :: string

section \<open>src/api/v1alpha1\<close>

record workload_identity_ref =
  wi_name :: string
  wi_kind :: string

record h_capi_provider_spec =
  hcs_provider :: h_provider_spec
  hcs_name :: string
  hcs_type :: string
  hcs_credentials :: "addr option"
  hcs_features :: "addr option"
  hcs_variables :: "addr option"
  hcs_auto_update :: bool

record h_capi_provider_status =
  hct_provider :: h_provider_status
  hct_phase :: string
  hct_variables :: "addr option"
  hct_name :: string

record h_capi_provider =
  hcp_type :: type_meta
  hcp_meta :: h_meta
  hcp_spec :: h_capi_provider_spec
  hcp_status :: h_capi_provider_status

record h_config_spec =
  hcf_images :: "slice option"
  hcf_providers :: "slice option"

record h_config =
  hcfg_type :: type_meta
  hcfg_meta :: h_meta
  hcfg_spec :: h_config_spec

text \<open>
  Every list type has this shape.  The elements of \<open>ClusterctlConfigList.Items\<close> are
  \<open>CAPIProvider\<close> structs in the source.
\<close>

record h_list =
  hl_type :: type_meta
  hl_meta :: h_list_meta
  hl_items :: "slice option"

section \<open>src/api/rancher/management/v3\<close>

record h_cluster_status =
  hst_conditions :: "slice option"

record h_cluster =
  hrc_type :: type_meta
  hrc_meta :: h_meta
  hrc_spec :: cluster_spec
  hrc_status :: h_cluster_status

record token_spec =
  ts_cluster_name :: string

record token_status =
  tst_manifest_url :: string
  tst_token_secret_name :: string

record h_token =
  hrt_type :: type_meta
  hrt_meta :: h_meta
  hrt_spec :: token_spec
  hrt_status :: token_status

record h_setting =
  hse_type :: type_meta
  hse_meta :: h_meta
  hse_value :: string
  hse_default :: string
  hse_customized :: bool
  hse_source :: string

section \<open>src/api/rancher/provisioning/v1\<close>

record 'r rke_config_of =
  infrastructure_ref :: 'r

type_synonym h_rke_config = "addr option rke_config_of"
type_synonym rke_config = "object_reference option rke_config_of"

record h_prov_spec =
  hpp_rke_config :: "addr option"

record h_prov_status =
  hpt_cluster_name :: string
  hpt_agent_deployed :: bool
  hpt_ready :: bool
  hpt_conditions :: "slice option"

record h_prov_cluster =
  hpc_type :: type_meta
  hpc_meta :: h_meta
  hpc_spec :: h_prov_spec
  hpc_status :: h_prov_status

section \<open>src/api/rancher/k3s/v1\<close>

text \<open>
  No operation of the operator reads these types, so they have no counterpart in Objects:
  one record serves for the struct, with addresses as references, and for its value, with
  what they refer to.
\<close>

record etcd_snapshot_s3 =
  s3_endpoint :: string
  s3_endpoint_ca :: string
  s3_skip_ssl_verify :: bool
  s3_bucket :: string
  s3_region :: string
  s3_insecure :: bool

record ('m, 'p) snapshot_spec_of =
  snapshot_name :: string
  node_name :: string
  location :: string
  snapshot_metadata :: 'm
  snapshot_s3 :: 'p

record ('t, 's) snapshot_error_of =
  error_time :: 't
  error_message :: 's

record ('t, 'b, 'e) snapshot_status_of =
  creation_time :: 't
  ready_to_use :: 'b
  snapshot_error :: 'e

record ('m, 's, 't) snapshot_file_of =
  snap_type :: type_meta
  snap_meta :: 'm
  snap_spec :: 's
  snap_status :: 't

type_synonym h_snapshot_spec = "(addr option, addr option) snapshot_spec_of"
type_synonym snapshot_spec = "(smap, etcd_snapshot_s3 option) snapshot_spec_of"
type_synonym h_snapshot_error = "(addr option, addr option) snapshot_error_of"
type_synonym snapshot_error = "(nat option, string option) snapshot_error_of"
type_synonym h_snapshot_status = "(addr option, addr option, addr option) snapshot_status_of"
type_synonym snapshot_status = "(nat option, bool option, snapshot_error option) snapshot_status_of"
type_synonym h_snapshot_file = "(h_meta, h_snapshot_spec, h_snapshot_status) snapshot_file_of"
type_synonym snapshot_file = "(object_meta, snapshot_spec, snapshot_status) snapshot_file_of"

section \<open>Zero values\<close>

definition zero_type_meta :: type_meta where
  "zero_type_meta = \<lparr>tm_kind = [], tm_api_version = []\<rparr>"

definition zero_meta :: h_meta where
  "zero_meta = \<lparr>hm_name = [], hm_namespace = [], hm_generate_name = [], hm_labels = None,
     hm_annotations = None, hm_finalizers = None, hm_deletion = None, hm_uid = [],
     hm_resource_version = [], hm_owners = None\<rparr>"

definition zero_list_meta :: h_list_meta where
  "zero_list_meta = \<lparr>lm_resource_version = [], lm_continue = [], lm_remaining = None\<rparr>"

definition zero_condition :: condition where
  "zero_condition = \<lparr>c_type = [], c_status = CondUnknown, c_reason = [], c_message = []\<rparr>"

definition zero_object_ref :: object_ref where
  "zero_object_ref = \<lparr>ref_name = [], ref_namespace = []\<rparr>"

definition zero_object_reference :: object_reference where
  "zero_object_reference = \<lparr>oref_kind = [], oref_namespace = [], oref_name = [], oref_uid = [], oref_api_version = []\<rparr>"

definition zero_credentials :: credentials where
  "zero_credentials = \<lparr>cr_cloud_credential = [], cr_namespace_name = []\<rparr>"

definition zero_features :: features where
  "zero_features = \<lparr>f_machine_pool = False, f_cluster_resource_set = False, f_cluster_topology = False\<rparr>"

definition zero_image :: image_entry where
  "zero_image = \<lparr>ie_repository = [], ie_tag = [], ie_name = []\<rparr>"

definition zero_provider :: provider_entry where
  "zero_provider = \<lparr>pe_name = [], pe_url = [], pe_type = []\<rparr>"

definition zero_workload :: workload_identity_ref where
  "zero_workload = \<lparr>wi_name = [], wi_kind = []\<rparr>"

definition zero_capi_spec :: h_capi_provider_spec where
  "zero_capi_spec = \<lparr>hcs_provider =
     \<lparr>hps_version = [], hps_config_secret = None, hps_additional_manifests = None\<rparr>, hcs_name = [],
     hcs_type = [], hcs_credentials = None, hcs_features = None, hcs_variables = None,
     hcs_auto_update = False\<rparr>"

definition zero_capi_status :: h_capi_provider_status where
  "zero_capi_status = \<lparr>hct_provider =
     \<lparr>hpst_conditions = None, hpst_installed_version = None\<rparr>, hct_phase = [],
     hct_variables = None, hct_name = []\<rparr>"

definition zero_capi_provider :: h_capi_provider where
  "zero_capi_provider = \<lparr>hcp_type = zero_type_meta, hcp_meta = zero_meta,
     hcp_spec = zero_capi_spec, hcp_status = zero_capi_status\<rparr>"

definition zero_config_spec :: h_config_spec where
  "zero_config_spec = \<lparr>hcf_images = None, hcf_providers = None\<rparr>"

definition zero_config :: h_config where
  "zero_config = \<lparr>hcfg_type = zero_type_meta, hcfg_meta = zero_meta, hcfg_spec = zero_config_spec\<rparr>"

definition zero_list :: h_list where
  "zero_list = \<lparr>hl_type = zero_type_meta, hl_meta = zero_list_meta, hl_items = None\<rparr>"

definition zero_cluster_spec :: cluster_spec where
  "zero_cluster_spec = \<lparr>display_name = [], description = [], fleet_workspace_name = []\<rparr>"

definition zero_cluster_status :: h_cluster_status where
  "zero_cluster_status = \<lparr>hst_conditions = None\<rparr>"

definition zero_cluster :: h_cluster where
  "zero_cluster = \<lparr>hrc_type = zero_type_meta, hrc_meta = zero_meta,
     hrc_spec = zero_cluster_spec, hrc_status = zero_cluster_status\<rparr>"

definition zero_token_spec :: token_spec where
  "zero_token_spec = \<lparr>ts_cluster_name = []\<rparr>"

definition zero_token_status :: token_status where
  "zero_token_status = \<lparr>tst_manifest_url = [], tst_token_secret_name = []\<rparr>"

definition zero_token :: h_token where
  "zero_token = \<lparr>hrt_type = zero_type_meta, hrt_meta = zero_meta,
     hrt_spec = zero_token_spec, hrt_status = zero_token_status\<rparr>"

definition zero_setting :: h_setting where
  "zero_setting = \<lparr>hse_type = zero_type_meta, hse_meta = zero_meta, hse_value = [], hse_default = [],
     hse_customized = False, hse_source = []\<rparr>"

definition zero_rke :: h_rke_config where
  "zero_rke = \<lparr>infrastructure_ref = None\<rparr>"

definition zero_prov_spec :: h_prov_spec where
  "zero_prov_spec = \<lparr>hpp_rke_config = None\<rparr>"

definition zero_prov_status :: h_prov_status where
  "zero_prov_status = \<lparr>hpt_cluster_name = [], hpt_agent_deployed = False, hpt_ready = False,
     hpt_conditions = None\<rparr>"

definition zero_prov_cluster :: h_prov_cluster where
  "zero_prov_cluster = \<lparr>hpc_type = zero_type_meta, hpc_meta = zero_meta,
     hpc_spec = zero_prov_spec, hpc_status = zero_prov_status\<rparr>"

definition zero_s3 :: etcd_snapshot_s3 where
  "zero_s3 = \<lparr>s3_endpoint = [], s3_endpoint_ca = [], s3_skip_ssl_verify = False, s3_bucket = [],
     s3_region = [], s3_insecure = False\<rparr>"

definition zero_snapshot_spec :: h_snapshot_spec where
  "zero_snapshot_spec = \<lparr>snapshot_name = [], node_name = [], location = [], snapshot_metadata = None,
     snapshot_s3 = None\<rparr>"

definition zero_snapshot_error :: h_snapshot_error where
  "zero_snapshot_error = \<lparr>error_time = None, error_message = None\<rparr>"

definition zero_snapshot_status :: h_snapshot_status where
  "zero_snapshot_status = \<lparr>creation_time = None, ready_to_use = None, snapshot_error = None\<rparr>"

definition zero_snapshot_file :: h_snapshot_file where
  "zero_snapshot_file = \<lparr>snap_type = zero_type_meta, snap_meta = zero_meta,
     snap_spec = zero_snapshot_spec, snap_status = zero_snapshot_status\<rparr>"

section \<open>Cells\<close>

text \<open>What may lie in a cell: a struct that \<open>new\<close> allocates, a variable, a map or an array.\<close>

datatype (plugins only: code) go_cell =
    MapCell "(string \<times> string) list"
  | StringsCell "string list"
  | StringCell string
  | BoolCell bool
  | IntCell int
  | TimeCell nat
  | OwnersCell "h_owner list"
  | ConditionsCell "condition list"
  | ObjectRefCell object_ref
  | ObjectReferenceCell object_reference
  | CredentialsCell credentials
  | FeaturesCell features
  | ImageCell image_entry
  | ImagesCell "image_entry list"
  | ProviderCell provider_entry
  | ProvidersCell "provider_entry list"
  | ProviderListCell "slice option"
  | WorkloadCell workload_identity_ref
  | CAPISpecCell h_capi_provider_spec
  | CAPIStatusCell h_capi_provider_status
  | CAPIProviderCell h_capi_provider
  | CAPIProvidersCell "h_capi_provider list"
  | CAPIProviderListCell h_list
  | ConfigSpecCell h_config_spec
  | ConfigCell h_config
  | ConfigListCell h_list
  | ClusterSpecCell cluster_spec
  | ClusterStatusCell h_cluster_status
  | ClusterCell h_cluster
  | ClustersCell "h_cluster list"
  | ClusterListCell h_list
  | TokenSpecCell token_spec
  | TokenStatusCell token_status
  | TokenCell h_token
  | TokensCell "h_token list"
  | TokenListCell h_list
  | SettingCell h_setting
  | SettingsCell "h_setting list"
  | SettingListCell h_list
  | RKECell h_rke_config
  | ProvSpecCell h_prov_spec
  | ProvStatusCell h_prov_status
  | ProvClusterCell h_prov_cluster
  | ProvClustersCell "h_prov_cluster list"
  | ProvClusterListCell h_list
  | S3Cell etcd_snapshot_s3
  | SnapshotSpecCell h_snapshot_spec
  | SnapshotErrorCell h_snapshot_error
  | SnapshotStatusCell h_snapshot_status
  | SnapshotFileCell h_snapshot_file
  | SnapshotFilesCell "h_snapshot_file list"
  | SnapshotFileListCell h_list

definition map_cell :: "(go_cell, (string \<times> string) list) cell_type" where
  "map_cell = \<lparr>from_cell = \<lambda>c. case c of MapCell x \<Rightarrow> x | _ \<Rightarrow> [],
     to_cell = MapCell, zero_value = []\<rparr>"

definition strings_cell :: "(go_cell, string list) cell_type" where
  "strings_cell = \<lparr>from_cell = \<lambda>c. case c of StringsCell x \<Rightarrow> x | _ \<Rightarrow> [],
     to_cell = StringsCell, zero_value = []\<rparr>"

definition string_cell :: "(go_cell, string) cell_type" where
  "string_cell = \<lparr>from_cell = \<lambda>c. case c of StringCell x \<Rightarrow> x | _ \<Rightarrow> [],
     to_cell = StringCell, zero_value = []\<rparr>"

definition bool_cell :: "(go_cell, bool) cell_type" where
  "bool_cell = \<lparr>from_cell = \<lambda>c. case c of BoolCell x \<Rightarrow> x | _ \<Rightarrow> False,
     to_cell = BoolCell, zero_value = False\<rparr>"

definition int_cell :: "(go_cell, int) cell_type" where
  "int_cell = \<lparr>from_cell = \<lambda>c. case c of IntCell x \<Rightarrow> x | _ \<Rightarrow> 0,
     to_cell = IntCell, zero_value = 0\<rparr>"

definition time_cell :: "(go_cell, nat) cell_type" where
  "time_cell = \<lparr>from_cell = \<lambda>c. case c of TimeCell x \<Rightarrow> x | _ \<Rightarrow> 0,
     to_cell = TimeCell, zero_value = 0\<rparr>"

definition owners_cell :: "(go_cell, h_owner list) cell_type" where
  "owners_cell = \<lparr>from_cell = \<lambda>c. case c of OwnersCell x \<Rightarrow> x | _ \<Rightarrow> [],
     to_cell = OwnersCell, zero_value = []\<rparr>"

definition conditions_cell :: "(go_cell, condition list) cell_type" where
  "conditions_cell = \<lparr>from_cell = \<lambda>c. case c of ConditionsCell x \<Rightarrow> x | _ \<Rightarrow> [],
     to_cell = ConditionsCell, zero_value = []\<rparr>"

definition object_ref_cell :: "(go_cell, object_ref) cell_type" where
  "object_ref_cell = \<lparr>from_cell = \<lambda>c. case c of ObjectRefCell x \<Rightarrow> x | _ \<Rightarrow> zero_object_ref,
     to_cell = ObjectRefCell, zero_value = zero_object_ref\<rparr>"

definition object_reference_cell :: "(go_cell, object_reference) cell_type" where
  "object_reference_cell = \<lparr>from_cell = \<lambda>c. case c of ObjectReferenceCell x \<Rightarrow> x | _ \<Rightarrow> zero_object_reference,
     to_cell = ObjectReferenceCell, zero_value = zero_object_reference\<rparr>"

definition credentials_cell :: "(go_cell, credentials) cell_type" where
  "credentials_cell = \<lparr>from_cell = \<lambda>c. case c of CredentialsCell x \<Rightarrow> x | _ \<Rightarrow> zero_credentials,
     to_cell = CredentialsCell, zero_value = zero_credentials\<rparr>"

definition features_cell :: "(go_cell, features) cell_type" where
  "features_cell = \<lparr>from_cell = \<lambda>c. case c of FeaturesCell x \<Rightarrow> x | _ \<Rightarrow> zero_features,
     to_cell = FeaturesCell, zero_value = zero_features\<rparr>"

definition image_cell :: "(go_cell, image_entry) cell_type" where
  "image_cell = \<lparr>from_cell = \<lambda>c. case c of ImageCell x \<Rightarrow> x | _ \<Rightarrow> zero_image,
     to_cell = ImageCell, zero_value = zero_image\<rparr>"

definition images_cell :: "(go_cell, image_entry list) cell_type" where
  "images_cell = \<lparr>from_cell = \<lambda>c. case c of ImagesCell x \<Rightarrow> x | _ \<Rightarrow> [],
     to_cell = ImagesCell, zero_value = []\<rparr>"

definition provider_cell :: "(go_cell, provider_entry) cell_type" where
  "provider_cell = \<lparr>from_cell = \<lambda>c. case c of ProviderCell x \<Rightarrow> x | _ \<Rightarrow> zero_provider,
     to_cell = ProviderCell, zero_value = zero_provider\<rparr>"

definition providers_cell :: "(go_cell, provider_entry list) cell_type" where
  "providers_cell = \<lparr>from_cell = \<lambda>c. case c of ProvidersCell x \<Rightarrow> x | _ \<Rightarrow> [],
     to_cell = ProvidersCell, zero_value = []\<rparr>"

definition provider_list_cell :: "(go_cell, slice option) cell_type" where
  "provider_list_cell = \<lparr>from_cell = \<lambda>c. case c of ProviderListCell x \<Rightarrow> x | _ \<Rightarrow> None,
     to_cell = ProviderListCell, zero_value = None\<rparr>"

definition workload_cell :: "(go_cell, workload_identity_ref) cell_type" where
  "workload_cell = \<lparr>from_cell = \<lambda>c. case c of WorkloadCell x \<Rightarrow> x | _ \<Rightarrow> zero_workload,
     to_cell = WorkloadCell, zero_value = zero_workload\<rparr>"

definition capi_spec_cell :: "(go_cell, h_capi_provider_spec) cell_type" where
  "capi_spec_cell = \<lparr>from_cell = \<lambda>c. case c of CAPISpecCell x \<Rightarrow> x | _ \<Rightarrow> zero_capi_spec,
     to_cell = CAPISpecCell, zero_value = zero_capi_spec\<rparr>"

definition capi_status_cell :: "(go_cell, h_capi_provider_status) cell_type" where
  "capi_status_cell = \<lparr>from_cell = \<lambda>c. case c of CAPIStatusCell x \<Rightarrow> x | _ \<Rightarrow> zero_capi_status,
     to_cell = CAPIStatusCell, zero_value = zero_capi_status\<rparr>"

definition capi_provider_cell :: "(go_cell, h_capi_provider) cell_type" where
  "capi_provider_cell = \<lparr>from_cell = \<lambda>c. case c of CAPIProviderCell x \<Rightarrow> x | _ \<Rightarrow> zero_capi_provider,
     to_cell = CAPIProviderCell, zero_value = zero_capi_provider\<rparr>"

definition capi_providers_cell :: "(go_cell, h_capi_provider list) cell_type" where
  "capi_providers_cell = \<lparr>from_cell = \<lambda>c. case c of CAPIProvidersCell x \<Rightarrow> x | _ \<Rightarrow> [],
     to_cell = CAPIProvidersCell, zero_value = []\<rparr>"

definition capi_provider_list_cell :: "(go_cell, h_list) cell_type" where
  "capi_provider_list_cell = \<lparr>from_cell = \<lambda>c. case c of CAPIProviderListCell x \<Rightarrow> x | _ \<Rightarrow> zero_list,
     to_cell = CAPIProviderListCell, zero_value = zero_list\<rparr>"

definition config_spec_cell :: "(go_cell, h_config_spec) cell_type" where
  "config_spec_cell = \<lparr>from_cell = \<lambda>c. case c of ConfigSpecCell x \<Rightarrow> x | _ \<Rightarrow> zero_config_spec,
     to_cell = ConfigSpecCell, zero_value = zero_config_spec\<rparr>"

definition config_cell :: "(go_cell, h_config) cell_type" where
  "config_cell = \<lparr>from_cell = \<lambda>c. case c of ConfigCell x \<Rightarrow> x | _ \<Rightarrow> zero_config,
     to_cell = ConfigCell, zero_value = zero_config\<rparr>"

definition config_list_cell :: "(go_cell, h_list) cell_type" where
  "config_list_cell = \<lparr>from_cell = \<lambda>c. case c of ConfigListCell x \<Rightarrow> x | _ \<Rightarrow> zero_list,
     to_cell = ConfigListCell, zero_value = zero_list\<rparr>"

definition cluster_spec_cell :: "(go_cell, cluster_spec) cell_type" where
  "cluster_spec_cell = \<lparr>from_cell = \<lambda>c. case c of ClusterSpecCell x \<Rightarrow> x | _ \<Rightarrow> zero_cluster_spec,
     to_cell = ClusterSpecCell, zero_value = zero_cluster_spec\<rparr>"

definition cluster_status_cell :: "(go_cell, h_cluster_status) cell_type" where
  "cluster_status_cell = \<lparr>from_cell = \<lambda>c. case c of ClusterStatusCell x \<Rightarrow> x | _ \<Rightarrow> zero_cluster_status,
     to_cell = ClusterStatusCell, zero_value = zero_cluster_status\<rparr>"

definition cluster_cell :: "(go_cell, h_cluster) cell_type" where
  "cluster_cell = \<lparr>from_cell = \<lambda>c. case c of ClusterCell x \<Rightarrow> x | _ \<Rightarrow> zero_cluster,
     to_cell = ClusterCell, zero_value = zero_cluster\<rparr>"

definition clusters_cell :: "(go_cell, h_cluster list) cell_type" where
  "clusters_cell = \<lparr>from_cell = \<lambda>c. case c of ClustersCell x \<Rightarrow> x | _ \<Rightarrow> [],
     to_cell = ClustersCell, zero_value = []\<rparr>"

definition cluster_list_cell :: "(go_cell, h_list) cell_type" where
  "cluster_list_cell = \<lparr>from_cell = \<lambda>c. case c of ClusterListCell x \<Rightarrow> x | _ \<Rightarrow> zero_list,
     to_cell = ClusterListCell, zero_value = zero_list\<rparr>"

definition token_spec_cell :: "(go_cell, token_spec) cell_type" where
  "token_spec_cell = \<lparr>from_cell = \<lambda>c. case c of TokenSpecCell x \<Rightarrow> x | _ \<Rightarrow> zero_token_spec,
     to_cell = TokenSpecCell, zero_value = zero_token_spec\<rparr>"

definition token_status_cell :: "(go_cell, token_status) cell_type" where
  "token_status_cell = \<lparr>from_cell = \<lambda>c. case c of TokenStatusCell x \<Rightarrow> x | _ \<Rightarrow> zero_token_status,
     to_cell = TokenStatusCell, zero_value = zero_token_status\<rparr>"

definition token_cell :: "(go_cell, h_token) cell_type" where
  "token_cell = \<lparr>from_cell = \<lambda>c. case c of TokenCell x \<Rightarrow> x | _ \<Rightarrow> zero_token,
     to_cell = TokenCell, zero_value = zero_token\<rparr>"

definition tokens_cell :: "(go_cell, h_token list) cell_type" where
  "tokens_cell = \<lparr>from_cell = \<lambda>c. case c of TokensCell x \<Rightarrow> x | _ \<Rightarrow> [],
     to_cell = TokensCell, zero_value = []\<rparr>"

definition token_list_cell :: "(go_cell, h_list) cell_type" where
  "token_list_cell = \<lparr>from_cell = \<lambda>c. case c of TokenListCell x \<Rightarrow> x | _ \<Rightarrow> zero_list,
     to_cell = TokenListCell, zero_value = zero_list\<rparr>"

definition setting_cell :: "(go_cell, h_setting) cell_type" where
  "setting_cell = \<lparr>from_cell = \<lambda>c. case c of SettingCell x \<Rightarrow> x | _ \<Rightarrow> zero_setting,
     to_cell = SettingCell, zero_value = zero_setting\<rparr>"

definition settings_cell :: "(go_cell, h_setting list) cell_type" where
  "settings_cell = \<lparr>from_cell = \<lambda>c. case c of SettingsCell x \<Rightarrow> x | _ \<Rightarrow> [],
     to_cell = SettingsCell, zero_value = []\<rparr>"

definition setting_list_cell :: "(go_cell, h_list) cell_type" where
  "setting_list_cell = \<lparr>from_cell = \<lambda>c. case c of SettingListCell x \<Rightarrow> x | _ \<Rightarrow> zero_list,
     to_cell = SettingListCell, zero_value = zero_list\<rparr>"

definition rke_cell :: "(go_cell, h_rke_config) cell_type" where
  "rke_cell = \<lparr>from_cell = \<lambda>c. case c of RKECell x \<Rightarrow> x | _ \<Rightarrow> zero_rke,
     to_cell = RKECell, zero_value = zero_rke\<rparr>"

definition prov_spec_cell :: "(go_cell, h_prov_spec) cell_type" where
  "prov_spec_cell = \<lparr>from_cell = \<lambda>c. case c of ProvSpecCell x \<Rightarrow> x | _ \<Rightarrow> zero_prov_spec,
     to_cell = ProvSpecCell, zero_value = zero_prov_spec\<rparr>"

definition prov_status_cell :: "(go_cell, h_prov_status) cell_type" where
  "prov_status_cell = \<lparr>from_cell = \<lambda>c. case c of ProvStatusCell x \<Rightarrow> x | _ \<Rightarrow> zero_prov_status,
     to_cell = ProvStatusCell, zero_value = zero_prov_status\<rparr>"

definition prov_cluster_cell :: "(go_cell, h_prov_cluster) cell_type" where
  "prov_cluster_cell = \<lparr>from_cell = \<lambda>c. case c of ProvClusterCell x \<Rightarrow> x | _ \<Rightarrow> zero_prov_cluster,
     to_cell = ProvClusterCell, zero_value = zero_prov_cluster\<rparr>"

definition prov_clusters_cell :: "(go_cell, h_prov_cluster list) cell_type" where
  "prov_clusters_cell = \<lparr>from_cell = \<lambda>c. case c of ProvClustersCell x \<Rightarrow> x | _ \<Rightarrow> [],
     to_cell = ProvClustersCell, zero_value = []\<rparr>"

definition prov_cluster_list_cell :: "(go_cell, h_list) cell_type" where
  "prov_cluster_list_cell = \<lparr>from_cell = \<lambda>c. case c of ProvClusterListCell x \<Rightarrow> x | _ \<Rightarrow> zero_list,
     to_cell = ProvClusterListCell, zero_value = zero_list\<rparr>"

definition s3_cell :: "(go_cell, etcd_snapshot_s3) cell_type" where
  "s3_cell = \<lparr>from_cell = \<lambda>c. case c of S3Cell x \<Rightarrow> x | _ \<Rightarrow> zero_s3,
     to_cell = S3Cell, zero_value = zero_s3\<rparr>"

definition snapshot_spec_cell :: "(go_cell, h_snapshot_spec) cell_type" where
  "snapshot_spec_cell = \<lparr>from_cell = \<lambda>c. case c of SnapshotSpecCell x \<Rightarrow> x | _ \<Rightarrow> zero_snapshot_spec,
     to_cell = SnapshotSpecCell, zero_value = zero_snapshot_spec\<rparr>"

definition snapshot_error_cell :: "(go_cell, h_snapshot_error) cell_type" where
  "snapshot_error_cell = \<lparr>from_cell = \<lambda>c. case c of SnapshotErrorCell x \<Rightarrow> x | _ \<Rightarrow> zero_snapshot_error,
     to_cell = SnapshotErrorCell, zero_value = zero_snapshot_error\<rparr>"

definition snapshot_status_cell :: "(go_cell, h_snapshot_status) cell_type" where
  "snapshot_status_cell = \<lparr>from_cell = \<lambda>c. case c of SnapshotStatusCell x \<Rightarrow> x | _ \<Rightarrow> zero_snapshot_status,
     to_cell = SnapshotStatusCell, zero_value = zero_snapshot_status\<rparr>"

definition snapshot_file_cell :: "(go_cell, h_snapshot_file) cell_type" where
  "snapshot_file_cell = \<lparr>from_cell = \<lambda>c. case c of SnapshotFileCell x \<Rightarrow> x | _ \<Rightarrow> zero_snapshot_file,
     to_cell = SnapshotFileCell, zero_value = zero_snapshot_file\<rparr>"

definition snapshot_files_cell :: "(go_cell, h_snapshot_file list) cell_type" where
  "snapshot_files_cell = \<lparr>from_cell = \<lambda>c. case c of SnapshotFilesCell x \<Rightarrow> x | _ \<Rightarrow> [],
     to_cell = SnapshotFilesCell, zero_value = []\<rparr>"

definition snapshot_file_list_cell :: "(go_cell, h_list) cell_type" where
  "snapshot_file_list_cell = \<lparr>from_cell = \<lambda>c. case c of SnapshotFileListCell x \<Rightarrow> x | _ \<Rightarrow> zero_list,
     to_cell = SnapshotFileListCell, zero_value = zero_list\<rparr>"

lemmas cell_defs =
  map_cell_def
  strings_cell_def
  string_cell_def
  bool_cell_def
  int_cell_def
  time_cell_def
  owners_cell_def
  conditions_cell_def
  object_ref_cell_def
  object_reference_cell_def
  credentials_cell_def
  features_cell_def
  image_cell_def
  images_cell_def
  provider_cell_def
  providers_cell_def
  provider_list_cell_def
  workload_cell_def
  capi_spec_cell_def
  capi_status_cell_def
  capi_provider_cell_def
  capi_providers_cell_def
  capi_provider_list_cell_def
  config_spec_cell_def
  config_cell_def
  config_list_cell_def
  cluster_spec_cell_def
  cluster_status_cell_def
  cluster_cell_def
  clusters_cell_def
  cluster_list_cell_def
  token_spec_cell_def
  token_status_cell_def
  token_cell_def
  tokens_cell_def
  token_list_cell_def
  setting_cell_def
  settings_cell_def
  setting_list_cell_def
  rke_cell_def
  prov_spec_cell_def
  prov_status_cell_def
  prov_cluster_cell_def
  prov_clusters_cell_def
  prov_cluster_list_cell_def
  s3_cell_def
  snapshot_spec_cell_def
  snapshot_error_cell_def
  snapshot_status_cell_def
  snapshot_file_cell_def
  snapshot_files_cell_def
  snapshot_file_list_cell_def

lemma cells_lawful [simp, intro]:
  "cell_laws map_cell"
  "cell_laws strings_cell"
  "cell_laws string_cell"
  "cell_laws bool_cell"
  "cell_laws int_cell"
  "cell_laws time_cell"
  "cell_laws owners_cell"
  "cell_laws conditions_cell"
  "cell_laws object_ref_cell"
  "cell_laws object_reference_cell"
  "cell_laws credentials_cell"
  "cell_laws features_cell"
  "cell_laws image_cell"
  "cell_laws images_cell"
  "cell_laws provider_cell"
  "cell_laws providers_cell"
  "cell_laws provider_list_cell"
  "cell_laws workload_cell"
  "cell_laws capi_spec_cell"
  "cell_laws capi_status_cell"
  "cell_laws capi_provider_cell"
  "cell_laws capi_providers_cell"
  "cell_laws capi_provider_list_cell"
  "cell_laws config_spec_cell"
  "cell_laws config_cell"
  "cell_laws config_list_cell"
  "cell_laws cluster_spec_cell"
  "cell_laws cluster_status_cell"
  "cell_laws cluster_cell"
  "cell_laws clusters_cell"
  "cell_laws cluster_list_cell"
  "cell_laws token_spec_cell"
  "cell_laws token_status_cell"
  "cell_laws token_cell"
  "cell_laws tokens_cell"
  "cell_laws token_list_cell"
  "cell_laws setting_cell"
  "cell_laws settings_cell"
  "cell_laws setting_list_cell"
  "cell_laws rke_cell"
  "cell_laws prov_spec_cell"
  "cell_laws prov_status_cell"
  "cell_laws prov_cluster_cell"
  "cell_laws prov_clusters_cell"
  "cell_laws prov_cluster_list_cell"
  "cell_laws s3_cell"
  "cell_laws snapshot_spec_cell"
  "cell_laws snapshot_error_cell"
  "cell_laws snapshot_status_cell"
  "cell_laws snapshot_file_cell"
  "cell_laws snapshot_files_cell"
  "cell_laws snapshot_file_list_cell"
  by (simp_all add: cell_laws_def cell_defs)

end
