(* ===== verification/Api_Layout.thy ===== *)
theory Api_Layout
  imports Api_Memory
begin

text \<open>
  The layout of every struct of src/api: its view is the value that the rest of the
  development works with (for a type with a \<open>TypeMeta\<close>, together with it).
\<close>

definition opt_list :: "'a list option \<Rightarrow> 'a list" where
  "opt_list xs = (case xs of None \<Rightarrow> [] | Some ys \<Rightarrow> ys)"

section \<open>Structs of other modules\<close>

definition owner_layout :: "(go_cell, h_owner, owner_ref) layout" where
  "owner_layout = struct_of (\<lambda>x. (ho_controller x, ho_block_deletion x))
     (\<lambda>x (c, b). \<lparr>or_api_version = ho_api_version x, or_kind = ho_kind x, or_name = ho_name x,
        or_uid = ho_uid x, or_controller = (c = Some True), or_block_deletion = (b = Some True)\<rparr>)
     (beside (pointer_to bool_cell (flat id)) (pointer_to bool_cell (flat id)))"

definition meta_layout :: "(go_cell, h_meta, object_meta) layout" where
  "meta_layout = struct_of
     (\<lambda>x. ((((hm_labels x, hm_annotations x), hm_finalizers x), hm_deletion x), hm_owners x))
     (\<lambda>x ((((l, a), f), d), os). \<lparr>m_name = hm_name x, m_namespace = hm_namespace x,
        m_generate_name = hm_generate_name x, m_labels = l, m_annotations = a,
        m_finalizers = opt_list f, m_deletion = d, m_uid = hm_uid x,
        m_resource_version = hm_resource_version x, m_owners = opt_list os\<rparr>)
     (beside (beside (beside (beside (map_in map_cell) (map_in map_cell))
        (slice_of strings_cell (flat id))) (pointer_to time_cell (flat id)))
        (slice_of owners_cell owner_layout))"

definition list_meta_layout :: "(go_cell, h_list_meta, list_meta) layout" where
  "list_meta_layout = struct_of lm_remaining
     (\<lambda>x r. \<lparr>lm_resource_version = lm_resource_version x, lm_continue = lm_continue x, lm_remaining = r\<rparr>)
     (pointer_to int_cell (flat id))"

definition provider_spec_layout :: "(go_cell, h_provider_spec, provider_spec) layout" where
  "provider_spec_layout = struct_of (\<lambda>x. (hps_config_secret x, hps_additional_manifests x))
     (\<lambda>x (c, a). \<lparr>ps_version = hps_version x, ps_config_secret = c, ps_additional_manifests = a\<rparr>)
     (beside (pointer_to object_ref_cell (flat id)) (pointer_to object_ref_cell (flat id)))"

abbreviation conditions_layout :: "(go_cell, slice option, condition list option) layout" where
  "conditions_layout \<equiv> slice_of conditions_cell (flat id)"

definition provider_status_layout :: "(go_cell, h_provider_status, provider_status) layout" where
  "provider_status_layout = struct_of (\<lambda>x. (hpst_conditions x, hpst_installed_version x))
     (\<lambda>x (c, v). \<lparr>pst_conditions = opt_list c, pst_installed_version = v\<rparr>)
     (beside conditions_layout (pointer_to string_cell (flat id)))"

section \<open>src/api/v1alpha1\<close>

definition capi_spec_layout :: "(go_cell, h_capi_provider_spec, capi_provider_spec) layout" where
  "capi_spec_layout = struct_of
     (\<lambda>x. (((hcs_provider x, hcs_credentials x), hcs_features x), hcs_variables x))
     (\<lambda>x (((p, c), f), v). \<lparr>cps_provider = p, cps_name = hcs_name x, cps_type = hcs_type x,
        cps_credentials = c, cps_features = f, cps_variables = v, cps_auto_update = hcs_auto_update x\<rparr>)
     (beside (beside (beside provider_spec_layout (pointer_to credentials_cell (flat id)))
        (pointer_to features_cell (flat id))) (map_in map_cell))"

definition capi_status_layout :: "(go_cell, h_capi_provider_status, capi_provider_status) layout" where
  "capi_status_layout = struct_of (\<lambda>x. (hct_provider x, hct_variables x))
     (\<lambda>x (p, v). \<lparr>cpst_provider = p, cpst_phase = hct_phase x, cpst_variables = v, cpst_name = hct_name x\<rparr>)
     (beside provider_status_layout (map_in map_cell))"

definition capi_provider_layout :: "(go_cell, h_capi_provider, type_meta \<times> capi_provider) layout" where
  "capi_provider_layout = struct_of (\<lambda>x. ((hcp_meta x, hcp_spec x), hcp_status x))
     (\<lambda>x ((m, s), t). (hcp_type x, \<lparr>cp_meta = m, cp_spec = s, cp_status = t\<rparr>))
     (beside (beside meta_layout capi_spec_layout) capi_status_layout)"

definition config_spec_layout :: "(go_cell, h_config_spec, image_entry list option \<times> provider_entry list option) layout" where
  "config_spec_layout = struct_of (\<lambda>x. (hcf_images x, hcf_providers x)) (\<lambda>_ v. v)
     (beside (slice_of images_cell (flat id)) (slice_of providers_cell (flat id)))"

definition config_layout :: "(go_cell, h_config, type_meta \<times> clusterctl_config) layout" where
  "config_layout = struct_of (\<lambda>x. (hcfg_meta x, hcfg_spec x))
     (\<lambda>x (m, is, ps). (hcfg_type x, \<lparr>cfg_meta = m, cfg_images = opt_list is, cfg_providers = opt_list ps\<rparr>))
     (beside meta_layout config_spec_layout)"

text \<open>A list: its \<open>TypeMeta\<close>, its \<open>ListMeta\<close> and its items.\<close>

definition list_layout :: "(go_cell, 'a list) cell_type \<Rightarrow> (go_cell, 'a, 'v) layout \<Rightarrow>
    (go_cell, h_list, type_meta \<times> list_meta \<times> 'v list option) layout" where
  "list_layout t L = struct_of (\<lambda>x. (hl_meta x, hl_items x)) (\<lambda>x (m, is). (hl_type x, m, is))
     (beside list_meta_layout (slice_of t L))"

section \<open>src/api/rancher/management/v3\<close>

definition cluster_status_layout :: "(go_cell, h_cluster_status, condition list option) layout" where
  "cluster_status_layout = struct_of hst_conditions (\<lambda>_ c. c) conditions_layout"

definition cluster_layout :: "(go_cell, h_cluster, type_meta \<times> rancher_cluster) layout" where
  "cluster_layout = struct_of (\<lambda>x. ((hrc_meta x, hrc_spec x), hrc_status x))
     (\<lambda>x ((m, s), c). (hrc_type x, \<lparr>rc_meta = m, rc_spec = s, rc_conditions = opt_list c\<rparr>))
     (beside (beside meta_layout (flat id)) cluster_status_layout)"

definition token_layout :: "(go_cell, h_token, type_meta \<times> registration_token) layout" where
  "token_layout = struct_of (\<lambda>x. ((hrt_meta x, hrt_spec x), hrt_status x))
     (\<lambda>x ((m, s), t). (hrt_type x, \<lparr>rt_meta = m, rt_cluster_name = ts_cluster_name s,
        rt_manifest_url = tst_manifest_url t, rt_token_secret_name = tst_token_secret_name t\<rparr>))
     (beside (beside meta_layout (flat id)) (flat id))"

definition setting_layout :: "(go_cell, h_setting, type_meta \<times> setting) layout" where
  "setting_layout = struct_of hse_meta
     (\<lambda>x m. (hse_type x, \<lparr>set_meta = m, set_value = hse_value x, set_default = hse_default x,
        set_customized = hse_customized x, set_source = hse_source x\<rparr>))
     meta_layout"

section \<open>src/api/rancher/provisioning/v1\<close>

definition rke_layout :: "(go_cell, h_rke_config, rke_config) layout" where
  "rke_layout = struct_of infrastructure_ref (\<lambda>_ r. \<lparr>infrastructure_ref = r\<rparr>)
     (pointer_to object_reference_cell (flat id))"

definition prov_spec_layout :: "(go_cell, h_prov_spec, rke_config option) layout" where
  "prov_spec_layout = struct_of hpp_rke_config (\<lambda>_ r. r) (pointer_to rke_cell rke_layout)"

definition prov_status_layout :: "(go_cell, h_prov_status, string \<times> bool \<times> bool \<times> condition list option) layout" where
  "prov_status_layout = struct_of hpt_conditions
     (\<lambda>x c. (hpt_cluster_name x, hpt_agent_deployed x, hpt_ready x, c)) conditions_layout"

definition prov_cluster_layout :: "(go_cell, h_prov_cluster, type_meta \<times> prov_cluster \<times> rke_config option) layout" where
  "prov_cluster_layout = struct_of (\<lambda>x. ((hpc_meta x, hpc_spec x), hpc_status x))
     (\<lambda>x ((m, s), n, a, r, c). (hpc_type x,
        \<lparr>pc_meta = m,
         pc_infrastructure_ref = Option.bind s (\<lambda>k. map_option oref_name (infrastructure_ref k)),
         pc_cluster_name = n, pc_agent_deployed = a, pc_ready = r, pc_conditions = opt_list c\<rparr>, s))
     (beside (beside meta_layout prov_spec_layout) prov_status_layout)"

section \<open>src/api/rancher/k3s/v1\<close>

definition snapshot_spec_layout :: "(go_cell, h_snapshot_spec, snapshot_spec) layout" where
  "snapshot_spec_layout = struct_of (\<lambda>x. (snapshot_metadata x, snapshot_s3 x))
     (\<lambda>x (m, s). \<lparr>snapshot_name = snapshot_name x, node_name = node_name x, location = location x,
        snapshot_metadata = m, snapshot_s3 = s\<rparr>)
     (beside (map_in map_cell) (pointer_to s3_cell (flat id)))"

definition snapshot_error_layout :: "(go_cell, h_snapshot_error, snapshot_error) layout" where
  "snapshot_error_layout = struct_of (\<lambda>x. (error_time x, error_message x))
     (\<lambda>_ (t, s). \<lparr>error_time = t, error_message = s\<rparr>)
     (beside (pointer_to time_cell (flat id)) (pointer_to string_cell (flat id)))"

definition snapshot_status_layout :: "(go_cell, h_snapshot_status, snapshot_status) layout" where
  "snapshot_status_layout = struct_of (\<lambda>x. ((creation_time x, ready_to_use x), snapshot_error x))
     (\<lambda>_ ((t, r), e). \<lparr>creation_time = t, ready_to_use = r, snapshot_error = e\<rparr>)
     (beside (beside (pointer_to time_cell (flat id)) (pointer_to bool_cell (flat id)))
        (pointer_to snapshot_error_cell snapshot_error_layout))"

definition snapshot_file_layout :: "(go_cell, h_snapshot_file, snapshot_file) layout" where
  "snapshot_file_layout = struct_of (\<lambda>x. ((snap_meta x, snap_spec x), snap_status x))
     (\<lambda>x ((m, s), t). \<lparr>snap_type = snap_type x, snap_meta = m, snap_spec = s, snap_status = t\<rparr>)
     (beside (beside meta_layout snapshot_spec_layout) snapshot_status_layout)"

section \<open>All of them keep the law\<close>

interpretation owner: layout_laws owner_layout
  by (simp add: owner_layout_def layout_intros)

interpretation meta: layout_laws meta_layout
  by (simp add: meta_layout_def layout_intros owner.layout_laws_axioms)

interpretation list_meta: layout_laws list_meta_layout
  by (simp add: list_meta_layout_def layout_intros)

interpretation provider_spec: layout_laws provider_spec_layout
  by (simp add: provider_spec_layout_def layout_intros)

interpretation provider_status: layout_laws provider_status_layout
  by (simp add: provider_status_layout_def layout_intros)

interpretation capi_spec: layout_laws capi_spec_layout
  by (simp add: capi_spec_layout_def layout_intros provider_spec.layout_laws_axioms)

interpretation capi_status: layout_laws capi_status_layout
  by (simp add: capi_status_layout_def layout_intros provider_status.layout_laws_axioms)

interpretation capi_provider: layout_laws capi_provider_layout
  by (simp add: capi_provider_layout_def layout_intros meta.layout_laws_axioms
      capi_spec.layout_laws_axioms capi_status.layout_laws_axioms)

interpretation config_spec: layout_laws config_spec_layout
  by (simp add: config_spec_layout_def layout_intros)

interpretation config: layout_laws config_layout
  by (simp add: config_layout_def layout_intros meta.layout_laws_axioms config_spec.layout_laws_axioms)

interpretation cluster_status: layout_laws cluster_status_layout
  by (simp add: cluster_status_layout_def layout_intros)

interpretation cluster: layout_laws cluster_layout
  by (simp add: cluster_layout_def layout_intros meta.layout_laws_axioms cluster_status.layout_laws_axioms)

interpretation token: layout_laws token_layout
  by (simp add: token_layout_def layout_intros meta.layout_laws_axioms)

interpretation setting: layout_laws setting_layout
  by (simp add: setting_layout_def layout_intros meta.layout_laws_axioms)

interpretation rke: layout_laws rke_layout
  by (simp add: rke_layout_def layout_intros)

interpretation prov_spec: layout_laws prov_spec_layout
  by (simp add: prov_spec_layout_def layout_intros rke.layout_laws_axioms)

interpretation prov_status: layout_laws prov_status_layout
  by (simp add: prov_status_layout_def layout_intros)

interpretation prov_cluster: layout_laws prov_cluster_layout
  by (simp add: prov_cluster_layout_def layout_intros meta.layout_laws_axioms
      prov_spec.layout_laws_axioms prov_status.layout_laws_axioms)

interpretation snapshot_spec: layout_laws snapshot_spec_layout
  by (simp add: snapshot_spec_layout_def layout_intros)

interpretation snapshot_error: layout_laws snapshot_error_layout
  by (simp add: snapshot_error_layout_def layout_intros)

interpretation snapshot_status: layout_laws snapshot_status_layout
  by (simp add: snapshot_status_layout_def layout_intros snapshot_error.layout_laws_axioms)

interpretation snapshot_file: layout_laws snapshot_file_layout
  by (simp add: snapshot_file_layout_def layout_intros meta.layout_laws_axioms
      snapshot_spec.layout_laws_axioms snapshot_status.layout_laws_axioms)

lemma list_laws: "layout_laws L \<Longrightarrow> layout_laws (list_layout t L)"
  by (simp add: list_layout_def layout_intros list_meta.layout_laws_axioms)

lemmas api_laws = owner.layout_laws_axioms meta.layout_laws_axioms list_meta.layout_laws_axioms
  provider_spec.layout_laws_axioms provider_status.layout_laws_axioms
  capi_spec.layout_laws_axioms capi_status.layout_laws_axioms capi_provider.layout_laws_axioms
  config_spec.layout_laws_axioms config.layout_laws_axioms
  cluster_status.layout_laws_axioms cluster.layout_laws_axioms token.layout_laws_axioms
  setting.layout_laws_axioms rke.layout_laws_axioms prov_spec.layout_laws_axioms
  prov_status.layout_laws_axioms prov_cluster.layout_laws_axioms
  snapshot_spec.layout_laws_axioms snapshot_error.layout_laws_axioms
  snapshot_status.layout_laws_axioms snapshot_file.layout_laws_axioms

end
