(* ===== verification/Deep_Copy.thy ===== *)
theory Deep_Copy
  imports Api_Layout
begin

text \<open>
  The generated deep copies of src/api (zz_generated.deepcopy.go of v1alpha1, management/v3,
  provisioning/v1 and k3s/v1), statement by statement, on the memory of Memory.  Where the Go
  names of two packages are the same, the definition has the package as a prefix.

  \<open>foreign\<close> has the deep copies of the imported modules.
\<close>

record foreign =
  ObjectMeta_DeepCopyInto :: "(go_cell, h_meta) ptr \<Rightarrow> (go_cell, h_meta) ptr \<Rightarrow> (go_cell memory, unit) state"
  ListMeta_DeepCopyInto :: "(go_cell, h_list_meta) ptr \<Rightarrow> (go_cell, h_list_meta) ptr \<Rightarrow> (go_cell memory, unit) state"
  ProviderSpec_DeepCopyInto :: "(go_cell, h_provider_spec) ptr \<Rightarrow> (go_cell, h_provider_spec) ptr \<Rightarrow> (go_cell memory, unit) state"
  ProviderStatus_DeepCopyInto :: "(go_cell, h_provider_status) ptr \<Rightarrow> (go_cell, h_provider_status) ptr \<Rightarrow> (go_cell memory, unit) state"
  Condition_DeepCopyInto :: "(go_cell, condition) ptr \<Rightarrow> (go_cell, condition) ptr \<Rightarrow> (go_cell memory, unit) state"
  Time_DeepCopy :: "(go_cell, nat) ptr option \<Rightarrow> (go_cell memory, addr option) state"

text \<open>The documentation of all of them: they make deep copies.\<close>

definition documented :: "foreign \<Rightarrow> bool" where
  "documented F \<longleftrightarrow> copies meta_layout (ObjectMeta_DeepCopyInto F) \<and>
     copies list_meta_layout (ListMeta_DeepCopyInto F) \<and>
     copies provider_spec_layout (ProviderSpec_DeepCopyInto F) \<and>
     copies provider_status_layout (ProviderStatus_DeepCopyInto F) \<and>
     copies (flat id) (Condition_DeepCopyInto F) \<and>
     deep_copies time_cell (flat id) (Time_DeepCopy F)"

text \<open>The dynamic types of \<open>runtime.Object\<close> values.\<close>

datatype go_type =
    TCAPIProvider | TCAPIProviderList | TClusterctlConfig | TClusterctlConfigList
  | TCluster | TClusterList | TClusterRegistrationToken | TClusterRegistrationTokenList
  | TSetting | TSettingList | TProvCluster | TProvClusterList
  | TETCDSnapshotFile | TETCDSnapshotFileList

type_synonym 'a into = "(go_cell, 'a) ptr \<Rightarrow> (go_cell, 'a) ptr \<Rightarrow> (go_cell memory, unit) state"
type_synonym 'a copier = "(go_cell, 'a) ptr option \<Rightarrow> (go_cell memory, addr option) state"
type_synonym 'a object_copier = "(go_cell, 'a) ptr option \<Rightarrow> (go_cell memory, (go_type \<times> addr) option) state"

section \<open>src/api/v1alpha1\<close>

definition Credentials_DeepCopyInto :: "credentials into" where
  "Credentials_DeepCopyInto src dst = assign src dst"

definition Credentials_DeepCopy :: "credentials copier" where
  "Credentials_DeepCopy = deep_copy credentials_cell Credentials_DeepCopyInto"

definition Features_DeepCopyInto :: "features into" where
  "Features_DeepCopyInto src dst = assign src dst"

definition Features_DeepCopy :: "features copier" where
  "Features_DeepCopy = deep_copy features_cell Features_DeepCopyInto"

definition Image_DeepCopyInto :: "image_entry into" where
  "Image_DeepCopyInto src dst = assign src dst"

definition Image_DeepCopy :: "image_entry copier" where
  "Image_DeepCopy = deep_copy image_cell Image_DeepCopyInto"

definition Provider_DeepCopyInto :: "provider_entry into" where
  "Provider_DeepCopyInto src dst = assign src dst"

definition Provider_DeepCopy :: "provider_entry copier" where
  "Provider_DeepCopy = deep_copy provider_cell Provider_DeepCopyInto"

definition WorkloadIdentityRef_DeepCopyInto :: "workload_identity_ref into" where
  "WorkloadIdentityRef_DeepCopyInto src dst = assign src dst"

definition WorkloadIdentityRef_DeepCopy :: "workload_identity_ref copier" where
  "WorkloadIdentityRef_DeepCopy = deep_copy workload_cell WorkloadIdentityRef_DeepCopyInto"

text \<open>
  The receiver of \<open>ProviderList.DeepCopyInto\<close> is a slice, not a pointer: \<open>in := &in\<close>
  makes it a variable of its own.  \<open>make\<close> is done for a nil receiver as well.
\<close>

definition ProviderList_DeepCopyInto :: "slice option \<Rightarrow> (go_cell, slice option) ptr \<Rightarrow> (go_cell memory, unit) state" where
  "ProviderList_DeepCopyInto in' out = do {
     d \<leftarrow> make_slice providers_cell zero_provider (slice_len in');
     store_at out (Some d);
     r \<leftarrow> load out;
     case (r, in') of
       (Some d, Some s) \<Rightarrow> copy_elements providers_cell d s
     | _ \<Rightarrow> ret () }"

definition ProviderList_DeepCopy :: "slice option \<Rightarrow> (go_cell memory, slice option) state" where
  "ProviderList_DeepCopy in' =
     (if in' = None then ret None
      else do {
        out \<leftarrow> new_cell provider_list_cell;
        ProviderList_DeepCopyInto in' (deref provider_list_cell out);
        load (deref provider_list_cell out) })"

definition CAPIProviderSpec_DeepCopyInto :: "foreign \<Rightarrow> h_capi_provider_spec into" where
  "CAPIProviderSpec_DeepCopyInto F src dst = do {
     assign src dst;
     ProviderSpec_DeepCopyInto F
        (field hcs_provider hcs_provider_update src) (field hcs_provider hcs_provider_update dst);
     copy_pointer credentials_cell
        (field hcs_credentials hcs_credentials_update src) (field hcs_credentials hcs_credentials_update dst);
     copy_pointer features_cell
        (field hcs_features hcs_features_update src) (field hcs_features hcs_features_update dst);
     copy_map map_cell
        (field hcs_variables hcs_variables_update src) (field hcs_variables hcs_variables_update dst) }"

definition CAPIProviderSpec_DeepCopy :: "foreign \<Rightarrow> h_capi_provider_spec copier" where
  "CAPIProviderSpec_DeepCopy F = deep_copy capi_spec_cell (CAPIProviderSpec_DeepCopyInto F)"

definition CAPIProviderStatus_DeepCopyInto :: "foreign \<Rightarrow> h_capi_provider_status into" where
  "CAPIProviderStatus_DeepCopyInto F src dst = do {
     assign src dst;
     ProviderStatus_DeepCopyInto F
        (field hct_provider hct_provider_update src) (field hct_provider hct_provider_update dst);
     copy_map map_cell
        (field hct_variables hct_variables_update src) (field hct_variables hct_variables_update dst) }"

definition CAPIProviderStatus_DeepCopy :: "foreign \<Rightarrow> h_capi_provider_status copier" where
  "CAPIProviderStatus_DeepCopy F = deep_copy capi_status_cell (CAPIProviderStatus_DeepCopyInto F)"

definition CAPIProvider_DeepCopyInto :: "foreign \<Rightarrow> h_capi_provider into" where
  "CAPIProvider_DeepCopyInto F src dst = do {
     assign src dst;
     assign (field hcp_type hcp_type_update src) (field hcp_type hcp_type_update dst);
     ObjectMeta_DeepCopyInto F
        (field hcp_meta hcp_meta_update src) (field hcp_meta hcp_meta_update dst);
     CAPIProviderSpec_DeepCopyInto F
        (field hcp_spec hcp_spec_update src) (field hcp_spec hcp_spec_update dst);
     CAPIProviderStatus_DeepCopyInto F
        (field hcp_status hcp_status_update src) (field hcp_status hcp_status_update dst) }"

definition CAPIProvider_DeepCopy :: "foreign \<Rightarrow> h_capi_provider copier" where
  "CAPIProvider_DeepCopy F = deep_copy capi_provider_cell (CAPIProvider_DeepCopyInto F)"

definition CAPIProvider_DeepCopyObject :: "foreign \<Rightarrow> h_capi_provider object_copier" where
  "CAPIProvider_DeepCopyObject F = deep_copy_object TCAPIProvider (CAPIProvider_DeepCopy F)"

definition CAPIProviderList_DeepCopyInto :: "foreign \<Rightarrow> h_list into" where
  "CAPIProviderList_DeepCopyInto F src dst = do {
     assign src dst;
     assign (field hl_type hl_type_update src) (field hl_type hl_type_update dst);
     ListMeta_DeepCopyInto F
        (field hl_meta hl_meta_update src) (field hl_meta hl_meta_update dst);
     copy_items capi_providers_cell zero_capi_provider (CAPIProvider_DeepCopyInto F)
        (field hl_items hl_items_update src) (field hl_items hl_items_update dst) }"

definition CAPIProviderList_DeepCopy :: "foreign \<Rightarrow> h_list copier" where
  "CAPIProviderList_DeepCopy F = deep_copy capi_provider_list_cell (CAPIProviderList_DeepCopyInto F)"

definition CAPIProviderList_DeepCopyObject :: "foreign \<Rightarrow> h_list object_copier" where
  "CAPIProviderList_DeepCopyObject F = deep_copy_object TCAPIProviderList (CAPIProviderList_DeepCopy F)"

definition ClusterctlConfigSpec_DeepCopyInto :: "h_config_spec into" where
  "ClusterctlConfigSpec_DeepCopyInto src dst = do {
     assign src dst;
     copy_slice images_cell zero_image
        (field hcf_images hcf_images_update src) (field hcf_images hcf_images_update dst);
     copy_slice providers_cell zero_provider
        (field hcf_providers hcf_providers_update src) (field hcf_providers hcf_providers_update dst) }"

definition ClusterctlConfigSpec_DeepCopy :: "h_config_spec copier" where
  "ClusterctlConfigSpec_DeepCopy = deep_copy config_spec_cell ClusterctlConfigSpec_DeepCopyInto"

definition ClusterctlConfig_DeepCopyInto :: "foreign \<Rightarrow> h_config into" where
  "ClusterctlConfig_DeepCopyInto F src dst = do {
     assign src dst;
     assign (field hcfg_type hcfg_type_update src) (field hcfg_type hcfg_type_update dst);
     ObjectMeta_DeepCopyInto F
        (field hcfg_meta hcfg_meta_update src) (field hcfg_meta hcfg_meta_update dst);
     ClusterctlConfigSpec_DeepCopyInto
        (field hcfg_spec hcfg_spec_update src) (field hcfg_spec hcfg_spec_update dst) }"

definition ClusterctlConfig_DeepCopy :: "foreign \<Rightarrow> h_config copier" where
  "ClusterctlConfig_DeepCopy F = deep_copy config_cell (ClusterctlConfig_DeepCopyInto F)"

definition ClusterctlConfig_DeepCopyObject :: "foreign \<Rightarrow> h_config object_copier" where
  "ClusterctlConfig_DeepCopyObject F = deep_copy_object TClusterctlConfig (ClusterctlConfig_DeepCopy F)"

definition ClusterctlConfigList_DeepCopyInto :: "foreign \<Rightarrow> h_list into" where
  "ClusterctlConfigList_DeepCopyInto F src dst = do {
     assign src dst;
     assign (field hl_type hl_type_update src) (field hl_type hl_type_update dst);
     ListMeta_DeepCopyInto F
        (field hl_meta hl_meta_update src) (field hl_meta hl_meta_update dst);
     copy_items capi_providers_cell zero_capi_provider (CAPIProvider_DeepCopyInto F)
        (field hl_items hl_items_update src) (field hl_items hl_items_update dst) }"

definition ClusterctlConfigList_DeepCopy :: "foreign \<Rightarrow> h_list copier" where
  "ClusterctlConfigList_DeepCopy F = deep_copy config_list_cell (ClusterctlConfigList_DeepCopyInto F)"

definition ClusterctlConfigList_DeepCopyObject :: "foreign \<Rightarrow> h_list object_copier" where
  "ClusterctlConfigList_DeepCopyObject F = deep_copy_object TClusterctlConfigList (ClusterctlConfigList_DeepCopy F)"

section \<open>src/api/rancher/management/v3\<close>

definition v3_ClusterSpec_DeepCopyInto :: "cluster_spec into" where
  "v3_ClusterSpec_DeepCopyInto src dst = assign src dst"

definition v3_ClusterSpec_DeepCopy :: "cluster_spec copier" where
  "v3_ClusterSpec_DeepCopy = deep_copy cluster_spec_cell v3_ClusterSpec_DeepCopyInto"

definition v3_ClusterStatus_DeepCopyInto :: "foreign \<Rightarrow> h_cluster_status into" where
  "v3_ClusterStatus_DeepCopyInto F src dst = do {
     assign src dst;
     copy_items conditions_cell zero_condition (Condition_DeepCopyInto F)
        (field hst_conditions hst_conditions_update src) (field hst_conditions hst_conditions_update dst) }"

definition v3_ClusterStatus_DeepCopy :: "foreign \<Rightarrow> h_cluster_status copier" where
  "v3_ClusterStatus_DeepCopy F = deep_copy cluster_status_cell (v3_ClusterStatus_DeepCopyInto F)"

definition v3_Cluster_DeepCopyInto :: "foreign \<Rightarrow> h_cluster into" where
  "v3_Cluster_DeepCopyInto F src dst = do {
     assign src dst;
     assign (field hrc_type hrc_type_update src) (field hrc_type hrc_type_update dst);
     ObjectMeta_DeepCopyInto F
        (field hrc_meta hrc_meta_update src) (field hrc_meta hrc_meta_update dst);
     assign (field hrc_spec hrc_spec_update src) (field hrc_spec hrc_spec_update dst);
     v3_ClusterStatus_DeepCopyInto F
        (field hrc_status hrc_status_update src) (field hrc_status hrc_status_update dst) }"

definition v3_Cluster_DeepCopy :: "foreign \<Rightarrow> h_cluster copier" where
  "v3_Cluster_DeepCopy F = deep_copy cluster_cell (v3_Cluster_DeepCopyInto F)"

definition v3_Cluster_DeepCopyObject :: "foreign \<Rightarrow> h_cluster object_copier" where
  "v3_Cluster_DeepCopyObject F = deep_copy_object TCluster (v3_Cluster_DeepCopy F)"

definition v3_ClusterList_DeepCopyInto :: "foreign \<Rightarrow> h_list into" where
  "v3_ClusterList_DeepCopyInto F src dst = do {
     assign src dst;
     assign (field hl_type hl_type_update src) (field hl_type hl_type_update dst);
     ListMeta_DeepCopyInto F
        (field hl_meta hl_meta_update src) (field hl_meta hl_meta_update dst);
     copy_items clusters_cell zero_cluster (v3_Cluster_DeepCopyInto F)
        (field hl_items hl_items_update src) (field hl_items hl_items_update dst) }"

definition v3_ClusterList_DeepCopy :: "foreign \<Rightarrow> h_list copier" where
  "v3_ClusterList_DeepCopy F = deep_copy cluster_list_cell (v3_ClusterList_DeepCopyInto F)"

definition v3_ClusterList_DeepCopyObject :: "foreign \<Rightarrow> h_list object_copier" where
  "v3_ClusterList_DeepCopyObject F = deep_copy_object TClusterList (v3_ClusterList_DeepCopy F)"

definition ClusterRegistrationTokenSpec_DeepCopyInto :: "token_spec into" where
  "ClusterRegistrationTokenSpec_DeepCopyInto src dst = assign src dst"

definition ClusterRegistrationTokenSpec_DeepCopy :: "token_spec copier" where
  "ClusterRegistrationTokenSpec_DeepCopy = deep_copy token_spec_cell ClusterRegistrationTokenSpec_DeepCopyInto"

definition ClusterRegistrationTokenStatus_DeepCopyInto :: "token_status into" where
  "ClusterRegistrationTokenStatus_DeepCopyInto src dst = assign src dst"

definition ClusterRegistrationTokenStatus_DeepCopy :: "token_status copier" where
  "ClusterRegistrationTokenStatus_DeepCopy = deep_copy token_status_cell ClusterRegistrationTokenStatus_DeepCopyInto"

definition ClusterRegistrationToken_DeepCopyInto :: "foreign \<Rightarrow> h_token into" where
  "ClusterRegistrationToken_DeepCopyInto F src dst = do {
     assign src dst;
     assign (field hrt_type hrt_type_update src) (field hrt_type hrt_type_update dst);
     ObjectMeta_DeepCopyInto F
        (field hrt_meta hrt_meta_update src) (field hrt_meta hrt_meta_update dst);
     assign (field hrt_spec hrt_spec_update src) (field hrt_spec hrt_spec_update dst);
     assign (field hrt_status hrt_status_update src) (field hrt_status hrt_status_update dst) }"

definition ClusterRegistrationToken_DeepCopy :: "foreign \<Rightarrow> h_token copier" where
  "ClusterRegistrationToken_DeepCopy F = deep_copy token_cell (ClusterRegistrationToken_DeepCopyInto F)"

definition ClusterRegistrationToken_DeepCopyObject :: "foreign \<Rightarrow> h_token object_copier" where
  "ClusterRegistrationToken_DeepCopyObject F = deep_copy_object TClusterRegistrationToken (ClusterRegistrationToken_DeepCopy F)"

definition ClusterRegistrationTokenList_DeepCopyInto :: "foreign \<Rightarrow> h_list into" where
  "ClusterRegistrationTokenList_DeepCopyInto F src dst = do {
     assign src dst;
     assign (field hl_type hl_type_update src) (field hl_type hl_type_update dst);
     ListMeta_DeepCopyInto F
        (field hl_meta hl_meta_update src) (field hl_meta hl_meta_update dst);
     copy_items tokens_cell zero_token (ClusterRegistrationToken_DeepCopyInto F)
        (field hl_items hl_items_update src) (field hl_items hl_items_update dst) }"

definition ClusterRegistrationTokenList_DeepCopy :: "foreign \<Rightarrow> h_list copier" where
  "ClusterRegistrationTokenList_DeepCopy F = deep_copy token_list_cell (ClusterRegistrationTokenList_DeepCopyInto F)"

definition ClusterRegistrationTokenList_DeepCopyObject :: "foreign \<Rightarrow> h_list object_copier" where
  "ClusterRegistrationTokenList_DeepCopyObject F = deep_copy_object TClusterRegistrationTokenList (ClusterRegistrationTokenList_DeepCopy F)"

definition Setting_DeepCopyInto :: "foreign \<Rightarrow> h_setting into" where
  "Setting_DeepCopyInto F src dst = do {
     assign src dst;
     assign (field hse_type hse_type_update src) (field hse_type hse_type_update dst);
     ObjectMeta_DeepCopyInto F
        (field hse_meta hse_meta_update src) (field hse_meta hse_meta_update dst) }"

definition Setting_DeepCopy :: "foreign \<Rightarrow> h_setting copier" where
  "Setting_DeepCopy F = deep_copy setting_cell (Setting_DeepCopyInto F)"

definition Setting_DeepCopyObject :: "foreign \<Rightarrow> h_setting object_copier" where
  "Setting_DeepCopyObject F = deep_copy_object TSetting (Setting_DeepCopy F)"

definition SettingList_DeepCopyInto :: "foreign \<Rightarrow> h_list into" where
  "SettingList_DeepCopyInto F src dst = do {
     assign src dst;
     assign (field hl_type hl_type_update src) (field hl_type hl_type_update dst);
     ListMeta_DeepCopyInto F
        (field hl_meta hl_meta_update src) (field hl_meta hl_meta_update dst);
     copy_items settings_cell zero_setting (Setting_DeepCopyInto F)
        (field hl_items hl_items_update src) (field hl_items hl_items_update dst) }"

definition SettingList_DeepCopy :: "foreign \<Rightarrow> h_list copier" where
  "SettingList_DeepCopy F = deep_copy setting_list_cell (SettingList_DeepCopyInto F)"

definition SettingList_DeepCopyObject :: "foreign \<Rightarrow> h_list object_copier" where
  "SettingList_DeepCopyObject F = deep_copy_object TSettingList (SettingList_DeepCopy F)"

section \<open>src/api/rancher/provisioning/v1\<close>

definition RKEConfig_DeepCopyInto :: "h_rke_config into" where
  "RKEConfig_DeepCopyInto src dst = do {
     assign src dst;
     copy_pointer object_reference_cell
        (field infrastructure_ref infrastructure_ref_update src) (field infrastructure_ref infrastructure_ref_update dst) }"

definition RKEConfig_DeepCopy :: "h_rke_config copier" where
  "RKEConfig_DeepCopy = deep_copy rke_cell RKEConfig_DeepCopyInto"

definition prov_ClusterSpec_DeepCopyInto :: "h_prov_spec into" where
  "prov_ClusterSpec_DeepCopyInto src dst = do {
     assign src dst;
     copy_pointer_into rke_cell RKEConfig_DeepCopyInto
        (field hpp_rke_config hpp_rke_config_update src) (field hpp_rke_config hpp_rke_config_update dst) }"

definition prov_ClusterSpec_DeepCopy :: "h_prov_spec copier" where
  "prov_ClusterSpec_DeepCopy = deep_copy prov_spec_cell prov_ClusterSpec_DeepCopyInto"

definition prov_ClusterStatus_DeepCopyInto :: "foreign \<Rightarrow> h_prov_status into" where
  "prov_ClusterStatus_DeepCopyInto F src dst = do {
     assign src dst;
     copy_items conditions_cell zero_condition (Condition_DeepCopyInto F)
        (field hpt_conditions hpt_conditions_update src) (field hpt_conditions hpt_conditions_update dst) }"

definition prov_ClusterStatus_DeepCopy :: "foreign \<Rightarrow> h_prov_status copier" where
  "prov_ClusterStatus_DeepCopy F = deep_copy prov_status_cell (prov_ClusterStatus_DeepCopyInto F)"

definition prov_Cluster_DeepCopyInto :: "foreign \<Rightarrow> h_prov_cluster into" where
  "prov_Cluster_DeepCopyInto F src dst = do {
     assign src dst;
     assign (field hpc_type hpc_type_update src) (field hpc_type hpc_type_update dst);
     ObjectMeta_DeepCopyInto F
        (field hpc_meta hpc_meta_update src) (field hpc_meta hpc_meta_update dst);
     prov_ClusterSpec_DeepCopyInto
        (field hpc_spec hpc_spec_update src) (field hpc_spec hpc_spec_update dst);
     prov_ClusterStatus_DeepCopyInto F
        (field hpc_status hpc_status_update src) (field hpc_status hpc_status_update dst) }"

definition prov_Cluster_DeepCopy :: "foreign \<Rightarrow> h_prov_cluster copier" where
  "prov_Cluster_DeepCopy F = deep_copy prov_cluster_cell (prov_Cluster_DeepCopyInto F)"

definition prov_Cluster_DeepCopyObject :: "foreign \<Rightarrow> h_prov_cluster object_copier" where
  "prov_Cluster_DeepCopyObject F = deep_copy_object TProvCluster (prov_Cluster_DeepCopy F)"

definition prov_ClusterList_DeepCopyInto :: "foreign \<Rightarrow> h_list into" where
  "prov_ClusterList_DeepCopyInto F src dst = do {
     assign src dst;
     assign (field hl_type hl_type_update src) (field hl_type hl_type_update dst);
     ListMeta_DeepCopyInto F
        (field hl_meta hl_meta_update src) (field hl_meta hl_meta_update dst);
     copy_items prov_clusters_cell zero_prov_cluster (prov_Cluster_DeepCopyInto F)
        (field hl_items hl_items_update src) (field hl_items hl_items_update dst) }"

definition prov_ClusterList_DeepCopy :: "foreign \<Rightarrow> h_list copier" where
  "prov_ClusterList_DeepCopy F = deep_copy prov_cluster_list_cell (prov_ClusterList_DeepCopyInto F)"

definition prov_ClusterList_DeepCopyObject :: "foreign \<Rightarrow> h_list object_copier" where
  "prov_ClusterList_DeepCopyObject F = deep_copy_object TProvClusterList (prov_ClusterList_DeepCopy F)"

section \<open>src/api/rancher/k3s/v1\<close>

definition ETCDSnapshotError_DeepCopyInto :: "foreign \<Rightarrow> h_snapshot_error into" where
  "ETCDSnapshotError_DeepCopyInto F src dst = do {
     assign src dst;
     copy_pointer_by time_cell (Time_DeepCopy F)
        (field error_time error_time_update src) (field error_time error_time_update dst);
     copy_pointer string_cell
        (field error_message error_message_update src) (field error_message error_message_update dst) }"

definition ETCDSnapshotError_DeepCopy :: "foreign \<Rightarrow> h_snapshot_error copier" where
  "ETCDSnapshotError_DeepCopy F = deep_copy snapshot_error_cell (ETCDSnapshotError_DeepCopyInto F)"

definition ETCDSnapshotS3_DeepCopyInto :: "etcd_snapshot_s3 into" where
  "ETCDSnapshotS3_DeepCopyInto src dst = assign src dst"

definition ETCDSnapshotS3_DeepCopy :: "etcd_snapshot_s3 copier" where
  "ETCDSnapshotS3_DeepCopy = deep_copy s3_cell ETCDSnapshotS3_DeepCopyInto"

definition ETCDSnapshotSpec_DeepCopyInto :: "h_snapshot_spec into" where
  "ETCDSnapshotSpec_DeepCopyInto src dst = do {
     assign src dst;
     copy_map map_cell
        (field snapshot_metadata snapshot_metadata_update src) (field snapshot_metadata snapshot_metadata_update dst);
     copy_pointer s3_cell
        (field snapshot_s3 snapshot_s3_update src) (field snapshot_s3 snapshot_s3_update dst) }"

definition ETCDSnapshotSpec_DeepCopy :: "h_snapshot_spec copier" where
  "ETCDSnapshotSpec_DeepCopy = deep_copy snapshot_spec_cell ETCDSnapshotSpec_DeepCopyInto"

definition ETCDSnapshotStatus_DeepCopyInto :: "foreign \<Rightarrow> h_snapshot_status into" where
  "ETCDSnapshotStatus_DeepCopyInto F src dst = do {
     assign src dst;
     copy_pointer_by time_cell (Time_DeepCopy F)
        (field creation_time creation_time_update src) (field creation_time creation_time_update dst);
     copy_pointer bool_cell
        (field ready_to_use ready_to_use_update src) (field ready_to_use ready_to_use_update dst);
     copy_pointer_into snapshot_error_cell (ETCDSnapshotError_DeepCopyInto F)
        (field snapshot_error snapshot_error_update src) (field snapshot_error snapshot_error_update dst) }"

definition ETCDSnapshotStatus_DeepCopy :: "foreign \<Rightarrow> h_snapshot_status copier" where
  "ETCDSnapshotStatus_DeepCopy F = deep_copy snapshot_status_cell (ETCDSnapshotStatus_DeepCopyInto F)"

definition ETCDSnapshotFile_DeepCopyInto :: "foreign \<Rightarrow> h_snapshot_file into" where
  "ETCDSnapshotFile_DeepCopyInto F src dst = do {
     assign src dst;
     assign (field snap_type snap_type_update src) (field snap_type snap_type_update dst);
     ObjectMeta_DeepCopyInto F
        (field snap_meta snap_meta_update src) (field snap_meta snap_meta_update dst);
     ETCDSnapshotSpec_DeepCopyInto
        (field snap_spec snap_spec_update src) (field snap_spec snap_spec_update dst);
     ETCDSnapshotStatus_DeepCopyInto F
        (field snap_status snap_status_update src) (field snap_status snap_status_update dst) }"

definition ETCDSnapshotFile_DeepCopy :: "foreign \<Rightarrow> h_snapshot_file copier" where
  "ETCDSnapshotFile_DeepCopy F = deep_copy snapshot_file_cell (ETCDSnapshotFile_DeepCopyInto F)"

definition ETCDSnapshotFile_DeepCopyObject :: "foreign \<Rightarrow> h_snapshot_file object_copier" where
  "ETCDSnapshotFile_DeepCopyObject F = deep_copy_object TETCDSnapshotFile (ETCDSnapshotFile_DeepCopy F)"

definition ETCDSnapshotFileList_DeepCopyInto :: "foreign \<Rightarrow> h_list into" where
  "ETCDSnapshotFileList_DeepCopyInto F src dst = do {
     assign src dst;
     assign (field hl_type hl_type_update src) (field hl_type hl_type_update dst);
     ListMeta_DeepCopyInto F
        (field hl_meta hl_meta_update src) (field hl_meta hl_meta_update dst);
     copy_items snapshot_files_cell zero_snapshot_file (ETCDSnapshotFile_DeepCopyInto F)
        (field hl_items hl_items_update src) (field hl_items hl_items_update dst) }"

definition ETCDSnapshotFileList_DeepCopy :: "foreign \<Rightarrow> h_list copier" where
  "ETCDSnapshotFileList_DeepCopy F = deep_copy snapshot_file_list_cell (ETCDSnapshotFileList_DeepCopyInto F)"

definition ETCDSnapshotFileList_DeepCopyObject :: "foreign \<Rightarrow> h_list object_copier" where
  "ETCDSnapshotFileList_DeepCopyObject F = deep_copy_object TETCDSnapshotFileList (ETCDSnapshotFileList_DeepCopy F)"

end
