(* ===== verification/Deep_Copy_Behaviour.thy ===== *)
theory Deep_Copy_Behaviour
  imports Deep_Copy
begin

text \<open>
  The generated deep copies keep their contract: a copy has the view of the original, lies in
  new cells, and leaves everything else as it was.  One lemma per type, from the rules of
  Copy_Rules; \<open>plain\<close> is a concrete instance of the imported deep copies.
\<close>

section \<open>DeepCopyInto\<close>

lemma documentedD:
  assumes "documented F"
  shows "copies meta_layout (ObjectMeta_DeepCopyInto F)"
    "copies list_meta_layout (ListMeta_DeepCopyInto F)"
    "copies provider_spec_layout (ProviderSpec_DeepCopyInto F)"
    "copies provider_status_layout (ProviderStatus_DeepCopyInto F)"
    "copies (flat id) (Condition_DeepCopyInto F)"
    "deep_copies time_cell (flat id) (Time_DeepCopy F)"
  using assms by (auto simp: documented_def)

lemma map_cell_refreshes: "refreshes (map_in map_cell) (copy_map map_cell)"
  by (rule copy_map_refreshes) (blast, simp add: map_cell_def)

lemmas copy_facts = lens_def layout_intros api_laws copies_refreshes assign_copies
  copy_pointer_refreshes copy_pointer_into_refreshes copy_pointer_by_refreshes
  copy_items_refreshes copy_slice_refreshes map_cell_refreshes

lemma flat_copies:
  shows "copies (flat id) Credentials_DeepCopyInto"
    "copies (flat id) Features_DeepCopyInto"
    "copies (flat id) Image_DeepCopyInto"
    "copies (flat id) Provider_DeepCopyInto"
    "copies (flat id) WorkloadIdentityRef_DeepCopyInto"
    "copies (flat id) v3_ClusterSpec_DeepCopyInto"
    "copies (flat id) ClusterRegistrationTokenSpec_DeepCopyInto"
    "copies (flat id) ClusterRegistrationTokenStatus_DeepCopyInto"
    "copies (flat id) ETCDSnapshotS3_DeepCopyInto"
  unfolding Credentials_DeepCopyInto_def [abs_def]
    Features_DeepCopyInto_def [abs_def]
    Image_DeepCopyInto_def [abs_def]
    Provider_DeepCopyInto_def [abs_def]
    WorkloadIdentityRef_DeepCopyInto_def [abs_def]
    v3_ClusterSpec_DeepCopyInto_def [abs_def]
    ClusterRegistrationTokenSpec_DeepCopyInto_def [abs_def]
    ClusterRegistrationTokenStatus_DeepCopyInto_def [abs_def]
    ETCDSnapshotS3_DeepCopyInto_def [abs_def]
  by (rule assign_copies)+

lemma capi_spec_copies:
  assumes F: "documented F"
  shows "copies capi_spec_layout (CAPIProviderSpec_DeepCopyInto F)"
  unfolding capi_spec_layout_def CAPIProviderSpec_DeepCopyInto_def [abs_def]
  by (rule copies_struct4) (simp_all add: copy_facts documentedD [OF F])

lemma capi_status_copies:
  assumes F: "documented F"
  shows "copies capi_status_layout (CAPIProviderStatus_DeepCopyInto F)"
  unfolding capi_status_layout_def CAPIProviderStatus_DeepCopyInto_def [abs_def]
  by (rule copies_struct2) (simp_all add: copy_facts documentedD [OF F])

lemma capi_provider_copies:
  assumes F: "documented F"
  shows "copies capi_provider_layout (CAPIProvider_DeepCopyInto F)"
  unfolding capi_provider_layout_def CAPIProvider_DeepCopyInto_def [abs_def]
  by (rule copies_same, rule copies_struct3) (simp_all add: copy_facts documentedD [OF F] capi_spec_copies [OF F] capi_status_copies [OF F])

lemma config_spec_copies: "copies config_spec_layout ClusterctlConfigSpec_DeepCopyInto"
  unfolding config_spec_layout_def ClusterctlConfigSpec_DeepCopyInto_def [abs_def]
  by (rule copies_struct2) (simp_all add: copy_facts)

lemma config_copies:
  assumes F: "documented F"
  shows "copies config_layout (ClusterctlConfig_DeepCopyInto F)"
  unfolding config_layout_def ClusterctlConfig_DeepCopyInto_def [abs_def]
  by (rule copies_same, rule copies_struct2) (simp_all add: copy_facts documentedD [OF F] config_spec_copies)

lemma cluster_status_copies:
  assumes F: "documented F"
  shows "copies cluster_status_layout (v3_ClusterStatus_DeepCopyInto F)"
  unfolding cluster_status_layout_def v3_ClusterStatus_DeepCopyInto_def [abs_def]
  by (rule copies_struct1) (simp_all add: copy_facts documentedD [OF F])

lemma cluster_copies:
  assumes F: "documented F"
  shows "copies cluster_layout (v3_Cluster_DeepCopyInto F)"
  unfolding cluster_layout_def v3_Cluster_DeepCopyInto_def [abs_def]
  by (rule copies_same, rule copies_struct3) (simp_all add: copy_facts documentedD [OF F] cluster_status_copies [OF F])

lemma token_copies:
  assumes F: "documented F"
  shows "copies token_layout (ClusterRegistrationToken_DeepCopyInto F)"
  unfolding token_layout_def ClusterRegistrationToken_DeepCopyInto_def [abs_def]
  by (rule copies_same, rule copies_struct3) (simp_all add: copy_facts documentedD [OF F])

lemma setting_copies:
  assumes F: "documented F"
  shows "copies setting_layout (Setting_DeepCopyInto F)"
  unfolding setting_layout_def Setting_DeepCopyInto_def [abs_def]
  by (rule copies_same, rule copies_struct1) (simp_all add: copy_facts documentedD [OF F])

lemma rke_copies: "copies rke_layout RKEConfig_DeepCopyInto"
  unfolding rke_layout_def RKEConfig_DeepCopyInto_def [abs_def]
  by (rule copies_struct1) (simp_all add: copy_facts)

lemma prov_spec_copies: "copies prov_spec_layout prov_ClusterSpec_DeepCopyInto"
  unfolding prov_spec_layout_def prov_ClusterSpec_DeepCopyInto_def [abs_def]
  by (rule copies_struct1) (simp_all add: copy_facts rke_copies)

lemma prov_status_copies:
  assumes F: "documented F"
  shows "copies prov_status_layout (prov_ClusterStatus_DeepCopyInto F)"
  unfolding prov_status_layout_def prov_ClusterStatus_DeepCopyInto_def [abs_def]
  by (rule copies_struct1) (simp_all add: copy_facts documentedD [OF F])

lemma prov_cluster_copies:
  assumes F: "documented F"
  shows "copies prov_cluster_layout (prov_Cluster_DeepCopyInto F)"
  unfolding prov_cluster_layout_def prov_Cluster_DeepCopyInto_def [abs_def]
  by (rule copies_same, rule copies_struct3) (simp_all add: copy_facts documentedD [OF F] prov_spec_copies prov_status_copies [OF F])

lemma snapshot_spec_copies: "copies snapshot_spec_layout ETCDSnapshotSpec_DeepCopyInto"
  unfolding snapshot_spec_layout_def ETCDSnapshotSpec_DeepCopyInto_def [abs_def]
  by (rule copies_struct2) (simp_all add: copy_facts)

lemma snapshot_error_copies:
  assumes F: "documented F"
  shows "copies snapshot_error_layout (ETCDSnapshotError_DeepCopyInto F)"
  unfolding snapshot_error_layout_def ETCDSnapshotError_DeepCopyInto_def [abs_def]
  by (rule copies_struct2) (simp_all add: copy_facts documentedD [OF F])

lemma snapshot_status_copies:
  assumes F: "documented F"
  shows "copies snapshot_status_layout (ETCDSnapshotStatus_DeepCopyInto F)"
  unfolding snapshot_status_layout_def ETCDSnapshotStatus_DeepCopyInto_def [abs_def]
  by (rule copies_struct3) (simp_all add: copy_facts documentedD [OF F] snapshot_error_copies [OF F])

lemma snapshot_file_copies:
  assumes F: "documented F"
  shows "copies snapshot_file_layout (ETCDSnapshotFile_DeepCopyInto F)"
  unfolding snapshot_file_layout_def ETCDSnapshotFile_DeepCopyInto_def [abs_def]
  by (rule copies_same, rule copies_struct3) (simp_all add: copy_facts documentedD [OF F] snapshot_spec_copies snapshot_status_copies [OF F])

text \<open>The lists.  The items of a \<open>ClusterctlConfigList\<close> are \<open>CAPIProvider\<close> structs.\<close>

lemma capi_provider_list_copies:
  assumes F: "documented F"
  shows "copies (list_layout capi_providers_cell capi_provider_layout) (CAPIProviderList_DeepCopyInto F)"
  unfolding list_layout_def CAPIProviderList_DeepCopyInto_def [abs_def]
  by (rule copies_same, rule copies_struct2) (simp_all add: copy_facts documentedD [OF F] capi_provider_copies [OF F])

lemma config_list_copies:
  assumes F: "documented F"
  shows "copies (list_layout capi_providers_cell capi_provider_layout) (ClusterctlConfigList_DeepCopyInto F)"
  unfolding list_layout_def ClusterctlConfigList_DeepCopyInto_def [abs_def]
  by (rule copies_same, rule copies_struct2) (simp_all add: copy_facts documentedD [OF F] capi_provider_copies [OF F])

lemma cluster_list_copies:
  assumes F: "documented F"
  shows "copies (list_layout clusters_cell cluster_layout) (v3_ClusterList_DeepCopyInto F)"
  unfolding list_layout_def v3_ClusterList_DeepCopyInto_def [abs_def]
  by (rule copies_same, rule copies_struct2) (simp_all add: copy_facts documentedD [OF F] cluster_copies [OF F])

lemma token_list_copies:
  assumes F: "documented F"
  shows "copies (list_layout tokens_cell token_layout) (ClusterRegistrationTokenList_DeepCopyInto F)"
  unfolding list_layout_def ClusterRegistrationTokenList_DeepCopyInto_def [abs_def]
  by (rule copies_same, rule copies_struct2) (simp_all add: copy_facts documentedD [OF F] token_copies [OF F])

lemma setting_list_copies:
  assumes F: "documented F"
  shows "copies (list_layout settings_cell setting_layout) (SettingList_DeepCopyInto F)"
  unfolding list_layout_def SettingList_DeepCopyInto_def [abs_def]
  by (rule copies_same, rule copies_struct2) (simp_all add: copy_facts documentedD [OF F] setting_copies [OF F])

lemma prov_cluster_list_copies:
  assumes F: "documented F"
  shows "copies (list_layout prov_clusters_cell prov_cluster_layout) (prov_ClusterList_DeepCopyInto F)"
  unfolding list_layout_def prov_ClusterList_DeepCopyInto_def [abs_def]
  by (rule copies_same, rule copies_struct2) (simp_all add: copy_facts documentedD [OF F] prov_cluster_copies [OF F])

lemma snapshot_file_list_copies:
  assumes F: "documented F"
  shows "copies (list_layout snapshot_files_cell snapshot_file_layout) (ETCDSnapshotFileList_DeepCopyInto F)"
  unfolding list_layout_def ETCDSnapshotFileList_DeepCopyInto_def [abs_def]
  by (rule copies_same, rule copies_struct2) (simp_all add: copy_facts documentedD [OF F] snapshot_file_copies [OF F])

end
