(* ===== verification/Copy_Isolation.thy ===== *)
theory Copy_Isolation
  imports Deep_Copy_Behaviour
begin

text \<open>
  What the callers of the deep copies rely on: the contract of every \<open>DeepCopy\<close>, that the
  copy and the original are independent of each other from then on, and that a nil pointer
  never becomes an object.
\<close>

section \<open>An instance of the imported deep copies\<close>

text \<open>One that copies field by field; it shows that the laws can hold.\<close>

definition plain_owner :: "h_owner into" where
  "plain_owner src dst = do {
     assign src dst;
     copy_pointer bool_cell (field ho_controller ho_controller_update src)
       (field ho_controller ho_controller_update dst);
     copy_pointer bool_cell (field ho_block_deletion ho_block_deletion_update src)
       (field ho_block_deletion ho_block_deletion_update dst) }"

definition zero_owner :: h_owner where
  "zero_owner = \<lparr>ho_api_version = [], ho_kind = [], ho_name = [], ho_uid = [], ho_controller = None,
     ho_block_deletion = None\<rparr>"

definition plain_meta :: "h_meta into" where
  "plain_meta src dst = do {
     assign src dst;
     copy_map map_cell (field hm_labels hm_labels_update src) (field hm_labels hm_labels_update dst);
     copy_map map_cell (field hm_annotations hm_annotations_update src)
       (field hm_annotations hm_annotations_update dst);
     copy_slice strings_cell [] (field hm_finalizers hm_finalizers_update src)
       (field hm_finalizers hm_finalizers_update dst);
     copy_pointer time_cell (field hm_deletion hm_deletion_update src)
       (field hm_deletion hm_deletion_update dst);
     copy_items owners_cell zero_owner plain_owner (field hm_owners hm_owners_update src)
       (field hm_owners hm_owners_update dst) }"

definition plain_list_meta :: "h_list_meta into" where
  "plain_list_meta src dst = do {
     assign src dst;
     copy_pointer int_cell (field lm_remaining lm_remaining_update src)
       (field lm_remaining lm_remaining_update dst) }"

definition plain_provider_spec :: "h_provider_spec into" where
  "plain_provider_spec src dst = do {
     assign src dst;
     copy_pointer object_ref_cell (field hps_config_secret hps_config_secret_update src)
       (field hps_config_secret hps_config_secret_update dst);
     copy_pointer object_ref_cell (field hps_additional_manifests hps_additional_manifests_update src)
       (field hps_additional_manifests hps_additional_manifests_update dst) }"

definition plain_provider_status :: "h_provider_status into" where
  "plain_provider_status src dst = do {
     assign src dst;
     copy_slice conditions_cell zero_condition (field hpst_conditions hpst_conditions_update src)
       (field hpst_conditions hpst_conditions_update dst);
     copy_pointer string_cell (field hpst_installed_version hpst_installed_version_update src)
       (field hpst_installed_version hpst_installed_version_update dst) }"

definition plain :: foreign where
  "plain = \<lparr>ObjectMeta_DeepCopyInto = plain_meta, ListMeta_DeepCopyInto = plain_list_meta,
     ProviderSpec_DeepCopyInto = plain_provider_spec, ProviderStatus_DeepCopyInto = plain_provider_status,
     Condition_DeepCopyInto = assign, Time_DeepCopy = deep_copy time_cell assign\<rparr>"

lemma plain_owner_copies: "copies owner_layout plain_owner"
  unfolding owner_layout_def plain_owner_def [abs_def]
  by (rule copies_struct2) (simp_all add: copy_facts)

lemma plain_meta_copies: "copies meta_layout plain_meta"
  unfolding meta_layout_def plain_meta_def [abs_def]
  by (rule copies_struct5) (simp_all add: copy_facts plain_owner_copies)

lemma plain_list_meta_copies: "copies list_meta_layout plain_list_meta"
  unfolding list_meta_layout_def plain_list_meta_def [abs_def]
  by (rule copies_struct1) (simp_all add: copy_facts)

lemma plain_provider_spec_copies: "copies provider_spec_layout plain_provider_spec"
  unfolding provider_spec_layout_def plain_provider_spec_def [abs_def]
  by (rule copies_struct2) (simp_all add: copy_facts)

lemma plain_provider_status_copies: "copies provider_status_layout plain_provider_status"
  unfolding provider_status_layout_def plain_provider_status_def [abs_def]
  by (rule copies_struct2) (simp_all add: copy_facts)

lemma plain_documented: "documented plain"
  by (simp add: documented_def plain_def plain_meta_copies plain_list_meta_copies
      plain_provider_spec_copies plain_provider_status_copies assign_copies deep_copy_copies flat_laws)

section \<open>The contract of every DeepCopy\<close>

text \<open>
  The contract of \<open>DeepCopyObject\<close>: the nil object for a nil pointer, never an object with a
  nil pointer in it, and otherwise an object of the type with what \<open>DeepCopy\<close> gives.
\<close>

definition object_copies :: "go_type \<Rightarrow> (go_cell, 'a) cell_type \<Rightarrow> (go_cell, 'a, 'v) layout \<Rightarrow>
    'a object_copier \<Rightarrow> bool" where
  "object_copies k t L dco =
     ((\<forall>m. run_state (dco None) m = (None, m)) \<and>
      (\<forall>m i. base i < fresh m \<longrightarrow> sound L m (value_at i m) \<longrightarrow>
        wp (dco (Some i)) (\<lambda>r n. fresh m \<le> fresh n \<and> (\<forall>a<fresh m. cells n a = cells m a) \<and>
          (\<exists>b. r = Some (k, b) \<and> b \<in> {fresh m..<fresh n} \<and>
            is_copy L (view L m (value_at i m)) (fresh m) n (value_at (deref t b) n))) m))"

lemma object_of_copy:
  assumes dc: "deep_copies t L dc"
  shows "object_copies k t L (deep_copy_object k dc)"
  unfolding object_copies_def
proof (intro conjI allI impI)
  show "run_state (deep_copy_object k dc None) m = (None, m)" for m
    using dc by (simp add: deep_copies_def deep_copy_object_def)
next
  fix m i
  assume "base i < fresh m" "sound L m (value_at i m)"
  from deep_copiesD [OF dc this]
  show "wp (deep_copy_object k dc (Some i)) (\<lambda>r n. fresh m \<le> fresh n \<and> (\<forall>a<fresh m. cells n a = cells m a) \<and>
      (\<exists>b. r = Some (k, b) \<and> b \<in> {fresh m..<fresh n} \<and>
        is_copy L (view L m (value_at i m)) (fresh m) n (value_at (deref t b) n))) m"
    unfolding deep_copy_object_def wp_bind by (rule wp_mono) auto
qed

lemmas object_copy_defs =
  CAPIProvider_DeepCopyObject_def
  CAPIProviderList_DeepCopyObject_def
  ClusterctlConfig_DeepCopyObject_def
  ClusterctlConfigList_DeepCopyObject_def
  v3_Cluster_DeepCopyObject_def
  v3_ClusterList_DeepCopyObject_def
  ClusterRegistrationToken_DeepCopyObject_def
  ClusterRegistrationTokenList_DeepCopyObject_def
  Setting_DeepCopyObject_def
  SettingList_DeepCopyObject_def
  prov_Cluster_DeepCopyObject_def
  prov_ClusterList_DeepCopyObject_def
  ETCDSnapshotFile_DeepCopyObject_def
  ETCDSnapshotFileList_DeepCopyObject_def

lemmas deep_copy_defs =
  Credentials_DeepCopy_def
  Features_DeepCopy_def
  Image_DeepCopy_def
  Provider_DeepCopy_def
  WorkloadIdentityRef_DeepCopy_def
  CAPIProviderSpec_DeepCopy_def
  CAPIProviderStatus_DeepCopy_def
  CAPIProvider_DeepCopy_def
  CAPIProviderList_DeepCopy_def
  ClusterctlConfigSpec_DeepCopy_def
  ClusterctlConfig_DeepCopy_def
  ClusterctlConfigList_DeepCopy_def
  v3_ClusterSpec_DeepCopy_def
  v3_ClusterStatus_DeepCopy_def
  v3_Cluster_DeepCopy_def
  v3_ClusterList_DeepCopy_def
  ClusterRegistrationTokenSpec_DeepCopy_def
  ClusterRegistrationTokenStatus_DeepCopy_def
  ClusterRegistrationToken_DeepCopy_def
  ClusterRegistrationTokenList_DeepCopy_def
  Setting_DeepCopy_def
  SettingList_DeepCopy_def
  RKEConfig_DeepCopy_def
  prov_ClusterSpec_DeepCopy_def
  prov_ClusterStatus_DeepCopy_def
  prov_Cluster_DeepCopy_def
  prov_ClusterList_DeepCopy_def
  ETCDSnapshotError_DeepCopy_def
  ETCDSnapshotS3_DeepCopy_def
  ETCDSnapshotSpec_DeepCopy_def
  ETCDSnapshotStatus_DeepCopy_def
  ETCDSnapshotFile_DeepCopy_def
  ETCDSnapshotFileList_DeepCopy_def

lemma all_deep_copies:
  assumes F: "documented F"
  shows "deep_copies credentials_cell (flat id) Credentials_DeepCopy \<and>
     deep_copies features_cell (flat id) Features_DeepCopy \<and>
     deep_copies image_cell (flat id) Image_DeepCopy \<and>
     deep_copies provider_cell (flat id) Provider_DeepCopy \<and>
     deep_copies workload_cell (flat id) WorkloadIdentityRef_DeepCopy \<and>
     deep_copies capi_spec_cell capi_spec_layout (CAPIProviderSpec_DeepCopy F) \<and>
     deep_copies capi_status_cell capi_status_layout (CAPIProviderStatus_DeepCopy F) \<and>
     deep_copies capi_provider_cell capi_provider_layout (CAPIProvider_DeepCopy F) \<and>
     deep_copies capi_provider_list_cell (list_layout capi_providers_cell capi_provider_layout) (CAPIProviderList_DeepCopy F) \<and>
     deep_copies config_spec_cell config_spec_layout ClusterctlConfigSpec_DeepCopy \<and>
     deep_copies config_cell config_layout (ClusterctlConfig_DeepCopy F) \<and>
     deep_copies config_list_cell (list_layout capi_providers_cell capi_provider_layout) (ClusterctlConfigList_DeepCopy F) \<and>
     deep_copies cluster_spec_cell (flat id) v3_ClusterSpec_DeepCopy \<and>
     deep_copies cluster_status_cell cluster_status_layout (v3_ClusterStatus_DeepCopy F) \<and>
     deep_copies cluster_cell cluster_layout (v3_Cluster_DeepCopy F) \<and>
     deep_copies cluster_list_cell (list_layout clusters_cell cluster_layout) (v3_ClusterList_DeepCopy F) \<and>
     deep_copies token_spec_cell (flat id) ClusterRegistrationTokenSpec_DeepCopy \<and>
     deep_copies token_status_cell (flat id) ClusterRegistrationTokenStatus_DeepCopy \<and>
     deep_copies token_cell token_layout (ClusterRegistrationToken_DeepCopy F) \<and>
     deep_copies token_list_cell (list_layout tokens_cell token_layout) (ClusterRegistrationTokenList_DeepCopy F) \<and>
     deep_copies setting_cell setting_layout (Setting_DeepCopy F) \<and>
     deep_copies setting_list_cell (list_layout settings_cell setting_layout) (SettingList_DeepCopy F) \<and>
     deep_copies rke_cell rke_layout RKEConfig_DeepCopy \<and>
     deep_copies prov_spec_cell prov_spec_layout prov_ClusterSpec_DeepCopy \<and>
     deep_copies prov_status_cell prov_status_layout (prov_ClusterStatus_DeepCopy F) \<and>
     deep_copies prov_cluster_cell prov_cluster_layout (prov_Cluster_DeepCopy F) \<and>
     deep_copies prov_cluster_list_cell (list_layout prov_clusters_cell prov_cluster_layout) (prov_ClusterList_DeepCopy F) \<and>
     deep_copies snapshot_error_cell snapshot_error_layout (ETCDSnapshotError_DeepCopy F) \<and>
     deep_copies s3_cell (flat id) ETCDSnapshotS3_DeepCopy \<and>
     deep_copies snapshot_spec_cell snapshot_spec_layout ETCDSnapshotSpec_DeepCopy \<and>
     deep_copies snapshot_status_cell snapshot_status_layout (ETCDSnapshotStatus_DeepCopy F) \<and>
     deep_copies snapshot_file_cell snapshot_file_layout (ETCDSnapshotFile_DeepCopy F) \<and>
     deep_copies snapshot_file_list_cell (list_layout snapshot_files_cell snapshot_file_layout) (ETCDSnapshotFileList_DeepCopy F)"
  unfolding deep_copy_defs
  by (intro conjI deep_copy_copies)
    (simp_all add: layout_intros api_laws list_laws flat_copies capi_spec_copies [OF F]
      capi_status_copies [OF F]
      capi_provider_copies [OF F]
      config_spec_copies
      config_copies [OF F]
      cluster_status_copies [OF F]
      cluster_copies [OF F]
      token_copies [OF F]
      setting_copies [OF F]
      rke_copies
      prov_spec_copies
      prov_status_copies [OF F]
      prov_cluster_copies [OF F]
      snapshot_spec_copies
      snapshot_error_copies [OF F]
      snapshot_status_copies [OF F]
      snapshot_file_copies [OF F]
      capi_provider_list_copies [OF F]
      config_list_copies [OF F]
      cluster_list_copies [OF F]
      token_list_copies [OF F]
      setting_list_copies [OF F]
      prov_cluster_list_copies [OF F]
      snapshot_file_list_copies [OF F])

text \<open>
  C37.  Every generated \<open>DeepCopy\<close> is one: nil for nil, and for a struct a pointer to a new
  cell, all of whose references lead to new cells and whose view is that of the original,
  while no cell that existed before has changed.  Every \<open>DeepCopyObject\<close> gives this pointer
  as an object of its type, and for a nil pointer the nil object.
\<close>

theorem deep_copy_contract:
  assumes F: "documented F"
  shows "(deep_copies credentials_cell (flat id) Credentials_DeepCopy \<and>
     deep_copies features_cell (flat id) Features_DeepCopy \<and>
     deep_copies image_cell (flat id) Image_DeepCopy \<and>
     deep_copies provider_cell (flat id) Provider_DeepCopy \<and>
     deep_copies workload_cell (flat id) WorkloadIdentityRef_DeepCopy \<and>
     deep_copies capi_spec_cell capi_spec_layout (CAPIProviderSpec_DeepCopy F) \<and>
     deep_copies capi_status_cell capi_status_layout (CAPIProviderStatus_DeepCopy F) \<and>
     deep_copies capi_provider_cell capi_provider_layout (CAPIProvider_DeepCopy F) \<and>
     deep_copies capi_provider_list_cell (list_layout capi_providers_cell capi_provider_layout) (CAPIProviderList_DeepCopy F) \<and>
     deep_copies config_spec_cell config_spec_layout ClusterctlConfigSpec_DeepCopy \<and>
     deep_copies config_cell config_layout (ClusterctlConfig_DeepCopy F) \<and>
     deep_copies config_list_cell (list_layout capi_providers_cell capi_provider_layout) (ClusterctlConfigList_DeepCopy F) \<and>
     deep_copies cluster_spec_cell (flat id) v3_ClusterSpec_DeepCopy \<and>
     deep_copies cluster_status_cell cluster_status_layout (v3_ClusterStatus_DeepCopy F) \<and>
     deep_copies cluster_cell cluster_layout (v3_Cluster_DeepCopy F) \<and>
     deep_copies cluster_list_cell (list_layout clusters_cell cluster_layout) (v3_ClusterList_DeepCopy F) \<and>
     deep_copies token_spec_cell (flat id) ClusterRegistrationTokenSpec_DeepCopy \<and>
     deep_copies token_status_cell (flat id) ClusterRegistrationTokenStatus_DeepCopy \<and>
     deep_copies token_cell token_layout (ClusterRegistrationToken_DeepCopy F) \<and>
     deep_copies token_list_cell (list_layout tokens_cell token_layout) (ClusterRegistrationTokenList_DeepCopy F) \<and>
     deep_copies setting_cell setting_layout (Setting_DeepCopy F) \<and>
     deep_copies setting_list_cell (list_layout settings_cell setting_layout) (SettingList_DeepCopy F) \<and>
     deep_copies rke_cell rke_layout RKEConfig_DeepCopy \<and>
     deep_copies prov_spec_cell prov_spec_layout prov_ClusterSpec_DeepCopy \<and>
     deep_copies prov_status_cell prov_status_layout (prov_ClusterStatus_DeepCopy F) \<and>
     deep_copies prov_cluster_cell prov_cluster_layout (prov_Cluster_DeepCopy F) \<and>
     deep_copies prov_cluster_list_cell (list_layout prov_clusters_cell prov_cluster_layout) (prov_ClusterList_DeepCopy F) \<and>
     deep_copies snapshot_error_cell snapshot_error_layout (ETCDSnapshotError_DeepCopy F) \<and>
     deep_copies s3_cell (flat id) ETCDSnapshotS3_DeepCopy \<and>
     deep_copies snapshot_spec_cell snapshot_spec_layout ETCDSnapshotSpec_DeepCopy \<and>
     deep_copies snapshot_status_cell snapshot_status_layout (ETCDSnapshotStatus_DeepCopy F) \<and>
     deep_copies snapshot_file_cell snapshot_file_layout (ETCDSnapshotFile_DeepCopy F) \<and>
     deep_copies snapshot_file_list_cell (list_layout snapshot_files_cell snapshot_file_layout) (ETCDSnapshotFileList_DeepCopy F)) \<and>
    (object_copies TCAPIProvider capi_provider_cell capi_provider_layout (CAPIProvider_DeepCopyObject F) \<and>
     object_copies TCAPIProviderList capi_provider_list_cell (list_layout capi_providers_cell capi_provider_layout) (CAPIProviderList_DeepCopyObject F) \<and>
     object_copies TClusterctlConfig config_cell config_layout (ClusterctlConfig_DeepCopyObject F) \<and>
     object_copies TClusterctlConfigList config_list_cell (list_layout capi_providers_cell capi_provider_layout) (ClusterctlConfigList_DeepCopyObject F) \<and>
     object_copies TCluster cluster_cell cluster_layout (v3_Cluster_DeepCopyObject F) \<and>
     object_copies TClusterList cluster_list_cell (list_layout clusters_cell cluster_layout) (v3_ClusterList_DeepCopyObject F) \<and>
     object_copies TClusterRegistrationToken token_cell token_layout (ClusterRegistrationToken_DeepCopyObject F) \<and>
     object_copies TClusterRegistrationTokenList token_list_cell (list_layout tokens_cell token_layout) (ClusterRegistrationTokenList_DeepCopyObject F) \<and>
     object_copies TSetting setting_cell setting_layout (Setting_DeepCopyObject F) \<and>
     object_copies TSettingList setting_list_cell (list_layout settings_cell setting_layout) (SettingList_DeepCopyObject F) \<and>
     object_copies TProvCluster prov_cluster_cell prov_cluster_layout (prov_Cluster_DeepCopyObject F) \<and>
     object_copies TProvClusterList prov_cluster_list_cell (list_layout prov_clusters_cell prov_cluster_layout) (prov_ClusterList_DeepCopyObject F) \<and>
     object_copies TETCDSnapshotFile snapshot_file_cell snapshot_file_layout (ETCDSnapshotFile_DeepCopyObject F) \<and>
     object_copies TETCDSnapshotFileList snapshot_file_list_cell (list_layout snapshot_files_cell snapshot_file_layout) (ETCDSnapshotFileList_DeepCopyObject F))"
  using all_deep_copies [OF F]
  unfolding object_copy_defs by (intro conjI) (auto intro!: object_of_copy)

theorem deep_copy_contract_witness:
  "deep_copies capi_provider_cell capi_provider_layout (CAPIProvider_DeepCopy plain) \<and>
   object_copies TCAPIProvider capi_provider_cell capi_provider_layout (CAPIProvider_DeepCopyObject plain)"
  using deep_copy_contract [OF plain_documented] by simp

section \<open>Independence\<close>

lemma agree_below: "agree {..<r} n k \<Longrightarrow> \<forall>a<r. cells n a = cells m a \<Longrightarrow> A \<subseteq> {..<r} \<Longrightarrow> agree A m k"
  by (auto simp: agree_def)

context layout_laws
begin

lemma isolated:
  assumes dc: "deep_copies t L dc" and p: "base p < fresh m" "sound L m (value_at p m)"
    and run: "run_state (dc (Some p)) m = (r, n)"
  obtains a where "r = Some a" "a \<in> {fresh m..<fresh n}"
    "\<And>k. agree {fresh m..<fresh n} n k \<Longrightarrow> view L k (value_at (deref t a) k) = view L m (value_at p m)"
    "\<And>k. agree {..<fresh m} n k \<Longrightarrow> view L k (value_at p k) = view L m (value_at p m)"
proof -
  from deep_copiesD [OF dc p] run obtain a where a: "r = Some a" "a \<in> {fresh m..<fresh n}"
    and c: "is_copy L (view L m (value_at p m)) (fresh m) n (value_at (deref t a) n)"
    and old: "\<forall>b<fresh m. cells n b = cells m b"
    by (auto simp: wp_def)
  have "view L k (value_at (deref t a) k) = view L m (value_at p m)" if k: "agree {fresh m..<fresh n} n k" for k
  proof -
    from k a have ca: "cells k a = cells n a" by (auto simp: agree_def)
    from c k have "agree (foot L n (value_at (deref t a) n)) n k"
      by (auto simp: is_copy_def elim: agree_mono)
    from frame [OF this] c ca show ?thesis by (simp add: is_copy_def)
  qed
  moreover have "view L k (value_at p k) = view L m (value_at p m)" if k: "agree {..<fresh m} n k" for k
  proof -
    from k old p have cp: "value_at p k = value_at p m" by (auto simp: agree_def value_at_def)
    from p have "agree (foot L m (value_at p m)) m k"
      by (intro agree_below [OF k old]) (simp add: sound_def)
    from frame [OF this] cp show ?thesis by simp
  qed
  ultimately show ?thesis using that [OF a] by blast
qed

end

lemma cluster_deep_copies:
  "documented F \<Longrightarrow> deep_copies cluster_cell cluster_layout (v3_Cluster_DeepCopy F)"
  unfolding v3_Cluster_DeepCopy_def
  by (intro deep_copy_copies) (simp_all add: api_laws cluster_copies)

text \<open>
  C38.  The base of a patch, \<open>client.MergeFrom(cluster.DeepCopy())\<close>: whatever the caller does
  to the Rancher cluster in place afterwards - to its labels, annotations, finalizers or
  conditions, in memory that existed or in new memory - the base still has the content at the
  time of the copy; and writes to the copy do not show in the cluster.
\<close>

theorem patch_base_is_a_snapshot:
  assumes F: "documented F" and p: "base p < fresh m" "sound cluster_layout m (value_at p m)"
    and run: "run_state (v3_Cluster_DeepCopy F (Some p)) m = (r, n)"
  shows "\<exists>a. r = Some a \<and>
    (\<forall>k. agree {fresh m..<fresh n} n k \<longrightarrow>
       view cluster_layout k (value_at (deref cluster_cell a) k) = view cluster_layout m (value_at p m)) \<and>
    (\<forall>k. agree {..<fresh m} n k \<longrightarrow> view cluster_layout k (value_at p k) = view cluster_layout m (value_at p m))"
  using cluster.isolated [OF cluster_deep_copies [OF F] p run] by metis

text \<open>A cluster with a label and a condition.\<close>

definition sample_memory :: "go_cell memory" where
  "sample_memory = \<lparr>cells = (\<lambda>a.
       if a = 0 then ClusterCell (zero_cluster\<lparr>
         hrc_meta := zero_meta\<lparr>hm_name := ''c-1'', hm_labels := Some 1\<rparr>,
         hrc_status := \<lparr>hst_conditions = Some \<lparr>sl_array = 2, sl_off = 0, sl_len = 1\<rparr>\<rparr>\<rparr>)
       else if a = 1 then MapCell [(''owner'', ''demo'')]
       else ConditionsCell [zero_condition\<lparr>c_type := ''Ready''\<rparr>]), fresh = 3\<rparr>"

lemma sample_sound: "sound cluster_layout sample_memory (value_at (deref cluster_cell 0) sample_memory)"
  by (simp add: sound_def cluster_layout_def meta_layout_def cluster_status_layout_def
      sample_memory_def cell_defs zero_cluster_def zero_meta_def zero_cluster_status_def map_in_def items_def)

theorem patch_base_is_a_snapshot_witness:
  "\<exists>a n. run_state (v3_Cluster_DeepCopy plain (Some (deref cluster_cell 0))) sample_memory = (Some a, n) \<and>
     view cluster_layout n (value_at (deref cluster_cell a) n) =
       view cluster_layout sample_memory (value_at (deref cluster_cell 0) sample_memory)"
proof -
  obtain r n where run: "run_state (v3_Cluster_DeepCopy plain (Some (deref cluster_cell 0))) sample_memory = (r, n)"
    by fastforce
  have "base (deref cluster_cell 0) < fresh sample_memory" by (simp add: sample_memory_def)
  from patch_base_is_a_snapshot [OF plain_documented this sample_sound run] run show ?thesis
    by fastforce
qed

section \<open>ProviderList\<close>

lemma ProviderList_copied:
  assumes s: "sl_array s < fresh m" "sl_off s + sl_len s \<le> length (from_cell providers_cell (cells m (sl_array s)))"
  shows "wp (ProviderList_DeepCopy (Some s)) (\<lambda>r n. (\<forall>a<fresh m. cells n a = cells m a) \<and>
     is_copy (slice_of providers_cell (flat id)) (Some (items providers_cell m s)) (fresh m) n r) m"
proof -
  have c: "from_cell providers_cell (to_cell providers_cell x) = x"
    "from_cell provider_list_cell (to_cell provider_list_cell y) = y" for x y
    by (simp_all add: cell_defs)
  have "min (sl_len s) (sl_len s) = sl_len s" by simp
  then show ?thesis
    using s by (auto simp: ProviderList_DeepCopy_def ProviderList_DeepCopyInto_def copy_elements_def
      slice_len_def c is_copy_def items_def)
qed

section \<open>Two pointers to one struct\<close>

text \<open>
  The contract needs two places: with one struct as \<open>in\<close> and as \<open>out\<close>, \<open>make\<close> comes
  before \<open>range\<close>, and the metadata of the snapshot is lost.
\<close>

lemma same_place_loses_map:
  assumes "value_at p m = x" "snapshot_metadata x = Some a" "snapshot_s3 x = None"
    "lawful p (cells m (base p))" "base p < fresh m"
  shows "wp (ETCDSnapshotSpec_DeepCopyInto p p) (\<lambda>_ n.
     snapshot_metadata (view snapshot_spec_layout n (value_at p n)) = Some Map.empty) m"
proof -
  from assms have w: "wr p (rd p (cells m (base p))) (cells m (base p)) = cells m (base p)"
    "\<And>y. rd p (wr p y (cells m (base p))) = y"
    by (auto simp: lawful_def)
  show ?thesis
    using assms w
    by (simp add: ETCDSnapshotSpec_DeepCopyInto_def copy_map_def copy_pointer_def snapshot_spec_layout_def
        map_in_def value_at_def map_cell_def write_cell_def)
qed

end
