(* ===== verification/In_Place.thy ===== *)
theory In_Place
  imports Import Copy_Isolation
begin

text \<open>
  How import_controller.go prepares a Rancher cluster that exists: by writes to the maps of
  the object that a patch base was copied from.  These are the in-place versions of
  \<open>optOutOfClusterOwner\<close>, \<open>propagateLabels\<close> and the annotation of
  \<open>reconcileExternalFleetManagement\<close> on the memory of Memory; Import has them on values.
\<close>

definition labels_of :: "(go_cell, h_cluster) ptr \<Rightarrow> (go_cell, addr option) ptr" where
  "labels_of p = field hm_labels hm_labels_update (field hrc_meta hrc_meta_update p)"

definition annotations_of :: "(go_cell, h_cluster) ptr \<Rightarrow> (go_cell, addr option) ptr" where
  "annotations_of p = field hm_annotations hm_annotations_update (field hrc_meta hrc_meta_update p)"

text \<open>\<open>m := o.GetX(); if m == nil { m = map[string]string{} }\<close>\<close>

definition map_or_new :: "(go_cell, addr option) ptr \<Rightarrow> (go_cell memory, addr) state" where
  "map_or_new f = do {
     l \<leftarrow> load f;
     case l of None \<Rightarrow> new_cell map_cell | Some a \<Rightarrow> ret a }"

text \<open>\<open>m[k] = v\<close> and \<open>delete(m, k)\<close>\<close>

definition map_write :: "addr \<Rightarrow> string \<Rightarrow> string \<Rightarrow> (go_cell memory, unit) state" where
  "map_write a k v = do {
     es \<leftarrow> load (deref map_cell a);
     store_at (deref map_cell a) (AList.update k v es) }"

definition map_delete :: "addr \<Rightarrow> string \<Rightarrow> (go_cell memory, unit) state" where
  "map_delete a k = do {
     es \<leftarrow> load (deref map_cell a);
     store_at (deref map_cell a) (AList.delete k es) }"

definition h_optOutOfClusterOwner :: "(go_cell, h_cluster) ptr \<Rightarrow> (go_cell memory, unit) state" where
  "h_optOutOfClusterOwner rancherCluster = do {
     annotations \<leftarrow> map_or_new (annotations_of rancherCluster);
     es \<leftarrow> load (deref map_cell annotations);
     if map_of es NoCreatorRBACAnnotation = None then do {
       map_write annotations NoCreatorRBACAnnotation trueValue;
       store_at (annotations_of rancherCluster) (Some annotations) }
     else ret () }"

text \<open>The labels of the CAPI cluster are the map at \<open>source\<close>.\<close>

definition h_propagateLabels :: "(go_cell, h_cluster) ptr \<Rightarrow> addr option \<Rightarrow> (go_cell memory, unit) state" where
  "h_propagateLabels rancherCluster source = do {
     labels \<leftarrow> map_or_new (labels_of rancherCluster);
     es \<leftarrow> (case source of None \<Rightarrow> ret [] | Some s \<Rightarrow> load (deref map_cell s));
     for_do (\<lambda>(k, v). if propagated k then map_write labels k v else ret ()) es;
     store_at (labels_of rancherCluster) (Some labels) }"

definition h_addFleetAnnotation :: "addr \<Rightarrow> (go_cell, h_cluster) ptr \<Rightarrow> (go_cell memory, unit) state" where
  "h_addFleetAnnotation annotations rancherCluster = do {
     es \<leftarrow> load (deref map_cell annotations);
     if map_of es ExternalFleetAnnotation = None then do {
       map_write annotations ExternalFleetAnnotation trueValue;
       store_at (annotations_of rancherCluster) (Some annotations) }
     else ret () }"

definition h_removeFleetAnnotation :: "addr \<Rightarrow> (go_cell, h_cluster) ptr \<Rightarrow> (go_cell memory, unit) state" where
  "h_removeFleetAnnotation annotations rancherCluster = do {
     es \<leftarrow> load (deref map_cell annotations);
     if map_of es ExternalFleetAnnotation \<noteq> None then do {
       map_delete annotations ExternalFleetAnnotation;
       store_at (annotations_of rancherCluster) (Some annotations) }
     else ret () }"

text \<open>\<open>caapf\<close> is the feature gate; the finalizer of the CAPI cluster is in Import.\<close>

definition h_reconcileExternalFleetManagement :: "bool \<Rightarrow> (go_cell, h_cluster) ptr \<Rightarrow> (go_cell memory, unit) state" where
  "h_reconcileExternalFleetManagement caapf rancherCluster = do {
     annotations \<leftarrow> map_or_new (annotations_of rancherCluster);
     if caapf then h_addFleetAnnotation annotations rancherCluster
     else h_removeFleetAnnotation annotations rancherCluster }"

section \<open>The cluster as its two maps and the rest\<close>

definition rest_layout :: "(go_cell, h_cluster, ((string list option \<times> nat option) \<times> owner_ref list option) \<times> condition list option) layout" where
  "rest_layout = struct_of
     (\<lambda>x. (((hm_finalizers (hrc_meta x), hm_deletion (hrc_meta x)), hm_owners (hrc_meta x)), hrc_status x))
     (\<lambda>_ v. v)
     (beside (beside (beside (slice_of strings_cell (flat id)) (pointer_to time_cell (flat id)))
        (slice_of owners_cell owner_layout)) cluster_status_layout)"

interpretation rest: layout_laws rest_layout
  by (simp add: rest_layout_def layout_intros owner.layout_laws_axioms cluster_status.layout_laws_axioms)

text \<open>The entries of a map, none for the nil map, and the cells of a reference.\<close>

definition entries_at :: "go_cell memory \<Rightarrow> addr option \<Rightarrow> (string \<times> string) list" where
  "entries_at m l = (case l of None \<Rightarrow> [] | Some a \<Rightarrow> from_cell map_cell (cells m a))"

definition ok_map :: "go_cell memory \<Rightarrow> addr option \<Rightarrow> bool" where
  "ok_map m l \<longleftrightarrow> distinct (map fst (entries_at m l)) \<and> set_option l \<subseteq> {..<fresh m}"

definition smap_at :: "go_cell memory \<Rightarrow> addr option \<Rightarrow> smap" where
  "smap_at m l = map_option (\<lambda>a. map_of (from_cell map_cell (cells m a))) l"

definition value_with :: "h_cluster \<Rightarrow> smap \<Rightarrow> smap \<Rightarrow>
    ((string list option \<times> nat option) \<times> owner_ref list option) \<times> condition list option \<Rightarrow> rancher_cluster" where
  "value_with x ls as = (\<lambda>(((f, d), os), c).
     \<lparr>rc_meta = \<lparr>m_name = hm_name (hrc_meta x), m_namespace = hm_namespace (hrc_meta x),
        m_generate_name = hm_generate_name (hrc_meta x), m_labels = ls, m_annotations = as,
        m_finalizers = opt_list f, m_deletion = d, m_uid = hm_uid (hrc_meta x),
        m_resource_version = hm_resource_version (hrc_meta x), m_owners = opt_list os\<rparr>,
      rc_spec = hrc_spec x, rc_conditions = opt_list c\<rparr>)"

lemma cluster_view: "view cluster_layout m x = (hrc_type x, value_with x
    (smap_at m (hm_labels (hrc_meta x))) (smap_at m (hm_annotations (hrc_meta x))) (view rest_layout m x))"
  by (cases "hm_labels (hrc_meta x)"; cases "hm_annotations (hrc_meta x)")
    (simp_all add: cluster_layout_def meta_layout_def rest_layout_def value_with_def smap_at_def map_in_def)

lemma cluster_foot: "foot cluster_layout m x =
    set_option (hm_labels (hrc_meta x)) \<union> set_option (hm_annotations (hrc_meta x)) \<union> foot rest_layout m x"
  by (cases "hm_labels (hrc_meta x)"; cases "hm_annotations (hrc_meta x)")
    (auto simp: cluster_layout_def meta_layout_def rest_layout_def map_in_def)

lemma cluster_sound: "sound cluster_layout m x \<longleftrightarrow> ok_map m (hm_labels (hrc_meta x)) \<and>
    ok_map m (hm_annotations (hrc_meta x)) \<and> sound rest_layout m x"
  by (cases "hm_labels (hrc_meta x)"; cases "hm_annotations (hrc_meta x)")
    (auto simp: sound_def ok_map_def entries_at_def cluster_layout_def meta_layout_def rest_layout_def map_in_def)

section \<open>An edit of one map\<close>

datatype map_field = Labels | Annotations

fun other :: "map_field \<Rightarrow> map_field" where
  "other Labels = Annotations"
| "other Annotations = Labels"

fun map_ref :: "map_field \<Rightarrow> h_cluster \<Rightarrow> addr option" where
  "map_ref Labels x = hm_labels (hrc_meta x)"
| "map_ref Annotations x = hm_annotations (hrc_meta x)"

fun set_ref :: "map_field \<Rightarrow> addr option \<Rightarrow> h_cluster \<Rightarrow> h_cluster" where
  "set_ref Labels a = hrc_meta_update (hm_labels_update (\<lambda>_. a))"
| "set_ref Annotations a = hrc_meta_update (hm_annotations_update (\<lambda>_. a))"

fun map_of_field :: "map_field \<Rightarrow> rancher_cluster \<Rightarrow> smap" where
  "map_of_field Labels rc = m_labels (rc_meta rc)"
| "map_of_field Annotations rc = m_annotations (rc_meta rc)"

fun put_map :: "map_field \<Rightarrow> smap \<Rightarrow> rancher_cluster \<Rightarrow> rancher_cluster" where
  "put_map Labels v = rc_meta_update (m_labels_update (\<lambda>_. v))"
| "put_map Annotations v = rc_meta_update (m_annotations_update (\<lambda>_. v))"

fun field_at :: "map_field \<Rightarrow> (go_cell, h_cluster) ptr \<Rightarrow> (go_cell, addr option) ptr" where
  "field_at Labels p = labels_of p"
| "field_at Annotations p = annotations_of p"

lemma field_foot: "foot cluster_layout m x =
    set_option (map_ref w x) \<union> set_option (map_ref (other w) x) \<union> foot rest_layout m x"
  by (cases w) (auto simp: cluster_foot)

lemma field_sound: "sound cluster_layout m x \<longleftrightarrow>
    ok_map m (map_ref w x) \<and> ok_map m (map_ref (other w) x) \<and> sound rest_layout m x"
  by (cases w) (auto simp: cluster_sound)

lemma field_view: "map_of_field w (snd (view cluster_layout m x)) = smap_at m (map_ref w x)"
  by (cases w; simp add: cluster_view value_with_def split: prod.splits)

lemma set_ref_simps [simp]:
  "map_ref w (set_ref w a x) = a" "map_ref (other w) (set_ref w a x) = map_ref (other w) x"
  by (cases w; simp)+

lemma set_ref_rest [simp]:
  "view rest_layout m (set_ref w a x) = view rest_layout m x"
  "foot rest_layout m (set_ref w a x) = foot rest_layout m x"
  "ok rest_layout m (set_ref w a x) = ok rest_layout m x"
  by (cases w; simp add: rest_layout_def)+

lemma field_view_set:
  assumes "view rest_layout n x = view rest_layout m x" "smap_at n (map_ref (other w) x) = smap_at m (map_ref (other w) x)"
  shows "view cluster_layout n (set_ref w a x) = map_prod id (put_map w (smap_at n a)) (view cluster_layout m x)"
proof -
  have "view rest_layout n (set_ref w a x) = view rest_layout m x" using assms(1) by simp
  with assms(2) show ?thesis by (cases w) (simp_all add: cluster_view value_with_def split: prod.splits)
qed

text \<open>
  What the operations rely on: the object is sound, its maps are its own - no other part of
  it, no map of the CAPI cluster and no cell of \<open>R\<close>, where the patch base lies - and
  the labels of the CAPI cluster are \<open>es\<close>.
\<close>

definition owns_maps :: "addr set \<Rightarrow> (go_cell, h_cluster) ptr \<Rightarrow> addr option \<Rightarrow> (string \<times> string) list \<Rightarrow>
    go_cell memory \<Rightarrow> bool" where
  "owns_maps R p source es m \<longleftrightarrow>
     (let x = value_at p m; ls = set_option (map_ref Labels x); as = set_option (map_ref Annotations x);
        rest = foot rest_layout m x in
      base p < fresh m \<and> lawful p (cells m (base p)) \<and> sound cluster_layout m x \<and>
      base p \<notin> ls \<union> as \<union> rest \<union> set_option source \<and> ls \<inter> as = {} \<and>
      (ls \<union> as) \<inter> (rest \<union> set_option source) = {} \<and>
      R \<subseteq> {..<fresh m} \<and> base p \<notin> R \<and> (ls \<union> as) \<inter> R = {} \<and>
      ok_map m source \<and> entries_at m source = es)"

lemma owns_field:
  "owns_maps R p source es m \<longleftrightarrow>
     (let x = value_at p m; ls = set_option (map_ref w x); as = set_option (map_ref (other w) x);
        rest = foot rest_layout m x in
      base p < fresh m \<and> lawful p (cells m (base p)) \<and> sound cluster_layout m x \<and>
      base p \<notin> ls \<union> as \<union> rest \<union> set_option source \<and> ls \<inter> as = {} \<and>
      (ls \<union> as) \<inter> (rest \<union> set_option source) = {} \<and>
      R \<subseteq> {..<fresh m} \<and> base p \<notin> R \<and> (ls \<union> as) \<inter> R = {} \<and>
      ok_map m source \<and> entries_at m source = es)"
  by (cases w) (auto simp: owns_maps_def Let_def)

text \<open>The map of field \<open>w\<close> has been replaced by \<open>g\<close> of it, if that is anything.\<close>

definition edited :: "(go_cell, h_cluster) ptr \<Rightarrow> map_field \<Rightarrow>
    ((string \<times> string) list \<Rightarrow> (string \<times> string) list option) \<Rightarrow> go_cell memory \<Rightarrow> go_cell memory \<Rightarrow> bool" where
  "edited p w g m n \<longleftrightarrow> fresh m \<le> fresh n \<and>
     (let l = map_ref w (value_at p m) in
      (\<forall>b<fresh m. b \<noteq> base p \<longrightarrow> l \<noteq> Some b \<longrightarrow> cells n b = cells m b) \<and>
      (case g (entries_at m l) of
        None \<Rightarrow> (\<forall>b<fresh m. cells n b = cells m b)
      | Some es \<Rightarrow> (\<exists>a. (l = Some a \<or> l = None \<and> fresh m \<le> a \<and> a < fresh n) \<and>
          from_cell map_cell (cells n a) = es \<and> lawful p (cells n (base p)) \<and>
          value_at p n = set_ref w (Some a) (value_at p m))))"

lemma entries_agree: "agree (set_option l) m n \<Longrightarrow> entries_at n l = entries_at m l"
  by (cases l) (simp_all add: entries_at_def)

lemma smap_agree: "agree (set_option l) m n \<Longrightarrow> smap_at n l = smap_at m l"
  by (cases l) (simp_all add: smap_at_def)

lemma ok_map_agree: "agree (set_option l) m n \<Longrightarrow> fresh m \<le> fresh n \<Longrightarrow> ok_map m l \<Longrightarrow> ok_map n l"
  using entries_agree [of l m n] by (auto simp: ok_map_def)

lemma unchanged_owns:
  assumes own: "owns_maps R p source es m" and n: "fresh m \<le> fresh n" "\<forall>b<fresh m. cells n b = cells m b"
  shows "owns_maps R p source es n" "view cluster_layout n (value_at p n) = view cluster_layout m (value_at p m)"
    "agree R m n"
proof -
  let ?x = "value_at p m"
  from own have b: "base p < fresh m" and s: "sound cluster_layout m ?x"
    and src: "ok_map m source" and R: "R \<subseteq> {..<fresh m}"
    by (auto simp: owns_maps_def Let_def)
  have x: "value_at p n = ?x" using b n by (simp add: value_at_def)
  have ag: "agree A m n" if "A \<subseteq> {..<fresh m}" for A using that n by (auto simp: agree_def)
  from s have f: "foot cluster_layout m ?x \<subseteq> {..<fresh m}" by (simp add: sound_def)
  note c = cluster.frame [OF ag [OF f]]
  from f have "foot rest_layout m ?x \<subseteq> {..<fresh m}" by (simp add: cluster_foot)
  note r = rest.frame [OF ag [OF this]]
  have as: "agree (set_option source) m n" using src by (intro ag) (simp add: ok_map_def)
  note e = entries_agree [OF as] ok_map_agree [OF as n(1)]
  have sn: "sound cluster_layout n ?x" using c s n(1) by (auto simp: sound_def)
  show "owns_maps R p source es n"
    using own b x r e sn n by (fastforce simp: owns_maps_def Let_def)
  show "view cluster_layout n (value_at p n) = view cluster_layout m (value_at p m)" using x c by simp
  show "agree R m n" by (rule ag [OF R])
qed

lemma edited_owns:
  assumes own: "owns_maps R p source es m" and ed: "edited p w g m n"
    and g: "g (entries_at m (map_ref w (value_at p m))) = Some ys" "distinct (map fst ys)"
  shows "owns_maps R p source es n" "agree R m n"
    and "view cluster_layout n (value_at p n) =
      map_prod id (put_map w (Some (map_of ys))) (view cluster_layout m (value_at p m))"
proof -
  let ?x = "value_at p m" and ?l = "map_ref w (value_at p m)" and ?o = "map_ref (other w) (value_at p m)"
  note os = own [unfolded owns_field [where w = w] Let_def]
  from ed g obtain a where f: "fresh m \<le> fresh n" and
    old: "\<And>c. c < fresh m \<Longrightarrow> c \<noteq> base p \<Longrightarrow> ?l \<noteq> Some c \<Longrightarrow> cells n c = cells m c"
    and a: "?l = Some a \<or> ?l = None \<and> fresh m \<le> a \<and> a < fresh n"
    and ca: "from_cell map_cell (cells n a) = ys" and lw: "lawful p (cells n (base p))"
    and xn: "value_at p n = set_ref w (Some a) ?x"
    by (auto simp: edited_def Let_def)
  have ag: "agree A m n" if "A \<subseteq> {..<fresh m}" "base p \<notin> A" "set_option ?l \<inter> A = {}" for A
    using that old by (auto simp: agree_def)
  from os have parts: "ok_map m ?l" "ok_map m ?o" "sound rest_layout m ?x"
    by (simp_all add: field_sound [where w = w])
  then have rf: "foot rest_layout m ?x \<subseteq> {..<fresh m}" by (simp add: sound_def)
  have al: "a < fresh n" using a parts(1) f by (auto simp: ok_map_def)
  have "agree (foot rest_layout m ?x) m n" using rf os by (intro ag) auto
  note r = rest.frame [OF this]
  have ao: "agree (set_option ?o) m n" using parts(2) os by (intro ag) (auto simp: ok_map_def)
  have as: "agree (set_option source) m n" using os by (intro ag) (auto simp: ok_map_def)
  note e = entries_agree [OF as] ok_map_agree [OF as f]
  show "agree R m n" using os by (intro ag) auto
  have am: "a \<notin> foot rest_layout m ?x" "a \<notin> set_option source" "a \<notin> R" "a \<notin> set_option ?o" "a \<noteq> base p"
    using a rf os parts(2) by (auto simp: ok_map_def)
  have "ok_map n (Some a)" using al ca g(2) by (simp add: ok_map_def entries_at_def)
  moreover note ok_map_agree [OF ao f parts(2)]
  moreover have "sound rest_layout n (set_ref w (Some a) ?x)" using parts(3) r f by (auto simp: sound_def)
  ultimately have "sound cluster_layout n (set_ref w (Some a) ?x)"
    unfolding field_sound [where w = w] by simp
  then show "owns_maps R p source es n"
    using lw f r am e os xn by (auto simp: owns_field [where w = w] Let_def)
  show "view cluster_layout n (value_at p n) =
      map_prod id (put_map w (Some (map_of ys))) (view cluster_layout m ?x)"
    using field_view_set [where n = n and m = m and w = w and a = "Some a", OF _ smap_agree [OF ao]] r ca xn
    by (simp add: smap_at_def)
qed

section \<open>The writes\<close>

lemma smap_entries: "mget (smap_at m l) k = map_of (entries_at m l) k" "alloc (smap_at m l) = map_of (entries_at m l)"
  by (cases l; simp add: smap_at_def entries_at_def mget_def alloc_def)+

lemma field_writes:
  "base (field_at w p) = base p" "rd (field_at w p) c = map_ref w (rd p c)"
  "wr (field_at w p) y c = wr p (set_ref w y (rd p c)) c"
  by (cases w; cases "rd p c"; simp add: labels_of_def annotations_of_def)+

lemma map_cell_simps [simp]:
  "from_cell map_cell (to_cell map_cell es) = es" "zero_value map_cell = []"
  by (simp_all add: map_cell_def)

lemma wp_map_or_new:
  "wp (map_or_new f) Q m = (case value_at f m of
     None \<Rightarrow> Q (fresh m) (add_cell (to_cell map_cell []) m) | Some a \<Rightarrow> Q a m)"
  by (simp add: map_or_new_def value_at_def split: option.split)

lemma wp_map_write [simp]:
  "wp (map_write a k v) Q m =
     Q () (write_cell a (to_cell map_cell (AList.update k v (from_cell map_cell (cells m a)))) m)"
  by (simp add: map_write_def)

lemma wp_map_delete [simp]:
  "wp (map_delete a k) Q m =
     Q () (write_cell a (to_cell map_cell (AList.delete k (from_cell map_cell (cells m a)))) m)"
  by (simp add: map_delete_def)

text \<open>
  \<open>new_map w p m a m'\<close>: \<open>map_or_new\<close> for the field gave \<open>a\<close> in \<open>m'\<close>.
\<close>

definition new_map :: "map_field \<Rightarrow> (go_cell, h_cluster) ptr \<Rightarrow> go_cell memory \<Rightarrow> addr \<Rightarrow> go_cell memory \<Rightarrow> bool" where
  "new_map w p m a m' \<longleftrightarrow> (let l = map_ref w (value_at p m) in
     (l = Some a \<and> m' = m \<or> l = None \<and> a = fresh m \<and> m' = add_cell (to_cell map_cell []) m))"

lemma map_or_new_gives:
  "(\<And>a m'. new_map w p m a m' \<Longrightarrow> Q a m') \<Longrightarrow> wp (map_or_new (field_at w p)) Q m"
  by (auto simp: wp_map_or_new new_map_def value_at_def field_writes Let_def split: option.split)

lemma new_map_entries:
  "new_map w p m a m' \<Longrightarrow> from_cell map_cell (cells m' a) = entries_at m (map_ref w (value_at p m))"
  by (auto simp: new_map_def entries_at_def Let_def)

lemma new_map_old:
  assumes "owns_maps R p source es m" "new_map w p m a m'"
  shows "a \<noteq> base p" "\<And>b. b < fresh m \<Longrightarrow> cells m' b = cells m b" "fresh m \<le> fresh m'" "a < fresh m'"
    "set_option source \<inter> {a} = {}" "\<And>b. b < fresh m \<Longrightarrow> map_ref w (value_at p m) \<noteq> Some b \<Longrightarrow> b \<noteq> a"
  using assms
  by (auto simp: owns_field [where w = w] new_map_def Let_def field_sound [where w = w] ok_map_def)

lemma edited_none:
  assumes "new_map w p m a m'" "g (entries_at m (map_ref w (value_at p m))) = None"
  shows "edited p w g m m'"
  using assms by (auto simp: edited_def new_map_def Let_def)

text \<open>After the map at \<open>a\<close> was written, and the field set to it.\<close>

lemma edited_write:
  assumes own: "owns_maps R p source es m" and n: "new_map w p m a m'"
    and k: "fresh k = fresh m'" "\<And>b. b \<noteq> a \<Longrightarrow> cells k b = cells m' b"
    and g: "g (entries_at m (map_ref w (value_at p m))) = Some (from_cell map_cell (cells k a))"
  shows "wp (store_at (field_at w p) (Some a)) (\<lambda>_. edited p w g m) k"
proof -
  from own have b: "base p < fresh m" "lawful p (cells m (base p))"
    by (auto simp: owns_maps_def Let_def)
  note o = new_map_old [OF own n]
  have c: "cells k (base p) = cells m (base p)" using k(2) [of "base p"] o b by simp
  have x: "rd p (wr p z (cells m (base p))) = z" "lawful p (wr p z (cells m (base p)))" for z
    using b(2) lawful_wr by (auto simp: lawful_def)
  have old: "cells k d = cells m d" if "d < fresh m" "map_ref w (value_at p m) \<noteq> Some d" for d
    using k(2) [of d] o(2,6) [of d] that by simp
  have al: "map_ref w (value_at p m) = Some a \<or>
      map_ref w (value_at p m) = None \<and> fresh m \<le> a \<and> a < fresh k"
    using n o(4) k(1) by (auto simp: new_map_def Let_def)
  let ?n = "write_cell (base p) (wr p (set_ref w (Some a) (rd p (cells k (base p)))) (cells k (base p))) k"
  have "edited p w g m ?n"
    unfolding edited_def Let_def g option.case
  proof (intro conjI exI)
    show "value_at p ?n = set_ref w (Some a) (value_at p m)" using c x(1) by (simp add: value_at_def)
  qed (use al o(1,3) k(1) c x(2) old in auto)
  then show ?thesis by (simp add: field_writes)
qed

section \<open>The operations are edits\<close>

lemma wp_bindI: "wp f (\<lambda>x. wp (g x) Q) m \<Longrightarrow> wp (f \<bind> g) Q m"
  by simp

definition add_once :: "string \<Rightarrow> (string \<times> string) list \<Rightarrow> (string \<times> string) list option" where
  "add_once k es = (if map_of es k = None then Some (AList.update k trueValue es) else None)"

definition drop_once :: "string \<Rightarrow> (string \<times> string) list \<Rightarrow> (string \<times> string) list option" where
  "drop_once k es = (if map_of es k = None then None else Some (AList.delete k es))"

definition propagate_to :: "(string \<times> string) list \<Rightarrow> (string \<times> string) list \<Rightarrow> (string \<times> string) list" where
  "propagate_to es = fold (\<lambda>(k, v). if propagated k then AList.update k v else id) es"

lemma add_edits:
  assumes own: "owns_maps R p source es m" and new: "new_map Annotations p m a m'"
  shows "wp (do {
     es \<leftarrow> load (deref map_cell a);
     if map_of es k = None then do {
       map_write a k trueValue;
       store_at (field_at Annotations p) (Some a) }
     else ret () }) (\<lambda>_. edited p Annotations (add_once k) m) m'"
  using new_map_entries [OF new] edited_none [OF new, of "add_once k"]
    edited_write [OF own new, of "write_cell a (to_cell map_cell (AList.update k trueValue (from_cell map_cell (cells m' a)))) m'" "add_once k"]
  by (simp add: add_once_def)

lemma drop_edits:
  assumes own: "owns_maps R p source es m" and new: "new_map Annotations p m a m'"
  shows "wp (do {
     es \<leftarrow> load (deref map_cell a);
     if map_of es k \<noteq> None then do {
       map_delete a k;
       store_at (field_at Annotations p) (Some a) }
     else ret () }) (\<lambda>_. edited p Annotations (drop_once k) m) m'"
  using new_map_entries [OF new] edited_none [OF new, of "drop_once k"]
    edited_write [OF own new, of "write_cell a (to_cell map_cell (AList.delete k (from_cell map_cell (cells m' a)))) m'" "drop_once k"]
  by (auto simp: drop_once_def)

lemma opt_out_edits:
  assumes "owns_maps R p source es m"
  shows "wp (h_optOutOfClusterOwner p) (\<lambda>_. edited p Annotations (add_once NoCreatorRBACAnnotation) m) m"
  unfolding h_optOutOfClusterOwner_def field_at.simps [symmetric]
  by (intro wp_bindI map_or_new_gives add_edits [OF assms])

lemma fleet_edits:
  assumes "owns_maps R p source es m"
  shows "wp (h_reconcileExternalFleetManagement caapf p) (\<lambda>_. edited p Annotations
    (if caapf then add_once ExternalFleetAnnotation else drop_once ExternalFleetAnnotation) m) m"
  unfolding h_reconcileExternalFleetManagement_def h_addFleetAnnotation_def h_removeFleetAnnotation_def
    field_at.simps [symmetric]
  by (cases caapf; simp only: if_True if_False)
    (rule wp_bindI, rule map_or_new_gives, rule add_edits [OF assms] drop_edits [OF assms], assumption)+

lemma propagation:
  "wp (for_do (\<lambda>(k, v). if propagated k then map_write a k v else ret ()) es)
     (\<lambda>_ k. fresh k = fresh m \<and> (\<forall>b. b \<noteq> a \<longrightarrow> cells k b = cells m b) \<and>
        from_cell map_cell (cells k a) = propagate_to es (from_cell map_cell (cells m a))) m"
proof (induction es arbitrary: m)
  case Nil
  then show ?case by (simp add: propagate_to_def)
next
  case (Cons e es)
  obtain k v where e: "e = (k, v)" by fastforce
  show ?case
  proof (cases "propagated k")
    case True
    show ?thesis
      using Cons.IH [of "write_cell a (to_cell map_cell (AList.update k v (from_cell map_cell (cells m a)))) m"] True e
      by (auto simp: propagate_to_def elim: wp_mono)
  next
    case False
    then show ?thesis using Cons.IH [of m] e by (simp add: propagate_to_def)
  qed
qed

lemma propagate_edits:
  assumes own: "owns_maps R p source es m"
  shows "wp (h_propagateLabels p source) (\<lambda>_. edited p Labels (\<lambda>ls. Some (propagate_to es ls)) m) m"
  unfolding h_propagateLabels_def field_at.simps [symmetric]
proof (rule wp_bindI, rule map_or_new_gives)
  fix a m'
  assume new: "new_map Labels p m a m'"
  have "entries_at m' source = es"
    using own new_map_old(2) [OF own new] entries_agree [of source m m']
    by (auto simp: owns_maps_def Let_def ok_map_def agree_def)
  moreover have "wp (for_do (\<lambda>(k, v). if propagated k then map_write a k v else ret ()) es)
      (\<lambda>_. wp (store_at (field_at Labels p) (Some a)) (\<lambda>_. edited p Labels (\<lambda>ls. Some (propagate_to es ls)) m)) m'"
    by (rule wp_mono [OF propagation])
      (use edited_write [OF own new, where g = "\<lambda>ls. Some (propagate_to es ls)"] new_map_entries [OF new] in auto)
  ultimately show "wp (do {
      es \<leftarrow> (case source of None \<Rightarrow> ret [] | Some s \<Rightarrow> load (deref map_cell s));
      for_do (\<lambda>(k, v). if propagated k then map_write a k v else ret ()) es;
      store_at (field_at Labels p) (Some a) }) (\<lambda>_. edited p Labels (\<lambda>ls. Some (propagate_to es ls)) m) m'"
    by (cases source) (simp_all add: entries_at_def del: wp_store_at)
qed

section \<open>What the operations do to the view\<close>

definition carries :: "addr set \<Rightarrow> (go_cell, h_cluster) ptr \<Rightarrow> addr option \<Rightarrow> (string \<times> string) list \<Rightarrow>
    (rancher_cluster \<Rightarrow> rancher_cluster) \<Rightarrow> (go_cell memory, unit) state \<Rightarrow> bool" where
  "carries R p source es f act \<longleftrightarrow> (\<forall>m. owns_maps R p source es m \<longrightarrow>
     wp act (\<lambda>_ n. owns_maps R p source es n \<and> agree R m n \<and>
       view cluster_layout n (value_at p n) = map_prod id f (view cluster_layout m (value_at p m))) m)"

text \<open>One after the other.\<close>

lemma carries_bind:
  assumes "carries R p source es f act" "carries R p source es g bct"
  shows "carries R p source es (g \<circ> f) (do { act; bct })"
  unfolding carries_def
proof (intro allI impI, rule wp_bindI)
  fix m
  assume "owns_maps R p source es m"
  with assms(1) have "wp act (\<lambda>_ n. owns_maps R p source es n \<and> agree R m n \<and>
       view cluster_layout n (value_at p n) = map_prod id f (view cluster_layout m (value_at p m))) m"
    by (simp add: carries_def)
  then show "wp act (\<lambda>_. wp bct (\<lambda>_ n. owns_maps R p source es n \<and> agree R m n \<and>
       view cluster_layout n (value_at p n) = map_prod id (g \<circ> f) (view cluster_layout m (value_at p m)))) m"
    by (rule wp_mono)
      (use assms(2) in \<open>auto simp: carries_def map_prod.compositionality agree_def elim!: wp_mono\<close>)
qed

lemma carries_edit:
  assumes ed: "\<And>m. owns_maps R p source es m \<Longrightarrow> wp act (\<lambda>_. edited p w g m) m"
    and d: "\<And>ls ys. distinct (map fst ls) \<Longrightarrow> g ls = Some ys \<Longrightarrow> distinct (map fst ys)"
    and f: "\<And>m l rc. ok_map m source \<Longrightarrow> entries_at m source = es \<Longrightarrow> map_of_field w rc = smap_at m l \<Longrightarrow>
      f rc = (case g (entries_at m l) of None \<Rightarrow> rc | Some ys \<Rightarrow> put_map w (Some (map_of ys)) rc)"
  shows "carries R p source es f act"
  unfolding carries_def
proof (intro allI impI, rule wp_mono [OF ed])
  fix m n and u :: unit
  assume own: "owns_maps R p source es m" and e: "edited p w g m n"
  let ?es = "entries_at m (map_ref w (value_at p m))" and ?v = "view cluster_layout m (value_at p m)"
  from own have "distinct (map fst ?es)" and src: "ok_map m source" "entries_at m source = es"
    by (auto simp: owns_field [where w = w] Let_def field_sound [where w = w] ok_map_def)
  note d = d [OF this(1)]
  have "f (snd ?v) = (case g ?es of None \<Rightarrow> snd ?v | Some ys \<Rightarrow> put_map w (Some (map_of ys)) (snd ?v))"
    by (rule f [OF src field_view])
  then have fv: "map_prod id f ?v = map_prod id (\<lambda>rc. case g ?es of None \<Rightarrow> rc | Some ys \<Rightarrow> put_map w (Some (map_of ys)) rc) ?v"
    by (simp add: prod_eq_iff)
  show "owns_maps R p source es n \<and> agree R m n \<and>
      view cluster_layout n (value_at p n) = map_prod id f (view cluster_layout m (value_at p m))"
  proof (cases "g ?es")
    case None
    with e have n: "fresh m \<le> fresh n" "\<forall>b<fresh m. cells n b = cells m b"
      by (simp_all add: edited_def Let_def)
    from unchanged_owns [OF own n] fv None show ?thesis by (simp add: prod_eq_iff)
  next
    case (Some ys)
    from edited_owns [OF own e Some d [OF Some]] fv Some show ?thesis by simp
  qed
qed

lemma opt_out_carries: "carries R p source es optOutOfClusterOwner (h_optOutOfClusterOwner p)"
  by (rule carries_edit [OF opt_out_edits])
    (auto simp: add_once_def optOutOfClusterOwner_def smap_entries mset_def update_conv' distinct_update
      split: if_splits)

lemma fleet_carries:
  "carries R p source es (\<lambda>rc. fst (reconcileExternalFleetManagement E rc capi))
     (h_reconcileExternalFleetManagement (gate E UseCAAPF) p)"
  by (rule carries_edit [OF fleet_edits])
    (auto simp: add_once_def drop_once_def reconcileExternalFleetManagement_def addFleetAnnotation_def
      removeFleetAnnotation_def smap_entries mset_def mdelete_def smap_at_def entries_at_def
      update_conv' delete_conv' distinct_update distinct_delete split: if_splits option.splits)

lemma propagate_to_entries:
  "distinct (map fst es) \<Longrightarrow> map_of (propagate_to es ls) k =
     (case map_of es k of None \<Rightarrow> map_of ls k | Some v \<Rightarrow> if propagated k then Some v else map_of ls k)"
  by (induction es arbitrary: ls)
    (force simp: propagate_to_def update_conv' split: option.splits dest: map_of_SomeD)+

lemma propagate_to_distinct: "distinct (map fst ls) \<Longrightarrow> distinct (map fst (propagate_to es ls))"
  by (induction es arbitrary: ls) (auto simp: propagate_to_def distinct_update)

lemma propagate_carries:
  assumes "alloc (m_labels (cc_meta capi)) = map_of es"
  shows "carries R p source es (\<lambda>rc. propagateLabels rc capi) (h_propagateLabels p source)"
proof (rule carries_edit [OF propagate_edits])
  fix m l and rc :: rancher_cluster
  assume "ok_map m source" "entries_at m source = es" "map_of_field Labels rc = smap_at m l"
  then have "alloc (m_labels (rc_meta rc)) = map_of (entries_at m l)" "distinct (map fst es)"
    by (auto simp: smap_entries ok_map_def)
  then have "map_of (propagate_to es (entries_at m l)) = (\<lambda>k. case alloc (m_labels (cc_meta capi)) k of
      None \<Rightarrow> alloc (m_labels (rc_meta rc)) k
    | Some v \<Rightarrow> if propagated k then Some v else alloc (m_labels (rc_meta rc)) k)"
    by (intro ext) (simp add: assms propagate_to_entries split: option.split)
  then show "propagateLabels rc capi = (case Some (propagate_to es (entries_at m l)) of
      None \<Rightarrow> rc | Some ys \<Rightarrow> put_map Labels (Some (map_of ys)) rc)"
    by (simp add: propagateLabels_def Let_def)
qed (auto simp: propagate_to_distinct)

section \<open>The patch of a Rancher cluster that exists\<close>

text \<open>
  The three operations, as \<open>reconcileNormal\<close> calls them, and the patch base that \<open>reconcile\<close>
  takes before.
\<close>

definition h_edits :: "bool \<Rightarrow> (go_cell, h_cluster) ptr \<Rightarrow> addr option \<Rightarrow> (go_cell memory, unit) state" where
  "h_edits caapf rancherCluster source = do {
     h_optOutOfClusterOwner rancherCluster;
     h_propagateLabels rancherCluster source;
     h_reconcileExternalFleetManagement caapf rancherCluster }"

definition h_prepare :: "foreign \<Rightarrow> bool \<Rightarrow> (go_cell, h_cluster) ptr \<Rightarrow> addr option \<Rightarrow>
    (go_cell memory, addr option) state" where
  "h_prepare F caapf rancherCluster source = do {
     patchBase \<leftarrow> v3_Cluster_DeepCopy F (Some rancherCluster);
     h_edits caapf rancherCluster source;
     ret patchBase }"

lemma operations_carry:
  assumes "alloc (m_labels (cc_meta capi)) = map_of es"
  shows "carries R p source es
     (\<lambda>rc. fst (reconcileExternalFleetManagement E (propagateLabels (optOutOfClusterOwner rc) capi) capi))
     (h_edits (gate E UseCAAPF) p source)"
  unfolding h_edits_def
  using carries_bind [OF opt_out_carries carries_bind [OF propagate_carries [OF assms] fleet_carries [where E = E and capi = capi]]]
  by (simp add: comp_def)

lemma owns_after_copy:
  assumes "owns_maps {} p source es m" "fresh m \<le> fresh n" "\<forall>b<fresh m. cells n b = cells m b"
  shows "owns_maps {fresh m..<fresh n} p source es n"
proof -
  have "owns_maps {} p source es n" by (rule unchanged_owns [OF assms])
  moreover have "value_at p n = value_at p m" using assms by (simp add: value_at_def owns_maps_def Let_def)
  moreover have "ok_map m (map_ref Labels (value_at p m))" "ok_map m (map_ref Annotations (value_at p m))" "base p < fresh m"
    using assms(1) by (auto simp: owns_maps_def Let_def field_sound [where w = Labels])
  ultimately show ?thesis by (auto simp: owns_maps_def Let_def ok_map_def)
qed

text \<open>
  C15.  The patch of a Rancher cluster that exists carries exactly the change.  The operations
  edit the maps of the object in place, and the base of the patch was copied from it: after
  them the object has the content that the functions of Import give - the operations on memory
  refine the ones on values - while the base still has the content from before, so that the
  difference between the two, which is what is sent, is the change that was made.
\<close>

theorem patch_carries_the_change:
  assumes F: "documented F" and own: "owns_maps {} p source es m"
    and labels: "alloc (m_labels (cc_meta capi)) = map_of es"
    and run: "run_state (h_prepare F (gate E UseCAAPF) p source) m = (r, n)"
  shows "\<exists>a. r = Some a \<and>
    view cluster_layout n (value_at (deref cluster_cell a) n) = view cluster_layout m (value_at p m) \<and>
    view cluster_layout n (value_at p n) = map_prod id (\<lambda>rc.
      fst (reconcileExternalFleetManagement E (propagateLabels (optOutOfClusterOwner rc) capi) capi))
      (view cluster_layout m (value_at p m))"
proof -
  from own have p: "base p < fresh m" "sound cluster_layout m (value_at p m)"
    by (simp_all add: owns_maps_def Let_def)
  obtain b k where copy: "run_state (v3_Cluster_DeepCopy F (Some p)) m = (b, k)" by fastforce
  from deep_copiesD [OF cluster_deep_copies [OF F] p] copy
  have k: "fresh m \<le> fresh k" "\<forall>c<fresh m. cells k c = cells m c" by (simp_all add: wp_def)
  note own' = owns_after_copy [OF own k]
  have same: "view cluster_layout k (value_at p k) = view cluster_layout m (value_at p m)"
    using unchanged_owns(2) [OF own k] .
  obtain u where rest: "run_state (h_edits (gate E UseCAAPF) p source) k = (u, n)" and r: "r = b"
    using run copy unfolding h_prepare_def by (auto simp: run_state_bind split: prod.splits)
  note operations_carry [OF labels, where E = E, unfolded carries_def wp_def, rule_format, OF own', unfolded rest prod.case]
  then have ag: "agree {fresh m..<fresh k} k n" and v: "view cluster_layout n (value_at p n) = map_prod id (\<lambda>rc.
      fst (reconcileExternalFleetManagement E (propagateLabels (optOutOfClusterOwner rc) capi) capi))
      (view cluster_layout k (value_at p k))"
    by simp_all
  from cluster.isolated [OF cluster_deep_copies [OF F] p copy] ag obtain a where "b = Some a"
    "view cluster_layout n (value_at (deref cluster_cell a) n) = view cluster_layout m (value_at p m)"
    by metis
  with r v same show ?thesis by simp
qed

text \<open>The labels of the CAPI cluster at cell 3.\<close>

definition sample_source :: "go_cell memory" where
  "sample_source = \<lparr>cells = (cells sample_memory)(3 := MapCell [(''env'', ''prod'')]), fresh = 4\<rparr>"

lemma sample_owns: "owns_maps {} (deref cluster_cell 0) (Some 3) [(''env'', ''prod'')] sample_source"
  by (auto simp: owns_maps_def Let_def sound_def cluster_layout_def meta_layout_def cluster_status_layout_def
      rest_layout_def sample_source_def sample_memory_def cell_defs zero_cluster_def zero_meta_def
      zero_cluster_status_def map_in_def items_def ok_map_def entries_at_def lawful_def)

definition sample_capi :: capi_cluster where
  "sample_capi = \<lparr>cc_meta = empty_meta\<lparr>m_labels := Some [''env'' \<mapsto> ''prod'']\<rparr>, cc_conditions = []\<rparr>"

lemma sample_env_propagates: "propagated ''env''"
  by (simp add: propagated_def contains_def has_prefix_def)

theorem patch_carries_the_change_witness:
  "\<exists>a n. run_state (h_prepare plain (gate base_env UseCAAPF) (deref cluster_cell 0) (Some 3)) sample_source = (Some a, n) \<and>
     mget (m_labels (rc_meta (snd (view cluster_layout n (value_at (deref cluster_cell a) n))))) ''env'' = None \<and>
     mget (m_labels (rc_meta (snd (view cluster_layout n (value_at (deref cluster_cell 0) n))))) ''env'' = Some ''prod''"
proof -
  obtain r n where run: "run_state (h_prepare plain (gate base_env UseCAAPF) (deref cluster_cell 0) (Some 3)) sample_source = (r, n)"
    by fastforce
  have l: "alloc (m_labels (cc_meta sample_capi)) = map_of [(''env'', ''prod'')]"
    by (simp add: sample_capi_def alloc_def)
  have old: "mget (m_labels (rc_meta (snd (view cluster_layout sample_source (value_at (deref cluster_cell 0) sample_source))))) ''env'' = None"
    by (simp add: cluster_view value_with_def smap_at_def sample_source_def sample_memory_def cell_defs
        zero_meta_def mget_def split: prod.splits)
  have new: "mget (m_labels (rc_meta (fst (reconcileExternalFleetManagement base_env
      (propagateLabels (optOutOfClusterOwner rc) sample_capi) sample_capi)))) ''env'' = Some ''prod''" for rc
    using sample_env_propagates l
    by (simp add: reconcileExternalFleetManagement_def addFleetAnnotation_def removeFleetAnnotation_def
        propagateLabels_def mget_def Let_def)
  from patch_carries_the_change [OF plain_documented sample_owns l run] run old new show ?thesis
    by (auto simp: snd_map_prod)
qed

end
