(* ===== verification/Class_Examples.thy ===== *)
theory Class_Examples
  imports Go_Lib "HOL-Library.AList"
begin

text \<open>
  src/examples/main.go: the command that prints the example manifests of a cluster class.

  The embedded file systems are trees.  A Go map is the list of its entries, one per key;
  the order in which a \<open>range\<close> or \<open>maps.Values\<close> gives them is up to the run-time, so the
  environment has a function for each of these places that may reorder them.  The parser of
  the command line, the regular expressions and the edit distance are parameters.  A loop of
  \<open>Collect\<close> ends when its stack of directories is empty, which depends on the file system:
  it is a partial function.
\<close>

section \<open>Embedded file systems\<close>

datatype node = File string | Dir "(string \<times> node) list"

type_synonym kv = "(string \<times> string) list"

definition is_dir :: "node \<Rightarrow> bool" where
  "is_dir t = (case t of Dir _ \<Rightarrow> True | File _ \<Rightarrow> False)"

fun find_node :: "node \<Rightarrow> string list \<Rightarrow> node option" where
  "find_node t [] = Some t"
| "find_node (File _) (c # cs) = None"
| "find_node (Dir es) (c # cs) = (case map_of es c of None \<Rightarrow> None | Some t \<Rightarrow> find_node t cs)"

text \<open>A path is relative, has no empty element, and is \<open>.\<close> for the root.\<close>

definition components :: "string \<Rightarrow> string list" where
  "components path = (if path = ''.'' then [] else split_char (CHR ''/'') path)"

definition fs_ReadDir :: "node \<Rightarrow> string \<Rightarrow> go_error + (string \<times> node) list" where
  "fs_ReadDir fs path = (case find_node fs (components path) of
     None \<Rightarrow> Inl (EMsg ''file does not exist'')
   | Some (File _) \<Rightarrow> Inl (EMsg ''not a directory'')
   | Some (Dir es) \<Rightarrow> Inr es)"

definition fs_ReadFile :: "node \<Rightarrow> string \<Rightarrow> go_error + string" where
  "fs_ReadFile fs path = (case find_node fs (components path) of
     None \<Rightarrow> Inl (EMsg ''file does not exist'')
   | Some (Dir _) \<Rightarrow> Inl (EMsg ''is a directory'')
   | Some (File s) \<Rightarrow> Inr s)"

text \<open>\<open>filepath.Join\<close> for such a path and the name of an entry.\<close>

definition path_join :: "string \<Rightarrow> string \<Rightarrow> string" where
  "path_join root name = (if root = ''.'' then name else root @ ''/'' @ name)"

section \<open>Collecting\<close>

text \<open>The struct \<open>Examples\<close>.\<close>

record examples =
  Applications :: kv
  ClusterClasses :: kv
  dirs :: "string list"

definition newline :: string where
  "newline = [char_of (10::nat)]"

fun joinYamls :: "string list \<Rightarrow> string" where
  "joinYamls [] = []"
| "joinYamls (yaml # yamls) =
     (if yaml = [] then joinYamls yamls
      else newline @ ''---'' @ newline @ yaml @ joinYamls yamls)"

definition lookup :: "kv \<Rightarrow> string \<Rightarrow> string" where
  "lookup m k = (case map_of m k of None \<Rightarrow> [] | Some v \<Rightarrow> v)"

text \<open>\<open>maps.Insert(m, maps.All(n))\<close>\<close>

definition insert_all :: "kv \<Rightarrow> kv \<Rightarrow> kv" where
  "insert_all n m = fold (\<lambda>(k, v). AList.update k v) n m"

definition is_yaml :: "string \<Rightarrow> bool" where
  "is_yaml name = (has_suffix name ''.yaml'' \<or> has_suffix name ''.yml'')"

text \<open>
  The loop of \<open>collectFiles\<close> over the entries of a directory: a directory goes on the stack
  \<open>e.dirs\<close>, a file that is not YAML is skipped, the content of the others is joined under
  the key of the directory.
\<close>

fun collect_entries :: "node \<Rightarrow> string \<Rightarrow> (string \<Rightarrow> string) \<Rightarrow> (string \<times> node) list \<Rightarrow> string list \<Rightarrow> kv
    \<Rightarrow> string list \<times> (go_error + kv)" where
  "collect_entries fs root keyFn [] stack files = (stack, Inr files)"
| "collect_entries fs root keyFn ((name, t) # es) stack files =
     (let path = path_join root name in
      if is_dir t then collect_entries fs root keyFn es (stack @ [path]) files
      else if \<not> is_yaml name then collect_entries fs root keyFn es stack files
      else (case fs_ReadFile fs path of
          Inl e \<Rightarrow> (stack, Inl e)
        | Inr content \<Rightarrow>
            (let key = keyFn root in
             collect_entries fs root keyFn es stack
               (AList.update key (joinYamls [lookup files key, content]) files))))"

definition collectFiles :: "node \<Rightarrow> string \<Rightarrow> (string \<Rightarrow> string) \<Rightarrow> string list \<Rightarrow> string list \<times> (go_error + kv)" where
  "collectFiles fs root keyFn stack = (case fs_ReadDir fs root of
     Inl e \<Rightarrow> (stack, Inl e)
   | Inr es \<Rightarrow> collect_entries fs root keyFn es stack [])"

text \<open>\<open>for len(e.dirs) > 0\<close>: the last directory is taken off the stack.\<close>

partial_function (option) collect_loop :: "node \<Rightarrow> (string \<Rightarrow> string) \<Rightarrow> string list \<Rightarrow> kv \<Rightarrow> (go_error + kv) option" where
  "collect_loop fs keyFn stack found =
     (if stack = [] then Some (Inr found)
      else (case collectFiles fs (last stack) keyFn (butlast stack) of
          (stack', Inl e) \<Rightarrow> Some (Inl e)
        | (stack', Inr files) \<Rightarrow> collect_loop fs keyFn stack' (insert_all files found)))"

definition app_key :: "string \<Rightarrow> string" where
  "app_key key = replace_all (cut_prefix key ''applications/'') ''/'' ''-''"

definition class_key :: "string \<Rightarrow> string" where
  "class_key key = replace_all (cut_prefix key ''clusterclasses/'') ''/'' ''-''"

text \<open>
  \<open>Collect\<close>, with what it prints when it fails.  The receiver of \<open>main\<close> is fresh, so its
  stack is empty before.
\<close>

definition Collect :: "(go_error \<Rightarrow> string) \<Rightarrow> node \<Rightarrow> node \<Rightarrow> (string \<times> (go_error + examples)) option" where
  "Collect show_error applications clusterclasses =
     (case collect_loop applications app_key [''.''] [] of
        None \<Rightarrow> None
      | Some (Inl e) \<Rightarrow> Some (show_error e, Inl e)
      | Some (Inr apps) \<Rightarrow>
          (case collect_loop clusterclasses class_key [''.''] [] of
             None \<Rightarrow> None
           | Some (Inl e) \<Rightarrow> Some (show_error e, Inl e)
           | Some (Inr classes) \<Rightarrow>
               Some ([], Inr \<lparr>Applications = apps, ClusterClasses = classes, dirs = []\<rparr>)))"

section \<open>Searching\<close>

record examples_env =
  show_error :: "go_error \<Rightarrow> string"
  pflag_Parse :: "string list \<Rightarrow> nat + bool \<times> string"
  compile_regex :: "string \<Rightarrow> (string \<Rightarrow> bool) option"
  levenshtein :: "string \<Rightarrow> string \<Rightarrow> nat"
  order_applications :: "kv \<Rightarrow> kv"
  order_search :: "kv \<Rightarrow> kv"
  order_closest :: "kv \<Rightarrow> kv"
  order_list :: "kv \<Rightarrow> kv"

text \<open>\<open>math.MaxInt\<close>\<close>

definition max_int :: nat where
  "max_int = 2 ^ 63 - 1"

fun closest_loop :: "(string \<Rightarrow> nat) \<Rightarrow> string list \<Rightarrow> string \<Rightarrow> nat \<Rightarrow> string" where
  "closest_loop distance [] closestMatch shortest = closestMatch"
| "closest_loop distance (k # ks) closestMatch shortest =
     (if distance k < shortest then closest_loop distance ks k (distance k)
      else closest_loop distance ks closestMatch shortest)"

definition closestMatch :: "examples_env \<Rightarrow> examples \<Rightarrow> string \<Rightarrow> string" where
  "closestMatch env e key =
     closest_loop (\<lambda>k. levenshtein env k key) (map fst (order_closest env (ClusterClasses e))) [] max_int"

definition not_found :: "string \<Rightarrow> string \<Rightarrow> string" where
  "not_found key closest =
     ''clusterclasses not found: '' @ key @ '', maybe you want to use: '' @ closest @ ''?'' @ newline"

definition ClusterClassRegex :: "examples_env \<Rightarrow> examples \<Rightarrow> string \<Rightarrow> (string \<Rightarrow> bool) \<Rightarrow> string + string" where
  "ClusterClassRegex env e search matches =
     (let keys = filter matches (map fst (order_search env (ClusterClasses e))) in
      if keys = [] then Inl (not_found search (closestMatch env e search))
      else Inr (joinYamls (map snd (order_applications env (Applications e)) @
        map (lookup (ClusterClasses e)) keys)))"

definition ClusterClass :: "examples_env \<Rightarrow> examples \<Rightarrow> string \<Rightarrow> string + string" where
  "ClusterClass env e key = (case map_of (ClusterClasses e) key of
     None \<Rightarrow> Inl (not_found key (closestMatch env e key))
   | Some clusterClass \<Rightarrow>
       Inr (joinYamls (map snd (order_applications env (Applications e)) @ [clusterClass])))"

section \<open>The command\<close>

text \<open>The flags: name, shorthand, default and usage.\<close>

datatype flag_value = BoolFlag bool | StringFlag string

definition examples_initFlags :: "(string \<times> string \<times> flag_value \<times> string) list" where
  "examples_initFlags =
     [(''list'', ''l'', BoolFlag False, ''List cluster class names from examples''),
      (''regex'', ''r'', StringFlag [], ''ClusterClass search regex'')]"

text \<open>What a run leaves: standard output, standard error, exit status.\<close>

record run_result =
  stdout :: string
  stderr :: string
  status :: nat

text \<open>
  The slice of keys under \<open>%s\<close>.  A pattern that does not compile panics in
  \<open>MustCompile\<close>, with status 2.  The search key is \<open>os.Args[1]\<close>, not the first argument that
  is left after the flags.
\<close>

definition examples_main :: "examples_env \<Rightarrow> node \<Rightarrow> node \<Rightarrow> string list \<Rightarrow> run_result option" where
  "examples_main env applications clusterclasses args =
     (case pflag_Parse env (tl args) of
        Inl code \<Rightarrow> Some \<lparr>stdout = [], stderr = [], status = code\<rparr>
      | Inr (clusterClassList, clusterClassRegex) \<Rightarrow>
          (case Collect (show_error env) applications clusterclasses of
             None \<Rightarrow> None
           | Some (printed, Inl e) \<Rightarrow>
               Some \<lparr>stdout = [], stderr = printed @ show_error env e, status = 1\<rparr>
           | Some (_, Inr ex) \<Rightarrow>
               Some (if clusterClassList then
                   \<lparr>stdout = ''Available classes: ['' @ join '' '' (map fst (order_list env (ClusterClasses ex)))
                      @ '']'' @ newline, stderr = [], status = 0\<rparr>
                 else if clusterClassRegex \<noteq> [] then
                   (case compile_regex env clusterClassRegex of
                      None \<Rightarrow> \<lparr>stdout = [], stderr = ''panic'', status = 2\<rparr>
                    | Some matches \<Rightarrow>
                        (case ClusterClassRegex env ex clusterClassRegex matches of
                           Inl err \<Rightarrow> \<lparr>stdout = [], stderr = err, status = 1\<rparr>
                         | Inr data \<Rightarrow> \<lparr>stdout = data, stderr = [], status = 0\<rparr>))
                 else if length args < 2 then
                   \<lparr>stdout = [], stderr = ''Please provide the search key for examples'' @ newline, status = 1\<rparr>
                 else
                   (case ClusterClass env ex (args ! 1) of
                      Inl err \<Rightarrow> \<lparr>stdout = [], stderr = err, status = 1\<rparr>
                    | Inr data \<Rightarrow> \<lparr>stdout = data, stderr = [], status = 0\<rparr>))))"

end
