(* ===== verification/Class_Examples_Behaviour.thy ===== *)
theory Class_Examples_Behaviour
  imports Class_Examples "HOL-Library.Multiset"
begin

text \<open>
  The loop of \<open>Collect\<close> with its stack of directories against the recursion over the tree,
  and what the command prints.
\<close>

section \<open>The reference: a recursion over the tree\<close>

fun yaml_contents :: "(string \<times> node) list \<Rightarrow> string list" where
  "yaml_contents [] = []"
| "yaml_contents ((n, File s) # es) = (if is_yaml n then s # yaml_contents es else yaml_contents es)"
| "yaml_contents ((n, Dir _) # es) = yaml_contents es"

text \<open>
  The directories that have YAML files, with their joined content, in the order in which the
  stack gives them: of two directories in one, the later entry comes first.
\<close>

fun walk :: "string \<Rightarrow> node \<Rightarrow> (string \<times> string) list"
  and walks :: "string \<Rightarrow> (string \<times> node) list \<Rightarrow> (string \<times> string) list" where
  "walk p (File s) = []"
| "walk p (Dir es) =
     (if yaml_contents es = [] then []
      else [(p, foldl (\<lambda>joined s. joinYamls [joined, s]) [] (yaml_contents es))]) @ walks p es"
| "walks p [] = []"
| "walks p ((n, t) # es) = walks p es @ walk (path_join p n) t"

text \<open>Names of entries are path elements, and no two in a directory are the same.\<close>

definition element_name :: "string \<Rightarrow> bool" where
  "element_name n = (n \<noteq> ''.'' \<and> CHR ''/'' \<notin> set n)"

fun well_named :: "node \<Rightarrow> bool" and well_named_all :: "(string \<times> node) list \<Rightarrow> bool" where
  "well_named (File s) = True"
| "well_named (Dir es) = (distinct (map fst es) \<and> well_named_all es)"
| "well_named_all [] = True"
| "well_named_all ((n, t) # es) = (element_name n \<and> well_named t \<and> well_named_all es)"

section \<open>Paths\<close>

lemma split_char_sep: "split_char sep (a @ sep # b) = split_char sep a @ split_char sep b"
proof (induction a)
  case Nil
  then show ?case by simp
next
  case (Cons c a)
  then show ?case by (auto split: list.splits)
qed

lemma components_join:
  assumes "element_name n"
  shows "components (path_join p n) = components p @ [n]"
proof (cases "p = ''.''")
  case True
  with assms show ?thesis
    by (simp add: components_def path_join_def element_name_def split_char_id)
next
  case False
  have "p @ ''/'' @ n \<noteq> ''.''"
  proof
    assume "p @ ''/'' @ n = ''.''"
    then have "CHR ''/'' \<in> set ''.''" by (metis in_set_conv_decomp append_Cons append_Nil)
    then show False by simp
  qed
  with False assms show ?thesis
    using split_char_sep [of "CHR ''/''" p n]
    by (simp add: components_def path_join_def element_name_def split_char_id)
qed

lemma find_node_snoc:
  "find_node t (cs @ [n]) = (case find_node t cs of Some (Dir es) \<Rightarrow> map_of es n | _ \<Rightarrow> None)"
proof (induction t cs rule: find_node.induct)
  case (1 t)
  then show ?case by (cases t) (auto split: option.splits)
next
  case (2 s c cs)
  then show ?case by simp
next
  case (3 es c cs)
  then show ?case by (auto split: option.splits)
qed

text \<open>The entries of a directory are found under their paths.\<close>

lemma find_entry:
  assumes "find_node fs (components p) = Some (Dir es)" "distinct (map fst es)" "element_name n" "(n, t) \<in> set es"
  shows "find_node fs (components (path_join p n)) = Some t"
  using assms by (simp add: components_join find_node_snoc)

lemma well_named_entry: "well_named_all es \<Longrightarrow> (n, t) \<in> set es \<Longrightarrow> element_name n \<and> well_named t"
  by (induction es) auto

section \<open>One directory\<close>

definition subdirs :: "string \<Rightarrow> (string \<times> node) list \<Rightarrow> (string \<times> node) list" where
  "subdirs p es = map (\<lambda>(n, t). (path_join p n, t)) (filter (\<lambda>(n, t). is_dir t) es)"

lemma subdirs_simps [simp]:
  "subdirs p [] = []"
  "subdirs p ((n, File s) # es) = subdirs p es"
  "subdirs p ((n, Dir ds) # es) = (path_join p n, Dir ds) # subdirs p es"
  by (auto simp: subdirs_def is_dir_def)

lemma lookup_single [simp]: "lookup [(k, x)] k = x"
  by (simp add: lookup_def)

lemma collect_entries_result:
  assumes "\<And>n s. (n, File s) \<in> set es \<Longrightarrow> fs_ReadFile fs (path_join root n) = Inr s"
    and "files = [] \<or> (\<exists>x. files = [(keyFn root, x)])"
  shows "collect_entries fs root keyFn es stack files =
    (stack @ map fst (subdirs root es),
     Inr (if yaml_contents es = [] then files
       else [(keyFn root, foldl (\<lambda>joined s. joinYamls [joined, s]) (lookup files (keyFn root)) (yaml_contents es))]))"
  using assms
proof (induction es arbitrary: stack files)
  case Nil
  then show ?case by simp
next
  case (Cons e es)
  obtain n t where e: "e = (n, t)" by fastforce
  show ?case
  proof (cases t)
    case (Dir ds)
    with Cons e show ?thesis by (simp add: is_dir_def)
  next
    case (File s)
    with Cons.prems(1) e have r: "fs_ReadFile fs (path_join root n) = Inr s" by simp
    let ?key = "keyFn root"
    let ?files = "AList.update ?key (joinYamls [lookup files ?key, s]) files"
    have f: "?files = [(?key, joinYamls [lookup files ?key, s])]" using Cons.prems(2) by auto
    then have l: "lookup ?files ?key = joinYamls [lookup files ?key, s]" by (simp add: lookup_def)
    note ih = Cons.IH [of ?files stack] Cons.IH [of files stack]
    from Cons.prems e File f ih show ?thesis
      by (auto simp: is_dir_def r l Let_def simp del: joinYamls.simps)
  qed
qed

lemma collectFiles_result:
  assumes "find_node fs (components p) = Some (Dir es)" "well_named (Dir es)"
  shows "collectFiles fs p keyFn stack = (stack @ map fst (subdirs p es),
     Inr (map (\<lambda>(p, s). (keyFn p, s)) (if yaml_contents es = [] then []
      else [(p, foldl (\<lambda>joined s. joinYamls [joined, s]) [] (yaml_contents es))])))"
proof -
  have "fs_ReadFile fs (path_join p n) = Inr s" if "(n, File s) \<in> set es" for n s
    using assms that well_named_entry [OF _ that] find_entry [OF assms(1) _ _ that]
    by (simp add: fs_ReadFile_def)
  with assms show ?thesis
    by (simp add: collectFiles_def fs_ReadDir_def collect_entries_result lookup_def)
qed

section \<open>The loop\<close>

definition walk_stack :: "(string \<times> node) list \<Rightarrow> (string \<times> string) list" where
  "walk_stack ps = concat (map (\<lambda>(p, t). walk p t) (rev ps))"

definition keyed :: "(string \<Rightarrow> string) \<Rightarrow> (string \<times> string) list \<Rightarrow> kv" where
  "keyed keyFn xs = map (\<lambda>(p, s). (keyFn p, s)) xs"

lemma walk_stack_subdirs: "walk_stack (subdirs p es) = walks p es"
proof (induction es)
  case Nil
  then show ?case by (simp add: walk_stack_def)
next
  case (Cons e es)
  obtain n t where "e = (n, t)" by fastforce
  with Cons show ?case by (cases t) (auto simp: walk_stack_def)
qed

lemma subdirs_smaller: "sum_list (map (\<lambda>(p, t). size t) (subdirs p es)) < size (Dir es)"
proof (induction es)
  case Nil
  then show ?case by simp
next
  case (Cons e es)
  obtain n t where "e = (n, t)" by fastforce
  with Cons show ?case by (cases t) auto
qed

definition on_stack :: "node \<Rightarrow> string \<times> node \<Rightarrow> bool" where
  "on_stack fs = (\<lambda>(p, t). find_node fs (components p) = Some t \<and> is_dir t \<and> well_named t)"

lemma subdirs_on_stack:
  assumes "on_stack fs (p, Dir es)" "d \<in> set (subdirs p es)"
  shows "on_stack fs d"
proof -
  from assms(2) obtain n t where d: "d = (path_join p n, t)" and i: "(n, t) \<in> set es" "is_dir t"
    by (auto simp: subdirs_def)
  from assms(1) have p: "find_node fs (components p) = Some (Dir es)" "distinct (map fst es)" "well_named_all es"
    by (auto simp: on_stack_def)
  from well_named_entry [OF p(3) i(1)] find_entry [OF p(1,2) _ i(1)] i(2) d show ?thesis
    by (simp add: on_stack_def)
qed

lemma insert_all_append: "insert_all (xs @ ys) m = insert_all ys (insert_all xs m)"
  by (simp add: insert_all_def)

lemma collect_loop_walks:
  assumes "\<And>d. d \<in> set ps \<Longrightarrow> on_stack fs d"
  shows "collect_loop fs keyFn (map fst ps) found = Some (Inr (insert_all (keyed keyFn (walk_stack ps)) found))"
  using assms
proof (induction "sum_list (map (\<lambda>(p, t). size t) ps)" arbitrary: ps found rule: less_induct)
  case less
  show ?case
  proof (cases ps rule: rev_cases)
    case Nil
    then show ?thesis
      by (simp add: collect_loop.simps walk_stack_def keyed_def insert_all_def)
  next
    case (snoc qs d)
    obtain p t where d: "d = (p, t)" by fastforce
    from less.prems [of d] snoc d obtain es where t: "t = Dir es" and on: "on_stack fs (p, Dir es)"
      by (cases t) (auto simp: on_stack_def is_dir_def)
    let ?here = "if yaml_contents es = [] then []
      else [(p, foldl (\<lambda>joined s. joinYamls [joined, s]) [] (yaml_contents es))]"
    let ?next = "qs @ subdirs p es"
    have c: "collectFiles fs p keyFn (map fst qs) = (map fst ?next, Inr (keyed keyFn ?here))"
      using on collectFiles_result [of fs p es keyFn "map fst qs"] by (simp add: on_stack_def keyed_def)
    have "collect_loop fs keyFn (map fst ps) found =
        collect_loop fs keyFn (map fst ?next) (insert_all (keyed keyFn ?here) found)"
      using snoc d c by (subst collect_loop.simps) simp
    also have "\<dots> = Some (Inr (insert_all (keyed keyFn (walk_stack ?next)) (insert_all (keyed keyFn ?here) found)))"
    proof (rule less.hyps)
      show "sum_list (map (\<lambda>(p, t). size t) ?next) < sum_list (map (\<lambda>(p, t). size t) ps)"
        using snoc d t subdirs_smaller [of p es] by simp
      show "on_stack fs e" if "e \<in> set ?next" for e
        using that less.prems [of e] snoc subdirs_on_stack [OF on, of e] by (simp del: split_paired_All) blast
    qed
    also have "insert_all (keyed keyFn (walk_stack ?next)) (insert_all (keyed keyFn ?here) found) =
        insert_all (keyed keyFn (walk_stack ps)) found"
      using snoc d t walk_stack_subdirs [of p es]
      by (simp add: walk_stack_def keyed_def insert_all_append [symmetric])
    finally show ?thesis .
  qed
qed

section \<open>The walk visits every directory with examples\<close>

definition path_of :: "string list \<Rightarrow> string" where
  "path_of cs = foldl path_join ''.'' cs"

definition joined :: "(string \<times> node) list \<Rightarrow> string" where
  "joined es = foldl (\<lambda>j s. joinYamls [j, s]) [] (yaml_contents es)"

text \<open>\<open>cs\<close> leads to a directory that has YAML files, and these are joined to \<open>v\<close>.\<close>

definition example_dir :: "node \<Rightarrow> string list \<Rightarrow> string \<Rightarrow> bool" where
  "example_dir t cs v \<longleftrightarrow>
     (\<exists>es. find_node t cs = Some (Dir es) \<and> yaml_contents es \<noteq> [] \<and> v = joined es)"

lemma example_dir_Nil: "example_dir (Dir es) [] v \<longleftrightarrow> yaml_contents es \<noteq> [] \<and> v = joined es"
  by (auto simp: example_dir_def)

lemma example_dir_File: "\<not> example_dir (File s) cs v"
  by (cases cs) (auto simp: example_dir_def)

lemma example_dir_Cons:
  assumes "distinct (map fst es)"
  shows "example_dir (Dir es) (c # cs) v \<longleftrightarrow> (\<exists>t. (c, t) \<in> set es \<and> example_dir t cs v)"
  by (cases "map_of es c") (auto simp: example_dir_def map_of_eq_Some_iff [OF assms, symmetric])

lemma walk_set:
  shows "well_named t \<Longrightarrow>
      set (walk p t) = {(foldl path_join p cs, v) | cs v. example_dir t cs v}"
    and "well_named_all es \<Longrightarrow> set (walks p es) =
      {(foldl path_join (path_join p n) cs, v) | n t cs v. (n, t) \<in> set es \<and> example_dir t cs v}"
proof (induction t and es arbitrary: p and p rule: well_named_well_named_all.induct)
  case (1 s)
  then show ?case by (simp add: example_dir_File)
next
  case (2 es)
  then have d: "distinct (map fst es)" and ws: "set (walks p es) =
      {(foldl path_join (path_join p n) cs, v) | n t cs v. (n, t) \<in> set es \<and> example_dir t cs v}" by auto
  have "(q, v) \<in> set (walk p (Dir es)) \<longleftrightarrow> (\<exists>cs. q = foldl path_join p cs \<and> example_dir (Dir es) cs v)" for q v
  proof -
    have "(q, v) \<in> set (walk p (Dir es)) \<longleftrightarrow> (q = p \<and> example_dir (Dir es) [] v) \<or>
        (\<exists>n cs. q = foldl path_join p (n # cs) \<and> example_dir (Dir es) (n # cs) v)"
      by (auto simp: ws example_dir_Nil example_dir_Cons [OF d] joined_def)
    also have "\<dots> \<longleftrightarrow> (\<exists>cs. q = foldl path_join p cs \<and> example_dir (Dir es) cs v)"
      by (metis foldl_Nil neq_Nil_conv)
    finally show ?thesis .
  qed
  then show ?case by (auto simp del: walk.simps joinYamls.simps)
next
  case 3
  then show ?case by simp
next
  case (4 n t es)
  then show ?case by auto
qed

lemma map_of_insert_all: "map_of (insert_all xs m) = map_of m ++ map_of (rev xs)"
proof (induction xs arbitrary: m)
  case Nil
  then show ?case by (simp add: insert_all_def)
next
  case (Cons x xs)
  obtain k v where x: "x = (k, v)" by fastforce
  have "map_of (insert_all (x # xs) m) = map_of (insert_all xs (AList.update k v m))"
    using x by (simp add: insert_all_def)
  also have "\<dots> = map_of m ++ map_of (rev (x # xs))"
    using x by (simp add: Cons update_conv fun_eq_iff map_add_def split: option.splits)
  finally show ?case .
qed

text \<open>What the loop leaves: the keys, and for each key the content of a directory.\<close>

definition collected :: "(string \<Rightarrow> string) \<Rightarrow> node \<Rightarrow> kv \<Rightarrow> bool" where
  "collected keyFn t m \<longleftrightarrow>
     (\<forall>cs v. example_dir t cs v \<longrightarrow> map_of m (keyFn (path_of cs)) \<noteq> None) \<and>
     (\<forall>k v. map_of m k = Some v \<longrightarrow> (\<exists>cs. keyFn (path_of cs) = k \<and> example_dir t cs v))"

lemma collect_loop_collected:
  assumes "well_named t" "is_dir t"
  shows "\<exists>m. collect_loop t keyFn [''.''] [] = Some (Inr m) \<and> collected keyFn t m"
proof -
  have on: "on_stack t (''.'', t)" using assms by (simp add: on_stack_def components_def)
  have w: "walk_stack [(''.'', t)] = walk ''.'' t" by (simp add: walk_stack_def)
  let ?m = "insert_all (keyed keyFn (walk ''.'' t)) []"
  have c: "collect_loop t keyFn [''.''] [] = Some (Inr ?m)"
    using collect_loop_walks [of "[(''.'', t)]" t keyFn "[]"] on w by simp
  have "(q, v) \<in> set (walk ''.'' t) \<longleftrightarrow> (\<exists>cs. q = path_of cs \<and> example_dir t cs v)" for q v
    using walk_set(1) [OF assms(1), of "''.''"] by (auto simp: path_of_def)
  then have s: "(k, v) \<in> set (keyed keyFn (walk ''.'' t)) \<longleftrightarrow> (\<exists>cs. k = keyFn (path_of cs) \<and> example_dir t cs v)" for k v
    by (force simp: keyed_def)
  have "collected keyFn t ?m"
    unfolding collected_def
  proof (intro conjI allI impI)
    fix cs v
    assume "example_dir t cs v"
    with s have "(keyFn (path_of cs), v) \<in> set (rev (keyed keyFn (walk ''.'' t)))" by auto
    then show "map_of ?m (keyFn (path_of cs)) \<noteq> None"
      by (auto simp: map_of_insert_all simp del: set_rev dest!: weak_map_of_SomeI)
  next
    fix k v
    assume "map_of ?m k = Some v"
    then have "(k, v) \<in> set (keyed keyFn (walk ''.'' t))"
      by (auto simp: map_of_insert_all dest: map_of_SomeD)
    with s show "\<exists>cs. keyFn (path_of cs) = k \<and> example_dir t cs v" by auto
  qed
  with c show ?thesis by blast
qed

section \<open>The closest key\<close>

lemma closest_loop_minimal:
  assumes "closest_loop d ks best shortest = r"
    and "best = [] \<and> shortest = bound \<or> best \<in> S \<and> shortest = d best"
    and "\<forall>k\<in>S. shortest \<le> d k" "\<forall>k\<in>set ks. d k < bound"
  shows "(r = best \<and> (\<forall>k\<in>S \<union> set ks. shortest \<le> d k)) \<or> (r \<in> set ks \<and> (\<forall>k\<in>S \<union> set ks. d r \<le> d k))"
  using assms
proof (induction ks arbitrary: best shortest S)
  case Nil
  then show ?case by auto
next
  case (Cons k ks)
  show ?case
  proof (cases "d k < shortest")
    case True
    have "\<forall>j\<in>insert k S. d k \<le> d j" using Cons.prems(3) True by fastforce
    with Cons.prems True have "(r = k \<and> (\<forall>j\<in>insert k S \<union> set ks. d k \<le> d j)) \<or>
        (r \<in> set ks \<and> (\<forall>j\<in>insert k S \<union> set ks. d r \<le> d j))"
      by (intro Cons.IH) auto
    then show ?thesis by auto
  next
    case False
    with Cons.prems have "(r = best \<and> (\<forall>j\<in>insert k S \<union> set ks. shortest \<le> d j)) \<or>
        (r \<in> set ks \<and> (\<forall>j\<in>insert k S \<union> set ks. d r \<le> d j))"
      by (intro Cons.IH) auto
    then show ?thesis by auto
  qed
qed

text \<open>The run-time may reorder the entries of a map, no more.\<close>

definition reorders :: "examples_env \<Rightarrow> bool" where
  "reorders env \<longleftrightarrow> (\<forall>m. mset (order_applications env m) = mset m \<and> mset (order_search env m) = mset m \<and>
     mset (order_closest env m) = mset m \<and> mset (order_list env m) = mset m)"

lemma closestMatch_nearest:
  assumes o: "reorders env" and d: "\<And>a b. levenshtein env a b < max_int"
  shows "if ClusterClasses e = [] then closestMatch env e key = []
    else closestMatch env e key \<in> fst ` set (ClusterClasses e) \<and>
      (\<forall>k\<in>fst ` set (ClusterClasses e). levenshtein env (closestMatch env e key) key \<le> levenshtein env k key)"
proof -
  let ?ks = "map fst (order_closest env (ClusterClasses e))" and ?d = "\<lambda>k. levenshtein env k key"
  have m: "mset (order_closest env (ClusterClasses e)) = mset (ClusterClasses e)"
    using o by (simp add: reorders_def)
  then have s: "set ?ks = fst ` set (ClusterClasses e)" by (metis mset_eq_setD set_map)
  have "(closestMatch env e key = [] \<and> (\<forall>k\<in>set ?ks. max_int \<le> ?d k)) \<or>
      (closestMatch env e key \<in> set ?ks \<and> (\<forall>k\<in>set ?ks. ?d (closestMatch env e key) \<le> ?d k))"
    using closest_loop_minimal [of ?d ?ks "[]" max_int _ max_int "{}"] d by (simp add: closestMatch_def)
  moreover have "\<not> max_int \<le> ?d k" for k using d [of k key] by simp
  moreover have "?ks = [] \<longleftrightarrow> ClusterClasses e = []" using m by auto
  ultimately show ?thesis
    unfolding s [symmetric] by (cases ?ks) (simp_all del: map_eq_Cons_conv map_is_Nil_conv, blast)
qed

section \<open>The command\<close>

lemma collect_succeeds:
  assumes "well_named applications" "is_dir applications" "well_named clusterclasses" "is_dir clusterclasses"
  shows "\<exists>ex. Collect show_err applications clusterclasses = Some ([], Inr ex) \<and>
    collected app_key applications (Applications ex) \<and>
    collected class_key clusterclasses (ClusterClasses ex)"
  using collect_loop_collected [OF assms(1,2), of app_key] collect_loop_collected [OF assms(3,4), of class_key]
  by (auto simp: Collect_def)

text \<open>The class examples of the repository, with the names of the files as their content.\<close>

definition class_dir :: "string \<Rightarrow> string \<Rightarrow> string \<times> node" where
  "class_dir name file = (name, Dir [(file, File file)])"

definition repo_classes :: node where
  "repo_classes = Dir [(''clusterclasses'', Dir [
     (''aws'', Dir [class_dir ''eks'' ''clusterclass-eks-example.yaml'',
        class_dir ''kubeadm'' ''clusterclass-kubeadm-example.yaml'',
        class_dir ''rke2'' ''clusterclass-ec2-rke2-example.yaml'']),
     (''azure'', Dir [class_dir ''aks'' ''clusterclass-aks-example.yaml'',
        class_dir ''kubeadm'' ''clusterclass-kubeadm-example.yaml'',
        class_dir ''rke2'' ''clusterclass-rke2-example.yaml'']),
     (''docker'', Dir [class_dir ''kubeadm'' ''clusterclass-docker-kubeadm.yaml'',
        class_dir ''rke2'' ''clusterclass-docker-rke2.yaml'']),
     (''gcp'', Dir [class_dir ''gke'' ''clusterclass-gke-example.yaml'',
        class_dir ''kubeadm'' ''clusterclass-kubeadm-example.yaml'']),
     (''vsphere'', Dir [class_dir ''kubeadm'' ''clusterclass-kubeadm-example.yaml'',
        class_dir ''rke2'' ''clusterclass-rke2-example.yaml''])])]"

definition repo_applications :: node where
  "repo_applications = Dir [(''applications'', Dir [
     (''cni'', Dir [class_dir ''calico'' ''helm-chart.yaml'', class_dir ''kindnet'' ''kindnet.yaml'']),
     (''csi'', Dir [class_dir ''aws'' ''helm-chart.yaml''])])]"

lemma repo_trees:
  "well_named repo_applications" "is_dir repo_applications" "well_named repo_classes" "is_dir repo_classes"
  by (simp_all add: repo_applications_def repo_classes_def class_dir_def is_dir_def element_name_def)

lemma repo_class_keys:
  "map fst (keyed class_key (walk ''.'' repo_classes)) =
     [''vsphere-rke2'', ''vsphere-kubeadm'', ''gcp-kubeadm'', ''gcp-gke'', ''docker-rke2'', ''docker-kubeadm'',
      ''azure-rke2'', ''azure-kubeadm'', ''azure-aks'', ''aws-rke2'', ''aws-kubeadm'', ''aws-eks'']"
  by code_simp

text \<open>Two directories whose paths differ in \<open>/\<close> and \<open>-\<close> only share a key: one class is lost.\<close>

lemma keys_may_collide: "class_key ''clusterclasses/azure/aks'' = class_key ''clusterclasses/azure-aks''"
  by code_simp

lemma repo_has_azure_aks:
  assumes "collected class_key repo_classes m"
  shows "map_of m ''azure-aks'' \<noteq> None"
proof -
  have "example_dir repo_classes [''clusterclasses'', ''azure'', ''aks'']
      (joined [(''clusterclass-aks-example.yaml'', File ''clusterclass-aks-example.yaml'')])"
    by (simp add: example_dir_def repo_classes_def class_dir_def is_yaml_def has_suffix_def)
  moreover have "class_key (path_of [''clusterclasses'', ''azure'', ''aks'']) = ''azure-aks''" by code_simp
  ultimately show ?thesis using assms unfolding collected_def by metis
qed

text \<open>
  C39.  For embedded trees, \<open>Collect\<close> ends and succeeds: every directory with YAML files gives
  an entry under its key, and every entry is the joined content of such a directory.
\<close>

theorem collect_finds_every_class:
  assumes "well_named applications" "is_dir applications" "well_named clusterclasses" "is_dir clusterclasses"
  shows "\<exists>ex. Collect show_err applications clusterclasses = Some ([], Inr ex) \<and>
    collected app_key applications (Applications ex) \<and>
    collected class_key clusterclasses (ClusterClasses ex)"
  by (rule collect_succeeds [OF assms])

theorem collect_finds_every_class_witness:
  "\<exists>ex. Collect (\<lambda>_. ''error'') repo_applications repo_classes = Some ([], Inr ex) \<and>
     map_of (ClusterClasses ex) ''azure-aks'' \<noteq> None"
  using collect_finds_every_class [OF repo_trees, of "\<lambda>_. ''error''"] repo_has_azure_aks by metis

text \<open>
  C40.  Called with a key and no flags, the command prints the manifests of all applications
  and then those of the class, once each, and ends with 0; for an unknown key it prints
  nothing, suggests a class whose name is at the least edit distance, and ends with 1.
\<close>

theorem main_prints_the_class:
  assumes trees: "well_named applications" "is_dir applications" "well_named clusterclasses" "is_dir clusterclasses"
    and env: "reorders env" "\<And>a b. levenshtein env a b < max_int"
    and args: "args = [program, key]" "pflag_Parse env [key] = Inr (False, [])"
  shows "\<exists>ex r. Collect (show_error env) applications clusterclasses = Some ([], Inr ex) \<and>
    examples_main env applications clusterclasses args = Some r \<and>
    (case map_of (ClusterClasses ex) key of
       Some c \<Rightarrow> status r = 0 \<and> stderr r = [] \<and>
         (\<exists>apps. mset apps = mset (map snd (Applications ex)) \<and> stdout r = joinYamls (apps @ [c]))
     | None \<Rightarrow> status r = 1 \<and> stdout r = [] \<and>
         (\<exists>k. stderr r = not_found key k \<and>
            (if ClusterClasses ex = [] then k = []
             else k \<in> fst ` set (ClusterClasses ex) \<and>
               (\<forall>j\<in>fst ` set (ClusterClasses ex). levenshtein env k key \<le> levenshtein env j key))))"
proof -
  obtain ex where ex: "Collect (show_error env) applications clusterclasses = Some ([], Inr ex)"
    using collect_succeeds [OF trees, of "show_error env"] by blast
  show ?thesis
  proof (cases "map_of (ClusterClasses ex) key")
    case None
    have "\<exists>k. not_found key (closestMatch env ex key) = not_found key k \<and>
        (if ClusterClasses ex = [] then k = []
         else k \<in> fst ` set (ClusterClasses ex) \<and>
           (\<forall>j\<in>fst ` set (ClusterClasses ex). levenshtein env k key \<le> levenshtein env j key))"
      using closestMatch_nearest [OF env, of ex key] by blast
    with None ex args show ?thesis by (simp add: examples_main_def ClusterClass_def)
  next
    case (Some c)
    have "\<exists>apps. mset apps = mset (map snd (Applications ex)) \<and>
        joinYamls (map snd (order_applications env (Applications ex)) @ [c]) = joinYamls (apps @ [c])"
      using env(1) by (intro exI [of _ "map snd (order_applications env (Applications ex))"])
        (simp add: reorders_def mset_map)
    with Some ex args show ?thesis by (simp add: examples_main_def ClusterClass_def)
  qed
qed

text \<open>An environment without flags, where maps come in reverse and names differ by their length.\<close>

definition sample_env :: examples_env where
  "sample_env = \<lparr>show_error = (\<lambda>_. ''error''), pflag_Parse = (\<lambda>_. Inr (False, [])),
     compile_regex = (\<lambda>p. Some (\<lambda>s. contains s p)),
     levenshtein = (\<lambda>a b. if a = b then 0 else 1),
     order_applications = rev, order_search = id, order_closest = rev, order_list = id\<rparr>"

theorem main_prints_the_class_witness:
  "\<exists>r. examples_main sample_env repo_applications repo_classes [''examples'', ''azure-aks''] = Some r \<and>
     status r = 0 \<and> stderr r = []"
proof -
  have o: "reorders sample_env" by (simp add: reorders_def sample_env_def)
  have d: "levenshtein sample_env a b < max_int" for a b by (simp add: sample_env_def max_int_def)
  have p: "pflag_Parse sample_env [''azure-aks''] = Inr (False, [])" by (simp add: sample_env_def)
  obtain ex where ex: "Collect (show_error sample_env) repo_applications repo_classes = Some ([], Inr ex)"
    "map_of (ClusterClasses ex) ''azure-aks'' \<noteq> None"
    using collect_succeeds [OF repo_trees, of "show_error sample_env"] repo_has_azure_aks by blast
  from main_prints_the_class [OF repo_trees o d refl p, of "''examples''"] ex show ?thesis
    by (auto split: option.splits)
qed

end
