(* ===== verification/Spec2Isabelle.thy ===== *)
theory Spec2Isabelle
  imports Go_Encoding Import_Typing Import_Release Import_Progress Lifecycle_Behaviour System_Behaviour
    In_Place Class_Examples_Behaviour
begin

text \<open>
  A model of the Rancher Turtles operator (src/, written in Go) and the theorems that make
  it correct.

  The program.  Turtles is a set of controllers on a Kubernetes management cluster.  One
  imports Cluster API clusters into Rancher; one wraps the Cluster API operator and
  installs CAPI providers from CAPIProvider resources; the others keep the clusterctl
  configuration, translate Rancher's cloud credentials into the identities of an
  infrastructure provider, take finalizers off deleted Rancher clusters and move the UI
  plugin.  They share no memory: they meet in the objects of the API server, through
  labels, annotations, finalizers, conditions and field indexes.  src/main.go sets them up.

  How it is modelled.  A handler is a function in the state monad (Prelude) that asks the
  outside by requests (Client): get, list, create, update, patch, apply and delete against
  the cached, the uncached or the workload cluster's client, HTTP, files, the clock and
  the controller manager.  The server is an arbitrary function on an arbitrary world, so a
  theorem about the trace of a handler holds whatever the cluster answers and whoever else
  acts.  Errors are values of a sum or an option, panics are outcomes of their own, a map
  of Go is a map that may be nil, strings are byte lists, durations are seconds.  The
  functions of the imported modules are fields of the environment; the documented
  behaviour that a theorem needs is a predicate on it (Env_Laws), which the scripted
  environment of the closed examples satisfies.

  The theories, in the order of the code.

  Prelude: the monad, panics, the loop with an early return, weakest preconditions.
  Go_Lib, Go_Encoding: the standard library as the source uses it (strings, maps, strconv,
  path handling, text templates, base64 with its inverse).
  Feature: src/feature.  Objects: src/api and the core types, as records, with the kinds
  and their codecs (locale \<open>codec_laws\<close>) and metadata (locale \<open>meta_object\<close>).
  Client, Env_Laws: the environment, the calculus of runs, frames and compliance that all
  proofs about handlers use, and the laws.

  Util: src/util (labels, annotations, names, event predicates).
  Helpers: src/internal/controllers/helpers.go, with Helper_Behaviour (C12).
  Import: import_controller.go, with Import_Safety (C4 to C6), Import_Behaviour (C7, C8, C11),
  Import_Typing (C13, C14): which client is asked for which types, that the scheme of
  src/main.go has the types of this repository's groups, and the end of the retry, and Import_Release (C9, C10): which events reach the controller, and how the run
  that ends an import returns.  The state is the CAPI cluster that the reconciler mutates
  and patches at its end.

  Rely_Guarantee: a program logic for handlers that run while others act on the server, with
  a rule for each construct of the monad, in the locale \<open>rely_guarantee\<close>.  Store: the content
  of a server.  Import_System: the management cluster with its objects and their ids, the
  answers it may give to each request, what the workers on two CAPI clusters rely on and
  guarantee, and the machine of an import (Unguarded, Guarded, Imported).  Import_Worker:
  the contract of each handler of import_controller.go in that logic, up to Reconcile.
  Import_Interleaving (C1, C2): all workers, the clean-up controller of
  cleanup_controller.go and everybody else as one transition system.  Import_Progress (C3):
  the same logic without interference, a server that does what it is asked for, and what a
  whole run of Reconcile achieves then.

  Clusterctl: clusterctl/config.go, clusterctlconfig_controller.go and
  src/internal/provider/clusterctlconfig.go.  Provider: src/api/v1alpha1's provider types
  and src/internal/provider/defaults.go (locale \<open>generic_provider\<close>), with
  Provider_Behaviour (C25 to C28).
  Secret_Sync: src/internal/sync, with Sync_Behaviour (C29 to C32).
  Wrangler: src/internal/provider/wrangler.go and rancher.go, with Operator_Behaviour (C33
  to C35).
  Operator: operator_reconciler.go, with Phase_Behaviour (C22 to C24).  The phases of the
  CAPI operator are parameters; the phases of this repository are in the order of the code.

  Credential: credentialtranslation_controller.go and aws_translator.go, with
  Credential_Behaviour (C19 to C21): the order of a run is proved once in the locale
  \<open>credential_translator\<close>, for any translator that keeps the contract.
  Lifecycle: cleanup_controller.go, uiplugin_controller.go, the set-up of the controllers,
  groupversion_info.go and main.go, with Lifecycle_Behaviour (C36).
  Credential_System: the credential controller, a store with a server that may fail at any
  request, and others who act at any time, as a transition system, and the abstract machine
  of an identity.  System_Behaviour (C16 to C18): refinement, the invariant of reachable
  stores, and completion of a deletion.

  Memory: cells, pointers into cells, slices and maps, and the statements of which the
  generated deep copies (zz_generated.deepcopy.go of the four API groups) consist.  Layout:
  what value a struct in memory stands for and which cells it reaches (locale
  \<open>layout_laws\<close>), and what it means to copy it.  Copy_Rules: a rule for each statement.
  Api_Memory, Api_Layout: the structs of src/api in memory, the K3s snapshot types among
  them, and their layouts, whose views are the records of Objects.  Deep_Copy: the generated
  functions.  Deep_Copy_Behaviour, Copy_Isolation (C37, C38): each of them keeps the contract,
  so that a copy and its original are independent; this is why the other theories may work
  with values, where a \<open>DeepCopy\<close> is nothing to do.  In_Place (C15): the edits of a Rancher
  cluster in import_controller.go as the writes to its maps that they are, refined to the
  functions of Import, with the patch base untouched.

  Class_Examples: src/examples/main.go, the command that prints example manifests, with
  Class_Examples_Behaviour (C39, C40).

  What the groups of theorems show.  However its workers, the clean-up controller and others
  interleave, the import keeps one Rancher cluster for a CAPI cluster and guards it by the
  finalizer (C1, C2), and an undisturbed run goes through (C3); a run creates, releases and
  deletes only what it has checked before (C4 to C8, C11), for the events that reach it (C9),
  of the right cluster (C13), and its retry ends (C14), but the run that releases a cluster
  fails (C10); the helpers do what their
  callers rely on (C12); the patch of a cluster carries the edits made in place (C15); the credentials,
  their ownership and their life in the system (C16 to C21); the order of the phases and the
  indexes (C22 to C24); the configuration, versions and defaults of providers (C25 to C28);
  the secrets of providers and the mapping of credentials (C29 to C32); the conversion of
  manifests and the clean-up phases (C33 to C35); the UI plugin (C36); the deep copies (C37,
  C38); the examples command (C39, C40).

  What C1 to C3 take for granted of the server: an object keeps its id while it exists, ids
  are not used again, a deletion is not taken back, an update is for the id that was read,
  and the cached list of Rancher clusters is up to date.  With a cache that lags behind, two
  runs on one CAPI cluster may both find no Rancher cluster, and since the name is generated
  by the server both may create one.  Of the users they ask that no one else takes the import
  finalizer off a CAPI cluster or labels a Rancher cluster as owned by one.

  Bounds.  Every loop of the operator is over a list, so the functions are total; the only
  unbounded one is the retry of RetryOnConflict, which the library bounds: its law says that
  there is some bound, nothing depends on which, and C14 counts what it may ask.  The loop of
  the examples command runs until a stack is empty; it is a partial function, and C39 shows
  that it ends.  No fuel is used.

  Not modelled: log lines, metrics and events, which no code reads; the
  parsing of the command line and the signal handler; the YAML and JSON
  codecs, CreateOrUpdate, the controller manager, the Cluster API operator's own phases and
  the other imported modules, which are parameters; test support and tests, charts and scripts.
\<close>

end
